(* ===== verification/Prelude.thy ===== *)
theory Prelude
  imports Main "HOL-Library.AList" "HOL-Library.Sublist" "HOL-Library.Word"
begin

text \<open>
  The vocabulary shared by every component: the parts of the Python language and of its
  standard library the sources lean on, and the generic facts about them.

  A Python string is a \<open>string\<close> (a list of \<open>char\<close>): its characters are the code
  points below 256, and \<open>strip\<close>, \<open>lower\<close> and \<open>upper\<close> follow Unicode on that range. Python
  bytes are lists of \<open>8 word\<close> where the code computes on them (framing, base64, digests) and
  lists of \<open>char\<close> (which has exactly 256 values) where it only searches them. A Python int is
  an \<open>int\<close>, a dict is an association list kept in insertion order (\<open>AList.update\<close> replaces in
  place or appends, \<open>AList.delete\<close> removes), and a clock reading is an \<open>int\<close> in microseconds.
\<close>

named_theorems dict_simps \<open>lookup after update and deletion in an ordered dictionary\<close>
named_theorems pystr_simps \<open>facts on the string operations\<close>
named_theorems tail_simps \<open>facts on the bounded tails the code keeps\<close>

subsection \<open>Types\<close>

type_synonym ('k, 'v) dict = "('k \<times> 'v) list"
type_synonym bytes = "8 word list"
type_synonym microseconds = int

abbreviation seconds :: "int \<Rightarrow> microseconds" where
  "seconds s \<equiv> s * 1000000"

subsection \<open>Ordered dictionaries\<close>

abbreviation dget :: "('k, 'v) dict \<Rightarrow> 'k \<Rightarrow> 'v option" where
  "dget d k \<equiv> map_of d k"

abbreviation dset :: "'k \<Rightarrow> 'v \<Rightarrow> ('k, 'v) dict \<Rightarrow> ('k, 'v) dict" where
  "dset k v d \<equiv> AList.update k v d"

abbreviation dpop :: "'k \<Rightarrow> ('k, 'v) dict \<Rightarrow> ('k, 'v) dict" where
  "dpop k d \<equiv> AList.delete k d"

abbreviation dkeys :: "('k, 'v) dict \<Rightarrow> 'k list" where
  "dkeys d \<equiv> map fst d"

text \<open>\<open>d.get(k, default)\<close>.\<close>

definition dget_or :: "('k, 'v) dict \<Rightarrow> 'k \<Rightarrow> 'v \<Rightarrow> 'v" where
  "dget_or d k v = (case dget d k of None \<Rightarrow> v | Some x \<Rightarrow> x)"

lemma dget_dset [dict_simps, simp]:
  "map_of (AList.update k v d) k' = (if k' = k then Some v else map_of d k')"
  by (simp add: update_conv')

lemma dget_dpop [dict_simps, simp]:
  "map_of (AList.delete k d) k' = (if k' = k then None else map_of d k')"
  by (simp add: delete_conv')

lemma dget_or_dset [dict_simps, simp]:
  "dget_or (dset k v d) k' w = (if k' = k then v else dget_or d k' w)"
  by (simp add: dget_or_def)

lemma distinct_dset [intro]: "distinct (dkeys d) \<Longrightarrow> distinct (dkeys (dset k v d))"
  by (rule distinct_update)

lemma distinct_dpop [intro]: "distinct (dkeys d) \<Longrightarrow> distinct (dkeys (dpop k d))"
  by (rule distinct_delete)

lemma set_dset_subset: "set (dset k v d) \<subseteq> insert (k, v) (set d)"
  by (induction d) auto

lemma set_dset: "distinct (dkeys d) \<Longrightarrow> set (dset k v d) = insert (k, v) {p \<in> set d. fst p \<noteq> k}"
  by (induction d) (auto simp: image_iff)

lemma set_dpop: "set (dpop k d) = {p \<in> set d. fst p \<noteq> k}"
  by (auto simp: AList.delete_eq)

lemma dget_in_set: "distinct (dkeys d) \<Longrightarrow> (k, v) \<in> set d \<longleftrightarrow> dget d k = Some v"
  by (simp add: map_of_eq_Some_iff)

lemma dget_none_iff: "dget d k = None \<longleftrightarrow> k \<notin> set (dkeys d)"
  by (auto simp: map_of_eq_None_iff)

lemma dkeys_dset_fresh: "dget d k = None \<Longrightarrow> dset k v d = d @ [(k, v)]"
  by (induction d) (auto split: if_splits)

lemma dkeys_dset_present: "dget d k \<noteq> None \<Longrightarrow> dkeys (dset k v d) = dkeys d"
  by (auto simp: update_keys map_of_eq_None_iff)

subsection \<open>Strings\<close>

definition code_of :: "char \<Rightarrow> nat" where
  "code_of c = of_char c"

text \<open>\<open>str.isspace\<close> on one character below 256.\<close>

definition is_space :: "char \<Rightarrow> bool" where
  "is_space c = (let n = code_of c in
     (9 \<le> n \<and> n \<le> 13) \<or> (28 \<le> n \<and> n \<le> 32) \<or> n = 133 \<or> n = 160)"

definition lstrip :: "string \<Rightarrow> string" where
  "lstrip s = dropWhile is_space s"

definition rstrip :: "string \<Rightarrow> string" where
  "rstrip s = rev (dropWhile is_space (rev s))"

definition strip :: "string \<Rightarrow> string" where
  "strip s = rstrip (lstrip s)"

definition lower_char :: "char \<Rightarrow> char" where
  "lower_char c = (let n = code_of c in
     if (65 \<le> n \<and> n \<le> 90) \<or> (192 \<le> n \<and> n \<le> 222 \<and> n \<noteq> 215) then char_of (n + 32) else c)"

definition lower :: "string \<Rightarrow> string" where
  "lower s = map lower_char s"

text \<open>\<open>s.rstrip(c)\<close> and \<open>s.lstrip(c)\<close> with a one-character argument.\<close>

definition rstrip_char :: "char \<Rightarrow> string \<Rightarrow> string" where
  "rstrip_char c s = rev (dropWhile (\<lambda>x. x = c) (rev s))"

definition lstrip_char :: "char \<Rightarrow> string \<Rightarrow> string" where
  "lstrip_char c s = dropWhile (\<lambda>x. x = c) s"

text \<open>\<open>a or b\<close> on strings: the empty string is falsy.\<close>

definition or_str :: "string \<Rightarrow> string \<Rightarrow> string" where
  "or_str a b = (if a = [] then b else a)"

text \<open>\<open>s.find(t)\<close>; \<open>None\<close> stands for -1.\<close>

fun find_sub :: "'a list \<Rightarrow> 'a list \<Rightarrow> nat option" where
  "find_sub pat [] = (if pat = [] then Some 0 else None)"
| "find_sub pat (x # xs) =
     (if prefix pat (x # xs) then Some 0 else map_option Suc (find_sub pat xs))"

text \<open>\<open>t in s\<close>.\<close>

definition contains_sub :: "'a list \<Rightarrow> 'a list \<Rightarrow> bool" where
  "contains_sub pat s = (find_sub pat s \<noteq> None)"

text \<open>\<open>s.split(c)\<close> with a one-character separator.\<close>

fun split_on :: "'a \<Rightarrow> 'a list \<Rightarrow> 'a list list" where
  "split_on c [] = [[]]"
| "split_on c (x # xs) =
     (case split_on c xs of
        [] \<Rightarrow> [[x]]
      | w # ws \<Rightarrow> if x = c then [] # w # ws else (x # w) # ws)"

text \<open>\<open>sep.join(parts)\<close>.\<close>

fun join_with :: "'a list \<Rightarrow> 'a list list \<Rightarrow> 'a list" where
  "join_with sep [] = []"
| "join_with sep [w] = w"
| "join_with sep (w # ws) = w @ sep @ join_with sep ws"

text \<open>\<open>str(n)\<close> on ints.\<close>

definition digit_char :: "nat \<Rightarrow> char" where
  "digit_char d = char_of (48 + d)"

fun str_of_nat :: "nat \<Rightarrow> string" where
  "str_of_nat n = (if n < 10 then [digit_char n] else str_of_nat (n div 10) @ [digit_char (n mod 10)])"

declare str_of_nat.simps [simp del]

definition str_of_int :: "int \<Rightarrow> string" where
  "str_of_int i = (if i < 0 then CHR ''-'' # str_of_nat (nat (- i)) else str_of_nat (nat i))"

definition is_digit :: "char \<Rightarrow> bool" where
  "is_digit c = (48 \<le> code_of c \<and> code_of c \<le> 57)"

definition nat_of_digits :: "string \<Rightarrow> nat" where
  "nat_of_digits s = foldl (\<lambda>n c. 10 * n + (code_of c - 48)) 0 s"

subsection \<open>Bounded tails: \<open>xs[-n:]\<close>, \<open>del xs[:-n]\<close>\<close>

definition lastn :: "nat \<Rightarrow> 'a list \<Rightarrow> 'a list" where
  "lastn n xs = drop (length xs - n) xs"

lemma length_lastn [tail_simps, simp]: "length (lastn n xs) = min n (length xs)"
  by (simp add: lastn_def)

lemma lastn_all [tail_simps, simp]: "length xs \<le> n \<Longrightarrow> lastn n xs = xs"
  by (simp add: lastn_def)

lemma suffix_lastn [tail_simps]: "suffix (lastn n xs) xs"
  by (simp add: lastn_def suffix_drop)

text \<open>Trimming after every append is trimming once at the end.\<close>

lemma lastn_append_lastn [tail_simps]: "lastn n (lastn n xs @ ys) = lastn n (xs @ ys)"
proof (cases "length xs \<le> n")
  case False
  then have "lastn n (lastn n xs @ ys) = drop (length ys) (drop (length xs - n) (xs @ ys))"
    by (simp add: lastn_def)
  also have "\<dots> = drop (length xs + length ys - n) (xs @ ys)"
    using False by (simp add: add.commute)
  finally show ?thesis by (simp add: lastn_def)
qed simp

lemma lastn_lastn [tail_simps, simp]: "lastn n (lastn n xs) = lastn n xs"
  using lastn_append_lastn [of n xs "[]"] by simp

subsection \<open>Facts on the string operations\<close>

lemma dropWhile_idem [simp]: "dropWhile P (dropWhile P xs) = dropWhile P xs"
  by (induction xs) auto

lemma dropWhile_rev_head:
  "xs = [] \<or> \<not> P (hd xs) \<Longrightarrow> rev (dropWhile P (rev xs)) = [] \<or> \<not> P (hd (rev (dropWhile P (rev xs))))"
proof (induction xs rule: rev_induct)
  case (snoc x xs)
  show ?case
  proof (cases "P x")
    case True
    with snoc show ?thesis by (cases xs) auto
  next
    case False
    with snoc.prems show ?thesis by simp
  qed
qed simp

lemma strip_idem [pystr_simps, simp]: "strip (strip s) = strip s"
proof -
  let ?l = "dropWhile is_space s"
  have "?l = [] \<or> \<not> is_space (hd ?l)"
    using hd_dropWhile [of is_space s] by auto
  then have "strip s = [] \<or> \<not> is_space (hd (strip s))"
    unfolding strip_def rstrip_def lstrip_def by (rule dropWhile_rev_head)
  then have "lstrip (strip s) = strip s"
    by (auto simp: lstrip_def dropWhile_eq_self_iff)
  then show ?thesis by (simp add: strip_def rstrip_def)
qed

lemma strip_Nil [pystr_simps, simp]: "strip [] = []"
  by (simp add: strip_def rstrip_def lstrip_def)

lemma or_str_Nil [pystr_simps, simp]: "or_str [] b = b"
  by (simp add: or_str_def)

lemma or_str_nonempty [pystr_simps]: "or_str a b = [] \<longleftrightarrow> a = [] \<and> b = []"
  by (simp add: or_str_def)

lemma find_sub_Some: "find_sub pat s = Some i \<Longrightarrow> \<exists>rest. s = take i s @ pat @ rest \<and> i \<le> length s"
proof (induction s arbitrary: i)
  case Nil
  then show ?case by (auto split: if_splits)
next
  case (Cons x xs)
  show ?case
  proof (cases "prefix pat (x # xs)")
    case True
    with Cons.prems show ?thesis by (auto simp: prefix_def)
  next
    case False
    with Cons.prems obtain j where j: "find_sub pat xs = Some j" "i = Suc j" by auto
    from Cons.IH [OF j(1)] j(2) show ?thesis by auto
  qed
qed

lemma split_on_nonempty [pystr_simps, simp]: "split_on c s \<noteq> []"
  by (induction s) (auto split: list.splits)

lemma join_split_on [pystr_simps]: "join_with [c] (split_on c s) = s"
proof (induction s)
  case (Cons x xs)
  then show ?case
    by (cases "split_on c xs"; cases "tl (split_on c xs)") auto
qed simp

lemma str_of_nat_nonempty [pystr_simps, simp]: "str_of_nat n \<noteq> []"
  by (subst str_of_nat.simps) simp

subsection \<open>The contract of a bounded log\<close>

text \<open>
  Several components keep only the newest entries of a stream: the last 20 progress events of a
  job, the last bytes of a session's stderr. Each writer appends and then trims; what a reader
  sees is the tail of everything ever written.
\<close>

locale bounded_log =
  fixes push :: "'e \<Rightarrow> 's \<Rightarrow> 's"
    and log :: "'s \<Rightarrow> 'x list"
    and entries :: "'e \<Rightarrow> 'x list"
    and cap :: nat
  assumes push_log: "length (log s) \<le> cap \<Longrightarrow> log (push e s) = lastn cap (log s @ entries e)"
begin

lemma push_bounded: "length (log s) \<le> cap \<Longrightarrow> length (log (push e s)) \<le> cap"
  by (simp add: push_log)

lemma pushes_log:
  "length (log s) \<le> cap \<Longrightarrow> log (fold push es s) = lastn cap (log s @ concat (map entries es))"
proof (induction es arbitrary: s)
  case (Cons e es)
  have "log (fold push (e # es) s) = lastn cap (log (push e s) @ concat (map entries es))"
    using Cons.IH [of "push e s"] Cons.prems by (simp add: push_bounded)
  then show ?case using Cons.prems by (simp add: push_log lastn_append_lastn)
qed simp

end

end
