(* ===== verification/Frames.thy ===== *)
theory Frames
  imports Prelude
begin

text \<open>
  The messages of agentcompose_v2.proto the control plane handles, one record per message, with
  the fields the Python code touches. Scalars that the code only stores or compares are \<open>int\<close>;
  an unset submessage is an option.
\<close>

datatype stdio_stream = STDIO_STREAM_UNSPECIFIED | STDIO_STREAM_STDOUT | STDIO_STREAM_STDERR

record session_output =
  so_session_id :: string
  so_data :: bytes
  so_stream :: stdio_stream
  so_offset :: int
  so_created_at :: string

record session_result =
  sr_session_id :: string
  sr_exit_code :: int
  sr_success :: bool
  sr_error :: string
  sr_result_json :: string

record session_structured =
  ss_session_id :: string
  ss_seq :: int
  ss_event_type :: string
  ss_item_type :: string
  ss_agent_id :: string
  ss_payload_json :: string
  ss_created_at :: string
  ss_logical_event_id :: string
  ss_event_name :: string
  ss_event_kind :: string
  ss_tool_name :: string
  ss_subagent_id :: string
  ss_phase :: string
  ss_status :: string

text \<open>\<open>NodeSessionEvent\<close>: the oneof a follower streams to its client.\<close>

datatype session_event =
    Ev_output session_output
  | Ev_result session_result
  | Ev_structured session_structured

record session_summary =
  sum_session_id :: string
  sum_status :: string

text \<open>\<open>EditorCapability\<close>: of its modes only the ids are read.\<close>

record editor_capability =
  ec_provider :: string
  ec_modes :: "string list"

record capabilities =
  caps_os :: string
  caps_arch :: string
  caps_docker :: bool
  caps_providers :: "string list"
  caps_labels :: "(string, string) dict"
  caps_editors :: "editor_capability list"

record environment_entry =
  ee_kind :: string
  ee_name :: string
  ee_version :: string

record system_env_entry =
  se_kind :: string
  se_name :: string
  se_version :: string
  se_provider :: string
  se_path :: string
  se_platform_managed :: bool
  se_description :: string
  se_readers :: "string list"

record command_ack =
  ack_server_frame_id :: string
  ack_ok :: bool
  ack_error :: string
  ack_sessions :: "session_summary list"
  ack_applied_revision :: int
  ack_effective_revision :: int
  ack_restart_required :: bool
  ack_editor_version :: string
  ack_node_version :: string
  ack_npm_version :: string
  ack_xcodebuild_version :: string
  ack_refreshed_capabilities :: "capabilities option"
  ack_environment_inventory :: "environment_entry list"
  ack_system_env_inventory :: "system_env_entry list"

record host_exec_result =
  hx_request_id :: string
  hx_exit_code :: int
  hx_success :: bool
  hx_stdout :: string
  hx_stderr :: string
  hx_stdout_truncated :: bool
  hx_stderr_truncated :: bool
  hx_error :: string

record file_upload_result =
  fu_upload_id :: string
  fu_ok :: bool
  fu_bytes_written :: int
  fu_path :: string
  fu_error :: string

record tunnel_response =
  tr_tunnel_id :: string
  tr_status :: int
  tr_headers :: "(string, string) dict"
  tr_body :: bytes
  tr_done :: bool
  tr_error :: string

text \<open>\<open>NodeTerminalOutput\<close> (id, data, sequence, replay_truncated) and \<open>NodeTerminalExit\<close>.\<close>

datatype terminal_frame =
    Term_output string string int bool
  | Term_exit string int string

definition terminal_frame_id :: "terminal_frame \<Rightarrow> string" where
  "terminal_frame_id f = (case f of Term_output i _ _ _ \<Rightarrow> i | Term_exit i _ _ \<Rightarrow> i)"

record terminal_status =
  ts_terminal_id :: string
  ts_current_command :: string
  ts_running :: bool
  ts_started_at :: string
  ts_created_at :: string
  ts_attached :: bool

record terminal_list_result =
  tl_request_id :: string
  tl_terminals :: "terminal_status list"

record tool_run_event =
  te_run_id :: string
  te_kind :: int
  te_data :: bytes
  te_exit_code :: int
  te_error :: string
  te_revision :: int
  te_pid :: int

text \<open>\<open>NodeActiveToolRun\<close>.\<close>

record active_tool_run =
  at_run_id :: string
  at_revision :: int
  at_pid :: int

record ios_device =
  id_udid :: string
  id_name :: string
  id_model :: string
  id_product_version :: string
  id_connection_type :: int
  id_present :: bool
  id_claimed :: bool
  id_device_id :: string
  id_device_control_online :: bool
  id_wda_state :: int
  id_wda_progress :: int
  id_wda_stage :: string
  id_wda_bundle_id :: string
  id_profile_expires_at :: string
  id_last_error :: string
  id_config_revision_applied :: int
  id_developer_mode_enabled :: bool

record ios_devices_report =
  io_request_id :: string
  io_snapshot_revision :: int
  io_reported_at :: string
  io_devices :: "ios_device list"
  io_enumerate_error :: string

end
