(* ===== verification/Async.thy ===== *)
theory Async
  imports Prelude
begin

text \<open>
  The asyncio objects the control plane is built from, as values: one-shot futures, bounded
  queues, and the keyed tables in which a connection keeps them. The code holds a queue or a
  future both in such a table and in a local variable of the coroutine that waits on it, so a
  table carries the objects created through it (\<open>objs\<close>, an object's identity is its index) and,
  separately, which keys still lead to which object (\<open>slots\<close>). Dropping a key leaves the object
  reachable for its waiter, exactly as \<open>dict.pop\<close> does.
\<close>

named_theorems async_simps \<open>the effect of the table operations\<close>

subsection \<open>asyncio.Future\<close>

datatype 'r future =
    Pending
  | Resolved 'r
  | Failed string        \<comment> \<open>\<open>set_exception(ConnectionError(message))\<close>\<close>
  | Cancelled            \<comment> \<open>\<open>wait_for\<close> timed out and cancelled it\<close>

definition fut_done :: "'r future \<Rightarrow> bool" where
  "fut_done f = (case f of Pending \<Rightarrow> False | _ \<Rightarrow> True)"

text \<open>\<open>set_result\<close> and \<open>set_exception\<close> raise \<open>InvalidStateError\<close> (\<open>None\<close>) on a finished future.\<close>

definition set_result :: "'r \<Rightarrow> 'r future \<Rightarrow> 'r future option" where
  "set_result r f = (if fut_done f then None else Some (Resolved r))"

definition set_exception :: "string \<Rightarrow> 'r future \<Rightarrow> 'r future option" where
  "set_exception e f = (if fut_done f then None else Some (Failed e))"

lemma fut_done_simps [simp]:
  "\<not> fut_done Pending" "fut_done (Resolved r)" "fut_done (Failed e)" "fut_done Cancelled"
  by (simp_all add: fut_done_def)

lemma not_fut_done_iff [simp]: "\<not> fut_done f \<longleftrightarrow> f = Pending"
  by (cases f) auto

subsection \<open>asyncio.Queue\<close>

record 'a queue =
  q_max :: nat           \<comment> \<open>\<open>maxsize\<close>; 0 means unbounded\<close>
  q_items :: "'a list"

definition new_queue :: "nat \<Rightarrow> 'a queue" where
  "new_queue n = \<lparr>q_max = n, q_items = []\<rparr>"

definition q_full :: "'a queue \<Rightarrow> bool" where
  "q_full q = (0 < q_max q \<and> q_max q \<le> length (q_items q))"

text \<open>\<open>None\<close> is \<open>QueueFull\<close>, respectively \<open>QueueEmpty\<close>.\<close>

definition put_nowait :: "'a \<Rightarrow> 'a queue \<Rightarrow> 'a queue option" where
  "put_nowait x q = (if q_full q then None else Some (q\<lparr>q_items := q_items q @ [x]\<rparr>))"

definition get_nowait :: "'a queue \<Rightarrow> ('a \<times> 'a queue) option" where
  "get_nowait q = (case q_items q of [] \<Rightarrow> None | x # xs \<Rightarrow> Some (x, q\<lparr>q_items := xs\<rparr>))"

text \<open>\<open>try: put_nowait(x) except QueueFull: pass\<close>.\<close>

definition put_or_drop :: "'a \<Rightarrow> 'a queue \<Rightarrow> 'a queue" where
  "put_or_drop x q = (case put_nowait x q of None \<Rightarrow> q | Some q' \<Rightarrow> q')"

definition q_bounded :: "'a queue \<Rightarrow> bool" where
  "q_bounded q = (0 < q_max q \<longrightarrow> length (q_items q) \<le> q_max q)"

lemma q_bounded_new [simp]: "q_bounded (new_queue n)"
  by (simp add: q_bounded_def new_queue_def)

lemma new_queue_simps [simp]: "q_items (new_queue n) = []" "q_max (new_queue n) = n"
  by (simp_all add: new_queue_def)

lemma put_or_drop_items [async_simps]:
  "q_items (put_or_drop x q) = (if q_full q then q_items q else q_items q @ [x])"
  by (simp add: put_or_drop_def put_nowait_def)

lemma put_or_drop_max [async_simps, simp]: "q_max (put_or_drop x q) = q_max q"
  by (simp add: put_or_drop_def put_nowait_def)

lemma put_or_drop_bounded [intro]: "q_bounded q \<Longrightarrow> q_bounded (put_or_drop x q)"
  by (auto simp: q_bounded_def put_or_drop_items q_full_def)

text \<open>A put, dropped or not, leaves something for a blocked consumer.\<close>

lemma put_or_drop_nonempty: "q_items (put_or_drop x q) \<noteq> []"
  by (auto simp: put_or_drop_items q_full_def)

subsection \<open>Keyed tables of objects\<close>

record 'h table =
  slots :: "(string, nat) dict"
  objs :: "'h list"

definition empty_table :: "'h table" where
  "empty_table = \<lparr>slots = [], objs = []\<rparr>"

text \<open>Create an object and store it under the key, replacing the key's previous object.\<close>

definition tab_open :: "'h \<Rightarrow> string \<Rightarrow> 'h table \<Rightarrow> nat \<times> 'h table" where
  "tab_open h k t = (length (objs t),
     t\<lparr>slots := dset k (length (objs t)) (slots t), objs := objs t @ [h]\<rparr>)"

definition tab_pop :: "string \<Rightarrow> 'h table \<Rightarrow> 'h table" where
  "tab_pop k t = t\<lparr>slots := dpop k (slots t)\<rparr>"

definition tab_update :: "nat \<Rightarrow> ('h \<Rightarrow> 'h) \<Rightarrow> 'h table \<Rightarrow> 'h table" where
  "tab_update i f t = t\<lparr>objs := (objs t)[i := f (objs t ! i)]\<rparr>"

definition tab_get :: "string \<Rightarrow> 'h table \<Rightarrow> 'h option" where
  "tab_get k t = map_option (\<lambda>i. objs t ! i) (dget (slots t) k)"

text \<open>\<open>for h in table.values(): f(h)\<close> followed by \<open>table.clear()\<close>.\<close>

definition tab_drain :: "('h \<Rightarrow> 'h) \<Rightarrow> 'h table \<Rightarrow> 'h table" where
  "tab_drain f t = (foldl (\<lambda>u p. tab_update (snd p) f u) t (slots t))\<lparr>slots := []\<rparr>"

definition table_ok :: "'h table \<Rightarrow> bool" where
  "table_ok t \<longleftrightarrow> distinct (dkeys (slots t)) \<and> distinct (map snd (slots t))
     \<and> (\<forall>i \<in> set (map snd (slots t)). i < length (objs t))"

lemma table_ok_empty [simp]: "table_ok empty_table"
  by (simp add: table_ok_def empty_table_def)

lemma table_ok_lt: "table_ok t \<Longrightarrow> dget (slots t) k = Some i \<Longrightarrow> i < length (objs t)"
  by (auto simp: table_ok_def dest!: map_of_SomeD)

lemma table_ok_inj:
  assumes "table_ok t" "dget (slots t) k = Some i" "dget (slots t) k' = Some i"
  shows "k = k'"
proof -
  have "(k, i) \<in> set (slots t)" "(k', i) \<in> set (slots t)"
    using assms(2,3) by (auto dest: map_of_SomeD)
  moreover have "inj_on snd (set (slots t))"
    using assms(1) by (simp add: table_ok_def distinct_map)
  ultimately have "(k, i) = (k', i)"
    by (metis inj_onD snd_conv)
  then show ?thesis by simp
qed

lemma distinct_snd_dset:
  "distinct (map snd d) \<Longrightarrow> v \<notin> set (map snd d) \<Longrightarrow> distinct (map snd (dset k v d))"
proof (induction d)
  case (Cons p d)
  have "set (map snd (dset k v d)) \<subseteq> insert v (set (map snd d))"
    using set_dset_subset [of k v d] by force
  with Cons show ?case by (auto simp: image_iff)
qed simp

lemma snd_set_dset: "i \<in> set (map snd (dset k v d)) \<Longrightarrow> i = v \<or> i \<in> set (map snd d)"
  using set_dset_subset [of k v d] by force

lemma table_ok_open [intro]: "table_ok t \<Longrightarrow> table_ok (snd (tab_open h k t))"
proof -
  assume ok: "table_ok t"
  have "distinct (map snd (dset k (length (objs t)) (slots t)))"
    using ok by (intro distinct_snd_dset) (auto simp: table_ok_def)
  moreover have "i < length (objs t) + 1" if "i \<in> set (map snd (dset k (length (objs t)) (slots t)))" for i
    using snd_set_dset [OF that] ok by (auto simp: table_ok_def)
  ultimately show ?thesis
    using ok by (auto simp: table_ok_def tab_open_def intro: distinct_dset)
qed

lemma distinct_snd_dpop: "distinct (map snd d) \<Longrightarrow> distinct (map snd (dpop k d))"
  by (auto simp: AList.delete_eq distinct_map inj_on_def)

lemma table_ok_pop [intro]: "table_ok t \<Longrightarrow> table_ok (tab_pop k t)"
  by (auto simp: table_ok_def tab_pop_def set_dpop intro: distinct_dpop distinct_snd_dpop)

lemma table_ok_update [intro]: "table_ok t \<Longrightarrow> table_ok (tab_update i f t)"
  by (simp add: table_ok_def tab_update_def)

lemma slots_update [async_simps, simp]: "slots (tab_update i f t) = slots t"
  by (simp add: tab_update_def)

lemma length_objs_update [async_simps, simp]: "length (objs (tab_update i f t)) = length (objs t)"
  by (simp add: tab_update_def)

lemma slots_pop [async_simps, simp]: "slots (tab_pop k t) = dpop k (slots t)"
  by (simp add: tab_pop_def)

lemma objs_pop [async_simps, simp]: "objs (tab_pop k t) = objs t"
  by (simp add: tab_pop_def)

lemma objs_foldl_update:
  "i \<notin> set (map snd d) \<Longrightarrow> objs (foldl (\<lambda>u p. tab_update (snd p) f u) t d) ! i = objs t ! i"
  "length (objs (foldl (\<lambda>u p. tab_update (snd p) f u) t d)) = length (objs t)"
  by (induction d arbitrary: t) (auto simp: tab_update_def)

lemma objs_foldl_update_in:
  "distinct (map snd d) \<Longrightarrow> i \<in> set (map snd d) \<Longrightarrow> \<forall>j \<in> set (map snd d). j < length (objs t) \<Longrightarrow>
   objs (foldl (\<lambda>u p. tab_update (snd p) f u) t d) ! i = f (objs t ! i)"
proof (induction d arbitrary: t)
  case (Cons p d)
  show ?case
  proof (cases "i = snd p")
    case True
    with Cons.prems have "i \<notin> set (map snd d)" by auto
    with True Cons.prems show ?thesis
      by (simp add: objs_foldl_update) (simp add: tab_update_def)
  next
    case False
    with Cons.prems have "i \<in> set (map snd d)" by auto
    with Cons False show ?thesis by (simp add: tab_update_def)
  qed
qed simp

text \<open>Draining applies the function to every registered object, and to no other.\<close>

lemma tab_drain_objs [async_simps]:
  assumes "table_ok t"
  shows "objs (tab_drain f t) ! i
     = (if i \<in> set (map snd (slots t)) then f (objs t ! i) else objs t ! i)"
  using assms objs_foldl_update_in [of "slots t" i t f] objs_foldl_update(1) [of i "slots t" f t]
  by (auto simp: tab_drain_def table_ok_def)

lemma tab_drain_slots [async_simps, simp]: "slots (tab_drain f t) = []"
  by (simp add: tab_drain_def)

lemma tab_drain_length [async_simps, simp]: "length (objs (tab_drain f t)) = length (objs t)"
  by (simp add: tab_drain_def objs_foldl_update)

lemma table_ok_drain [intro, simp]: "table_ok (tab_drain f t)"
  by (simp add: table_ok_def)

end
