(* ===== verification/Reply_Tables.thy ===== *)
theory Reply_Tables
  imports Async
begin

text \<open>
  The two kinds of table a connection owns, and the contracts the rest of the code relies on:
  reply tables (one-shot futures keyed by a correlation id: \<open>await_x\<close>, \<open>cancel_x\<close>,
  \<open>deliver_x\<close>) and channel tables (bounded queues: \<open>open_x\<close>, \<open>close_x\<close>, \<open>deliver_x\<close>), together
  with what \<open>Connection.close\<close> does to each. The operations are stated once here; the theory
  \<open>Connection\<close> instantiates them for each of the connection's dictionaries.
\<close>

subsection \<open>Reply tables\<close>

type_synonym 'r reply_table = "'r future table"

definition settle :: "'r future \<Rightarrow> 'r future \<Rightarrow> 'r future" where
  "settle v f = (if fut_done f then f else v)"

definition await_reply :: "string \<Rightarrow> 'r reply_table \<Rightarrow> nat \<times> 'r reply_table" where
  "await_reply k t = tab_open Pending k t"

definition cancel_reply :: "string \<Rightarrow> 'r reply_table \<Rightarrow> 'r reply_table" where
  "cancel_reply k t = tab_pop k t"

text \<open>\<open>fut = table.pop(k, None); if fut is not None and not fut.done(): fut.set_result(r)\<close>.\<close>

definition deliver_reply :: "string \<Rightarrow> 'r \<Rightarrow> 'r reply_table \<Rightarrow> 'r reply_table" where
  "deliver_reply k r t = (case dget (slots t) k of
     None \<Rightarrow> t
   | Some i \<Rightarrow> tab_update i (settle (Resolved r)) (tab_pop k t))"

text \<open>The loop of \<open>close\<close>: fail what is pending, then clear the table.\<close>

definition fail_replies :: "string \<Rightarrow> 'r reply_table \<Rightarrow> 'r reply_table" where
  "fail_replies e t = tab_drain (settle (Failed e)) t"

text \<open>\<open>asyncio.wait_for\<close> giving up on the future \<open>i\<close>.\<close>

definition expire_reply :: "nat \<Rightarrow> 'r reply_table \<Rightarrow> 'r reply_table" where
  "expire_reply i t = tab_update i (settle Cancelled) t"

lemma settle_simps [simp]:
  "settle v Pending = v" "settle v (Resolved r) = Resolved r" "settle v (Failed e) = Failed e"
  "settle v Cancelled = Cancelled"
  by (simp_all add: settle_def)

text \<open>The \<open>not fut.done()\<close> guard is what keeps \<open>set_result\<close> from raising.\<close>

lemma settle_is_set_result: "set_result r f = (if fut_done f then None else Some (settle (Resolved r) f))"
  by (simp add: set_result_def settle_def)

lemma reply_table_ok [intro]:
  "table_ok t \<Longrightarrow> table_ok (snd (await_reply k t))"
  "table_ok t \<Longrightarrow> table_ok (cancel_reply k t)"
  "table_ok t \<Longrightarrow> table_ok (deliver_reply k r t)"
  "table_ok (fail_replies e t)"
  by (auto simp: await_reply_def cancel_reply_def deliver_reply_def fail_replies_def split: option.splits)

subsection \<open>Channel tables\<close>

type_synonym 'a channel_table = "'a option queue table"

definition open_channel :: "nat \<Rightarrow> string \<Rightarrow> 'a channel_table \<Rightarrow> nat \<times> 'a channel_table" where
  "open_channel n k t = tab_open (new_queue n) k t"

definition close_channel :: "string \<Rightarrow> 'a channel_table \<Rightarrow> 'a channel_table" where
  "close_channel k t = tab_pop k t"

definition deliver_channel :: "string \<Rightarrow> 'a \<Rightarrow> 'a channel_table \<Rightarrow> 'a channel_table" where
  "deliver_channel k x t = (case dget (slots t) k of
     None \<Rightarrow> t
   | Some i \<Rightarrow> tab_update i (put_or_drop (Some x)) t)"

text \<open>The loop of \<open>close\<close>: a \<open>None\<close> sentinel into every queue that has room, then clear.\<close>

definition wake_channels :: "'a channel_table \<Rightarrow> 'a channel_table" where
  "wake_channels t = tab_drain (put_or_drop None) t"

lemma channel_table_ok [intro]:
  "table_ok t \<Longrightarrow> table_ok (snd (open_channel n k t))"
  "table_ok t \<Longrightarrow> table_ok (close_channel k t)"
  "table_ok t \<Longrightarrow> table_ok (deliver_channel k x t)"
  "table_ok (wake_channels t)"
  by (auto simp: open_channel_def close_channel_def deliver_channel_def wake_channels_def
      split: option.splits)

subsection \<open>The contract of a request/reply interface\<close>

text \<open>
  \<open>table_of\<close> is the reply table of a larger state, \<open>live\<close> the condition under which \<open>shut\<close>
  (the owner's teardown) still acts.
\<close>

locale reply_interface =
  fixes table_of :: "'s \<Rightarrow> 'r reply_table"
    and register :: "string \<Rightarrow> 's \<Rightarrow> nat \<times> 's"
    and cancel :: "string \<Rightarrow> 's \<Rightarrow> 's"
    and deliver :: "'r \<Rightarrow> 's \<Rightarrow> 's"
    and key :: "'r \<Rightarrow> string"
    and shut :: "'s \<Rightarrow> 's"
    and live :: "'s \<Rightarrow> bool"
  assumes register_id: "fst (register k s) = length (objs (table_of s))"
    and register_table: "table_of (snd (register k s)) = snd (await_reply k (table_of s))"
    and cancel_table: "table_of (cancel k s) = cancel_reply k (table_of s)"
    and deliver_table: "table_of (deliver r s) = deliver_reply (key r) r (table_of s)"
    and shut_table: "live s \<Longrightarrow> \<exists>e. table_of (shut s) = fail_replies e (table_of s)"
begin

text \<open>The future under a registered key is the one the caller was given, and it is pending.\<close>

lemma registered:
  "dget (slots (table_of (snd (register k s)))) k = Some (fst (register k s))"
  "objs (table_of (snd (register k s))) ! fst (register k s) = Pending"
  by (simp_all add: register_id register_table await_reply_def tab_open_def nth_append)

text \<open>The reply with the matching id reaches the waiter, whatever else is registered.\<close>

lemma reply_reaches_waiter:
  "objs (table_of (deliver r (snd (register (key r) s)))) ! fst (register (key r) s) = Resolved r"
  by (simp add: deliver_table deliver_reply_def registered tab_update_def nth_list_update
      register_id register_table await_reply_def tab_open_def tab_pop_def nth_append)

text \<open>A reply never touches the future of another key.\<close>

lemma reply_frame:
  assumes "table_ok (table_of s)" "dget (slots (table_of s)) k = Some i" "key r \<noteq> k"
  shows "objs (table_of (deliver r s)) ! i = objs (table_of s) ! i"
proof (cases "dget (slots (table_of s)) (key r)")
  case (Some j)
  with assms have "j \<noteq> i" by (auto dest: table_ok_inj)
  with Some show ?thesis
    by (simp add: deliver_table deliver_reply_def tab_update_def)
qed (simp add: deliver_table deliver_reply_def)

text \<open>A future is settled at most once: later replies and teardowns leave it alone.\<close>

lemma settled_stays_reply:
  assumes "objs (table_of s) ! i \<noteq> Pending"
  shows "objs (table_of (deliver r s)) ! i = objs (table_of s) ! i"
proof (cases "dget (slots (table_of s)) (key r)")
  case (Some j)
  with assms show ?thesis
    by (cases "j = i"; cases "i < length (objs (table_of s))")
       (auto simp: deliver_table deliver_reply_def tab_update_def nth_list_update settle_def)
qed (simp add: deliver_table deliver_reply_def)

text \<open>A late or duplicate reply finds no key and changes nothing.\<close>

lemma unknown_reply: "dget (slots (table_of s)) (key r) = None \<Longrightarrow> table_of (deliver r s) = table_of s"
  by (simp add: deliver_table deliver_reply_def)

lemma reply_consumes_key: "dget (slots (table_of (deliver r s))) (key r) = None"
  by (cases "dget (slots (table_of s)) (key r)")
     (simp_all add: deliver_table deliver_reply_def)

lemma cancel_consumes_key: "dget (slots (table_of (cancel k s))) k = None"
  by (simp add: cancel_table cancel_reply_def)

text \<open>No waiter survives the teardown: every registered future is settled, none is registered.\<close>

lemma shut_settles:
  assumes "live s" "table_ok (table_of s)" "dget (slots (table_of s)) k = Some i"
  shows "fut_done (objs (table_of (shut s)) ! i)" "slots (table_of (shut s)) = []"
proof -
  obtain e where e: "table_of (shut s) = fail_replies e (table_of s)"
    using shut_table [OF assms(1)] by blast
  have "i \<in> set (map snd (slots (table_of s)))"
    using assms(3) by (force dest: map_of_SomeD)
  with assms(2) show "fut_done (objs (table_of (shut s)) ! i)"
    by (cases "objs (table_of s) ! i") (auto simp: e fail_replies_def tab_drain_objs)
  show "slots (table_of (shut s)) = []"
    by (simp add: e fail_replies_def)
qed

end

subsection \<open>The contract of a channel interface\<close>

locale channel_interface =
  fixes table_of :: "'s \<Rightarrow> 'a channel_table"
    and open_it :: "string \<Rightarrow> 's \<Rightarrow> nat \<times> 's"
    and close_it :: "string \<Rightarrow> 's \<Rightarrow> 's"
    and deliver :: "'a \<Rightarrow> 's \<Rightarrow> 's"
    and key :: "'a \<Rightarrow> string"
    and shut :: "'s \<Rightarrow> 's"
    and live :: "'s \<Rightarrow> bool"
    and size :: nat
  assumes open_id: "fst (open_it k s) = length (objs (table_of s))"
    and open_table: "table_of (snd (open_it k s)) = snd (open_channel size k (table_of s))"
    and close_table: "table_of (close_it k s) = close_channel k (table_of s)"
    and deliver_table: "key x \<noteq> [] \<Longrightarrow> table_of (deliver x s) = deliver_channel (key x) x (table_of s)"
    and shut_table: "live s \<Longrightarrow> table_of (shut s) = wake_channels (table_of s)"
begin

lemma opened:
  "dget (slots (table_of (snd (open_it k s)))) k = Some (fst (open_it k s))"
  "objs (table_of (snd (open_it k s))) ! fst (open_it k s) = new_queue size"
  by (simp_all add: open_id open_table open_channel_def tab_open_def nth_append)

text \<open>Frames arrive in order while the queue has room.\<close>

lemma deliver_appends:
  assumes "dget (slots (table_of s)) (key x) = Some i" "i < length (objs (table_of s))" "key x \<noteq> []"
  shows "q_items (objs (table_of (deliver x s)) ! i)
     = (if q_full (objs (table_of s) ! i) then q_items (objs (table_of s) ! i)
        else q_items (objs (table_of s) ! i) @ [Some x])"
  using assms
  by (simp add: deliver_table deliver_channel_def tab_update_def put_or_drop_items)

lemma deliver_unknown:
  "dget (slots (table_of s)) (key x) = None \<Longrightarrow> key x \<noteq> [] \<Longrightarrow> table_of (deliver x s) = table_of s"
  by (simp add: deliver_table deliver_channel_def)

text \<open>
  After the teardown a consumer blocked on a registered queue has something to read; the item
  is the sentinel exactly when the queue had room.
\<close>

lemma shut_wakes:
  assumes "live s" "table_ok (table_of s)" "dget (slots (table_of s)) k = Some i"
  shows "q_items (objs (table_of (shut s)) ! i) \<noteq> []"
    and "\<not> q_full (objs (table_of s) ! i) \<Longrightarrow>
         q_items (objs (table_of (shut s)) ! i) = q_items (objs (table_of s) ! i) @ [None]"
    and "q_full (objs (table_of s) ! i) \<Longrightarrow>
         q_items (objs (table_of (shut s)) ! i) = q_items (objs (table_of s) ! i)"
proof -
  have "i \<in> set (map snd (slots (table_of s)))"
    using assms(3) by (force dest: map_of_SomeD)
  then have eq: "objs (table_of (shut s)) ! i = put_or_drop None (objs (table_of s) ! i)"
    using assms(1,2) by (simp add: shut_table wake_channels_def tab_drain_objs)
  show "q_items (objs (table_of (shut s)) ! i) \<noteq> []"
    by (simp add: eq put_or_drop_nonempty)
  show "\<not> q_full (objs (table_of s) ! i) \<Longrightarrow>
         q_items (objs (table_of (shut s)) ! i) = q_items (objs (table_of s) ! i) @ [None]"
    and "q_full (objs (table_of s) ! i) \<Longrightarrow>
         q_items (objs (table_of (shut s)) ! i) = q_items (objs (table_of s) ! i)"
    by (simp_all add: eq put_or_drop_items)
qed

end

end
