(* ===== verification/Job_Snapshots.thy ===== *)
theory Job_Snapshots
  imports Prelude
begin

text \<open>
  The polling snapshots of the three job families a node runs (iOS WDA jobs, builds, host-tool
  installs), from registry.py. A snapshot is the Python dict with its keys as record fields; the
  keys that only exist once the terminal result has arrived are options. A time stamp is the
  formatted clock reading the code takes at the call, passed as \<open>now\<close>.
\<close>

definition MAX_JOB_EVENTS :: nat where
  "MAX_JOB_EVENTS = 20"

text \<open>One entry of a snapshot's \<open>events\<close> list; \<open>'g\<close> is the type of the stage.\<close>

record 'g job_entry =
  je_seq :: int
  je_stage :: 'g
  je_message :: string
  je_timestamp :: string

subsection \<open>Frames (agentcompose_v2.proto)\<close>

record ios_job_event =
  ie_job_id :: string
  ie_seq :: int
  ie_stage :: int        \<comment> \<open>the enum \<open>IosJobStage\<close>\<close>
  ie_message :: string
  ie_percent :: int
  ie_reported_at :: string
  ie_log_tail :: string

record ios_job_result =
  ir_job_id :: string
  ir_ok :: bool
  ir_error_code :: string
  ir_error_message :: string
  ir_retryable :: bool
  ir_stage_reached :: int
  ir_profile_expires_at :: string
  ir_artifact_sha256 :: string

record build_event =
  be_build_id :: string
  be_seq :: int
  be_stage :: string
  be_message :: string
  be_percent :: int
  be_reported_at :: string
  be_log_tail :: string

record build_result =
  br_build_id :: string
  br_ok :: bool
  br_error_code :: string
  br_error_message :: string
  br_retryable :: bool
  br_stage_reached :: string
  br_artifact_sha256 :: string
  br_artifact_size_bytes :: int

record host_tool_event =
  he_job_id :: string
  he_seq :: int
  he_stage :: string
  he_message :: string
  he_percent :: int
  he_reported_at :: string
  he_log_tail :: string
  he_current_bytes :: int
  he_total_bytes :: int

record host_tool_result =
  hr_job_id :: string
  hr_ok :: bool
  hr_error_code :: string
  hr_error_message :: string
  hr_retryable :: bool
  hr_stage_reached :: string
  hr_xcodebuild_version :: string
  hr_app_path :: string

subsection \<open>iOS WDA jobs\<close>

text \<open>The stage is the string \<open>queued\<close> at first and the event's enum number afterwards.\<close>

record ios_snapshot =
  is_job_id :: string
  is_device_id :: string
  is_udid :: string
  is_action :: string
  is_status :: string
  is_stage :: "string + int"
  is_percent :: int
  is_message :: string
  is_retryable :: bool
  is_error_code :: string
  is_created_at :: string
  is_updated_at :: string
  is_completed_at :: string
  is_events :: "int job_entry list"
  is_stage_reached :: "int option"
  is_profile_expires_at :: "string option"
  is_artifact_sha256 :: "string option"

definition new_ios_snapshot :: "string \<Rightarrow> string \<Rightarrow> string \<Rightarrow> string \<Rightarrow> string \<Rightarrow> ios_snapshot" where
  "new_ios_snapshot now job_id device_id udid action =
     \<lparr>is_job_id = job_id, is_device_id = device_id, is_udid = udid, is_action = action,
      is_status = ''running'', is_stage = Inl ''queued'', is_percent = 0, is_message = [],
      is_retryable = False, is_error_code = [], is_created_at = now, is_updated_at = now,
      is_completed_at = [], is_events = [], is_stage_reached = None,
      is_profile_expires_at = None, is_artifact_sha256 = None\<rparr>"

text \<open>
  \<open>event.retryable\<close>: the message \<open>NodeIosJobEvent\<close> has no such field, so the generated class
  raises AttributeError (only \<open>NodeIosJobResult\<close> carries the flag).
\<close>

definition ios_event_retryable :: "ios_job_event \<Rightarrow> string + bool" where
  "ios_event_retryable e = Inl ''AttributeError''"

text \<open>
  The update assigns key by key, so an exception leaves the assignments made before it. The
  second component is the exception that escapes.
\<close>

definition ios_snapshot_event ::
  "string \<Rightarrow> ios_job_event \<Rightarrow> ios_snapshot \<Rightarrow> ios_snapshot \<times> string option" where
  "ios_snapshot_event now e s =
     (let s1 = s\<lparr>is_stage := Inr (ie_stage e), is_message := ie_message e,
                 is_percent := ie_percent e\<rparr>
      in case ios_event_retryable e of
           Inl err \<Rightarrow> (s1, Some err)
         | Inr b \<Rightarrow>
             (let s2 = s1\<lparr>is_retryable := b, is_updated_at := now,
                          is_events := is_events s1 @
                            [\<lparr>je_seq = ie_seq e, je_stage = ie_stage e,
                              je_message = ie_message e, je_timestamp = now\<rparr>]\<rparr>
              in (if MAX_JOB_EVENTS < length (is_events s2)
                  then s2\<lparr>is_events := lastn MAX_JOB_EVENTS (is_events s2)\<rparr> else s2, None)))"

definition ios_snapshot_result :: "string \<Rightarrow> ios_job_result \<Rightarrow> ios_snapshot \<Rightarrow> ios_snapshot" where
  "ios_snapshot_result now r s =
     s\<lparr>is_status := (if ir_ok r then ''completed'' else ''failed''),
       is_error_code := ir_error_code r, is_message := ir_error_message r,
       is_stage_reached := Some (ir_stage_reached r), is_retryable := ir_retryable r,
       is_profile_expires_at := Some (ir_profile_expires_at r),
       is_artifact_sha256 := Some (ir_artifact_sha256 r),
       is_completed_at := now, is_updated_at := now\<rparr>"

subsection \<open>Builds\<close>

record build_snapshot =
  bs_build_id :: string
  bs_recipe_kind :: string
  bs_node_id :: string
  bs_status :: string
  bs_stage :: string
  bs_percent :: int
  bs_message :: string
  bs_log_tail :: string
  bs_retryable :: bool
  bs_error_code :: string
  bs_artifact_sha256 :: string
  bs_artifact_size_bytes :: int
  bs_created_at :: string
  bs_updated_at :: string
  bs_completed_at :: string
  bs_events :: "string job_entry list"
  bs_stage_reached :: "string option"

definition new_build_snapshot :: "string \<Rightarrow> string \<Rightarrow> string \<Rightarrow> string \<Rightarrow> build_snapshot" where
  "new_build_snapshot now build_id recipe_kind node_id =
     \<lparr>bs_build_id = build_id, bs_recipe_kind = recipe_kind, bs_node_id = node_id,
      bs_status = ''running'', bs_stage = ''queued'', bs_percent = 0, bs_message = [],
      bs_log_tail = [], bs_retryable = False, bs_error_code = [], bs_artifact_sha256 = [],
      bs_artifact_size_bytes = 0, bs_created_at = now, bs_updated_at = now,
      bs_completed_at = [], bs_events = [], bs_stage_reached = None\<rparr>"

definition build_snapshot_event :: "string \<Rightarrow> build_event \<Rightarrow> build_snapshot \<Rightarrow> build_snapshot" where
  "build_snapshot_event now e s =
     (let s1 = s\<lparr>bs_stage := be_stage e, bs_message := be_message e, bs_percent := be_percent e,
                 bs_log_tail := be_log_tail e, bs_updated_at := now,
                 bs_events := bs_events s @
                   [\<lparr>je_seq = be_seq e, je_stage = be_stage e,
                     je_message = be_message e, je_timestamp = now\<rparr>]\<rparr>
      in if MAX_JOB_EVENTS < length (bs_events s1)
         then s1\<lparr>bs_events := lastn MAX_JOB_EVENTS (bs_events s1)\<rparr> else s1)"

definition build_snapshot_result :: "string \<Rightarrow> build_result \<Rightarrow> build_snapshot \<Rightarrow> build_snapshot" where
  "build_snapshot_result now r s =
     s\<lparr>bs_status := (if br_ok r then ''completed'' else ''failed''),
       bs_error_code := br_error_code r, bs_message := br_error_message r,
       bs_stage_reached := Some (br_stage_reached r), bs_retryable := br_retryable r,
       bs_artifact_sha256 := br_artifact_sha256 r,
       bs_artifact_size_bytes := br_artifact_size_bytes r,
       bs_completed_at := now, bs_updated_at := now\<rparr>"

subsection \<open>Host-tool installs\<close>

record host_tool_snapshot =
  hs_job_id :: string
  hs_tool :: string
  hs_node_id :: string
  hs_target_version :: string
  hs_status :: string
  hs_stage :: string
  hs_percent :: int
  hs_message :: string
  hs_log_tail :: string
  hs_current_bytes :: int
  hs_total_bytes :: int
  hs_retryable :: bool
  hs_error_code :: string
  hs_xcodebuild_version :: string
  hs_app_path :: string
  hs_created_at :: string
  hs_updated_at :: string
  hs_completed_at :: string
  hs_events :: "string job_entry list"
  hs_stage_reached :: "string option"

definition new_host_tool_snapshot ::
  "string \<Rightarrow> string \<Rightarrow> string \<Rightarrow> string \<Rightarrow> string \<Rightarrow> host_tool_snapshot" where
  "new_host_tool_snapshot now job_id tool node_id target_version =
     \<lparr>hs_job_id = job_id, hs_tool = tool, hs_node_id = node_id,
      hs_target_version = target_version, hs_status = ''running'', hs_stage = ''queued'',
      hs_percent = 0, hs_message = [], hs_log_tail = [], hs_current_bytes = 0,
      hs_total_bytes = 0, hs_retryable = False, hs_error_code = [],
      hs_xcodebuild_version = [], hs_app_path = [], hs_created_at = now, hs_updated_at = now,
      hs_completed_at = [], hs_events = [], hs_stage_reached = None\<rparr>"

definition host_tool_snapshot_event ::
  "string \<Rightarrow> host_tool_event \<Rightarrow> host_tool_snapshot \<Rightarrow> host_tool_snapshot" where
  "host_tool_snapshot_event now e s =
     (let s1 = s\<lparr>hs_stage := he_stage e, hs_message := he_message e, hs_percent := he_percent e,
                 hs_log_tail := he_log_tail e, hs_current_bytes := he_current_bytes e,
                 hs_total_bytes := he_total_bytes e, hs_updated_at := now,
                 hs_events := hs_events s @
                   [\<lparr>je_seq = he_seq e, je_stage = he_stage e,
                     je_message = he_message e, je_timestamp = now\<rparr>]\<rparr>
      in if MAX_JOB_EVENTS < length (hs_events s1)
         then s1\<lparr>hs_events := lastn MAX_JOB_EVENTS (hs_events s1)\<rparr> else s1)"

definition host_tool_snapshot_result ::
  "string \<Rightarrow> host_tool_result \<Rightarrow> host_tool_snapshot \<Rightarrow> host_tool_snapshot" where
  "host_tool_snapshot_result now r s =
     s\<lparr>hs_status := (if hr_ok r then ''completed'' else ''failed''),
       hs_error_code := hr_error_code r, hs_message := hr_error_message r,
       hs_stage_reached := Some (hr_stage_reached r), hs_retryable := hr_retryable r,
       hs_xcodebuild_version := hr_xcodebuild_version r, hs_app_path := hr_app_path r,
       hs_completed_at := now, hs_updated_at := now\<rparr>"

subsection \<open>The event lists are bounded logs\<close>

lemma trim_if_long: "(if n < length xs then lastn n xs else xs) = lastn n xs"
  by simp

definition build_entry :: "string \<times> build_event \<Rightarrow> string job_entry list" where
  "build_entry p = [\<lparr>je_seq = be_seq (snd p), je_stage = be_stage (snd p),
     je_message = be_message (snd p), je_timestamp = fst p\<rparr>]"

definition host_tool_entry :: "string \<times> host_tool_event \<Rightarrow> string job_entry list" where
  "host_tool_entry p = [\<lparr>je_seq = he_seq (snd p), je_stage = he_stage (snd p),
     je_message = he_message (snd p), je_timestamp = fst p\<rparr>]"

interpretation build_log: bounded_log
  "\<lambda>p. build_snapshot_event (fst p) (snd p)" bs_events build_entry MAX_JOB_EVENTS
  by unfold_locales (simp add: build_snapshot_event_def build_entry_def Let_def)

interpretation host_tool_log: bounded_log
  "\<lambda>p. host_tool_snapshot_event (fst p) (snd p)" hs_events host_tool_entry MAX_JOB_EVENTS
  by unfold_locales (simp add: host_tool_snapshot_event_def host_tool_entry_def Let_def)

text \<open>An iOS progress event never reaches the event list: the update stops at the missing field.\<close>

lemma ios_snapshot_event_raises:
  "snd (ios_snapshot_event now e s) = Some ''AttributeError''"
  "is_events (fst (ios_snapshot_event now e s)) = is_events s"
  "is_updated_at (fst (ios_snapshot_event now e s)) = is_updated_at s"
  "is_status (fst (ios_snapshot_event now e s)) = is_status s"
  "is_stage (fst (ios_snapshot_event now e s)) = Inr (ie_stage e)"
  "is_message (fst (ios_snapshot_event now e s)) = ie_message e"
  "is_percent (fst (ios_snapshot_event now e s)) = ie_percent e"
  by (simp_all add: ios_snapshot_event_def ios_event_retryable_def Let_def)

end
