(* ===== verification/Connection.thy ===== *)
theory Connection
  imports Frames Reply_Tables Job_Snapshots
begin

text \<open>
  \<open>Connection\<close> of registry.py: one live node connection, with one definition per method. The
  type parameter is the downstream frame. A method that mutates returns the new connection; one
  that also returns a future or a queue returns its index in the table (\<open>await_x\<close>, \<open>open_x\<close>).
  The clock readings are arguments: \<open>now\<close> (microseconds) and \<open>stamp\<close> (the formatted reading).
\<close>

definition STDERR_TAIL_BYTES :: nat where "STDERR_TAIL_BYTES = 16 * 1024"
definition DOWNSTREAM_BUFFER :: nat where "DOWNSTREAM_BUFFER = 64"
definition TUNNEL_RESPONSE_BUFFER :: nat where "TUNNEL_RESPONSE_BUFFER = 64"
definition TERMINAL_OUTPUT_BUFFER :: nat where "TERMINAL_OUTPUT_BUFFER = 128"

subsection \<open>State\<close>

text \<open>
  A sink is three optional callbacks; the only ones the program builds (stream_follow.py,
  stream_follow_json.py) put the event on the follower's queue unless it is full, so a present
  callback is \<open>True\<close> and the queue is part of the sink.
\<close>

record output_sink =
  on_output :: bool
  on_result :: bool
  on_structured :: bool
  sink_inbox :: "session_event queue"

record 'f connection =
  c_node_id :: string
  c_capabilities :: "capabilities option"
  c_peer_address :: string
  c_downstream :: "'f option queue"
  c_connected_at :: microseconds
  c_closed :: bool
  c_last_heartbeat_at :: "microseconds option"
  c_active_session_ids :: "string list"
  c_active_terminal_ids :: "string list"
  c_active_tool_runs :: "active_tool_run list"
  c_last_error_code :: string
  c_last_error_message :: string
  c_sinks :: "output_sink table"
  c_stderr_tails :: "(string, bytes) dict"
  c_acks :: "command_ack reply_table"
  c_host_execs :: "host_exec_result reply_table"
  c_file_uploads :: "file_upload_result reply_table"
  c_tunnels :: "tunnel_response channel_table"
  c_terminals :: "terminal_frame channel_table"
  c_terminal_lists :: "terminal_list_result reply_table"
  c_tool_runs :: "tool_run_event channel_table"
  c_ios_inventory :: "ios_devices_report option"
  c_ios_jobs :: "ios_job_event channel_table"
  c_ios_job_results :: "ios_job_result reply_table"
  c_ios_job_snapshots :: "(string, ios_snapshot) dict"
  c_build_jobs :: "build_event channel_table"
  c_build_results :: "build_result reply_table"
  c_build_snapshots :: "(string, build_snapshot) dict"
  c_host_tool_jobs :: "host_tool_event channel_table"
  c_host_tool_results :: "host_tool_result reply_table"
  c_host_tool_snapshots :: "(string, host_tool_snapshot) dict"

definition new_connection ::
  "microseconds \<Rightarrow> string \<Rightarrow> capabilities option \<Rightarrow> string \<Rightarrow> 'f connection" where
  "new_connection now node_id caps peer_address =
     \<lparr>c_node_id = node_id, c_capabilities = caps, c_peer_address = peer_address,
      c_downstream = new_queue DOWNSTREAM_BUFFER, c_connected_at = now,
      c_closed = False, c_last_heartbeat_at = None, c_active_session_ids = [],
      c_active_terminal_ids = [], c_active_tool_runs = [],
      c_last_error_code = [], c_last_error_message = [],
      c_sinks = empty_table, c_stderr_tails = [],
      c_acks = empty_table, c_host_execs = empty_table, c_file_uploads = empty_table,
      c_tunnels = empty_table, c_terminals = empty_table, c_terminal_lists = empty_table,
      c_tool_runs = empty_table, c_ios_inventory = None,
      c_ios_jobs = empty_table, c_ios_job_results = empty_table, c_ios_job_snapshots = [],
      c_build_jobs = empty_table, c_build_results = empty_table, c_build_snapshots = [],
      c_host_tool_jobs = empty_table, c_host_tool_results = empty_table,
      c_host_tool_snapshots = []\<rparr>"

subsection \<open>Downstream and liveness\<close>

text \<open>\<open>downstream_get\<close>: \<open>None\<close> while the queue is empty (the await blocks).\<close>

definition downstream_get :: "'f connection \<Rightarrow> ('f option \<times> 'f connection) option" where
  "downstream_get c = (case get_nowait (c_downstream c) of
     None \<Rightarrow> None
   | Some (f, q) \<Rightarrow> Some (f, c\<lparr>c_downstream := q\<rparr>))"

text \<open>\<open>send\<close>: \<open>Inl\<close> is the message of the ConnectionError.\<close>

definition send :: "'f \<Rightarrow> 'f connection \<Rightarrow> string + 'f connection" where
  "send frame c =
     (if c_closed c then Inl (''node '' @ c_node_id c @ '' connection is closed'')
      else case put_nowait (Some frame) (c_downstream c) of
             None \<Rightarrow> Inl (''node '' @ c_node_id c @ '' downstream buffer is full'')
           | Some q \<Rightarrow> Inr (c\<lparr>c_downstream := q\<rparr>))"

definition note_heartbeat :: "microseconds \<Rightarrow> string list option \<Rightarrow> 'f connection \<Rightarrow> 'f connection" where
  "note_heartbeat now ids c =
     c\<lparr>c_last_heartbeat_at := Some now,
       c_active_session_ids := (case ids of None \<Rightarrow> [] | Some xs \<Rightarrow> xs)\<rparr>"

definition note_active_terminal_ids :: "string list \<Rightarrow> 'f connection \<Rightarrow> 'f connection" where
  "note_active_terminal_ids ids c = c\<lparr>c_active_terminal_ids := ids\<rparr>"

definition active_terminal_ids :: "'f connection \<Rightarrow> string list" where
  "active_terminal_ids c = c_active_terminal_ids c"

definition note_active_tool_runs :: "active_tool_run list \<Rightarrow> 'f connection \<Rightarrow> 'f connection" where
  "note_active_tool_runs runs c =
     c\<lparr>c_active_tool_runs := filter (\<lambda>r. at_run_id r \<noteq> []) runs\<rparr>"

definition active_tool_runs :: "'f connection \<Rightarrow> active_tool_run list" where
  "active_tool_runs c = c_active_tool_runs c"

definition note_error :: "string \<Rightarrow> string \<Rightarrow> 'f connection \<Rightarrow> 'f connection" where
  "note_error code message c = c\<lparr>c_last_error_code := code, c_last_error_message := message\<rparr>"

definition active_sessions :: "'f connection \<Rightarrow> string list" where
  "active_sessions c = c_active_session_ids c"

definition snapshot :: "'f connection \<Rightarrow> microseconds \<times> microseconds option \<times> string list" where
  "snapshot c = (c_connected_at c, c_last_heartbeat_at c, c_active_session_ids c)"

subsection \<open>Session output\<close>

definition bind_sink :: "string \<Rightarrow> output_sink \<Rightarrow> 'f connection \<Rightarrow> nat \<times> 'f connection" where
  "bind_sink session_id sink c =
     (let (i, t) = tab_open sink session_id (c_sinks c) in (i, c\<lparr>c_sinks := t\<rparr>))"

definition unbind_sink :: "string \<Rightarrow> 'f connection \<Rightarrow> 'f connection" where
  "unbind_sink session_id c = c\<lparr>c_sinks := tab_pop session_id (c_sinks c)\<rparr>"

definition note_stderr :: "string \<Rightarrow> bytes \<Rightarrow> 'f connection \<Rightarrow> 'f connection" where
  "note_stderr session_id data c =
     (if session_id = [] \<or> data = [] then c
      else let tail = (case dget (c_stderr_tails c) session_id of None \<Rightarrow> [] | Some t \<Rightarrow> t) @ data;
               tail' = (if STDERR_TAIL_BYTES < length tail
                        then drop (length tail - STDERR_TAIL_BYTES) tail else tail)
           in c\<lparr>c_stderr_tails := dset session_id tail' (c_stderr_tails c)\<rparr>)"

text \<open>\<open>decode\<close> stands for \<open>bytes.decode('utf-8', 'replace')\<close>.\<close>

definition stderr_tail :: "(bytes \<Rightarrow> string) \<Rightarrow> string \<Rightarrow> 'f connection \<Rightarrow> string" where
  "stderr_tail decode session_id c = (case dget (c_stderr_tails c) session_id of
     None \<Rightarrow> []
   | Some t \<Rightarrow> if t = [] then [] else decode t)"

definition forget_stderr :: "string \<Rightarrow> 'f connection \<Rightarrow> 'f connection" where
  "forget_stderr session_id c = c\<lparr>c_stderr_tails := dpop session_id (c_stderr_tails c)\<rparr>"

text \<open>Hand an event to the sink bound for the session, if it has the callback.\<close>

definition sink_event ::
  "(output_sink \<Rightarrow> bool) \<Rightarrow> string \<Rightarrow> session_event \<Rightarrow> 'f connection \<Rightarrow> 'f connection" where
  "sink_event has session_id e c = (case dget (slots (c_sinks c)) session_id of
     None \<Rightarrow> c
   | Some i \<Rightarrow> c\<lparr>c_sinks := tab_update i
       (\<lambda>s. if has s then s\<lparr>sink_inbox := put_or_drop e (sink_inbox s)\<rparr> else s) (c_sinks c)\<rparr>)"

definition deliver_output :: "session_output option \<Rightarrow> 'f connection \<Rightarrow> 'f connection" where
  "deliver_output out c = (case out of
     None \<Rightarrow> c
   | Some o' \<Rightarrow>
       let c1 = (if so_stream o' = STDIO_STREAM_STDERR \<and> so_data o' \<noteq> []
                 then note_stderr (so_session_id o') (so_data o') c else c)
       in sink_event on_output (so_session_id o') (Ev_output o') c1)"

definition deliver_result :: "session_result option \<Rightarrow> 'f connection \<Rightarrow> 'f connection" where
  "deliver_result res c = (case res of
     None \<Rightarrow> c | Some r \<Rightarrow> sink_event on_result (sr_session_id r) (Ev_result r) c)"

definition deliver_structured :: "session_structured option \<Rightarrow> 'f connection \<Rightarrow> 'f connection" where
  "deliver_structured evt c = (case evt of
     None \<Rightarrow> c | Some e \<Rightarrow> sink_event on_structured (ss_session_id e) (Ev_structured e) c)"

subsection \<open>Command acks\<close>

definition await_ack :: "string \<Rightarrow> 'f connection \<Rightarrow> nat \<times> 'f connection" where
  "await_ack k c = (let (i, t) = await_reply k (c_acks c) in (i, c\<lparr>c_acks := t\<rparr>))"

definition cancel_ack :: "string \<Rightarrow> 'f connection \<Rightarrow> 'f connection" where
  "cancel_ack k c = c\<lparr>c_acks := cancel_reply k (c_acks c)\<rparr>"

definition deliver_ack :: "command_ack option \<Rightarrow> 'f connection \<Rightarrow> 'f connection" where
  "deliver_ack res c = (case res of
     None \<Rightarrow> c
   | Some r \<Rightarrow> c\<lparr>c_acks := deliver_reply (ack_server_frame_id r) r (c_acks c)\<rparr>)"

subsection \<open>Host command results\<close>

definition await_host_exec :: "string \<Rightarrow> 'f connection \<Rightarrow> nat \<times> 'f connection" where
  "await_host_exec k c = (let (i, t) = await_reply k (c_host_execs c) in (i, c\<lparr>c_host_execs := t\<rparr>))"

definition cancel_host_exec :: "string \<Rightarrow> 'f connection \<Rightarrow> 'f connection" where
  "cancel_host_exec k c = c\<lparr>c_host_execs := cancel_reply k (c_host_execs c)\<rparr>"

definition deliver_host_exec :: "host_exec_result option \<Rightarrow> 'f connection \<Rightarrow> 'f connection" where
  "deliver_host_exec res c = (case res of
     None \<Rightarrow> c
   | Some r \<Rightarrow> c\<lparr>c_host_execs := deliver_reply (hx_request_id r) r (c_host_execs c)\<rparr>)"

subsection \<open>Chunked uploads\<close>

definition await_file_upload :: "string \<Rightarrow> 'f connection \<Rightarrow> nat \<times> 'f connection" where
  "await_file_upload k c = (let (i, t) = await_reply k (c_file_uploads c) in (i, c\<lparr>c_file_uploads := t\<rparr>))"

definition cancel_file_upload :: "string \<Rightarrow> 'f connection \<Rightarrow> 'f connection" where
  "cancel_file_upload k c = c\<lparr>c_file_uploads := cancel_reply k (c_file_uploads c)\<rparr>"

definition deliver_file_upload :: "file_upload_result option \<Rightarrow> 'f connection \<Rightarrow> 'f connection" where
  "deliver_file_upload res c = (case res of
     None \<Rightarrow> c
   | Some r \<Rightarrow> c\<lparr>c_file_uploads := deliver_reply (fu_upload_id r) r (c_file_uploads c)\<rparr>)"

subsection \<open>Tunnels\<close>

definition open_tunnel :: "string \<Rightarrow> 'f connection \<Rightarrow> nat \<times> 'f connection" where
  "open_tunnel k c = (let (i, t) = open_channel TUNNEL_RESPONSE_BUFFER k (c_tunnels c) in (i, c\<lparr>c_tunnels := t\<rparr>))"

definition close_tunnel :: "string \<Rightarrow> 'f connection \<Rightarrow> 'f connection" where
  "close_tunnel k c = c\<lparr>c_tunnels := close_channel k (c_tunnels c)\<rparr>"

definition deliver_tunnel_response :: "tunnel_response option \<Rightarrow> 'f connection \<Rightarrow> 'f connection" where
  "deliver_tunnel_response evt c = (case evt of
     None \<Rightarrow> c
   | Some e \<Rightarrow> c\<lparr>c_tunnels := deliver_channel (tr_tunnel_id e) e (c_tunnels c)\<rparr>)"

subsection \<open>Host terminals\<close>

definition open_terminal :: "string \<Rightarrow> 'f connection \<Rightarrow> nat \<times> 'f connection" where
  "open_terminal k c = (let (i, t) = open_channel TERMINAL_OUTPUT_BUFFER k (c_terminals c) in (i, c\<lparr>c_terminals := t\<rparr>))"

definition close_terminal :: "string \<Rightarrow> 'f connection \<Rightarrow> 'f connection" where
  "close_terminal k c = c\<lparr>c_terminals := close_channel k (c_terminals c)\<rparr>"

definition deliver_terminal_frame :: "string \<Rightarrow> terminal_frame \<Rightarrow> 'f connection \<Rightarrow> 'f connection" where
  "deliver_terminal_frame terminal_id frame c =
     (if terminal_id = [] then c
      else c\<lparr>c_terminals := deliver_channel terminal_id frame (c_terminals c)\<rparr>)"

subsection \<open>Terminal lists\<close>

definition await_terminal_list :: "string \<Rightarrow> 'f connection \<Rightarrow> nat \<times> 'f connection" where
  "await_terminal_list k c = (let (i, t) = await_reply k (c_terminal_lists c) in (i, c\<lparr>c_terminal_lists := t\<rparr>))"

definition cancel_terminal_list :: "string \<Rightarrow> 'f connection \<Rightarrow> 'f connection" where
  "cancel_terminal_list k c = c\<lparr>c_terminal_lists := cancel_reply k (c_terminal_lists c)\<rparr>"

definition deliver_terminal_list :: "terminal_list_result option \<Rightarrow> 'f connection \<Rightarrow> 'f connection" where
  "deliver_terminal_list res c = (case res of
     None \<Rightarrow> c
   | Some r \<Rightarrow> c\<lparr>c_terminal_lists := deliver_reply (tl_request_id r) r (c_terminal_lists c)\<rparr>)"

subsection \<open>Tool runs\<close>

definition open_tool_run :: "string \<Rightarrow> 'f connection \<Rightarrow> nat \<times> 'f connection" where
  "open_tool_run k c = (let (i, t) = open_channel TERMINAL_OUTPUT_BUFFER k (c_tool_runs c) in (i, c\<lparr>c_tool_runs := t\<rparr>))"

definition close_tool_run :: "string \<Rightarrow> 'f connection \<Rightarrow> 'f connection" where
  "close_tool_run k c = c\<lparr>c_tool_runs := close_channel k (c_tool_runs c)\<rparr>"

definition deliver_tool_run_event :: "tool_run_event option \<Rightarrow> 'f connection \<Rightarrow> 'f connection" where
  "deliver_tool_run_event evt c = (case evt of
     None \<Rightarrow> c
   | Some e \<Rightarrow> c\<lparr>c_tool_runs := deliver_channel (te_run_id e) e (c_tool_runs c)\<rparr>)"

subsection \<open>iOS inventory\<close>

definition note_ios_inventory :: "ios_devices_report \<Rightarrow> 'f connection \<Rightarrow> 'f connection" where
  "note_ios_inventory report c = c\<lparr>c_ios_inventory := Some report\<rparr>"

definition ios_inventory :: "'f connection \<Rightarrow> ios_devices_report option" where
  "ios_inventory c = c_ios_inventory c"

subsection \<open>iOS WDA jobs\<close>

definition open_ios_job :: "string \<Rightarrow> 'f connection \<Rightarrow> nat \<times> 'f connection" where
  "open_ios_job k c =
     (let (i, t) = open_channel TERMINAL_OUTPUT_BUFFER k (c_ios_jobs c) in (i, c\<lparr>c_ios_jobs := t\<rparr>))"

definition close_ios_job :: "string \<Rightarrow> 'f connection \<Rightarrow> 'f connection" where
  "close_ios_job k c = c\<lparr>c_ios_jobs := close_channel k (c_ios_jobs c)\<rparr>"

definition deliver_ios_job_event :: "ios_job_event option \<Rightarrow> 'f connection \<Rightarrow> 'f connection" where
  "deliver_ios_job_event evt c = (case evt of
     None \<Rightarrow> c
   | Some e \<Rightarrow> c\<lparr>c_ios_jobs := deliver_channel (ie_job_id e) e (c_ios_jobs c)\<rparr>)"

definition await_ios_job_result :: "string \<Rightarrow> 'f connection \<Rightarrow> nat \<times> 'f connection" where
  "await_ios_job_result k c =
     (let (i, t) = await_reply k (c_ios_job_results c) in (i, c\<lparr>c_ios_job_results := t\<rparr>))"

definition cancel_ios_job_result :: "string \<Rightarrow> 'f connection \<Rightarrow> 'f connection" where
  "cancel_ios_job_result k c = c\<lparr>c_ios_job_results := cancel_reply k (c_ios_job_results c)\<rparr>"

definition deliver_ios_job_result ::
  "string \<Rightarrow> ios_job_result option \<Rightarrow> 'f connection \<Rightarrow> 'f connection" where
  "deliver_ios_job_result stamp res c = (case res of
     None \<Rightarrow> c
   | Some r \<Rightarrow>
       let c1 = c\<lparr>c_ios_job_results := deliver_reply (ir_job_id r) r (c_ios_job_results c)\<rparr>
       in case dget (c_ios_job_snapshots c1) (ir_job_id r) of
            None \<Rightarrow> c1
          | Some s \<Rightarrow> c1\<lparr>c_ios_job_snapshots :=
              dset (ir_job_id r) (ios_snapshot_result stamp r s) (c_ios_job_snapshots c1)\<rparr>)"

definition init_ios_job_snapshot ::
  "string \<Rightarrow> string \<Rightarrow> string \<Rightarrow> string \<Rightarrow> string \<Rightarrow> 'f connection \<Rightarrow> 'f connection" where
  "init_ios_job_snapshot stamp job_id device_id udid action c = c\<lparr>c_ios_job_snapshots :=
     dset job_id (new_ios_snapshot stamp job_id device_id udid action) (c_ios_job_snapshots c)\<rparr>"

text \<open>The second component is the exception that escapes, if one does.\<close>

definition update_ios_job_snapshot_event ::
  "string \<Rightarrow> ios_job_event \<Rightarrow> 'f connection \<Rightarrow> 'f connection \<times> string option" where
  "update_ios_job_snapshot_event stamp e c = (case dget (c_ios_job_snapshots c) (ie_job_id e) of
     None \<Rightarrow> (c, None)
   | Some s \<Rightarrow>
       let (s', err) = ios_snapshot_event stamp e s
       in (c\<lparr>c_ios_job_snapshots := dset (ie_job_id e) s' (c_ios_job_snapshots c)\<rparr>, err))"

definition get_ios_job_snapshot :: "string \<Rightarrow> 'f connection \<Rightarrow> ios_snapshot option" where
  "get_ios_job_snapshot k c = dget (c_ios_job_snapshots c) k"

definition clear_ios_job_snapshot :: "string \<Rightarrow> 'f connection \<Rightarrow> 'f connection" where
  "clear_ios_job_snapshot k c = c\<lparr>c_ios_job_snapshots := dpop k (c_ios_job_snapshots c)\<rparr>"

subsection \<open>Builds\<close>

definition open_build_job :: "string \<Rightarrow> 'f connection \<Rightarrow> nat \<times> 'f connection" where
  "open_build_job k c =
     (let (i, t) = open_channel TERMINAL_OUTPUT_BUFFER k (c_build_jobs c) in (i, c\<lparr>c_build_jobs := t\<rparr>))"

definition close_build_job :: "string \<Rightarrow> 'f connection \<Rightarrow> 'f connection" where
  "close_build_job k c = c\<lparr>c_build_jobs := close_channel k (c_build_jobs c)\<rparr>"

definition deliver_build_event :: "build_event option \<Rightarrow> 'f connection \<Rightarrow> 'f connection" where
  "deliver_build_event evt c = (case evt of
     None \<Rightarrow> c
   | Some e \<Rightarrow> c\<lparr>c_build_jobs := deliver_channel (be_build_id e) e (c_build_jobs c)\<rparr>)"

definition await_build_result :: "string \<Rightarrow> 'f connection \<Rightarrow> nat \<times> 'f connection" where
  "await_build_result k c =
     (let (i, t) = await_reply k (c_build_results c) in (i, c\<lparr>c_build_results := t\<rparr>))"

definition cancel_build_result :: "string \<Rightarrow> 'f connection \<Rightarrow> 'f connection" where
  "cancel_build_result k c = c\<lparr>c_build_results := cancel_reply k (c_build_results c)\<rparr>"

definition deliver_build_result ::
  "string \<Rightarrow> build_result option \<Rightarrow> 'f connection \<Rightarrow> 'f connection" where
  "deliver_build_result stamp res c = (case res of
     None \<Rightarrow> c
   | Some r \<Rightarrow>
       let c1 = c\<lparr>c_build_results := deliver_reply (br_build_id r) r (c_build_results c)\<rparr>
       in case dget (c_build_snapshots c1) (br_build_id r) of
            None \<Rightarrow> c1
          | Some s \<Rightarrow> c1\<lparr>c_build_snapshots :=
              dset (br_build_id r) (build_snapshot_result stamp r s) (c_build_snapshots c1)\<rparr>)"

definition init_build_snapshot ::
  "string \<Rightarrow> string \<Rightarrow> string \<Rightarrow> string \<Rightarrow> 'f connection \<Rightarrow> 'f connection" where
  "init_build_snapshot stamp build_id recipe_kind node_id c = c\<lparr>c_build_snapshots :=
     dset build_id (new_build_snapshot stamp build_id recipe_kind node_id) (c_build_snapshots c)\<rparr>"

definition update_build_snapshot_event ::
  "string \<Rightarrow> build_event \<Rightarrow> 'f connection \<Rightarrow> 'f connection" where
  "update_build_snapshot_event stamp e c = (case dget (c_build_snapshots c) (be_build_id e) of
     None \<Rightarrow> c
   | Some s \<Rightarrow> c\<lparr>c_build_snapshots :=
       dset (be_build_id e) (build_snapshot_event stamp e s) (c_build_snapshots c)\<rparr>)"

definition get_build_snapshot :: "string \<Rightarrow> 'f connection \<Rightarrow> build_snapshot option" where
  "get_build_snapshot k c = dget (c_build_snapshots c) k"

definition clear_build_snapshot :: "string \<Rightarrow> 'f connection \<Rightarrow> 'f connection" where
  "clear_build_snapshot k c = c\<lparr>c_build_snapshots := dpop k (c_build_snapshots c)\<rparr>"

subsection \<open>Host-tool installs\<close>

definition open_host_tool_job :: "string \<Rightarrow> 'f connection \<Rightarrow> nat \<times> 'f connection" where
  "open_host_tool_job k c =
     (let (i, t) = open_channel TERMINAL_OUTPUT_BUFFER k (c_host_tool_jobs c) in (i, c\<lparr>c_host_tool_jobs := t\<rparr>))"

definition close_host_tool_job :: "string \<Rightarrow> 'f connection \<Rightarrow> 'f connection" where
  "close_host_tool_job k c = c\<lparr>c_host_tool_jobs := close_channel k (c_host_tool_jobs c)\<rparr>"

definition deliver_host_tool_event :: "host_tool_event option \<Rightarrow> 'f connection \<Rightarrow> 'f connection" where
  "deliver_host_tool_event evt c = (case evt of
     None \<Rightarrow> c
   | Some e \<Rightarrow> c\<lparr>c_host_tool_jobs := deliver_channel (he_job_id e) e (c_host_tool_jobs c)\<rparr>)"

definition await_host_tool_result :: "string \<Rightarrow> 'f connection \<Rightarrow> nat \<times> 'f connection" where
  "await_host_tool_result k c =
     (let (i, t) = await_reply k (c_host_tool_results c) in (i, c\<lparr>c_host_tool_results := t\<rparr>))"

definition cancel_host_tool_result :: "string \<Rightarrow> 'f connection \<Rightarrow> 'f connection" where
  "cancel_host_tool_result k c = c\<lparr>c_host_tool_results := cancel_reply k (c_host_tool_results c)\<rparr>"

definition deliver_host_tool_result ::
  "string \<Rightarrow> host_tool_result option \<Rightarrow> 'f connection \<Rightarrow> 'f connection" where
  "deliver_host_tool_result stamp res c = (case res of
     None \<Rightarrow> c
   | Some r \<Rightarrow>
       let c1 = c\<lparr>c_host_tool_results := deliver_reply (hr_job_id r) r (c_host_tool_results c)\<rparr>
       in case dget (c_host_tool_snapshots c1) (hr_job_id r) of
            None \<Rightarrow> c1
          | Some s \<Rightarrow> c1\<lparr>c_host_tool_snapshots :=
              dset (hr_job_id r) (host_tool_snapshot_result stamp r s) (c_host_tool_snapshots c1)\<rparr>)"

definition init_host_tool_snapshot ::
  "string \<Rightarrow> string \<Rightarrow> string \<Rightarrow> string \<Rightarrow> string \<Rightarrow> 'f connection \<Rightarrow> 'f connection" where
  "init_host_tool_snapshot stamp job_id tool node_id target_version c = c\<lparr>c_host_tool_snapshots :=
     dset job_id (new_host_tool_snapshot stamp job_id tool node_id target_version) (c_host_tool_snapshots c)\<rparr>"

definition update_host_tool_snapshot_event ::
  "string \<Rightarrow> host_tool_event \<Rightarrow> 'f connection \<Rightarrow> 'f connection" where
  "update_host_tool_snapshot_event stamp e c = (case dget (c_host_tool_snapshots c) (he_job_id e) of
     None \<Rightarrow> c
   | Some s \<Rightarrow> c\<lparr>c_host_tool_snapshots :=
       dset (he_job_id e) (host_tool_snapshot_event stamp e s) (c_host_tool_snapshots c)\<rparr>)"

definition get_host_tool_snapshot :: "string \<Rightarrow> 'f connection \<Rightarrow> host_tool_snapshot option" where
  "get_host_tool_snapshot k c = dget (c_host_tool_snapshots c) k"

subsection \<open>Teardown\<close>

definition close :: "'f connection \<Rightarrow> 'f connection" where
  "close c =
     (if c_closed c then c
      else let gone = ''node '' @ c_node_id c @ '' disconnected'' in
        c\<lparr>c_closed := True,
          c_downstream := put_or_drop None (c_downstream c),
          c_acks := fail_replies gone (c_acks c),
          c_host_execs := fail_replies gone (c_host_execs c),
          c_terminal_lists := fail_replies gone (c_terminal_lists c),
          c_file_uploads := fail_replies gone (c_file_uploads c),
          c_tunnels := wake_channels (c_tunnels c),
          c_terminals := wake_channels (c_terminals c),
          c_tool_runs := wake_channels (c_tool_runs c),
          c_ios_job_results := fail_replies gone (c_ios_job_results c),
          c_ios_jobs := wake_channels (c_ios_jobs c),
          c_build_results := fail_replies gone (c_build_results c),
          c_build_jobs := wake_channels (c_build_jobs c),
          c_host_tool_results := fail_replies gone (c_host_tool_results c),
          c_host_tool_jobs := wake_channels (c_host_tool_jobs c)\<rparr>)"

definition live :: "'f connection \<Rightarrow> bool" where
  "live c = (\<not> c_closed c)"

subsection \<open>Every table of a connection keeps its contract\<close>

interpretation ack: reply_interface
  c_acks await_ack cancel_ack "\<lambda>r. deliver_ack (Some r)" ack_server_frame_id close live
  by unfold_locales
    (auto simp: await_ack_def cancel_ack_def deliver_ack_def close_def live_def
       await_reply_def tab_open_def Let_def split: option.splits)

interpretation host_exec: reply_interface
  c_host_execs await_host_exec cancel_host_exec "\<lambda>r. deliver_host_exec (Some r)" hx_request_id close live
  by unfold_locales
    (auto simp: await_host_exec_def cancel_host_exec_def deliver_host_exec_def close_def live_def
       await_reply_def tab_open_def Let_def split: option.splits)

interpretation file_upload: reply_interface
  c_file_uploads await_file_upload cancel_file_upload "\<lambda>r. deliver_file_upload (Some r)" fu_upload_id close live
  by unfold_locales
    (auto simp: await_file_upload_def cancel_file_upload_def deliver_file_upload_def close_def live_def
       await_reply_def tab_open_def Let_def split: option.splits)

interpretation terminal_list: reply_interface
  c_terminal_lists await_terminal_list cancel_terminal_list "\<lambda>r. deliver_terminal_list (Some r)" tl_request_id close live
  by unfold_locales
    (auto simp: await_terminal_list_def cancel_terminal_list_def deliver_terminal_list_def close_def live_def
       await_reply_def tab_open_def Let_def split: option.splits)

interpretation ios_result: reply_interface
  c_ios_job_results await_ios_job_result cancel_ios_job_result "\<lambda>r. deliver_ios_job_result stamp (Some r)" ir_job_id close live
  for stamp :: string
  by unfold_locales
    (auto simp: await_ios_job_result_def cancel_ios_job_result_def deliver_ios_job_result_def close_def live_def
       await_reply_def tab_open_def Let_def split: option.splits)

interpretation build_reply: reply_interface
  c_build_results await_build_result cancel_build_result "\<lambda>r. deliver_build_result stamp (Some r)" br_build_id close live
  for stamp :: string
  by unfold_locales
    (auto simp: await_build_result_def cancel_build_result_def deliver_build_result_def close_def live_def
       await_reply_def tab_open_def Let_def split: option.splits)

interpretation host_tool_reply: reply_interface
  c_host_tool_results await_host_tool_result cancel_host_tool_result "\<lambda>r. deliver_host_tool_result stamp (Some r)" hr_job_id close live
  for stamp :: string
  by unfold_locales
    (auto simp: await_host_tool_result_def cancel_host_tool_result_def deliver_host_tool_result_def close_def live_def
       await_reply_def tab_open_def Let_def split: option.splits)

interpretation tunnel: channel_interface
  c_tunnels open_tunnel close_tunnel "\<lambda>r. deliver_tunnel_response (Some r)" tr_tunnel_id close live TUNNEL_RESPONSE_BUFFER
  by unfold_locales
    (auto simp: open_tunnel_def close_tunnel_def deliver_tunnel_response_def close_def live_def
       open_channel_def tab_open_def Let_def)

interpretation terminal: channel_interface
  c_terminals open_terminal close_terminal "\<lambda>f. deliver_terminal_frame (terminal_frame_id f) f" terminal_frame_id close live TERMINAL_OUTPUT_BUFFER
  by unfold_locales
    (auto simp: open_terminal_def close_terminal_def deliver_terminal_frame_def close_def live_def
       open_channel_def tab_open_def Let_def)

interpretation tool_run: channel_interface
  c_tool_runs open_tool_run close_tool_run "\<lambda>e. deliver_tool_run_event (Some e)" te_run_id close live TERMINAL_OUTPUT_BUFFER
  by unfold_locales
    (auto simp: open_tool_run_def close_tool_run_def deliver_tool_run_event_def close_def live_def
       open_channel_def tab_open_def Let_def)

interpretation ios_events: channel_interface
  c_ios_jobs open_ios_job close_ios_job "\<lambda>e. deliver_ios_job_event (Some e)" ie_job_id close live TERMINAL_OUTPUT_BUFFER
  by unfold_locales
    (auto simp: open_ios_job_def close_ios_job_def deliver_ios_job_event_def close_def live_def
       open_channel_def tab_open_def Let_def)

interpretation build_events: channel_interface
  c_build_jobs open_build_job close_build_job "\<lambda>e. deliver_build_event (Some e)" be_build_id close live TERMINAL_OUTPUT_BUFFER
  by unfold_locales
    (auto simp: open_build_job_def close_build_job_def deliver_build_event_def close_def live_def
       open_channel_def tab_open_def Let_def)

interpretation host_tool_events: channel_interface
  c_host_tool_jobs open_host_tool_job close_host_tool_job "\<lambda>e. deliver_host_tool_event (Some e)" he_job_id close live TERMINAL_OUTPUT_BUFFER
  by unfold_locales
    (auto simp: open_host_tool_job_def close_host_tool_job_def deliver_host_tool_event_def close_def live_def
       open_channel_def tab_open_def Let_def)

end
