(* ===== verification/Connection_Safety.thy ===== *)
theory Connection_Safety
  imports Connection
begin

text \<open>
  What holds of a connection whatever its users do: the operations as one step relation, the
  invariant they keep (every table well formed, every buffer within its bound), and the facts on
  single operations the other components use.
\<close>

subsection \<open>The operations as steps\<close>

inductive conn_step :: "'f connection \<Rightarrow> 'f connection \<Rightarrow> bool" where
  cs_get: "downstream_get c = Some (f, c') \<Longrightarrow> conn_step c c'"
| cs_send: "send frame c = Inr c' \<Longrightarrow> conn_step c c'"
| cs_heartbeat: "conn_step c (note_heartbeat now ids c)"
| cs_terminal_ids: "conn_step c (note_active_terminal_ids ids c)"
| cs_tool_runs: "conn_step c (note_active_tool_runs runs c)"
| cs_error: "conn_step c (note_error code message c)"
| cs_bind: "q_bounded (sink_inbox s) \<Longrightarrow> conn_step c (snd (bind_sink k s c))"
| cs_unbind: "conn_step c (unbind_sink k c)"
| cs_output: "conn_step c (deliver_output out c)"
| cs_result: "conn_step c (deliver_result res c)"
| cs_structured: "conn_step c (deliver_structured evt c)"
| cs_forget_stderr: "conn_step c (forget_stderr k c)"
| cs_await_ack: "conn_step c (snd (await_ack k c))"
| cs_cancel_ack: "conn_step c (cancel_ack k c)"
| cs_deliver_ack: "conn_step c (deliver_ack r c)"
| cs_await_host_exec: "conn_step c (snd (await_host_exec k c))"
| cs_cancel_host_exec: "conn_step c (cancel_host_exec k c)"
| cs_deliver_host_exec: "conn_step c (deliver_host_exec r c)"
| cs_await_file_upload: "conn_step c (snd (await_file_upload k c))"
| cs_cancel_file_upload: "conn_step c (cancel_file_upload k c)"
| cs_deliver_file_upload: "conn_step c (deliver_file_upload r c)"
| cs_await_terminal_list: "conn_step c (snd (await_terminal_list k c))"
| cs_cancel_terminal_list: "conn_step c (cancel_terminal_list k c)"
| cs_deliver_terminal_list: "conn_step c (deliver_terminal_list r c)"
| cs_await_ios_job_result: "conn_step c (snd (await_ios_job_result k c))"
| cs_cancel_ios_job_result: "conn_step c (cancel_ios_job_result k c)"
| cs_deliver_ios_job_result: "conn_step c (deliver_ios_job_result stamp r c)"
| cs_await_build_result: "conn_step c (snd (await_build_result k c))"
| cs_cancel_build_result: "conn_step c (cancel_build_result k c)"
| cs_deliver_build_result: "conn_step c (deliver_build_result stamp r c)"
| cs_await_host_tool_result: "conn_step c (snd (await_host_tool_result k c))"
| cs_cancel_host_tool_result: "conn_step c (cancel_host_tool_result k c)"
| cs_deliver_host_tool_result: "conn_step c (deliver_host_tool_result stamp r c)"
| cs_open_tunnel: "conn_step c (snd (open_tunnel k c))"
| cs_close_tunnel: "conn_step c (close_tunnel k c)"
| cs_frame_tunnel: "conn_step c (deliver_tunnel_response e c)"
| cs_open_terminal: "conn_step c (snd (open_terminal k c))"
| cs_close_terminal: "conn_step c (close_terminal k c)"
| cs_frame_terminal: "conn_step c (deliver_terminal_frame k fr c)"
| cs_open_tool_run: "conn_step c (snd (open_tool_run k c))"
| cs_close_tool_run: "conn_step c (close_tool_run k c)"
| cs_frame_tool_run: "conn_step c (deliver_tool_run_event e c)"
| cs_open_ios_job: "conn_step c (snd (open_ios_job k c))"
| cs_close_ios_job: "conn_step c (close_ios_job k c)"
| cs_frame_ios_job: "conn_step c (deliver_ios_job_event e c)"
| cs_open_build_job: "conn_step c (snd (open_build_job k c))"
| cs_close_build_job: "conn_step c (close_build_job k c)"
| cs_frame_build_job: "conn_step c (deliver_build_event e c)"
| cs_open_host_tool_job: "conn_step c (snd (open_host_tool_job k c))"
| cs_close_host_tool_job: "conn_step c (close_host_tool_job k c)"
| cs_frame_host_tool_job: "conn_step c (deliver_host_tool_event e c)"
| cs_inventory: "conn_step c (note_ios_inventory report c)"
| cs_ios_init: "conn_step c (init_ios_job_snapshot stamp k d u a c)"
| cs_ios_event: "conn_step c (fst (update_ios_job_snapshot_event stamp ie c))"
| cs_ios_clear: "conn_step c (clear_ios_job_snapshot k c)"
| cs_build_init: "conn_step c (init_build_snapshot stamp k d u c)"
| cs_build_event: "conn_step c (update_build_snapshot_event stamp be c)"
| cs_build_clear: "conn_step c (clear_build_snapshot k c)"
| cs_host_tool_init: "conn_step c (init_host_tool_snapshot stamp k d u a c)"
| cs_host_tool_event: "conn_step c (update_host_tool_snapshot_event stamp he c)"
| cs_close: "conn_step c (close c)"

subsection \<open>Bounds\<close>

definition bounded_channels :: "'a channel_table \<Rightarrow> bool" where
  "bounded_channels t = list_all q_bounded (objs t)"

definition tables_ok :: "'f connection \<Rightarrow> bool" where
  "tables_ok c \<longleftrightarrow> table_ok (c_sinks c) \<and> table_ok (c_acks c) \<and> table_ok (c_host_execs c) \<and> table_ok (c_file_uploads c) \<and> table_ok (c_tunnels c) \<and> table_ok (c_terminals c) \<and> table_ok (c_terminal_lists c) \<and> table_ok (c_tool_runs c) \<and> table_ok (c_ios_jobs c) \<and> table_ok (c_ios_job_results c) \<and> table_ok (c_build_jobs c) \<and> table_ok (c_build_results c) \<and> table_ok (c_host_tool_jobs c) \<and> table_ok (c_host_tool_results c)"

definition buffers_ok :: "'f connection \<Rightarrow> bool" where
  "buffers_ok c \<longleftrightarrow> q_max (c_downstream c) = DOWNSTREAM_BUFFER \<and> q_bounded (c_downstream c)
     \<and> bounded_channels (c_tunnels c) \<and> bounded_channels (c_terminals c) \<and> bounded_channels (c_tool_runs c) \<and> bounded_channels (c_ios_jobs c) \<and> bounded_channels (c_build_jobs c) \<and> bounded_channels (c_host_tool_jobs c)
     \<and> list_all (\<lambda>s. q_bounded (sink_inbox s)) (objs (c_sinks c))"

definition tails_ok :: "'f connection \<Rightarrow> bool" where
  "tails_ok c \<longleftrightarrow>
     list_all (\<lambda>p. fst p \<noteq> [] \<and> snd p \<noteq> [] \<and> length (snd p) \<le> STDERR_TAIL_BYTES) (c_stderr_tails c)
     \<and> list_all (\<lambda>p. length (is_events (snd p)) \<le> MAX_JOB_EVENTS) (c_ios_job_snapshots c)
     \<and> list_all (\<lambda>p. length (bs_events (snd p)) \<le> MAX_JOB_EVENTS) (c_build_snapshots c)
     \<and> list_all (\<lambda>p. length (hs_events (snd p)) \<le> MAX_JOB_EVENTS) (c_host_tool_snapshots c)"

definition connection_ok :: "'f connection \<Rightarrow> bool" where
  "connection_ok c \<longleftrightarrow> tables_ok c \<and> buffers_ok c \<and> tails_ok c"

subsection \<open>Preservation\<close>

lemma send_Inr: "send frame c = Inr c' \<longleftrightarrow>
  \<not> c_closed c \<and> (\<exists>q. put_nowait (Some frame) (c_downstream c) = Some q \<and> c' = c\<lparr>c_downstream := q\<rparr>)"
  by (auto simp: send_def split: option.splits)

lemma downstream_get_Some: "downstream_get c = Some (f, c') \<longleftrightarrow>
  (\<exists>q. get_nowait (c_downstream c) = Some (f, q) \<and> c' = c\<lparr>c_downstream := q\<rparr>)"
  by (auto simp: downstream_get_def split: option.splits)

lemmas conn_defs =
  note_heartbeat_def note_active_terminal_ids_def note_active_tool_runs_def note_error_def bind_sink_def unbind_sink_def deliver_output_def deliver_result_def deliver_structured_def sink_event_def note_stderr_def forget_stderr_def
  await_ack_def cancel_ack_def deliver_ack_def await_host_exec_def cancel_host_exec_def deliver_host_exec_def await_file_upload_def cancel_file_upload_def deliver_file_upload_def await_terminal_list_def cancel_terminal_list_def deliver_terminal_list_def
  await_ios_job_result_def cancel_ios_job_result_def deliver_ios_job_result_def await_build_result_def cancel_build_result_def deliver_build_result_def await_host_tool_result_def cancel_host_tool_result_def deliver_host_tool_result_def
  open_tunnel_def close_tunnel_def deliver_tunnel_response_def open_terminal_def close_terminal_def deliver_terminal_frame_def open_tool_run_def close_tool_run_def deliver_tool_run_event_def open_ios_job_def close_ios_job_def deliver_ios_job_event_def open_build_job_def close_build_job_def deliver_build_event_def open_host_tool_job_def close_host_tool_job_def deliver_host_tool_event_def
  note_ios_inventory_def init_ios_job_snapshot_def update_ios_job_snapshot_event_def clear_ios_job_snapshot_def init_build_snapshot_def update_build_snapshot_event_def clear_build_snapshot_def init_host_tool_snapshot_def update_host_tool_snapshot_event_def close_def

lemmas table_rules = table_ok_open table_ok_pop table_ok_update reply_table_ok channel_table_ok

lemma tables_ok_new: "tables_ok (new_connection now n caps peer)"
  by (simp add: tables_ok_def new_connection_def)

lemma tables_ok_step: "conn_step c c' \<Longrightarrow> tables_ok c \<Longrightarrow> tables_ok c'"
  by (erule conn_step.cases;
      clarsimp simp: tables_ok_def send_Inr downstream_get_Some conn_defs Let_def split_beta table_rules
        split: option.splits if_splits)

lemma objs_drain:
  "table_ok t \<Longrightarrow> list_all P (objs t) \<Longrightarrow> (\<And>x. P x \<Longrightarrow> P (f x)) \<Longrightarrow> list_all P (objs (tab_drain f t))"
  by (simp add: list_all_length tab_drain_objs)

lemma objs_update:
  "list_all P (objs t) \<Longrightarrow> (\<And>x. P x \<Longrightarrow> P (f x)) \<Longrightarrow> list_all P (objs (tab_update i f t))"
  by (cases "i < length (objs t)")
    (auto simp: tab_update_def list_all_length nth_list_update list_update_beyond)

lemma bounded_channels_ops:
  "bounded_channels t \<Longrightarrow> bounded_channels (snd (open_channel n k t))"
  "bounded_channels t \<Longrightarrow> bounded_channels (close_channel k t)"
  "bounded_channels t \<Longrightarrow> bounded_channels (deliver_channel k x t)"
  "table_ok t \<Longrightarrow> bounded_channels t \<Longrightarrow> bounded_channels (wake_channels t)"
  by (auto simp: bounded_channels_def open_channel_def tab_open_def close_channel_def
      deliver_channel_def wake_channels_def split: option.splits intro: objs_update objs_drain)

lemma put_nowait_ok:
  "put_nowait x q = Some q' \<Longrightarrow> q_max q' = q_max q \<and> (q_bounded q \<longrightarrow> q_bounded q')"
  by (auto simp: put_nowait_def q_bounded_def q_full_def split: if_splits)

lemma get_nowait_ok:
  "get_nowait q = Some (x, q') \<Longrightarrow> q_max q' = q_max q \<and> (q_bounded q \<longrightarrow> q_bounded q')"
  by (auto simp: get_nowait_def q_bounded_def split: list.splits)

lemma sinks_ops:
  "list_all P (objs t) \<Longrightarrow> P h \<Longrightarrow> list_all P (objs (snd (tab_open h k t)))"
  "list_all (\<lambda>s. q_bounded (sink_inbox s)) (objs t) \<Longrightarrow>
   list_all (\<lambda>s. q_bounded (sink_inbox s)) (objs (tab_update i
     (\<lambda>s. if has s then s\<lparr>sink_inbox := put_or_drop e (sink_inbox s)\<rparr> else s) t))"
  by (auto simp: tab_open_def intro!: objs_update)

lemma buffers_ok_new: "buffers_ok (new_connection now n caps peer)"
  by (simp add: buffers_ok_def new_connection_def bounded_channels_def empty_table_def)

lemma buffers_ok_step: "conn_step c c' \<Longrightarrow> tables_ok c \<Longrightarrow> buffers_ok c \<Longrightarrow> buffers_ok c'"
  by (erule conn_step.cases;
      clarsimp simp: buffers_ok_def tables_ok_def send_Inr downstream_get_Some conn_defs Let_def split_beta bounded_channels_ops
        sinks_ops put_or_drop_bounded split: option.splits if_splits;
      (auto dest: put_nowait_ok get_nowait_ok)?)

lemma length_je_append:
  "length (is_events s) \<le> MAX_JOB_EVENTS \<Longrightarrow>
     length (is_events (fst (ios_snapshot_event stamp e s))) \<le> MAX_JOB_EVENTS"
  "length (is_events (ios_snapshot_result stamp ir s)) = length (is_events s)"
  "length (is_events (new_ios_snapshot stamp a1 a2 a3 a4)) = 0"
  "length (bs_events s2) \<le> MAX_JOB_EVENTS \<Longrightarrow>
     length (bs_events (build_snapshot_event stamp e2 s2)) \<le> MAX_JOB_EVENTS"
  "length (bs_events (build_snapshot_result stamp br s2)) = length (bs_events s2)"
  "length (bs_events (new_build_snapshot stamp a1 a2 a3)) = 0"
  "length (hs_events s3) \<le> MAX_JOB_EVENTS \<Longrightarrow>
     length (hs_events (host_tool_snapshot_event stamp e3 s3)) \<le> MAX_JOB_EVENTS"
  "length (hs_events (host_tool_snapshot_result stamp hr s3)) = length (hs_events s3)"
  "length (hs_events (new_host_tool_snapshot stamp a1 a2 a3 a4)) = 0"
  by (simp_all add: ios_snapshot_event_raises ios_snapshot_result_def new_ios_snapshot_def
      build_snapshot_event_def build_snapshot_result_def new_build_snapshot_def
      host_tool_snapshot_event_def host_tool_snapshot_result_def new_host_tool_snapshot_def Let_def)

lemma list_all_dset: "list_all P d \<Longrightarrow> P (k, v) \<Longrightarrow> list_all P (dset k v d)"
  using set_dset_subset [of k v d] by (auto simp: list_all_iff)

lemma list_all_dpop: "list_all P d \<Longrightarrow> list_all P (dpop k d)"
  by (auto simp: list_all_iff set_dpop)

lemma list_all_dget: "list_all P d \<Longrightarrow> dget d k = Some v \<Longrightarrow> P (k, v)"
  by (auto simp: list_all_iff dest: map_of_SomeD)

lemma tails_ok_new: "tails_ok (new_connection now n caps peer)"
  by (simp add: tails_ok_def new_connection_def)

lemma note_stderr_ok: "tails_ok c \<Longrightarrow> tails_ok (note_stderr k data c)"
  by (auto simp: tails_ok_def note_stderr_def Let_def STDERR_TAIL_BYTES_def intro!: list_all_dset)

lemma sink_event_tails: "tails_ok (sink_event has k e c) = tails_ok c"
  by (auto simp: tails_ok_def sink_event_def split: option.splits)

lemmas tails_rules = length_je_append list_all_dset list_all_dpop note_stderr_ok sink_event_tails

lemma update_ios_tails: "tails_ok c \<Longrightarrow> tails_ok (fst (update_ios_job_snapshot_event stamp e c))"
  by (auto simp: tails_ok_def update_ios_job_snapshot_event_def split_beta
      intro!: list_all_dset length_je_append dest: list_all_dget split: option.split)

lemma deliver_result_tails:
  "tails_ok c \<Longrightarrow> tails_ok (deliver_ios_job_result stamp r1 c)"
  "tails_ok c \<Longrightarrow> tails_ok (deliver_build_result stamp r2 c)"
  "tails_ok c \<Longrightarrow> tails_ok (deliver_host_tool_result stamp r3 c)"
  "tails_ok c \<Longrightarrow> tails_ok (update_build_snapshot_event stamp e2 c)"
  "tails_ok c \<Longrightarrow> tails_ok (update_host_tool_snapshot_event stamp e3 c)"
  by (auto simp: tails_ok_def deliver_ios_job_result_def deliver_build_result_def
      deliver_host_tool_result_def update_build_snapshot_event_def
      update_host_tool_snapshot_event_def length_je_append Let_def
      intro!: list_all_dset dest: list_all_dget split: option.split)

lemma output_tails: "tails_ok c \<Longrightarrow> tails_ok (deliver_output out c)"
  by (simp add: deliver_output_def sink_event_tails note_stderr_ok Let_def split: option.split)

lemma tails_ok_step: "conn_step c c' \<Longrightarrow> tails_ok c \<Longrightarrow> tails_ok c'"
  by (erule conn_step.cases;
      (simp add: update_ios_tails deliver_result_tails output_tails; fail)?;
      clarsimp simp: tails_ok_def send_Inr downstream_get_Some conn_defs Let_def split_beta
        tails_rules split: option.splits if_splits)

lemma connection_ok_new: "connection_ok (new_connection now n caps peer)"
  by (simp add: connection_ok_def tables_ok_new buffers_ok_new tails_ok_new)

lemma connection_ok_step: "conn_step c c' \<Longrightarrow> connection_ok c \<Longrightarrow> connection_ok c'"
  by (auto simp: connection_ok_def intro: tables_ok_step buffers_ok_step tails_ok_step)

lemma connection_ok_steps: "conn_step\<^sup>*\<^sup>* c c' \<Longrightarrow> connection_ok c \<Longrightarrow> connection_ok c'"
  by (induction rule: rtranclp_induct) (auto intro: connection_ok_step)

subsection \<open>Replies are final\<close>

text \<open>Futures are never dropped, and one that has been settled never changes again.\<close>

definition replies_final :: "'r reply_table \<Rightarrow> 'r reply_table \<Rightarrow> bool" where
  "replies_final t t' \<longleftrightarrow> length (objs t) \<le> length (objs t') \<and>
     (\<forall>i < length (objs t). objs t ! i \<noteq> Pending \<longrightarrow> objs t' ! i = objs t ! i)"

lemma replies_final_refl [simp]: "replies_final t t"
  by (simp add: replies_final_def)

lemma replies_final_trans: "replies_final t u \<Longrightarrow> replies_final u v \<Longrightarrow> replies_final t v"
  by (auto simp: replies_final_def)

lemma settle_final: "f \<noteq> Pending \<Longrightarrow> settle v f = f"
  by (cases f) auto

lemma replies_final_ops [simp]:
  "replies_final t (snd (await_reply k t))"
  "replies_final t (cancel_reply k t)"
  "replies_final t (deliver_reply k r t)"
  by (auto simp: replies_final_def await_reply_def tab_open_def nth_append cancel_reply_def
      deliver_reply_def tab_update_def settle_final split: option.splits)
    (metis nth_list_update_eq nth_list_update_neq settle_final)

lemma replies_final_fail [simp]: "table_ok t \<Longrightarrow> replies_final t (fail_replies e t)"
  by (simp add: replies_final_def fail_replies_def tab_drain_objs settle_final)

definition all_replies_final :: "'f connection \<Rightarrow> 'f connection \<Rightarrow> bool" where
  "all_replies_final c c' \<longleftrightarrow> replies_final (c_acks c) (c_acks c')
     \<and> replies_final (c_host_execs c) (c_host_execs c')
     \<and> replies_final (c_file_uploads c) (c_file_uploads c')
     \<and> replies_final (c_terminal_lists c) (c_terminal_lists c')
     \<and> replies_final (c_ios_job_results c) (c_ios_job_results c')
     \<and> replies_final (c_build_results c) (c_build_results c')
     \<and> replies_final (c_host_tool_results c) (c_host_tool_results c')"

lemma all_replies_final_step: "conn_step c c' \<Longrightarrow> tables_ok c \<Longrightarrow> all_replies_final c c'"
  by (erule conn_step.cases;
      clarsimp simp: all_replies_final_def tables_ok_def send_Inr downstream_get_Some conn_defs
        Let_def split_beta split: option.splits if_splits)

lemma all_replies_final_trans:
  "all_replies_final c d \<Longrightarrow> all_replies_final d e \<Longrightarrow> all_replies_final c e"
  by (auto simp: all_replies_final_def intro: replies_final_trans)

subsection \<open>Retained stderr\<close>

definition retained_stderr :: "string \<Rightarrow> 'f connection \<Rightarrow> bytes" where
  "retained_stderr k c = dget_or (c_stderr_tails c) k []"

definition stderr_of :: "string \<Rightarrow> session_output \<Rightarrow> bytes" where
  "stderr_of k o' = (if so_session_id o' = k \<and> so_stream o' = STDIO_STREAM_STDERR
     then so_data o' else [])"

lemma retained_sink_event [simp]: "retained_stderr k (sink_event has j e c) = retained_stderr k c"
  by (simp add: retained_stderr_def sink_event_def split: option.split)

lemma retained_note_stderr:
  "length (retained_stderr k c) \<le> STDERR_TAIL_BYTES \<Longrightarrow> k \<noteq> [] \<Longrightarrow>
   retained_stderr k (note_stderr j data c)
     = lastn STDERR_TAIL_BYTES (retained_stderr k c @ (if j = k then data else []))"
  by (auto simp: retained_stderr_def note_stderr_def Let_def dget_or_def lastn_def
      split: option.splits)

interpretation stderr_log: bounded_log
  "\<lambda>o'. deliver_output (Some o')" "retained_stderr (x # xs)" "stderr_of (x # xs)" STDERR_TAIL_BYTES
  for x xs
  by unfold_locales (auto simp: deliver_output_def Let_def retained_note_stderr stderr_of_def)

lemma conn_steps_none: "conn_step\<^sup>*\<^sup>* c c"
  by simp

lemma conn_steps_more: "conn_step\<^sup>*\<^sup>* c d \<Longrightarrow> conn_step d e \<Longrightarrow> conn_step\<^sup>*\<^sup>* c e"
  by (rule rtranclp.rtrancl_into_rtrancl)

subsection \<open>Properties\<close>


definition sample_ack :: "string \<Rightarrow> bool \<Rightarrow> command_ack" where
  "sample_ack k b = \<lparr>ack_server_frame_id = k, ack_ok = b, ack_error = [], ack_sessions = [],
     ack_applied_revision = 0, ack_effective_revision = 0, ack_restart_required = False,
     ack_editor_version = [], ack_node_version = [], ack_npm_version = [],
     ack_xcodebuild_version = [], ack_refreshed_capabilities = None,
     ack_environment_inventory = [], ack_system_env_inventory = []\<rparr>"

definition sample_connection :: "unit connection" where
  "sample_connection = new_connection 0 ''n1'' None ''10.0.0.1''"


text \<open>a command ack resolves the future registered under its frame id with that ack and
  leaves every other future, every other table and every other registration as they were; it
  consumes the id, so a second ack with the same id changes nothing at all.\<close>

theorem ack_resolves_only_its_waiter:
  assumes "dget (slots (c_acks c)) (ack_server_frame_id a) = Some i"
    and "objs (c_acks c) ! i = Pending"
    and "ack_server_frame_id b = ack_server_frame_id a"
  shows "deliver_ack (Some a) c = c\<lparr>c_acks :=
           \<lparr>slots = dpop (ack_server_frame_id a) (slots (c_acks c)),
            objs = (objs (c_acks c))[i := Resolved a]\<rparr>\<rparr>
         \<and> deliver_ack (Some b) (deliver_ack (Some a) c) = deliver_ack (Some a) c"
  using assms by (simp add: deliver_ack_def deliver_reply_def tab_update_def tab_pop_def)

definition two_waiters :: "unit connection" where
  "two_waiters = snd (await_ack ''f2'' (snd (await_ack ''f1'' sample_connection)))"

lemma two_waiters_acks: "c_acks two_waiters = \<lparr>slots = [(''f1'', 0), (''f2'', 1)], objs = [Pending, Pending]\<rparr>"
  by (simp add: two_waiters_def sample_connection_def new_connection_def await_ack_def
      await_reply_def tab_open_def empty_table_def)

lemma ack_resolves_only_its_waiter_witness:
  "objs (c_acks (deliver_ack (Some (sample_ack ''f2'' True)) two_waiters))
     = [Pending, Resolved (sample_ack ''f2'' True)]"
  using ack_resolves_only_its_waiter [of two_waiters "sample_ack ''f2'' True" 1 "sample_ack ''f2'' False"]
  by (simp add: two_waiters_acks sample_ack_def)

text \<open>replies are final. Whatever operations follow, a future of any of the seven reply tables
  that has been answered, failed or cancelled keeps that outcome for ever.\<close>

theorem settled_replies_are_final:
  assumes "conn_step\<^sup>*\<^sup>* c c'" "connection_ok c"
  shows "all_replies_final c c'"
  using assms
proof (induction rule: rtranclp_induct)
  case base
  then show ?case by (simp add: all_replies_final_def)
next
  case (step d e)
  then have "tables_ok d"
    using connection_ok_steps [of c d] by (simp add: connection_ok_def)
  with step show ?case
    by (blast intro: all_replies_final_trans all_replies_final_step)
qed

lemma settled_replies_are_final_witness:
  "all_replies_final (deliver_ack (Some (sample_ack ''f1'' False)) two_waiters)
     (close (deliver_ack (Some (sample_ack ''f1'' False)) two_waiters))"
proof (rule settled_replies_are_final)
  show "conn_step\<^sup>*\<^sup>* (deliver_ack (Some (sample_ack ''f1'' False)) two_waiters)
     (close (deliver_ack (Some (sample_ack ''f1'' False)) two_waiters))"
    by (rule conn_steps_more [OF conn_steps_none cs_close])
  show "connection_ok (deliver_ack (Some (sample_ack ''f1'' False)) two_waiters)"
    unfolding two_waiters_def sample_connection_def
    by (rule connection_ok_step [OF cs_deliver_ack connection_ok_step [OF cs_await_ack
          connection_ok_step [OF cs_await_ack connection_ok_new]]])
qed

definition all_waiters_settled :: "'r reply_table \<Rightarrow> 'r reply_table \<Rightarrow> bool" where
  "all_waiters_settled t t' \<longleftrightarrow> slots t' = [] \<and>
     (\<forall>(k, i) \<in> set (slots t). fut_done (objs t' ! i))"

definition all_consumers_woken :: "'a channel_table \<Rightarrow> 'a channel_table \<Rightarrow> bool" where
  "all_consumers_woken t t' \<longleftrightarrow> slots t' = [] \<and>
     (\<forall>(k, i) \<in> set (slots t). q_items (objs t' ! i) \<noteq> [] \<and>
        (\<not> q_full (objs t ! i) \<longrightarrow> last (q_items (objs t' ! i)) = None))"

lemma fail_replies_settles: "table_ok t \<Longrightarrow> all_waiters_settled t (fail_replies e t)"
  by (force simp: all_waiters_settled_def fail_replies_def tab_drain_objs settle_def)

lemma slots_wake [simp]: "slots (wake_channels t) = []"
  by (simp add: wake_channels_def)

lemma wake_channels_wakes: "table_ok t \<Longrightarrow> all_consumers_woken t (wake_channels t)"
proof -
  assume ok: "table_ok t"
  have "objs (wake_channels t) ! i = put_or_drop None (objs t ! i)" if "(k, i) \<in> set (slots t)" for k i
    using that ok by (force simp: wake_channels_def tab_drain_objs)
  then show ?thesis
    using put_or_drop_nonempty [of "None :: 'a option"]
    by (fastforce simp: all_consumers_woken_def slots_wake put_or_drop_items)
qed



text \<open>however a node interleaves the output of its sessions, what the connection retains for
  a session is exactly the last 16 KiB of that session's stderr, followers or not; stdout and the
  stderr of other sessions leave no trace in it.\<close>

theorem stderr_tail_is_last_bytes:
  assumes "connection_ok c" "k \<noteq> []"
  shows "retained_stderr k (fold (\<lambda>o'. deliver_output (Some o')) outs c)
     = lastn (16 * 1024) (retained_stderr k c @ concat (map (stderr_of k) outs))"
proof -
  obtain x xs where k: "k = x # xs" using assms(2) by (cases k) auto
  have "length (retained_stderr k c) \<le> STDERR_TAIL_BYTES"
    using assms(1) by (auto simp: connection_ok_def tails_ok_def retained_stderr_def dget_or_def
        dest: list_all_dget split: option.split)
  then show ?thesis
    using stderr_log.pushes_log [of x xs c outs] by (simp add: k STDERR_TAIL_BYTES_def)
qed

definition sample_output :: "string \<Rightarrow> stdio_stream \<Rightarrow> bytes \<Rightarrow> session_output" where
  "sample_output k st d = \<lparr>so_session_id = k, so_data = d, so_stream = st, so_offset = 0, so_created_at = []\<rparr>"

lemma stderr_tail_is_last_bytes_witness:
  "retained_stderr ''s1'' (fold (\<lambda>o'. deliver_output (Some o'))
     [sample_output ''s1'' STDIO_STREAM_STDERR [69, 58], sample_output ''s1'' STDIO_STREAM_STDOUT [1],
      sample_output ''s2'' STDIO_STREAM_STDERR [2], sample_output ''s1'' STDIO_STREAM_STDERR [33]]
     sample_connection) = [69, 58, 33]"
proof -
  have ok: "connection_ok sample_connection"
    unfolding sample_connection_def by (rule connection_ok_new)
  have "retained_stderr ''s1'' sample_connection = []"
    by (simp add: retained_stderr_def sample_connection_def new_connection_def dget_or_def)
  then show ?thesis
    by (subst stderr_tail_is_last_bytes [OF ok])
      (simp_all add: stderr_of_def sample_output_def)
qed

text \<open>the polling snapshot of a build holds, after any number of progress events, the last 20
  of them in order, with the stage, message, percentage and log tail of the newest; the terminal
  result turns the status into completed or failed exactly as the node reported, and both happen
  whether or not anybody awaits the build.\<close>

theorem build_snapshot_tracks_events:
  assumes "dget (c_build_snapshots c) b = Some s" "length (bs_events s) \<le> 20"
    and "\<forall>p \<in> set (es @ [e]). be_build_id (snd p) = b" "br_build_id r = b"
  shows "let c' = fold (\<lambda>p. update_build_snapshot_event (fst p) (snd p)) (es @ [e]) c;
             c'' = deliver_build_result stamp (Some r) c'
         in \<exists>s' s''. get_build_snapshot b c' = Some s'
            \<and> bs_events s' = lastn 20 (bs_events s @ map (\<lambda>p. \<lparr>je_seq = be_seq (snd p),
                 je_stage = be_stage (snd p), je_message = be_message (snd p),
                 je_timestamp = fst p\<rparr>) (es @ [e]))
            \<and> bs_stage s' = be_stage (snd e) \<and> bs_message s' = be_message (snd e)
            \<and> bs_percent s' = be_percent (snd e) \<and> bs_log_tail s' = be_log_tail (snd e)
            \<and> get_build_snapshot b c'' = Some s''
            \<and> bs_status s'' = (if br_ok r then ''completed'' else ''failed'')
            \<and> bs_completed_at s'' = stamp \<and> bs_events s'' = bs_events s'
            \<and> bs_error_code s'' = br_error_code r \<and> bs_log_tail s'' = bs_log_tail s'"
proof -
  let ?push = "\<lambda>p. build_snapshot_event (fst p) (snd p)"
  let ?upd = "\<lambda>p. update_build_snapshot_event (fst p) (snd p)"
  have fold_get: "\<forall>p \<in> set ps. be_build_id (snd p) = b \<Longrightarrow> dget (c_build_snapshots d) b = Some u \<Longrightarrow>
      dget (c_build_snapshots (fold ?upd ps d)) b = Some (fold ?push ps u)" for ps d u
    by (induction ps arbitrary: d u) (simp_all add: update_build_snapshot_event_def)
  have s': "dget (c_build_snapshots (fold ?upd (es @ [e]) c)) b = Some (fold ?push (es @ [e]) s)"
    by (rule fold_get) (use assms in auto)
  have ev: "bs_events (fold ?push (es @ [e]) s) = lastn 20 (bs_events s @ map (\<lambda>p. \<lparr>je_seq = be_seq (snd p),
                 je_stage = be_stage (snd p), je_message = be_message (snd p),
                 je_timestamp = fst p\<rparr>) (es @ [e]))"
    using build_log.pushes_log [of s "es @ [e]"] assms(2)
    by (simp add: MAX_JOB_EVENTS_def build_entry_def [abs_def] concat_map_singleton)
  have s'': "dget (c_build_snapshots (deliver_build_result stamp (Some r) (fold ?upd (es @ [e]) c))) b
      = Some (build_snapshot_result stamp r (fold ?push (es @ [e]) s))"
    using s' assms(4) by (simp add: deliver_build_result_def Let_def)
  show ?thesis
    unfolding Let_def get_build_snapshot_def s' s'' option.inject
    by (rule exI [of _ "fold ?push (es @ [e]) s"],
        rule exI [of _ "build_snapshot_result stamp r (fold ?push (es @ [e]) s)"],
        intro conjI, rule refl, rule ev)
      (simp_all add: build_snapshot_event_def build_snapshot_result_def Let_def)
qed

definition sample_build_event :: "int \<Rightarrow> string \<Rightarrow> build_event" where
  "sample_build_event n st = \<lparr>be_build_id = ''b1'', be_seq = n, be_stage = st, be_message = [],
     be_percent = n, be_reported_at = [], be_log_tail = []\<rparr>"

definition sample_build_result :: "bool \<Rightarrow> build_result" where
  "sample_build_result b = \<lparr>br_build_id = ''b1'', br_ok = b, br_error_code = ''step_failed'',
     br_error_message = [], br_retryable = False, br_stage_reached = ''sign'',
     br_artifact_sha256 = [], br_artifact_size_bytes = 0\<rparr>"

lemma build_snapshot_tracks_events_witness:
  "\<exists>s''. get_build_snapshot ''b1'' (deliver_build_result ''t9'' (Some (sample_build_result False))
      (update_build_snapshot_event ''t2'' (sample_build_event 2 ''sign'')
        (update_build_snapshot_event ''t1'' (sample_build_event 1 ''clone'')
          (init_build_snapshot ''t0'' ''b1'' ''ios'' ''n1'' sample_connection)))) = Some s''
     \<and> bs_status s'' = ''failed'' \<and> map je_seq (bs_events s'') = [1, 2]"
proof -
  let ?c = "init_build_snapshot ''t0'' ''b1'' ''ios'' ''n1'' sample_connection"
  have s: "dget (c_build_snapshots ?c) ''b1'' = Some (new_build_snapshot ''t0'' ''b1'' ''ios'' ''n1'')"
    by (simp add: init_build_snapshot_def)
  have len: "length (bs_events (new_build_snapshot ''t0'' ''b1'' ''ios'' ''n1'')) \<le> 20"
    and ids: "\<forall>p \<in> set ([(''t1'', sample_build_event 1 ''clone'')] @ [(''t2'', sample_build_event 2 ''sign'')]).
        be_build_id (snd p) = ''b1''" "br_build_id (sample_build_result False) = ''b1''"
    by (simp_all add: new_build_snapshot_def sample_build_event_def sample_build_result_def)
  show ?thesis
    using build_snapshot_tracks_events [OF s len ids, of "''t9''"]
    by (clarsimp simp: Let_def) (simp add: sample_build_event_def sample_build_result_def new_build_snapshot_def)
qed

text \<open>a progress event of an iOS job never completes its snapshot update: the update stops
  with an AttributeError at the missing retryable field, after the stage, the message and the
  percentage have been stored and before the event is appended or the time stamp moves.\<close>

theorem ios_event_update_raises:
  assumes "dget (c_ios_job_snapshots c) (ie_job_id e) = Some s"
  shows "snd (update_ios_job_snapshot_event stamp e c) = Some ''AttributeError''
     \<and> (\<exists>s'. get_ios_job_snapshot (ie_job_id e) (fst (update_ios_job_snapshot_event stamp e c)) = Some s'
         \<and> is_stage s' = Inr (ie_stage e) \<and> is_message s' = ie_message e
         \<and> is_percent s' = ie_percent e \<and> is_events s' = is_events s
         \<and> is_updated_at s' = is_updated_at s \<and> is_status s' = is_status s)"
  using assms ios_snapshot_event_raises [of stamp e s]
  by (simp add: update_ios_job_snapshot_event_def get_ios_job_snapshot_def split_beta)

definition sample_ios_event :: ios_job_event where
  "sample_ios_event = \<lparr>ie_job_id = ''j1'', ie_seq = 1, ie_stage = 3, ie_message = ''signing'',
     ie_percent = 40, ie_reported_at = [], ie_log_tail = []\<rparr>"

lemma ios_event_update_raises_witness:
  "snd (update_ios_job_snapshot_event ''t1'' sample_ios_event
     (init_ios_job_snapshot ''t0'' ''j1'' ''d1'' ''u1'' ''install'' sample_connection))
   = Some ''AttributeError''"
  using ios_event_update_raises [of "init_ios_job_snapshot ''t0'' ''j1'' ''d1'' ''u1'' ''install'' sample_connection"
      sample_ios_event]
  by (simp add: init_ios_job_snapshot_def sample_ios_event_def)

text \<open>a session has one follower slot. A second follower takes over the stream, and when the
  first one leaves it removes the slot without looking whose it is: the session's result then
  reaches neither of them.\<close>

theorem second_follower_loses_result:
  assumes "sr_session_id r = k"
  shows "let (i, c1) = bind_sink k first c; (j, c2) = bind_sink k second c1
         in objs (c_sinks (deliver_result (Some r) c2)) ! i = first
            \<and> (on_result second \<longrightarrow> objs (c_sinks (deliver_result (Some r) c2)) ! j
                 = second\<lparr>sink_inbox := put_or_drop (Ev_result r) (sink_inbox second)\<rparr>)
            \<and> objs (c_sinks (deliver_result (Some r) (unbind_sink k c2))) ! j = second
            \<and> objs (c_sinks (deliver_result (Some r) (unbind_sink k c2))) ! i = first"
  using assms
  by (simp add: bind_sink_def unbind_sink_def deliver_result_def sink_event_def tab_open_def
      tab_update_def tab_pop_def nth_append nth_list_update Let_def split_beta)

definition sample_result :: session_result where
  "sample_result = \<lparr>sr_session_id = ''s1'', sr_exit_code = 0, sr_success = True, sr_error = [],
     sr_result_json = []\<rparr>"

definition follow_sink :: output_sink where
  "follow_sink = \<lparr>on_output = True, on_result = True, on_structured = True, sink_inbox = new_queue 256\<rparr>"

lemma second_follower_loses_result_witness:
  "let (i, c1) = bind_sink ''s1'' follow_sink sample_connection; (j, c2) = bind_sink ''s1'' follow_sink c1
   in objs (c_sinks (deliver_result (Some sample_result) (unbind_sink ''s1'' c2))) ! j = follow_sink"
  using second_follower_loses_result [of sample_result "''s1''" follow_sink sample_connection follow_sink]
  by (simp add: sample_result_def split_beta Let_def)

end
