(* ===== verification/Registry.thy ===== *)
theory Registry
  imports Connection_Safety
begin

text \<open>
  \<open>Registry\<close> of registry.py: which node is connected right now, and through which connection.
  Connection objects live in a heap (an object's identity is its index), because a handler keeps
  its connection after a reconnect has replaced it and the code compares with \<open>is\<close>. The
  \<open>on_disconnect\<close> hook is a log of the node ids it fired for.
\<close>

subsection \<open>State\<close>

record 'f registry =
  r_heap :: "'f connection list"
  r_conns :: "(string, nat) dict"
  r_on_disconnect :: bool
  r_fired :: "string list"

definition new_registry :: "bool \<Rightarrow> 'f registry" where
  "new_registry hooked = \<lparr>r_heap = [], r_conns = [], r_on_disconnect = hooked, r_fired = []\<rparr>"

subsection \<open>Operations\<close>

definition fire_disconnect :: "string \<Rightarrow> 'f registry \<Rightarrow> 'f registry" where
  "fire_disconnect node_id r =
     (if r_on_disconnect r then r\<lparr>r_fired := r_fired r @ [node_id]\<rparr> else r)"

definition close_at :: "nat \<Rightarrow> 'f registry \<Rightarrow> 'f registry" where
  "close_at i r = r\<lparr>r_heap := (r_heap r)[i := close (r_heap r ! i)]\<rparr>"

definition register ::
  "microseconds \<Rightarrow> string \<Rightarrow> capabilities option \<Rightarrow> string \<Rightarrow> 'f registry \<Rightarrow> nat \<times> 'f registry" where
  "register now node_id caps peer r =
     (let i = length (r_heap r);
          r1 = r\<lparr>r_heap := r_heap r @ [new_connection now node_id caps peer]\<rparr>;
          r2 = (case dget (r_conns r1) node_id of None \<Rightarrow> r1 | Some j \<Rightarrow> close_at j r1)
      in (i, r2\<lparr>r_conns := dset node_id i (r_conns r2)\<rparr>))"

definition unregister :: "string \<Rightarrow> nat option \<Rightarrow> 'f registry \<Rightarrow> 'f registry" where
  "unregister node_id conn r = (case conn of
     None \<Rightarrow> r
   | Some i \<Rightarrow>
       close_at i
         (if dget (r_conns r) node_id = Some i
          then fire_disconnect node_id (r\<lparr>r_conns := dpop node_id (r_conns r)\<rparr>)
          else r))"

definition disconnect :: "string \<Rightarrow> 'f registry \<Rightarrow> 'f registry" where
  "disconnect node_id r = (case dget (r_conns r) node_id of
     None \<Rightarrow> r
   | Some i \<Rightarrow> fire_disconnect node_id (close_at i (r\<lparr>r_conns := dpop node_id (r_conns r)\<rparr>)))"

definition lookup :: "string \<Rightarrow> 'f registry \<Rightarrow> nat option" where
  "lookup node_id r = dget (r_conns r) node_id"

definition connected :: "string \<Rightarrow> 'f registry \<Rightarrow> bool" where
  "connected node_id r = (node_id \<in> set (dkeys (r_conns r)))"

definition registry_list :: "'f registry \<Rightarrow> string list" where
  "registry_list r = dkeys (r_conns r)"

definition last_seen :: "'f connection \<Rightarrow> microseconds" where
  "last_seen c = (case snapshot c of (connected_at, beat, _) \<Rightarrow>
     (case beat of None \<Rightarrow> connected_at | Some t \<Rightarrow> t))"

text \<open>The loop of \<open>reap_stale\<close> over a copy of the items; \<open>timeout\<close> is in microseconds.\<close>

fun reap_items ::
  "microseconds \<Rightarrow> microseconds \<Rightarrow> (string \<times> nat) list \<Rightarrow> 'f registry \<Rightarrow> string list \<times> 'f registry" where
  "reap_items now timeout [] r = ([], r)"
| "reap_items now timeout ((n, i) # items) r =
     (if timeout < now - last_seen (r_heap r ! i)
      then let (ns, r') = reap_items now timeout items
                 (fire_disconnect n (close_at i (r\<lparr>r_conns := dpop n (r_conns r)\<rparr>)))
           in (n # ns, r')
      else reap_items now timeout items r)"

definition reap_stale :: "microseconds \<Rightarrow> microseconds \<Rightarrow> 'f registry \<Rightarrow> string list \<times> 'f registry" where
  "reap_stale now timeout r = reap_items now timeout (r_conns r) r"

subsection \<open>Steps and invariant\<close>

text \<open>
  The handlers change connections through their methods; only the registry closes one, and a
  handler unregisters a connection under the id it was registered with.
\<close>

inductive registry_step :: "'f registry \<Rightarrow> 'f registry \<Rightarrow> bool" where
  rs_register: "registry_step r (snd (register now n caps peer r))"
| rs_unregister: "i < length (r_heap r) \<Longrightarrow> c_node_id (r_heap r ! i) = n \<Longrightarrow>
     registry_step r (unregister n (Some i) r)"
| rs_disconnect: "registry_step r (disconnect n r)"
| rs_reap: "registry_step r (snd (reap_stale now timeout r))"
| rs_use: "i < length (r_heap r) \<Longrightarrow> conn_step (r_heap r ! i) c \<Longrightarrow> c_closed c = c_closed (r_heap r ! i) \<Longrightarrow>
     registry_step r (r\<lparr>r_heap := (r_heap r)[i := c]\<rparr>)"

definition registry_ok :: "'f registry \<Rightarrow> bool" where
  "registry_ok r \<longleftrightarrow> distinct (dkeys (r_conns r))
     \<and> (\<forall>(n, i) \<in> set (r_conns r). i < length (r_heap r) \<and> c_node_id (r_heap r ! i) = n)
     \<and> (\<forall>i < length (r_heap r). connection_ok (r_heap r ! i)
          \<and> (\<not> c_closed (r_heap r ! i) \<longleftrightarrow> (c_node_id (r_heap r ! i), i) \<in> set (r_conns r)))"

lemma registry_ok_new [simp]: "registry_ok (new_registry h)"
  by (simp add: registry_ok_def new_registry_def)

lemma close_facts [simp]: "c_closed (close c)" "c_node_id (close c) = c_node_id c"
  by (simp_all add: close_def Let_def)

lemma connection_ok_close [intro]: "connection_ok c \<Longrightarrow> connection_ok (close c)"
  by (rule connection_ok_step [OF cs_close])

lemma new_connection_facts [simp]:
  "\<not> c_closed (new_connection now n caps peer)" "c_node_id (new_connection now n caps peer) = n"
  by (simp_all add: new_connection_def)

lemma fire_facts [simp]:
  "r_heap (fire_disconnect n r) = r_heap r" "r_conns (fire_disconnect n r) = r_conns r"
  by (simp_all add: fire_disconnect_def)

lemma close_at_facts [simp]:
  "length (r_heap (close_at i r)) = length (r_heap r)" "r_conns (close_at i r) = r_conns r"
  "r_fired (close_at i r) = r_fired r" "r_on_disconnect (close_at i r) = r_on_disconnect r"
  by (simp_all add: close_at_def)

lemma registry_ok_fire [simp]: "registry_ok (fire_disconnect n r) = registry_ok r"
  by (simp add: registry_ok_def)

text \<open>Dropping the registration of a node together with closing its connection.\<close>

definition drop_node :: "string \<Rightarrow> nat \<Rightarrow> 'f registry \<Rightarrow> 'f registry" where
  "drop_node n i r = close_at i (r\<lparr>r_conns := dpop n (r_conns r)\<rparr>)"

lemma registry_ok_dget: "registry_ok r \<Longrightarrow> (n, i) \<in> set (r_conns r) \<longleftrightarrow> dget (r_conns r) n = Some i"
  by (simp add: registry_ok_def map_of_eq_Some_iff)

lemma registry_ok_drop:
  assumes ok: "registry_ok r" and i: "i < length (r_heap r)" "c_node_id (r_heap r ! i) = n"
    and cur: "dget (r_conns r) n = Some i"
  shows "registry_ok (drop_node n i r)"
proof -
  have mem: "(n, i) \<in> set (r_conns r)"
    using cur by (rule map_of_SomeD)
  have "(c_node_id (r_heap r ! j), j) \<in> set (r_conns r) \<longleftrightarrow>
      j = i \<or> (c_node_id (r_heap r ! j) \<noteq> n \<and> (c_node_id (r_heap r ! j), j) \<in> set (r_conns r))"
    if "j < length (r_heap r)" for j
    using that i mem ok cur by (auto simp: registry_ok_dget)
  with assms show ?thesis
    by (auto simp: registry_ok_def drop_node_def close_at_def nth_list_update set_dpop
        intro: distinct_dpop)
qed

lemma registry_ok_close_stale:
  assumes "registry_ok r" "i < length (r_heap r)" "c_closed (r_heap r ! i)"
  shows "registry_ok (close_at i r)"
  using assms by (auto simp: registry_ok_def close_at_def nth_list_update close_def)

lemma registry_ok_entry:
  assumes "registry_ok r" "dget (r_conns r) n = Some i"
  shows "i < length (r_heap r)" "c_node_id (r_heap r ! i) = n" "\<not> c_closed (r_heap r ! i)"
    "connection_ok (r_heap r ! i)"
  using assms by (auto simp: registry_ok_def dest!: map_of_SomeD)

lemma registry_ok_open:
  "registry_ok r \<Longrightarrow> i < length (r_heap r) \<Longrightarrow>
   \<not> c_closed (r_heap r ! i) \<longleftrightarrow> dget (r_conns r) (c_node_id (r_heap r ! i)) = Some i"
  by (metis registry_ok_dget registry_ok_def)

lemma unregister_cases:
  "unregister n (Some i) r = (if dget (r_conns r) n = Some i
     then fire_disconnect n (drop_node n i r) else close_at i r)"
  by (simp add: unregister_def drop_node_def fire_disconnect_def close_at_def)

lemma disconnect_cases:
  "disconnect n r = (case dget (r_conns r) n of None \<Rightarrow> r | Some i \<Rightarrow> fire_disconnect n (drop_node n i r))"
  by (simp add: disconnect_def drop_node_def split: option.split)

lemma registry_ok_unregister:
  assumes "registry_ok r" "i < length (r_heap r)" "c_node_id (r_heap r ! i) = n"
  shows "registry_ok (unregister n (Some i) r)"
proof (cases "dget (r_conns r) n = Some i")
  case True
  with assms show ?thesis by (simp add: unregister_cases registry_ok_drop)
next
  case False
  with assms have "c_closed (r_heap r ! i)" using registry_ok_open by blast
  with assms False show ?thesis by (simp add: unregister_cases registry_ok_close_stale)
qed

lemma registry_ok_disconnect: "registry_ok r \<Longrightarrow> registry_ok (disconnect n r)"
  by (auto simp: disconnect_cases registry_ok_entry intro: registry_ok_drop split: option.split)

lemma registry_ok_add:
  assumes ok: "registry_ok r" and fresh: "dget (r_conns r) n = None"
    and c: "\<not> c_closed c" "c_node_id c = n" "connection_ok c"
    and r': "r_heap r' = r_heap r @ [c]" "distinct (dkeys (r_conns r'))"
      "set (r_conns r') = insert (n, length (r_heap r)) (set (r_conns r))"
  shows "registry_ok r'"
  unfolding registry_ok_def
proof (intro conjI r'(2))
  have lt: "m \<noteq> n" "i < length (r_heap r)" "c_node_id (r_heap r ! i) = m"
    if "(m, i) \<in> set (r_conns r)" for m i
    using that ok fresh by (auto simp: registry_ok_def map_of_eq_None_iff image_iff)
  show "\<forall>(m, i) \<in> set (r_conns r'). i < length (r_heap r') \<and> c_node_id (r_heap r' ! i) = m"
    using lt c by (auto simp: r' nth_append less_Suc_eq)
  show "\<forall>i < length (r_heap r'). connection_ok (r_heap r' ! i) \<and>
      (\<not> c_closed (r_heap r' ! i) \<longleftrightarrow> (c_node_id (r_heap r' ! i), i) \<in> set (r_conns r'))"
  proof (intro allI impI)
    fix i assume "i < length (r_heap r')"
    then consider "i < length (r_heap r)" | "i = length (r_heap r)" by (auto simp: r' less_Suc_eq)
    then show "connection_ok (r_heap r' ! i) \<and>
      (\<not> c_closed (r_heap r' ! i) \<longleftrightarrow> (c_node_id (r_heap r' ! i), i) \<in> set (r_conns r'))"
    proof cases
      case 1
      then show ?thesis using ok by (auto simp: r' nth_append registry_ok_def)
    next
      case 2
      then show ?thesis using c by (simp add: r' nth_append)
    qed
  qed
qed

text \<open>What registering does to the heap and the map, with or without a previous connection.\<close>

lemma register_heap:
  assumes "registry_ok r"
  shows "r_heap (snd (register now n caps peer r)) =
    (case dget (r_conns r) n of None \<Rightarrow> r_heap r | Some j \<Rightarrow> (r_heap r)[j := close (r_heap r ! j)])
      @ [new_connection now n caps peer]"
    and "r_conns (snd (register now n caps peer r)) = dset n (length (r_heap r)) (r_conns r)"
    and "fst (register now n caps peer r) = length (r_heap r)"
    and "r_fired (snd (register now n caps peer r)) = r_fired r"
    and "r_on_disconnect (snd (register now n caps peer r)) = r_on_disconnect r"
  using registry_ok_entry(1) [OF assms, of n]
  by (auto simp: register_def Let_def close_at_def nth_append list_update_append split: option.split)

lemma registry_ok_register:
  assumes ok: "registry_ok r"
  shows "registry_ok (snd (register now n caps peer r))"
proof -
  have dist: "distinct (dkeys (r_conns r))" using ok by (simp add: registry_ok_def)
  show ?thesis
  proof (cases "dget (r_conns r) n")
    case None
    then have "n \<notin> fst ` set (r_conns r)" by (simp add: map_of_eq_None_iff)
    with None dist show ?thesis
      by (intro registry_ok_add [OF ok None, of "new_connection now n caps peer"])
        (simp_all add: register_heap [OF ok] connection_ok_new dkeys_dset_fresh)
  next
    case (Some j)
    have ok': "registry_ok (drop_node n j r)"
      using registry_ok_drop [OF ok _ _ Some] registry_ok_entry [OF ok Some] by blast
    show ?thesis
      by (rule registry_ok_add [OF ok', of n "new_connection now n caps peer"])
        (use Some dist in \<open>auto simp: register_heap [OF ok] connection_ok_new drop_node_def
            close_at_def set_dset set_dpop intro: distinct_dset\<close>)
  qed
qed

lemma registry_ok_use:
  assumes "registry_ok r" "i < length (r_heap r)" "conn_step (r_heap r ! i) c"
    and "c_closed c = c_closed (r_heap r ! i)" "c_node_id c = c_node_id (r_heap r ! i)"
  shows "registry_ok (r\<lparr>r_heap := (r_heap r)[i := c]\<rparr>)"
  using assms by (auto simp: registry_ok_def nth_list_update intro: connection_ok_step)

lemma conn_step_node_id: "conn_step c c' \<Longrightarrow> c_node_id c' = c_node_id c"
  by (erule conn_step.cases;
      clarsimp simp: send_Inr downstream_get_Some conn_defs Let_def split_beta
        split: option.splits if_splits)

subsection \<open>Reaping\<close>

lemma reap_heap_length: "length (r_heap (snd (reap_items now timeout items r))) = length (r_heap r)"
  by (induction items arbitrary: r) (auto simp: Let_def split_beta)

lemma registry_ok_reap_items:
  "registry_ok r \<Longrightarrow> distinct (dkeys items) \<Longrightarrow> \<forall>(n, i) \<in> set items. dget (r_conns r) n = Some i \<Longrightarrow>
   registry_ok (snd (reap_items now timeout items r))"
proof (induction items arbitrary: r)
  case (Cons p items)
  obtain n i where p: "p = (n, i)" by (cases p)
  have cur: "dget (r_conns r) n = Some i" using Cons.prems p by simp
  have ok: "registry_ok (drop_node n i r)"
    using registry_ok_drop [OF Cons.prems(1) _ _ cur] registry_ok_entry [OF Cons.prems(1) cur] by blast
  have rest: "\<forall>(m, j) \<in> set items. dget (r_conns (drop_node n i r)) m = Some j"
    using Cons.prems p by (force simp: drop_node_def)
  show ?case
    using Cons.IH [of "fire_disconnect n (drop_node n i r)"] Cons.IH [of r] Cons.prems ok rest
    by (auto simp: p Let_def split_beta drop_node_def)
qed simp

lemma registry_ok_reap: "registry_ok r \<Longrightarrow> registry_ok (snd (reap_stale now timeout r))"
  unfolding reap_stale_def
  by (rule registry_ok_reap_items) (auto simp: registry_ok_def)

lemma registry_ok_step: "registry_step r r' \<Longrightarrow> registry_ok r \<Longrightarrow> registry_ok r'"
  by (induction rule: registry_step.induct)
    (auto intro: registry_ok_register registry_ok_unregister registry_ok_disconnect
       registry_ok_reap registry_ok_use conn_step_node_id)

lemma registry_ok_steps: "registry_step\<^sup>*\<^sup>* r r' \<Longrightarrow> registry_ok r \<Longrightarrow> registry_ok r'"
  by (induction rule: rtranclp_induct) (auto intro: registry_ok_step)

text \<open>The full effect of a sweep, over the items it walks.\<close>

definition silent :: "microseconds \<Rightarrow> microseconds \<Rightarrow> 'f registry \<Rightarrow> string \<times> nat \<Rightarrow> bool" where
  "silent now timeout r p = (timeout < now - last_seen (r_heap r ! snd p))"

lemma reap_items_effect:
  "registry_ok r \<Longrightarrow> distinct (dkeys items) \<Longrightarrow> \<forall>(n, i) \<in> set items. dget (r_conns r) n = Some i \<Longrightarrow>
   let (ns, r') = reap_items now timeout items r
   in ns = map fst (filter (silent now timeout r) items)
      \<and> r_conns r' = filter (\<lambda>p. fst p \<notin> set ns) (r_conns r)
      \<and> r_fired r' = (if r_on_disconnect r then r_fired r @ ns else r_fired r)
      \<and> (\<forall>j. j \<notin> snd ` set (filter (silent now timeout r) items) \<longrightarrow> r_heap r' ! j = r_heap r ! j)"
proof (induction items arbitrary: r)
  case (Cons p items)
  obtain n i where p: "p = (n, i)" by (cases p)
  have cur: "dget (r_conns r) n = Some i" using Cons.prems p by simp
  let ?r1 = "fire_disconnect n (drop_node n i r)"
  have ok: "registry_ok ?r1"
    using registry_ok_drop [OF Cons.prems(1) _ _ cur] registry_ok_entry [OF Cons.prems(1) cur] by simp
  have rest: "\<forall>(m, j) \<in> set items. dget (r_conns ?r1) m = Some j"
    using Cons.prems p by (force simp: drop_node_def)
  have other: "j \<noteq> i" if "(m, j) \<in> set items" for m j
  proof -
    have "dget (r_conns r) m = Some j" using that Cons.prems(3) by auto
    then have "c_node_id (r_heap r ! j) = m" by (rule registry_ok_entry(2) [OF Cons.prems(1)])
    moreover have "c_node_id (r_heap r ! i) = n" by (rule registry_ok_entry(2) [OF Cons.prems(1) cur])
    moreover have "m \<noteq> n" using that Cons.prems(2) p by force
    ultimately show ?thesis by auto
  qed
  have same: "silent now timeout ?r1 q = silent now timeout r q" if "q \<in> set items" for q
    using other [of "fst q" "snd q"] that by (simp add: silent_def drop_node_def close_at_def)
  have filt: "filter (silent now timeout ?r1) items = filter (silent now timeout r) items"
    using same by (auto intro: filter_cong)
  show ?case
  proof (cases "timeout < now - last_seen (r_heap r ! i)")
    case True
    obtain ns r' where rec: "reap_items now timeout items ?r1 = (ns, r')"
      by (cases "reap_items now timeout items ?r1")
    have IH: "ns = map fst (filter (silent now timeout r) items)"
      "r_conns r' = filter (\<lambda>p. fst p \<notin> set ns) (r_conns ?r1)"
      "r_fired r' = (if r_on_disconnect ?r1 then r_fired ?r1 @ ns else r_fired ?r1)"
      "\<And>j. j \<notin> snd ` set (filter (silent now timeout r) items) \<Longrightarrow> r_heap r' ! j = r_heap ?r1 ! j"
      using Cons.IH [OF ok _ rest] Cons.prems(2) by (auto simp: rec filt)
    have "reap_items now timeout (p # items) r = (n # ns, r')"
      using True rec by (simp add: p Let_def drop_node_def)
    moreover have "silent now timeout r (n, i)"
      using True by (simp add: silent_def)
    moreover have "r_conns r' = filter (\<lambda>p. fst p \<notin> set (n # ns)) (r_conns r)"
      by (auto simp: IH(2) drop_node_def AList.delete_eq case_prod_unfold intro!: filter_cong)
    moreover have "r_fired r' = (if r_on_disconnect r then r_fired r @ n # ns else r_fired r)"
      by (simp add: IH(3) drop_node_def fire_disconnect_def)
    moreover have "r_heap r' ! j = r_heap r ! j"
      if "j \<notin> snd ` set (filter (silent now timeout r) items)" "j \<noteq> i" for j
      using IH(4) [OF that(1)] that(2) by (simp add: drop_node_def close_at_def)
    ultimately show ?thesis
      by (simp add: p IH(1))
  next
    case False
    then show ?thesis
      using Cons.IH [OF Cons.prems(1)] Cons.prems
      by (auto simp: p Let_def split_beta silent_def [of _ _ _ "(n, i)"])
  qed
qed simp

subsection \<open>Properties\<close>

text \<open>C24: in every reachable registry the open connections are exactly the registered ones: a
  connection object is open if and only if looking up its node returns it, so a node has at most
  one open connection, a superseded or dropped stream is always closed, and every connection ever
  handed out is still well formed.\<close>

theorem open_iff_registered:
  assumes "registry_step\<^sup>*\<^sup>* (new_registry hooked) r" "i < length (r_heap r)"
  shows "(\<not> c_closed (r_heap r ! i) \<longleftrightarrow> lookup (c_node_id (r_heap r ! i)) r = Some i)
     \<and> connection_ok (r_heap r ! i)"
proof -
  have "registry_ok r" using registry_ok_steps [OF assms(1)] by simp
  then show ?thesis
    using registry_ok_open [OF _ assms(2)] assms(2) by (simp add: lookup_def registry_ok_def)
qed

lemma registry_steps_more:
  "registry_step\<^sup>*\<^sup>* r s \<Longrightarrow> registry_step s t \<Longrightarrow> registry_step\<^sup>*\<^sup>* r t"
  by (rule rtranclp.rtrancl_into_rtrancl)

definition reconnected :: "unit registry" where
  "reconnected = snd (register 7 ''n1'' None ''b'' (snd (register 0 ''n1'' None ''a'' (new_registry True))))"

lemma reconnected_value:
  "r_conns reconnected = [(''n1'', 1)]" "length (r_heap reconnected) = 2"
  "r_heap reconnected ! 0 = close (new_connection 0 ''n1'' None ''a'')"
  "r_heap reconnected ! Suc 0 = new_connection 7 ''n1'' None ''b''"
  by (simp_all add: reconnected_def register_def new_registry_def close_at_def Let_def)

lemma reconnected_reachable: "registry_step\<^sup>*\<^sup>* (new_registry True) reconnected"
  unfolding reconnected_def
  by (rule registry_steps_more, rule registry_steps_more, rule rtranclp.rtrancl_refl)
    (rule rs_register)+

lemma open_iff_registered_witness:
  "c_closed (r_heap reconnected ! 0) \<and> \<not> c_closed (r_heap reconnected ! 1)
     \<and> connection_ok (r_heap reconnected ! 0)"
  using open_iff_registered [OF reconnected_reachable, of 0]
    open_iff_registered [OF reconnected_reachable, of 1]
  by (simp add: reconnected_value lookup_def)

text \<open>the late teardown of a superseded stream is harmless: unregistering a connection that
  is no longer the registered one changes neither the map nor any other connection, and does not
  fire the disconnect hook (which would release the claim of the fresh stream).\<close>

theorem stale_unregister_is_harmless:
  assumes "registry_ok r" "i < length (r_heap r)" "lookup n r \<noteq> Some i"
  shows "r_conns (unregister n (Some i) r) = r_conns r
     \<and> r_fired (unregister n (Some i) r) = r_fired r
     \<and> (\<forall>j < length (r_heap r). j \<noteq> i \<longrightarrow> r_heap (unregister n (Some i) r) ! j = r_heap r ! j)
     \<and> c_closed (r_heap (unregister n (Some i) r) ! i)"
  using assms by (simp add: lookup_def unregister_cases close_at_def)

lemma stale_unregister_is_harmless_witness:
  "lookup ''n1'' (unregister ''n1'' (Some 0) reconnected) = Some 1
     \<and> r_fired (unregister ''n1'' (Some 0) reconnected) = r_fired reconnected"
proof -
  have "registry_ok reconnected"
    using registry_ok_steps [OF reconnected_reachable] by simp
  from stale_unregister_is_harmless [OF this, of 0 "''n1''"] show ?thesis
    by (simp add: reconnected_value lookup_def)
qed

text \<open>a sweep drops exactly the nodes that have been silent for longer than the timeout
  (judged from the connect time when there was no heartbeat), reports them in registration order,
  fires the hook once for each, closes their connections and leaves every other connection
  untouched.\<close>

theorem reap_drops_exactly_the_silent:
  assumes "registry_ok r"
  shows "let (ns, r') = reap_stale now timeout r
         in ns = map fst (filter (silent now timeout r) (r_conns r))
            \<and> r_conns r' = filter (\<lambda>p. \<not> silent now timeout r p) (r_conns r)
            \<and> r_fired r' = (if r_on_disconnect r then r_fired r @ ns else r_fired r)
            \<and> (\<forall>(n, i) \<in> set (r_conns r).
                 if silent now timeout r (n, i) then c_closed (r_heap r' ! i)
                 else r_heap r' ! i = r_heap r ! i)"
proof -
  have dist: "distinct (dkeys (r_conns r))" and items: "\<forall>(n, i) \<in> set (r_conns r). dget (r_conns r) n = Some i"
    using assms by (auto simp: registry_ok_def)
  obtain ns r' where reap: "reap_stale now timeout r = (ns, r')"
    by (cases "reap_stale now timeout r")
  have eff: "ns = map fst (filter (silent now timeout r) (r_conns r))"
    "r_conns r' = filter (\<lambda>p. fst p \<notin> set ns) (r_conns r)"
    "r_fired r' = (if r_on_disconnect r then r_fired r @ ns else r_fired r)"
    "\<And>j. j \<notin> snd ` set (filter (silent now timeout r) (r_conns r)) \<Longrightarrow> r_heap r' ! j = r_heap r ! j"
    using reap_items_effect [OF assms dist items, of now timeout] reap by (auto simp: reap_stale_def)
  have key: "p = q" if pq: "p \<in> set (r_conns r)" "q \<in> set (r_conns r)" "fst p = fst q \<or> snd p = snd q" for p q
  proof -
    obtain n i m j where "p = (n, i)" "q = (m, j)" by (cases p, cases q)
    have "dget (r_conns r) n = Some i" "dget (r_conns r) m = Some j"
      using items pq(1,2) \<open>p = (n, i)\<close> \<open>q = (m, j)\<close> by auto
    moreover have "c_node_id (r_heap r ! i) = n" "c_node_id (r_heap r ! j) = m"
      by (rule registry_ok_entry(2) [OF assms calculation(1)], rule registry_ok_entry(2) [OF assms calculation(2)])
    ultimately have "p = q" using pq(3) unfolding \<open>p = (n, i)\<close> \<open>q = (m, j)\<close> fst_conv snd_conv
      by (metis option.inject)
    then show ?thesis .
  qed
  have conns: "r_conns r' = filter (\<lambda>p. \<not> silent now timeout r p) (r_conns r)"
    unfolding eff(2) by (rule filter_cong) (auto simp: eff(1) dest: key)
  have ok': "registry_ok r'"
    using registry_ok_reap [OF assms, of now timeout] by (simp add: reap)
  have len: "length (r_heap r') = length (r_heap r)"
    using reap_heap_length [of now timeout "r_conns r" r] reap by (simp add: reap_stale_def)
  have gone: "c_closed (r_heap r' ! i)" if m: "(n, i) \<in> set (r_conns r)" "silent now timeout r (n, i)" for n i
  proof (rule ccontr)
    assume "\<not> c_closed (r_heap r' ! i)"
    moreover have "i < length (r_heap r')" using m assms by (auto simp: registry_ok_def len)
    ultimately have "(c_node_id (r_heap r' ! i), i) \<in> set (r_conns r')"
      using ok' by (simp add: registry_ok_def)
    then show False
      using key [of "(c_node_id (r_heap r' ! i), i)", OF _ m(1)] m(2) by (simp add: conns)
  qed
  have kept: "r_heap r' ! i = r_heap r ! i" if m: "(n, i) \<in> set (r_conns r)" "\<not> silent now timeout r (n, i)" for n i
  proof (rule eff(4), clarsimp)
    fix a assume a: "(a, i) \<in> set (r_conns r)" "silent now timeout r (a, i)"
    with key [OF a(1) m(1)] m(2) show False by simp
  qed
  show ?thesis
    using eff(1,3) conns gone kept by (auto simp: reap)
qed

lemma reap_drops_exactly_the_silent_witness:
  "fst (reap_stale (seconds 100) (seconds 90) reconnected) = [''n1'']
     \<and> fst (reap_stale (seconds 60) (seconds 90) reconnected) = []"
proof -
  have "registry_ok reconnected"
    using registry_ok_steps [OF reconnected_reachable] by simp
  from reap_drops_exactly_the_silent [OF this, of "seconds 100" "seconds 90"]
    reap_drops_exactly_the_silent [OF this, of "seconds 60" "seconds 90"]
  show ?thesis
    by (simp add: split_beta Let_def reconnected_value silent_def last_seen_def snapshot_def
        new_connection_def)
qed

end
