(* ===== verification/Codecs.thy ===== *)
theory Codecs
  imports Prelude
begin

text \<open>
  The byte codecs of the standard library the sources use: big-endian integers (\<open>int.to_bytes\<close>,
  \<open>struct\<close>), base32 and base64 (\<open>base64.b32encode\<close>, \<open>b32decode\<close>, \<open>standard_b64encode\<close>,
  \<open>standard_b64decode\<close>, \<open>urlsafe_b64decode\<close>) and hex (\<open>binascii.unhexlify\<close>), following
  CPython's algorithms, with the round trips the callers rely on.
\<close>

named_theorems codec_simps \<open>round trips of the codecs\<close>

subsection \<open>Positional numerals\<close>

text \<open>\<open>n\<close> big-endian digits of \<open>x\<close> in base \<open>b\<close>, and their number.\<close>

fun be_digits :: "nat \<Rightarrow> nat \<Rightarrow> nat \<Rightarrow> nat list" where
  "be_digits b 0 x = []"
| "be_digits b (Suc n) x = be_digits b n (x div b) @ [x mod b]"

definition be_number :: "nat \<Rightarrow> nat list \<Rightarrow> nat" where
  "be_number b ds = foldl (\<lambda>acc d. acc * b + d) 0 ds"

lemma length_be_digits [simp]: "length (be_digits b n x) = n"
  by (induction n arbitrary: x) auto

lemma be_number_snoc [simp]: "be_number b (ds @ [d]) = be_number b ds * b + d"
  by (simp add: be_number_def)

lemma be_number_Nil [simp]: "be_number b [] = 0"
  by (simp add: be_number_def)

lemma be_number_digits [codec_simps]: "be_number b (be_digits b n x) = x mod b ^ n"
proof (induction n arbitrary: x)
  case (Suc n)
  show ?case using mod_mult2_eq [of x b "b ^ n"] by (simp add: Suc mult.commute)
qed simp

lemma be_digits_lt: "0 < b \<Longrightarrow> d \<in> set (be_digits b n x) \<Longrightarrow> d < b"
  by (induction n arbitrary: x) auto

lemma be_number_lt: "\<forall>d \<in> set ds. d < b \<Longrightarrow> be_number b ds < b ^ length ds"
proof (induction ds rule: rev_induct)
  case (snoc d ds)
  then have "be_number b ds + 1 \<le> b ^ length ds" "d < b" by auto
  then have "(be_number b ds + 1) * b \<le> b ^ length ds * b" by (rule_tac mult_le_mono1)
  with \<open>d < b\<close> show ?case by (simp add: mult.commute)
qed simp

lemma be_digits_number [codec_simps]:
  "\<forall>d \<in> set ds. d < b \<Longrightarrow> be_digits b (length ds) (be_number b ds) = ds"
  by (induction ds rule: rev_induct) auto

subsection \<open>Bytes\<close>

definition bytes_of_nat :: "nat \<Rightarrow> nat \<Rightarrow> bytes" where
  "bytes_of_nat n x = map of_nat (be_digits 256 n x)"

definition nat_of_bytes :: "bytes \<Rightarrow> nat" where
  "nat_of_bytes bs = be_number 256 (map unat bs)"

lemma length_bytes_of_nat [simp]: "length (bytes_of_nat n x) = n"
  by (simp add: bytes_of_nat_def)

lemma unat_byte_lt: "unat (b :: 8 word) < 256"
  using unsigned_less [of b] by simp

lemma nat_of_bytes_lt: "nat_of_bytes bs < 256 ^ length bs"
  using be_number_lt [of "map unat bs" 256] unat_byte_lt by (simp add: nat_of_bytes_def)

lemma byte_of_nat: "d < 256 \<Longrightarrow> unat (of_nat d :: 8 word) = d"
  by (simp add: unsigned_of_nat take_bit_nat_eq_self)

lemma map_unat_of_nat: "\<forall>d \<in> set ds. d < 256 \<Longrightarrow> map unat (map of_nat ds :: bytes) = ds"
  unfolding map_map by (rule map_idI) (simp only: comp_apply byte_of_nat)

lemma nat_of_bytes_of_nat [codec_simps]: "nat_of_bytes (bytes_of_nat n x) = x mod 256 ^ n"
proof -
  have "map unat (map of_nat (be_digits 256 n x) :: bytes) = be_digits 256 n x"
    using be_digits_lt [of 256 _ n x] by (intro map_unat_of_nat) simp
  then show ?thesis
    by (simp only: nat_of_bytes_def bytes_of_nat_def be_number_digits)
qed

lemma bytes_of_nat_of_bytes [codec_simps]: "bytes_of_nat (length bs) (nat_of_bytes bs) = bs"
proof -
  have "be_digits 256 (length bs) (nat_of_bytes bs) = map unat bs"
    unfolding nat_of_bytes_def using be_digits_number [of "map unat bs" 256] unat_byte_lt by simp
  then show ?thesis by (simp add: bytes_of_nat_def comp_def)
qed

subsection \<open>Alphabets\<close>

definition ascii_upper :: string where "ascii_upper = map char_of [65 ..< 91 :: nat]"
definition ascii_lower :: string where "ascii_lower = map char_of [97 ..< 123 :: nat]"
definition ascii_digits :: string where "ascii_digits = map char_of [48 ..< 58 :: nat]"

definition index_in :: "string \<Rightarrow> char \<Rightarrow> nat option" where
  "index_in cs c = (let i = length (takeWhile (\<lambda>x. x \<noteq> c) cs) in
     if i < length cs then Some i else None)"

lemma takeWhile_neq_nth:
  "distinct cs \<Longrightarrow> i < length cs \<Longrightarrow> takeWhile (\<lambda>x. x \<noteq> cs ! i) cs = take i cs"
  by (rule takeWhile_eq_take_P_nth) (auto simp: nth_eq_iff_index_eq)

lemma index_in_nth: "distinct cs \<Longrightarrow> i < length cs \<Longrightarrow> index_in cs (cs ! i) = Some i"
  by (simp add: index_in_def takeWhile_neq_nth)

lemma index_in_Some: "index_in cs c = Some i \<Longrightarrow> i < length cs \<and> cs ! i = c"
  using nth_length_takeWhile [of "\<lambda>x. x \<noteq> c" cs]
  by (auto simp: index_in_def Let_def split: if_splits)

lemma distinct_char_range: "n \<le> 256 \<Longrightarrow> distinct (map char_of [m ..< n :: nat])"
proof (rule distinct_map [THEN iffD2], intro conjI distinct_upt inj_onI)
  fix x y assume "n \<le> 256" "x \<in> set [m ..< n]" "y \<in> set [m ..< n]" "(char_of x :: char) = char_of y"
  then have "of_char (char_of x :: char) = (of_char (char_of y :: char) :: nat)" "x < 256" "y < 256" by auto
  then show "x = y" by simp
qed

datatype codec_error =
    Incorrect_padding
  | Bad_data_length
  | Non_base32_digit
  | Non_ascii
  | Odd_length_hex
  | Non_hex_digit

function chunks :: "nat \<Rightarrow> 'a list \<Rightarrow> 'a list list" where
  "chunks n xs = (if n = 0 \<or> xs = [] then [] else take n xs # chunks n (drop n xs))"
  by pat_completeness auto
termination by (relation "measure (length o snd)") auto

declare chunks.simps [simp del]

lemma chunks_Nil [simp]: "chunks n [] = []"
  by (simp add: chunks.simps)

lemma chunks_append: "0 < n \<Longrightarrow> length xs = n \<Longrightarrow> chunks n (xs @ ys) = xs # chunks n ys"
  by (subst chunks.simps) auto

subsection \<open>Base32\<close>

definition b32_alphabet :: string where
  "b32_alphabet = ascii_upper @ map char_of [50 ..< 56 :: nat]"

definition b32_quantum :: "bytes \<Rightarrow> string" where
  "b32_quantum bs = map (\<lambda>d. b32_alphabet ! d) (be_digits 32 8 (nat_of_bytes bs))"

definition b32encode :: "bytes \<Rightarrow> string" where
  "b32encode bs =
     (let leftover = length bs mod 5;
          padded = (if leftover = 0 then bs else bs @ replicate (5 - leftover) 0);
          encoded = concat (map b32_quantum (chunks 5 padded));
          drop_n = (if leftover = 1 then 6 else if leftover = 2 then 4 else if leftover = 3 then 3
                    else if leftover = 4 then 1 else 0)
      in take (length encoded - drop_n) encoded @ replicate drop_n (CHR ''=''))"

text \<open>The accumulator of one quantum: \<open>acc = (acc << 5) + b32rev[c]\<close>.\<close>

fun b32_acc :: "nat \<Rightarrow> string \<Rightarrow> nat option" where
  "b32_acc acc [] = Some acc"
| "b32_acc acc (c # cs) =
     (case index_in b32_alphabet c of None \<Rightarrow> None | Some d \<Rightarrow> b32_acc (acc * 32 + d) cs)"

text \<open>The decoded bytes and the accumulator of the last quantum.\<close>

fun b32_quanta :: "string list \<Rightarrow> nat \<Rightarrow> (bytes \<times> nat) option" where
  "b32_quanta [] last_acc = Some ([], last_acc)"
| "b32_quanta (q # qs) last_acc = (case b32_acc 0 q of
     None \<Rightarrow> None
   | Some acc \<Rightarrow> map_option (\<lambda>(bs, a). (bytes_of_nat 5 acc @ bs, a)) (b32_quanta qs acc))"

definition b32decode :: "string \<Rightarrow> codec_error + bytes" where
  "b32decode s =
     (if \<not> list_all (\<lambda>c. code_of c < 128) s then Inl Non_ascii
      else if length s mod 8 \<noteq> 0 then Inl Incorrect_padding
      else let data = rstrip_char (CHR ''='') s; padchars = length s - length data
        in case b32_quanta (chunks 8 data) 0 of
             None \<Rightarrow> Inl Non_base32_digit
           | Some (decoded, acc) \<Rightarrow>
               if padchars \<notin> {0, 1, 3, 4, 6} then Inl Incorrect_padding
               else if padchars \<noteq> 0 \<and> decoded \<noteq> []
               then Inr (take (length decoded - 5) decoded
                      @ take ((43 - 5 * padchars) div 8) (bytes_of_nat 5 (acc * 32 ^ padchars)))
               else Inr decoded)"

lemma length_b32_alphabet [simp]: "length b32_alphabet = 32"
  by (simp add: b32_alphabet_def ascii_upper_def)

lemma distinct_b32_alphabet: "distinct b32_alphabet"
  unfolding b32_alphabet_def ascii_upper_def by code_simp

lemma b32_alphabet_ascii: "list_all (\<lambda>c. code_of c < 128 \<and> c \<noteq> CHR ''='' \<and> \<not> is_space c) b32_alphabet"
  unfolding b32_alphabet_def ascii_upper_def by code_simp

lemma b32_acc_digits:
  "\<forall>d \<in> set ds. d < 32 \<Longrightarrow>
   b32_acc acc (map (\<lambda>d. b32_alphabet ! d) ds) = Some (foldl (\<lambda>a d. a * 32 + d) acc ds)"
  by (induction ds arbitrary: acc) (simp_all add: index_in_nth distinct_b32_alphabet)

lemma b32_acc_quantum:
  assumes "length bs = 5"
  shows "b32_acc 0 (b32_quantum bs) = Some (nat_of_bytes bs)"
proof -
  have "nat_of_bytes bs < 32 ^ 8"
    using nat_of_bytes_lt [of bs] assms by simp
  moreover have "\<forall>d \<in> set (be_digits 32 8 (nat_of_bytes bs)). d < 32"
    using be_digits_lt [of 32] by auto
  ultimately show ?thesis
    using be_number_digits [of 32 8 "nat_of_bytes bs"]
    by (simp only: b32_quantum_def b32_acc_digits be_number_def mod_less)
qed

lemma b32_quanta_roundtrip:
  assumes "\<forall>q \<in> set qs. length q = 5"
  shows "\<exists>a. b32_quanta (map b32_quantum qs) acc = Some (concat qs, a)"
  using assms
proof (induction qs arbitrary: acc)
  case (Cons q qs)
  then obtain a where "b32_quanta (map b32_quantum qs) (nat_of_bytes q) = Some (concat qs, a)" by auto
  moreover have "bytes_of_nat 5 (nat_of_bytes q) = q"
    using bytes_of_nat_of_bytes [of q] Cons.prems by simp
  ultimately show ?case using Cons.prems by (simp add: b32_acc_quantum)
qed simp

lemma length_b32_quantum [simp]: "length (b32_quantum bs) = 8"
  by (simp add: b32_quantum_def)

lemma chunks_concat: "0 < n \<Longrightarrow> \<forall>q \<in> set qs. length q = n \<Longrightarrow> chunks n (concat qs) = qs"
  by (induction qs) (simp_all add: chunks_append)

lemma concat_chunks: "0 < n \<Longrightarrow> concat (chunks n xs) = xs"
  by (induction n xs rule: chunks.induct) (subst chunks.simps, simp)

lemma chunks_length: "0 < n \<Longrightarrow> n dvd length xs \<Longrightarrow> q \<in> set (chunks n xs) \<Longrightarrow> length q = n"
proof (induction n xs rule: chunks.induct)
  case (1 n xs)
  show ?case
  proof (cases "xs = []")
    case False
    with 1 have le: "n \<le> length xs" by (simp add: dvd_imp_le)
    with 1 have dvd: "n dvd length (drop n xs)" by (simp add: dvd_diff_nat)
    from "1.prems"(3) False "1.prems"(1) have "q = take n xs \<or> q \<in> set (chunks n (drop n xs))"
      by (subst (asm) chunks.simps) auto
    then show ?thesis using 1 False le dvd by auto
  qed (use 1 in simp)
qed

lemma b32_quantum_chars: "c \<in> set (b32_quantum bs) \<Longrightarrow> c \<in> set b32_alphabet"
  using be_digits_lt [of 32 _ 8 "nat_of_bytes bs"] by (auto simp: b32_quantum_def)

lemma b32encode_chars:
  assumes "5 dvd length bs"
  shows "b32encode bs = concat (map b32_quantum (chunks 5 bs))"
  using assms by (simp add: b32encode_def Let_def dvd_eq_mod_eq_0)

lemma rstrip_char_none: "c \<notin> set s \<Longrightarrow> rstrip_char c s = s"
  unfolding rstrip_char_def by (cases s rule: rev_cases) auto

lemma b32_roundtrip [codec_simps]:
  assumes "5 dvd length bs"
  shows "b32decode (b32encode bs) = Inr bs"
proof -
  let ?qs = "chunks 5 bs" and ?s = "b32encode bs"
  have qs: "\<forall>q \<in> set ?qs. length q = 5" using chunks_length [OF _ assms] by simp
  have chars: "c \<in> set b32_alphabet" if "c \<in> set ?s" for c
    using that b32_quantum_chars by (auto simp: b32encode_chars [OF assms])
  have ascii: "list_all (\<lambda>c. code_of c < 128) ?s" and noeq: "CHR ''='' \<notin> set ?s"
    using chars b32_alphabet_ascii by (auto simp: list_all_iff)
  have len: "length ?s mod 8 = 0"
    by (simp add: b32encode_chars [OF assms] length_concat comp_def sum_list_triv)
  have ch: "chunks 8 ?s = map b32_quantum ?qs"
    unfolding b32encode_chars [OF assms] by (rule chunks_concat) auto
  obtain a where "b32_quanta (chunks 8 ?s) 0 = Some (bs, a)"
    using b32_quanta_roundtrip [OF qs] ch concat_chunks [of 5 bs] by fastforce
  with ascii noeq len show ?thesis
    by (simp add: b32decode_def Let_def rstrip_char_none)
qed

subsection \<open>Base64\<close>

definition b64_alphabet :: string where
  "b64_alphabet = ascii_upper @ ascii_lower @ ascii_digits @ ''+/''"

definition b64_char :: "nat \<Rightarrow> char" where
  "b64_char d = b64_alphabet ! d"

fun b64encode :: "bytes \<Rightarrow> string" where
  "b64encode [] = []"
| "b64encode [a] = [b64_char (unat a div 4), b64_char (unat a mod 4 * 16), CHR ''='', CHR ''='']"
| "b64encode [a, b] = [b64_char (unat a div 4), b64_char (unat a mod 4 * 16 + unat b div 16),
     b64_char (unat b mod 16 * 4), CHR ''='']"
| "b64encode (a # b # c # rest) = b64_char (unat a div 4)
     # b64_char (unat a mod 4 * 16 + unat b div 16) # b64_char (unat b mod 16 * 4 + unat c div 64)
     # b64_char (unat c mod 64) # b64encode rest"

text \<open>
  \<open>binascii.a2b_base64\<close> in its lenient mode: characters outside the alphabet are skipped, and a
  complete padding ends the data. State: position in the quad, bits left over, pads seen.
\<close>

fun a2b_base64 :: "nat \<Rightarrow> nat \<Rightarrow> nat \<Rightarrow> string \<Rightarrow> codec_error + bytes" where
  "a2b_base64 quad left pads [] =
     (if quad = 0 then Inr [] else if quad = 1 then Inl Bad_data_length else Inl Incorrect_padding)"
| "a2b_base64 quad left pads (c # cs) =
     (if c = CHR ''='' then
        (if 2 \<le> quad \<and> 4 \<le> quad + (pads + 1) then Inr []
         else a2b_base64 quad left (if 2 \<le> quad then pads + 1 else pads) cs)
      else case index_in b64_alphabet c of
        None \<Rightarrow> a2b_base64 quad left pads cs
      | Some v \<Rightarrow>
          if quad = 0 then a2b_base64 1 v 0 cs
          else if quad = 1 then
            map_sum id ((#) (of_nat (left * 4 + v div 16))) (a2b_base64 2 (v mod 16) 0 cs)
          else if quad = 2 then
            map_sum id ((#) (of_nat (left * 16 + v div 4))) (a2b_base64 3 (v mod 4) 0 cs)
          else map_sum id ((#) (of_nat (left * 64 + v))) (a2b_base64 0 0 0 cs))"

definition standard_b64decode :: "string \<Rightarrow> codec_error + bytes" where
  "standard_b64decode s =
     (if \<not> list_all (\<lambda>c. code_of c < 128) s then Inl Non_ascii else a2b_base64 0 0 0 s)"

definition urlsafe_char :: "char \<Rightarrow> char" where
  "urlsafe_char c = (if c = CHR ''-'' then CHR ''+'' else if c = CHR ''_'' then CHR ''/'' else c)"

definition urlsafe_b64decode :: "string \<Rightarrow> codec_error + bytes" where
  "urlsafe_b64decode s = standard_b64decode (map urlsafe_char s)"

lemma length_b64_alphabet [simp]: "length b64_alphabet = 64"
  by (simp add: b64_alphabet_def ascii_upper_def ascii_lower_def ascii_digits_def)

lemma distinct_b64_alphabet: "distinct b64_alphabet"
  unfolding b64_alphabet_def ascii_upper_def ascii_lower_def ascii_digits_def by code_simp

lemma b64_alphabet_ascii: "list_all (\<lambda>c. code_of c < 128 \<and> c \<noteq> CHR ''='' \<and> \<not> is_space c) b64_alphabet"
  unfolding b64_alphabet_def ascii_upper_def ascii_lower_def ascii_digits_def by code_simp

lemma b64_char_index [simp]: "d < 64 \<Longrightarrow> index_in b64_alphabet (b64_char d) = Some d"
  unfolding b64_char_def by (rule index_in_nth [OF distinct_b64_alphabet]) simp

lemma b64_char_facts:
  assumes "d < 64"
  shows "b64_char d \<noteq> CHR ''=''" "code_of (b64_char d) < 128" "\<not> is_space (b64_char d)"
  using b64_alphabet_ascii assms by (auto simp: b64_char_def list_all_length)

lemma a2b_char:
  "d < 64 \<Longrightarrow> a2b_base64 0 l p (b64_char d # cs) = a2b_base64 1 d 0 cs"
  "d < 64 \<Longrightarrow> a2b_base64 1 l p (b64_char d # cs)
     = map_sum id ((#) (of_nat (l * 4 + d div 16))) (a2b_base64 2 (d mod 16) 0 cs)"
  "d < 64 \<Longrightarrow> a2b_base64 2 l p (b64_char d # cs)
     = map_sum id ((#) (of_nat (l * 16 + d div 4))) (a2b_base64 3 (d mod 4) 0 cs)"
  "d < 64 \<Longrightarrow> a2b_base64 3 l p (b64_char d # cs)
     = map_sum id ((#) (of_nat (l * 64 + d))) (a2b_base64 0 0 0 cs)"
  by (simp_all add: b64_char_facts)

lemma byte_parts:
  fixes a b c :: "8 word"
  shows "unat a div 4 < 64" "unat a mod 4 * 16 + unat b div 16 < 64"
    "unat b mod 16 * 4 + unat c div 64 < 64" "unat c mod 64 < 64"
    "unat a mod 4 * 16 < 64" "unat b mod 16 * 4 < 64"
  using unat_byte_lt [of a] unat_byte_lt [of b] unat_byte_lt [of c] by linarith+

lemma byte_join:
  fixes a b c :: "8 word"
  shows "of_nat (unat a div 4 * 4 + (unat a mod 4 * 16 + unat b div 16) div 16) = a"
    "of_nat (unat a div 4 * 4 + unat a mod 4 * 16 div 16) = a"
    "of_nat ((unat a mod 4 * 16 + unat b div 16) mod 16 * 16 + (unat b mod 16 * 4 + unat c div 64) div 4) = b"
    "of_nat ((unat a mod 4 * 16 + unat b div 16) mod 16 * 16 + unat b mod 16 * 4 div 4) = b"
    "of_nat ((unat b mod 16 * 4 + unat c div 64) mod 4 * 64 + unat c mod 64) = c"
proof -
  have a: "unat a < 256" and b: "unat b < 256" and c: "unat c < 256" by (rule unat_byte_lt)+
  have parts: "unat b div 16 < 16" "unat c div 64 < 4" using b c by linarith+
  have "unat a div 4 * 4 + (unat a mod 4 * 16 + unat b div 16) div 16 = unat a"
    using parts(1) by simp
  moreover have "unat a div 4 * 4 + unat a mod 4 * 16 div 16 = unat a" by simp
  moreover have "(unat a mod 4 * 16 + unat b div 16) mod 16 * 16
      + (unat b mod 16 * 4 + unat c div 64) div 4 = unat b"
    using parts by simp
  moreover have "(unat a mod 4 * 16 + unat b div 16) mod 16 * 16 + unat b mod 16 * 4 div 4 = unat b"
    using parts by simp
  moreover have "(unat b mod 16 * 4 + unat c div 64) mod 4 * 64 + unat c mod 64 = unat c"
    using parts by simp
  ultimately show "of_nat (unat a div 4 * 4 + (unat a mod 4 * 16 + unat b div 16) div 16) = a"
    "of_nat (unat a div 4 * 4 + unat a mod 4 * 16 div 16) = a"
    "of_nat ((unat a mod 4 * 16 + unat b div 16) mod 16 * 16 + (unat b mod 16 * 4 + unat c div 64) div 4) = b"
    "of_nat ((unat a mod 4 * 16 + unat b div 16) mod 16 * 16 + unat b mod 16 * 4 div 4) = b"
    "of_nat ((unat b mod 16 * 4 + unat c div 64) mod 4 * 64 + unat c mod 64) = c"
    by (simp_all only: of_nat_unat ucast_id)
qed

lemma a2b_pad: "a2b_base64 2 l p ''=='' = Inr []" "a2b_base64 3 l p ''='' = Inr []"
  by simp_all

lemma a2b_b64encode: "a2b_base64 0 l p (b64encode bs) = Inr bs"
  by (induction bs arbitrary: l p rule: b64encode.induct)
    (simp_all only: b64encode.simps a2b_char byte_parts a2b_pad map_sum.simps id_apply byte_join,
     simp)

lemma b64encode_facts: "list_all (\<lambda>c. code_of c < 128 \<and> \<not> is_space c) (b64encode bs)"
  by (induction bs rule: b64encode.induct)
    (simp_all add: b64_char_facts byte_parts, simp_all add: code_of_def is_space_def)

lemma b64_roundtrip [codec_simps]: "standard_b64decode (b64encode bs) = Inr bs"
proof -
  have "list_all (\<lambda>c. code_of c < 128) (b64encode bs)"
    using b64encode_facts [of bs] by (simp add: list_all_iff)
  then show ?thesis by (simp add: standard_b64decode_def a2b_b64encode)
qed

subsection \<open>UTF-8\<close>

text \<open>\<open>s.encode('utf-8')\<close>, one character at a time.\<close>

definition utf8_bytes :: "char \<Rightarrow> nat list" where
  "utf8_bytes c = (let n = code_of c in if n < 128 then [n] else [192 + n div 64, 128 + n mod 64])"

definition utf8_encode :: "string \<Rightarrow> bytes" where
  "utf8_encode s = map of_nat (concat (map utf8_bytes s))"

subsection \<open>Hex\<close>

definition hex_digit_of :: "char \<Rightarrow> nat option" where
  "hex_digit_of c = (let n = code_of c in
     if 48 \<le> n \<and> n \<le> 57 then Some (n - 48)
     else if 97 \<le> n \<and> n \<le> 102 then Some (n - 87)
     else if 65 \<le> n \<and> n \<le> 70 then Some (n - 55) else None)"

text \<open>\<open>digest.hexdigest()\<close>.\<close>

definition hex_nibble :: "nat \<Rightarrow> char" where
  "hex_nibble d = (if d < 10 then char_of (48 + d) else char_of (87 + d))"

definition hexlify :: "bytes \<Rightarrow> string" where
  "hexlify bs = concat (map (\<lambda>b. [hex_nibble (unat b div 16), hex_nibble (unat b mod 16)]) bs)"

lemma length_hexlify [simp]: "length (hexlify bs) = 2 * length bs"
  by (induction bs) (auto simp: hexlify_def)

fun hex_pairs :: "string \<Rightarrow> bytes option" where
  "hex_pairs (a # b # rest) = (case (hex_digit_of a, hex_digit_of b, hex_pairs rest) of
     (Some x, Some y, Some bs) \<Rightarrow> Some (of_nat (16 * x + y) # bs) | _ \<Rightarrow> None)"
| "hex_pairs _ = Some []"

definition unhexlify :: "string \<Rightarrow> codec_error + bytes" where
  "unhexlify s =
     (if \<not> list_all (\<lambda>c. code_of c < 128) s then Inl Non_ascii
      else if odd (length s) then Inl Odd_length_hex
      else case hex_pairs s of None \<Rightarrow> Inl Non_hex_digit | Some bs \<Rightarrow> Inr bs)"

lemma hex_pairs_length: "hex_pairs s = Some bs \<Longrightarrow> even (length s) \<Longrightarrow> length bs * 2 = length s"
  by (induction s arbitrary: bs rule: hex_pairs.induct) (auto split: option.splits)

end
