(* ===== verification/Digest.thy ===== *)
theory Digest
  imports Codecs
begin

text \<open>
  \<open>hashlib.sha1\<close> and \<open>hmac.new(key, msg, sha1)\<close> (RFC 3174, RFC 2104), on 32-bit words.
\<close>

unbundle bit_operations_syntax

definition sha1_pad :: "bytes \<Rightarrow> bytes" where
  "sha1_pad m = m @ 0x80 # replicate ((119 - length m mod 64) mod 64) 0
     @ bytes_of_nat 8 (8 * length m)"

definition word_of_bytes :: "bytes \<Rightarrow> 32 word" where
  "word_of_bytes bs = of_nat (nat_of_bytes bs)"

text \<open>The message schedule, newest word first.\<close>

fun sha1_expand :: "nat \<Rightarrow> 32 word list \<Rightarrow> 32 word list" where
  "sha1_expand 0 ws = ws"
| "sha1_expand (Suc n) ws =
     sha1_expand n (word_rotl 1 (ws ! 2 XOR ws ! 7 XOR ws ! 13 XOR ws ! 15) # ws)"

record sha1_state =
  sh_a :: "32 word"
  sh_b :: "32 word"
  sh_c :: "32 word"
  sh_d :: "32 word"
  sh_e :: "32 word"

definition sha1_f :: "nat \<Rightarrow> 32 word \<Rightarrow> 32 word \<Rightarrow> 32 word \<Rightarrow> 32 word" where
  "sha1_f t b c d =
     (if t < 20 then (b AND c) OR (NOT b AND d)
      else if t < 40 then b XOR c XOR d
      else if t < 60 then (b AND c) OR (b AND d) OR (c AND d)
      else b XOR c XOR d)"

definition sha1_k :: "nat \<Rightarrow> 32 word" where
  "sha1_k t = (if t < 20 then 0x5A827999 else if t < 40 then 0x6ED9EBA1
               else if t < 60 then 0x8F1BBCDC else 0xCA62C1D6)"

definition sha1_round :: "nat \<times> 32 word \<Rightarrow> sha1_state \<Rightarrow> sha1_state" where
  "sha1_round p s =
     \<lparr>sh_a = word_rotl 5 (sh_a s) + sha1_f (fst p) (sh_b s) (sh_c s) (sh_d s) + sh_e s
             + snd p + sha1_k (fst p),
      sh_b = sh_a s, sh_c = word_rotl 30 (sh_b s), sh_d = sh_c s, sh_e = sh_d s\<rparr>"

definition sha1_block :: "bytes \<Rightarrow> sha1_state \<Rightarrow> sha1_state" where
  "sha1_block blk s =
     (let w = rev (sha1_expand 64 (rev (map word_of_bytes (chunks 4 blk))));
          r = fold sha1_round (zip [0 ..< 80] w) s
      in \<lparr>sh_a = sh_a s + sh_a r, sh_b = sh_b s + sh_b r, sh_c = sh_c s + sh_c r,
          sh_d = sh_d s + sh_d r, sh_e = sh_e s + sh_e r\<rparr>)"

definition sha1_init :: sha1_state where
  "sha1_init = \<lparr>sh_a = 0x67452301, sh_b = 0xEFCDAB89, sh_c = 0x98BADCFE, sh_d = 0x10325476,
     sh_e = 0xC3D2E1F0\<rparr>"

definition bytes_of_word :: "32 word \<Rightarrow> bytes" where
  "bytes_of_word w = bytes_of_nat 4 (unat w)"

definition sha1 :: "bytes \<Rightarrow> bytes" where
  "sha1 m = (let s = fold sha1_block (chunks 64 (sha1_pad m)) sha1_init in
     bytes_of_word (sh_a s) @ bytes_of_word (sh_b s) @ bytes_of_word (sh_c s)
       @ bytes_of_word (sh_d s) @ bytes_of_word (sh_e s))"

definition hmac_sha1 :: "bytes \<Rightarrow> bytes \<Rightarrow> bytes" where
  "hmac_sha1 key msg =
     (let k0 = (if 64 < length key then sha1 key else key);
          k = k0 @ replicate (64 - length k0) 0
      in sha1 (map (\<lambda>b. b XOR 0x5C) k @ sha1 (map (\<lambda>b. b XOR 0x36) k @ msg)))"

lemma length_bytes_of_word [simp]: "length (bytes_of_word w) = 4"
  by (simp add: bytes_of_word_def)

lemma length_sha1 [simp]: "length (sha1 m) = 20"
  by (simp add: sha1_def Let_def)

lemma length_hmac_sha1 [simp]: "length (hmac_sha1 k m) = 20"
  by (simp add: hmac_sha1_def Let_def)

text \<open>The padded message is a whole number of 64-byte blocks.\<close>

lemma sha1_pad_blocks: "64 dvd length (sha1_pad m)"
proof -
  define q r where "q = length m div 64" and "r = length m mod 64"
  have L: "length m = 64 * q + r" "r < 64" by (simp_all add: q_def r_def)
  have "(119 - r) mod 64 + r = 55 \<or> (119 - r) mod 64 + r = 119"
  proof (cases "r \<le> 55")
    case True
    then have "119 - r = 64 + (55 - r)" by simp
    then have "(119 - r) mod 64 = 55 - r" by (simp only: mod_add_self1) (use True in simp)
    with True show ?thesis by simp
  next
    case False
    with L show ?thesis by simp
  qed
  moreover have "length (sha1_pad m) = 64 * q + (((119 - r) mod 64 + r) + 9)"
    by (simp add: sha1_pad_def r_def [symmetric]) (simp add: L)
  ultimately have "length (sha1_pad m) = 64 * (q + 1) \<or> length (sha1_pad m) = 64 * (q + 2)"
    by auto
  then show ?thesis by (elim disjE) (simp_all only: dvd_triv_left)
qed

end
