(* ===== verification/Crypto.thy ===== *)
theory Crypto
  imports Digest
begin

text \<open>
  crypto.py: node authentication by time-based one-time passwords (RFC 6238), the replay cache
  that makes an accepted code single-use, the base32 secrets, the master key and the AES-GCM
  secret store. AES-GCM is third-party code: \<open>seal_with key nonce plaintext\<close> and
  \<open>open_with key nonce ciphertext\<close> are parameters (\<open>None\<close> is a failed authentication tag).
  Random bytes and the clock are arguments.
\<close>

subsection \<open>Constants\<close>

definition TIME_STEP :: int where "TIME_STEP = 30"
definition DIGITS :: nat where "DIGITS = 6"
definition SECRET_BYTES :: nat where "SECRET_BYTES = 20"
definition STEP_WINDOW :: int where "STEP_WINDOW = 2"
definition KEY_BYTES :: nat where "KEY_BYTES = 32"

subsection \<open>Secrets\<close>

text \<open>
  \<open>str.upper\<close> below code point 256: the sharp s becomes two letters; the micro sign and the
  y with diaeresis, whose upper case lies above 255, are left alone (no codec accepts either form).
\<close>

definition upper_char :: "char \<Rightarrow> string" where
  "upper_char c = (let n = code_of c in
     if (97 \<le> n \<and> n \<le> 122) \<or> (224 \<le> n \<and> n \<le> 254 \<and> n \<noteq> 247) then [char_of (n - 32)]
     else if n = 223 then ''SS'' else [c])"

definition upper :: "string \<Rightarrow> string" where
  "upper s = concat (map upper_char s)"

definition generate_secret :: "bytes \<Rightarrow> string" where
  "generate_secret buf = rstrip_char (CHR ''='') (b32encode buf)"

datatype secret_error = Secret_empty | Secret_codec codec_error

definition decode_secret :: "string \<Rightarrow> secret_error + bytes" where
  "decode_secret encoded =
     (let cleaned = upper (filter (\<lambda>c. \<not> is_space c) encoded)
      in if cleaned = [] then Inl Secret_empty
         else let pad = (8 - length cleaned mod 8) mod 8
           in case b32decode (cleaned @ replicate pad (CHR ''='')) of
                Inl e \<Rightarrow> Inl (Secret_codec e)
              | Inr decoded \<Rightarrow> if decoded = [] then Inl Secret_empty else Inr decoded)"

subsection \<open>One-time passwords\<close>

definition zfill :: "nat \<Rightarrow> string \<Rightarrow> string" where
  "zfill n s = replicate (n - length s) (CHR ''0'') @ s"

definition generate_at_counter :: "bytes \<Rightarrow> nat \<Rightarrow> string" where
  "generate_at_counter secret counter =
     (let mac = hmac_sha1 secret (bytes_of_nat 8 counter);
          offset = unat (and (last mac) 0x0F);
          binv = and (nat_of_bytes (take 4 (drop offset mac))) 0x7FFFFFFF
      in zfill DIGITS (str_of_nat (binv mod 10 ^ DIGITS)))"

text \<open>\<open>int(t.timestamp())\<close>: truncation towards zero.\<close>

definition whole_seconds :: "microseconds \<Rightarrow> int" where
  "whole_seconds t = (if t < 0 then - ((- t) div 1000000) else t div 1000000)"

definition counter_at :: "microseconds \<Rightarrow> int" where
  "counter_at t = whole_seconds t div TIME_STEP"

definition generate :: "bytes \<Rightarrow> microseconds \<Rightarrow> string" where
  "generate secret t = generate_at_counter secret (nat (counter_at t))"

subsection \<open>ReplayCache\<close>

record replay_cache =
  rc_ttl :: microseconds
  rc_seen :: "(string, microseconds) dict"

definition new_replay_cache :: replay_cache where
  "new_replay_cache =
     \<lparr>rc_ttl = seconds ((STEP_WINDOW * 2 + 1) * TIME_STEP) + seconds 30, rc_seen = []\<rparr>"

definition prune :: "microseconds \<Rightarrow> replay_cache \<Rightarrow> replay_cache" where
  "prune now rc = rc\<lparr>rc_seen := filter (\<lambda>p. \<not> (rc_ttl rc < now - snd p)) (rc_seen rc)\<rparr>"

definition claim_key :: "string \<Rightarrow> string \<Rightarrow> string" where
  "claim_key node_id code = node_id @ ''|'' @ code"

definition claim :: "string \<Rightarrow> string \<Rightarrow> microseconds \<Rightarrow> replay_cache \<Rightarrow> bool \<times> replay_cache" where
  "claim node_id code now rc =
     (let rc1 = prune now rc; key = claim_key node_id code
      in if key \<in> set (dkeys (rc_seen rc1)) then (False, rc1)
         else (True, rc1\<lparr>rc_seen := dset key now (rc_seen rc1)\<rparr>))"

definition release :: "string \<Rightarrow> replay_cache \<Rightarrow> replay_cache" where
  "release node_id rc =
     rc\<lparr>rc_seen := filter (\<lambda>p. \<not> prefix (node_id @ ''|'') (fst p)) (rc_seen rc)\<rparr>"

text \<open>The loop of \<open>validate\<close> over the steps of the window; \<open>None\<close> for the cache skips the claim.\<close>

fun validate_steps ::
  "bytes \<Rightarrow> string \<Rightarrow> microseconds \<Rightarrow> string \<Rightarrow> int list \<Rightarrow> replay_cache option
   \<Rightarrow> bool \<times> replay_cache option" where
  "validate_steps secret code now node_id [] replay = (False, replay)"
| "validate_steps secret code now node_id (step # steps) replay =
     (if step < 0 then validate_steps secret code now node_id steps replay
      else if generate_at_counter secret (nat step) = code then
        (case replay of
           None \<Rightarrow> (True, None)
         | Some rc \<Rightarrow> let (ok, rc') = claim node_id code now rc in (ok, Some rc'))
      else validate_steps secret code now node_id steps replay)"

definition validate ::
  "bytes \<Rightarrow> string \<Rightarrow> microseconds \<Rightarrow> replay_cache option \<Rightarrow> string \<Rightarrow> bool \<times> replay_cache option" where
  "validate secret code now replay node_id =
     (let code = strip code
      in if length code \<noteq> DIGITS then (False, replay)
         else validate_steps secret code now node_id
                (map (\<lambda>delta. counter_at now + delta) [- STEP_WINDOW .. STEP_WINDOW]) replay)"

subsection \<open>Master key and secret store\<close>

definition master_candidates :: "string \<Rightarrow> (codec_error + bytes) list" where
  "master_candidates raw =
     (let padded = raw @ replicate ((4 - length raw mod 4) mod 4) (CHR ''='')
      in [standard_b64decode raw, standard_b64decode padded,
          urlsafe_b64decode raw, urlsafe_b64decode padded])"

fun first_of_length :: "nat \<Rightarrow> (codec_error + bytes) list \<Rightarrow> bytes option" where
  "first_of_length n [] = None"
| "first_of_length n (Inl e # rs) = first_of_length n rs"
| "first_of_length n (Inr d # rs) = (if length d = n then Some d else first_of_length n rs)"

datatype master_key_error = Master_key_empty | Master_key_invalid

definition parse_master_key :: "string \<Rightarrow> master_key_error + bytes" where
  "parse_master_key raw0 =
     (let raw = strip raw0;
          decoded = (case first_of_length KEY_BYTES (master_candidates raw) of
                       Some d \<Rightarrow> Inr d | None \<Rightarrow> Inl Master_key_invalid)
      in if raw = [] then Inl Master_key_empty
         else if length raw = KEY_BYTES * 2 then
           (case unhexlify raw of Inr d \<Rightarrow> Inr d | Inl e \<Rightarrow> decoded)
         else decoded)"

definition NONCE_SIZE :: nat where "NONCE_SIZE = 12"

datatype seal_error = Bad_key_length nat | Bad_blob codec_error | Blob_too_short | Decrypt_failed

definition new_secret_store :: "bytes \<Rightarrow> seal_error + bytes" where
  "new_secret_store key =
     (if length key \<noteq> KEY_BYTES then Inl (Bad_key_length (length key)) else Inr key)"

definition seal :: "(bytes \<Rightarrow> bytes \<Rightarrow> bytes \<Rightarrow> bytes) \<Rightarrow> bytes \<Rightarrow> bytes \<Rightarrow> bytes \<Rightarrow> string" where
  "seal seal_with key nonce plaintext = b64encode (nonce @ seal_with key nonce plaintext)"

definition open_blob ::
  "(bytes \<Rightarrow> bytes \<Rightarrow> bytes \<Rightarrow> bytes option) \<Rightarrow> bytes \<Rightarrow> string \<Rightarrow> seal_error + bytes" where
  "open_blob open_with key blob = (case standard_b64decode (strip blob) of
     Inl e \<Rightarrow> Inl (Bad_blob e)
   | Inr raw \<Rightarrow>
       if length raw < NONCE_SIZE then Inl Blob_too_short
       else case open_with key (take NONCE_SIZE raw) (drop NONCE_SIZE raw) of
              None \<Rightarrow> Inl Decrypt_failed
            | Some p \<Rightarrow> Inr p)"

subsection \<open>Facts on codes\<close>

lemma length_str_of_nat: "n < 10 ^ Suc k \<Longrightarrow> length (str_of_nat n) \<le> Suc k"
proof (induction k arbitrary: n)
  case 0
  then show ?case by (subst str_of_nat.simps) simp
next
  case (Suc k)
  show ?case
  proof (cases "n < 10")
    case False
    have "n div 10 < 10 ^ Suc k" using Suc.prems by (simp add: less_mult_imp_div_less)
    with Suc.IH False show ?thesis by (subst str_of_nat.simps) simp
  qed (subst str_of_nat.simps, simp)
qed

lemma code_of_digit: "d < 10 \<Longrightarrow> code_of (digit_char d) = 48 + d"
  by (simp add: code_of_def digit_char_def)

lemma str_of_nat_digits: "c \<in> set (str_of_nat n) \<Longrightarrow> is_digit c"
  by (induction n rule: str_of_nat.induct)
    (subst (asm) (2) str_of_nat.simps, auto simp: is_digit_def code_of_digit split: if_splits)

lemma digit_not_space: "is_digit c \<Longrightarrow> \<not> is_space c"
  by (simp add: is_digit_def is_space_def Let_def)

lemma strip_no_space: "(\<And>c. c \<in> set s \<Longrightarrow> \<not> is_space c) \<Longrightarrow> strip s = s"
proof -
  assume ns: "\<And>c. c \<in> set s \<Longrightarrow> \<not> is_space c"
  have "dropWhile is_space xs = xs" if "set xs \<subseteq> set s" for xs
    using that ns by (cases xs) auto
  then show ?thesis by (simp add: strip_def lstrip_def rstrip_def)
qed

lemma generate_digits: "c \<in> set (generate_at_counter secret n) \<Longrightarrow> is_digit c"
  by (auto simp: generate_at_counter_def zfill_def Let_def dest: str_of_nat_digits)
    (simp add: is_digit_def code_of_def)

lemma length_generate [simp]: "length (generate_at_counter secret n) = 6"
proof -
  have "length (str_of_nat (m mod 10 ^ DIGITS)) \<le> 6" for m
    using length_str_of_nat [of "m mod 10 ^ DIGITS" 5] by (simp add: DIGITS_def)
  then show ?thesis by (simp add: generate_at_counter_def zfill_def Let_def DIGITS_def)
qed

lemma strip_generate [simp]: "strip (generate_at_counter secret n) = generate_at_counter secret n"
  by (intro strip_no_space digit_not_space generate_digits)

subsection \<open>Facts on the replay cache\<close>

definition claimed :: "string \<Rightarrow> string \<Rightarrow> microseconds \<Rightarrow> replay_cache \<Rightarrow> bool" where
  "claimed node_id code now rc \<longleftrightarrow>
     (\<exists>t. (claim_key node_id code, t) \<in> set (rc_seen rc) \<and> now - t \<le> rc_ttl rc)"

lemma claim_ok: "fst (claim n code now rc) \<longleftrightarrow> \<not> claimed n code now rc"
  by (force simp: claim_def prune_def claimed_def Let_def)

lemma claim_ttl [simp]: "rc_ttl (snd (claim n code now rc)) = rc_ttl rc" "rc_ttl (release m rc) = rc_ttl rc"
  by (simp_all add: claim_def prune_def release_def Let_def)

text \<open>A claim that is still young survives every other claim and every foreign release.\<close>

lemma claim_keeps:
  assumes "(k, t) \<in> set (rc_seen rc)" "now - t \<le> rc_ttl rc"
  shows "(k, t) \<in> set (rc_seen (snd (claim n code now rc)))"
proof -
  have mem: "(k, t) \<in> set (rc_seen (prune now rc))" using assms by (simp add: prune_def)
  have "k \<in> fst ` set (rc_seen (prune now rc))" using mem by force
  with mem show ?thesis
    by (cases "claim_key n code \<in> set (dkeys (rc_seen (prune now rc)))")
      (auto simp: claim_def Let_def dkeys_dset_fresh map_of_eq_None_iff)
qed

lemma bar_prefix:
  assumes "CHR ''|'' \<notin> set n" "CHR ''|'' \<notin> set m" "prefix (m @ ''|'') (n @ ''|'' @ c)"
  shows "m = n"
  using assms
proof (induction m arbitrary: n)
  case Nil
  then show ?case by (cases n) auto
next
  case (Cons x m)
  then show ?case by (cases n) auto
qed

lemma release_keeps:
  assumes "(claim_key n code, t) \<in> set (rc_seen rc)" "m \<noteq> n" "CHR ''|'' \<notin> set n" "CHR ''|'' \<notin> set m"
  shows "(claim_key n code, t) \<in> set (rc_seen (release m rc))"
  using assms bar_prefix [of n m code] by (auto simp: release_def claim_key_def)

lemma claim_inserts:
  "fst (claim n code now rc) \<Longrightarrow> (claim_key n code, now) \<in> set (rc_seen (snd (claim n code now rc)))"
  by (auto simp: claim_def Let_def dkeys_dset_fresh map_of_eq_None_iff split: if_splits)

subsection \<open>What validation accepts\<close>

definition step_matches :: "bytes \<Rightarrow> string \<Rightarrow> int \<Rightarrow> bool" where
  "step_matches secret code step \<longleftrightarrow> 0 \<le> step \<and> generate_at_counter secret (nat step) = code"

lemma validate_steps_cache:
  "validate_steps secret code now n steps (Some rc) =
     (if \<exists>s \<in> set steps. step_matches secret code s
      then let (ok, rc') = claim n code now rc in (ok, Some rc') else (False, Some rc))"
  by (induction steps) (auto simp: step_matches_def)

lemma validate_cache:
  "validate secret code now (Some rc) n =
     (if length (strip code) = 6
         \<and> (\<exists>d \<in> {-2..2}. step_matches secret (strip code) (counter_at now + d))
      then let (ok, rc') = claim n (strip code) now rc in (ok, Some rc') else (False, Some rc))"
proof -
  have "(\<exists>s \<in> set (map (\<lambda>d. counter_at now + d) [- w .. w]). step_matches secret c s)
      \<longleftrightarrow> (\<exists>d \<in> {- w .. w}. step_matches secret c (counter_at now + d))" for w c
    unfolding set_map set_upto bex_simps by simp
  from this [of STEP_WINDOW "strip code"] show ?thesis
    by (simp only: validate_def Let_def DIGITS_def validate_steps_cache STEP_WINDOW_def if_not_P
        split: if_split) simp
qed

lemma counter_close:
  assumes "0 \<le> t" "0 \<le> t'" "\<bar>t - t'\<bar> \<le> seconds 60"
  shows "\<bar>counter_at t - counter_at t'\<bar> \<le> 2"
proof -
  have le: "counter_at b \<le> counter_at a + 2" if "0 \<le> a" "0 \<le> b" "b \<le> a + seconds 60" for a b
  proof -
    have "b div 1000000 div 30 \<le> (a + 60000000) div 1000000 div 30"
      using that(3) by (intro zdiv_mono1) simp_all
    also have "(a + 60000000) div 1000000 = a div 1000000 + 60" by simp
    also have "(a div 1000000 + 60) div 30 = a div 1000000 div 30 + 2" by simp
    finally show ?thesis using that by (simp add: counter_at_def whole_seconds_def TIME_STEP_def)
  qed
  show ?thesis using le [of t t'] le [of t' t] assms by linarith
qed

lemma counter_far:
  assumes "0 \<le> t" "t + seconds 180 < t'"
  shows "counter_at t + 4 < counter_at t'"
proof -
  have "(t + 180000000) div 1000000 div 30 \<le> t' div 1000000 div 30"
    using assms(2) by (intro zdiv_mono1) simp_all
  moreover have "(t + 180000000) div 1000000 = t div 1000000 + 180" by simp
  moreover have "(t div 1000000 + 180) div 30 = t div 1000000 div 30 + 6" by simp
  ultimately show ?thesis using assms by (simp add: counter_at_def whole_seconds_def TIME_STEP_def)
qed

text \<open>An accepted code is one of the five steps around now, and it was not claimed.\<close>

lemma validate_accepts:
  assumes "validate secret code now (Some rc) n = (True, rc')"
  shows "\<exists>d \<in> {-2..2}. step_matches secret (strip code) (counter_at now + d)"
    "\<not> claimed n (strip code) now rc" "rc' = Some (snd (claim n (strip code) now rc))"
  using assms by (auto simp: validate_cache claim_ok [symmetric] split_beta split: if_splits)

lemma generated_code_accepted:
  assumes "0 \<le> now" "0 \<le> t" "\<bar>t - now\<bar> \<le> seconds 60" "\<not> claimed n (generate secret t) now rc"
  shows "validate secret (generate secret t) now (Some rc) n
     = (True, Some (snd (claim n (generate secret t) now rc)))"
proof -
  let ?d = "counter_at t - counter_at now"
  have "?d \<in> {-2..2}" using counter_close [of t now] assms(1-3) by auto
  moreover have "0 \<le> counter_at t"
    using assms(2) by (simp add: counter_at_def whole_seconds_def TIME_STEP_def)
  then have "step_matches secret (generate secret t) (counter_at now + ?d)"
    by (simp add: step_matches_def generate_def)
  ultimately have "\<exists>d \<in> {-2..2}. step_matches secret (generate secret t) (counter_at now + d)" by blast
  then show ?thesis using assms(4) claim_ok [of n "generate secret t" now rc]
    by (simp add: validate_cache generate_def split_beta)
qed

subsection \<open>Properties\<close>

text \<open>a node whose clock is within a minute of the server's, in either direction, gets in with
  the code of its current step, for every secret and node id, unless that code is claimed and the
  claim is younger than the cache's lifetime; the acceptance then claims the code.\<close>

theorem skewed_clock_accepted:
  assumes "0 \<le> now" "0 \<le> t" "\<bar>t - now\<bar> \<le> seconds 60"
    and "\<not> claimed n (generate secret t) now rc"
  shows "\<exists>rc'. validate secret (generate secret t) now (Some rc) n = (True, Some rc')
     \<and> (claim_key n (generate secret t), now) \<in> set (rc_seen rc')"
proof (intro exI conjI)
  show "validate secret (generate secret t) now (Some rc) n
      = (True, Some (snd (claim n (generate secret t) now rc)))"
    using assms by (rule generated_code_accepted)
  show "(claim_key n (generate secret t), now) \<in> set (rc_seen (snd (claim n (generate secret t) now rc)))"
    using assms(4) by (intro claim_inserts) (simp add: claim_ok)
qed

lemma skewed_clock_accepted_witness:
  "\<exists>rc'. validate [1, 2, 3] (generate [1, 2, 3] (seconds 1000)) (seconds 1055) (Some new_replay_cache) ''n1''
     = (True, Some rc')"
  using skewed_clock_accepted [of "seconds 1055" "seconds 1000" "''n1''" "[1, 2, 3]" new_replay_cache]
  by (auto simp: claimed_def new_replay_cache_def)

datatype cache_op = Op_claim string string microseconds | Op_release string

definition apply_op :: "cache_op \<Rightarrow> replay_cache \<Rightarrow> replay_cache" where
  "apply_op op rc = (case op of
     Op_claim m c t \<Rightarrow> snd (claim m c t rc) | Op_release m \<Rightarrow> release m rc)"

lemma ops_keep_claim:
  assumes "(claim_key n code, t1) \<in> set (rc_seen rc)" "t2 - t1 \<le> rc_ttl rc" "CHR ''|'' \<notin> set n"
    and "\<forall>op \<in> set ops. case op of Op_claim m c t \<Rightarrow> t \<le> t2
          | Op_release m \<Rightarrow> m \<noteq> n \<and> CHR ''|'' \<notin> set m"
  shows "(claim_key n code, t1) \<in> set (rc_seen (fold apply_op ops rc))
     \<and> rc_ttl (fold apply_op ops rc) = rc_ttl rc"
  using assms
proof (induction ops arbitrary: rc)
  case (Cons op ops)
  have "(claim_key n code, t1) \<in> set (rc_seen (apply_op op rc)) \<and> rc_ttl (apply_op op rc) = rc_ttl rc"
    using Cons.prems by (cases op) (auto simp: apply_op_def intro!: claim_keeps release_keeps)
  with Cons show ?case by simp
qed simp



text \<open>The release after a genuine disconnect forgets every claim of that node and no other claim.\<close>

lemma released:
  assumes "CHR ''|'' \<notin> set n" "CHR ''|'' \<notin> set m" "m \<noteq> n"
  shows "\<not> claimed n code now (release n rc)" "claimed m code now (release n rc) = claimed m code now rc"
  using release_keeps [of m code _ rc n] assms
  by (auto simp: claimed_def) (auto simp: release_def claim_key_def)

lemma decode_generated:
  assumes "length buf = SECRET_BYTES"
    and "upper (filter (\<lambda>c. \<not> is_space c) typed) = generate_secret buf"
  shows "decode_secret typed = Inr buf"
proof -
  have dvd: "5 dvd length buf" using assms(1) by (simp add: SECRET_BYTES_def)
  have enc: "b32encode buf = concat (map b32_quantum (chunks 5 buf))" by (rule b32encode_chars [OF dvd])
  have noeq: "CHR ''='' \<notin> set (b32encode buf)"
    using b32_quantum_chars b32_alphabet_ascii by (auto simp: enc list_all_iff)
  have gen: "generate_secret buf = b32encode buf"
    by (simp add: generate_secret_def rstrip_char_none [OF noeq])
  have len: "length (b32encode buf) mod 8 = 0"
    by (simp add: enc length_concat comp_def sum_list_triv)
  have ne: "b32encode buf \<noteq> []" "buf \<noteq> []"
    using b32_roundtrip [OF dvd] assms(1) by (auto simp: SECRET_BYTES_def b32decode_def Let_def rstrip_char_def)
  show ?thesis
    using b32_roundtrip [OF dvd] by (simp add: decode_secret_def Let_def assms(2) gen len ne)
qed

text \<open>a provisioned secret survives being retyped: whatever white space an operator inserts
  and whichever letters are written in lower case, decoding gives back the 20 random bytes.\<close>

theorem secret_roundtrip:
  assumes "length buf = SECRET_BYTES"
    and "upper (filter (\<lambda>c. \<not> is_space c) typed) = generate_secret buf"
  shows "decode_secret typed = Inr buf"
  using assms by (rule decode_generated)

lemma secret_roundtrip_witness:
  "decode_secret (''aaaa AAAA '' @ replicate 24 (CHR ''a'')) = Inr (replicate 20 0)"
proof (rule secret_roundtrip)
  show "length (replicate 20 (0 :: 8 word)) = SECRET_BYTES"
    by (simp add: SECRET_BYTES_def)
  let ?z = "replicate 5 (0 :: 8 word)"
  have q: "b32_quantum [0, 0, 0, 0, 0] = ''AAAAAAAA''" by code_simp
  have z: "replicate 20 (0 :: 8 word) = concat [?z, ?z, ?z, ?z]" by code_simp
  have enc: "b32encode (replicate 20 0) = replicate 32 (CHR ''A'')"
    by (subst b32encode_chars, simp, unfold z, subst chunks_concat) (simp_all add: q eval_nat_numeral)
  have up: "upper (filter (\<lambda>c. \<not> is_space c) (''aaaa AAAA '' @ replicate 24 (CHR ''a'')))
      = replicate 32 (CHR ''A'')" by code_simp
  show "upper (filter (\<lambda>c. \<not> is_space c) (''aaaa AAAA '' @ replicate 24 (CHR ''a'')))
      = generate_secret (replicate 20 0)"
    by (simp only: up generate_secret_def enc) (simp add: rstrip_char_none)
qed

subsection \<open>The master key\<close>

text \<open>The data characters of an encoding, without its padding.\<close>

fun b64_body :: "bytes \<Rightarrow> string" where
  "b64_body [] = []"
| "b64_body [a] = [b64_char (unat a div 4), b64_char (unat a mod 4 * 16)]"
| "b64_body [a, b] = [b64_char (unat a div 4), b64_char (unat a mod 4 * 16 + unat b div 16),
     b64_char (unat b mod 16 * 4)]"
| "b64_body (a # b # c # rest) = b64_char (unat a div 4)
     # b64_char (unat a mod 4 * 16 + unat b div 16) # b64_char (unat b mod 16 * 4 + unat c div 64)
     # b64_char (unat c mod 64) # b64_body rest"

lemma mod3: "Suc (Suc (Suc n)) mod 3 = n mod 3" "Suc (Suc (Suc n)) div 3 = Suc (n div 3)"
  by presburger+

lemma b64_body_pad: "length bs mod 3 = 2 \<Longrightarrow> b64encode bs = b64_body bs @ ''=''"
  by (induction bs rule: b64_body.induct) (simp_all only: b64_body.simps b64encode.simps mod3
      list.size append.simps, simp_all)

lemma length_b64_body: "length bs mod 3 = 2 \<Longrightarrow> length (b64_body bs) = length bs div 3 * 4 + 3"
proof (induction bs rule: b64_body.induct)
  case (4 a b c rest)
  then show ?case by (simp only: b64_body.simps mod3 list.size add_0_right add_Suc_right mult_Suc)
qed simp_all

lemma a2b_body_incomplete: "length bs mod 3 = 2 \<Longrightarrow> a2b_base64 0 l p (b64_body bs) = Inl Incorrect_padding"
proof (induction bs arbitrary: l p rule: b64_body.induct)
  case (3 a b)
  then show ?case
    by (simp only: b64_body.simps a2b_char byte_parts) simp
next
  case (4 a b c rest)
  from 4(2) have "length rest mod 3 = 2" by (simp only: list.size mod3 add_0_right add_Suc_right)
  from 4(1) [OF this] show ?case
    by (simp only: b64_body.simps a2b_char byte_parts map_sum.simps id_apply)
qed simp_all

lemma first_of_length_Some: "first_of_length n rs = Some d \<Longrightarrow> length d = n"
  by (induction n rs rule: first_of_length.induct) (auto split: if_splits)

lemma strip_trim:
  assumes "\<forall>c \<in> set ws. is_space c" "\<forall>c \<in> set ws'. is_space c" "\<forall>c \<in> set s. \<not> is_space c"
  shows "strip (ws @ s @ ws') = s"
proof -
  have spaces: "dropWhile is_space (xs @ ys) = dropWhile is_space ys" if "\<forall>c \<in> set xs. is_space c" for xs ys
    using that by simp
  have none: "dropWhile is_space xs = xs" if "\<forall>c \<in> set xs. \<not> is_space c" for xs
    using that by (cases xs) auto
  show ?thesis
  proof (cases "s = []")
    case True
    have w: "dropWhile is_space (ws @ ws') = []" using assms by simp
    show ?thesis by (simp add: True strip_def lstrip_def rstrip_def w)
  next
    case False
    then have "dropWhile is_space (s @ ws') = s @ ws'" using assms(3) by (cases s) auto
    then show ?thesis
      using assms spaces [of ws "s @ ws'"] spaces [of "rev ws'" "rev s"] none [of "rev s"]
      by (simp add: strip_def lstrip_def rstrip_def)
  qed
qed

text \<open>whatever is accepted as a master key is 32 bytes long, and a 32-byte key written in
  base64, padded or not and with white space around it, is read back exactly.\<close>

theorem master_key_roundtrip:
  assumes "length k = 32" "\<forall>c \<in> set ws. is_space c" "\<forall>c \<in> set ws'. is_space c"
  shows "parse_master_key (ws @ b64encode k @ ws') = Inr k
     \<and> parse_master_key (ws @ b64_body k @ ws') = Inr k
     \<and> (parse_master_key raw = Inr key \<longrightarrow> length key = 32)"
proof (intro conjI impI)
  have mod: "length k mod 3 = 2" using assms(1) by simp
  have enc: "b64encode k = b64_body k @ ''=''" by (rule b64_body_pad [OF mod])
  have len: "length (b64_body k) = 43" using length_b64_body [OF mod] assms(1) by simp
  have facts: "\<forall>c \<in> set (b64encode k). code_of c < 128 \<and> \<not> is_space c"
    using b64encode_facts [of k] by (simp add: list_all_iff)
  have ascii: "list_all (\<lambda>c. code_of c < 128) (b64_body k)"
    using facts by (auto simp: enc list_all_iff)
  have std: "standard_b64decode (b64_body k @ ''='') = Inr k"
    using b64_roundtrip [of k] by (simp only: enc)
  have bare: "standard_b64decode (b64_body k) = Inl Incorrect_padding"
    using ascii by (simp add: standard_b64decode_def a2b_body_incomplete [OF mod])
  have s1: "strip (ws @ b64encode k @ ws') = b64_body k @ ''=''"
    using strip_trim [OF assms(2,3), of "b64encode k"] facts enc by simp
  have s2: "strip (ws @ b64_body k @ ws') = b64_body k"
    using strip_trim [OF assms(2,3), of "b64_body k"] facts enc by simp
  show "parse_master_key (ws @ b64encode k @ ws') = Inr k"
    unfolding parse_master_key_def s1
    by (simp add: Let_def master_candidates_def std len KEY_BYTES_def assms(1))
  have "b64_body k \<noteq> []" using len by auto
  then show "parse_master_key (ws @ b64_body k @ ws') = Inr k"
    unfolding parse_master_key_def s2
    by (simp add: Let_def master_candidates_def std bare len KEY_BYTES_def assms(1))
next
  assume "parse_master_key raw = Inr key"
  then show "length key = 32"
    using hex_pairs_length [of "strip raw"] first_of_length_Some [of KEY_BYTES]
    by (fastforce simp: parse_master_key_def Let_def KEY_BYTES_def unhexlify_def
        split: if_splits sum.splits option.splits)
qed

lemma master_key_roundtrip_witness:
  "parse_master_key ('' '' @ b64encode (replicate 32 7) @ ''  '') = Inr (replicate 32 7)"
  using master_key_roundtrip [of "replicate 32 7" "'' ''" "''  ''"]
  by (simp add: is_space_def code_of_def)

lemma open_sealed:
  assumes "\<And>p. open_with key nonce (seal_with key nonce p) = Some p" "length nonce = NONCE_SIZE"
  shows "open_blob open_with key (seal seal_with key nonce secret) = Inr secret"
proof -
  have "strip (b64encode bs) = b64encode bs" for bs
    using b64encode_facts [of bs] by (intro strip_no_space) (auto simp: list_all_iff)
  then show ?thesis
    by (simp add: open_blob_def seal_def b64_roundtrip assms)
qed

end
