(* ===== verification/Envelope.thy ===== *)
theory Envelope
  imports Codecs
begin

text \<open>
  envelope.py: the Connect streaming envelope (one flag byte, a 32-bit big-endian length, the
  payload) and the incremental decoder. Payloads are the serialised messages, opaque bytes here;
  the end-of-stream trailer is the JSON text \<open>json.dumps\<close> produces. \<open>None\<close> is the
  \<open>struct.error\<close> of a payload of 4 GiB or ext.
\<close>

definition FLAG_COMPRESSED :: nat where "FLAG_COMPRESSED = 1"
definition FLAG_END_STREAM :: nat where "FLAG_END_STREAM = 2"
definition PREFIX_LEN :: nat where "PREFIX_LEN = 5"

definition encode_frame :: "nat \<Rightarrow> bytes \<Rightarrow> bytes option" where
  "encode_frame flags payload =
     (if length payload < 2 ^ 32
      then Some (of_nat (flags mod 256) # bytes_of_nat 4 (length payload) @ payload) else None)"

definition encode_message :: "('m \<Rightarrow> bytes) \<Rightarrow> 'm \<Rightarrow> bytes option" where
  "encode_message serialize msg = encode_frame 0 (serialize msg)"

subsection \<open>The trailer\<close>

definition hex_char :: "nat \<Rightarrow> char" where
  "hex_char d = (if d < 10 then char_of (48 + d) else char_of (87 + d))"

text \<open>\<open>json.dumps\<close> of a string, with its default \<open>ensure_ascii\<close>.\<close>

definition json_char :: "char \<Rightarrow> string" where
  "json_char c = (let n = code_of c in
     if n = 34 then [char_of (92 :: nat), char_of (34 :: nat)]
     else if n = 92 then [char_of (92 :: nat), char_of (92 :: nat)]
     else if n = 8 then char_of (92 :: nat) # ''b''
     else if n = 9 then char_of (92 :: nat) # ''t''
     else if n = 10 then char_of (92 :: nat) # ''n''
     else if n = 12 then char_of (92 :: nat) # ''f''
     else if n = 13 then char_of (92 :: nat) # ''r''
     else if 32 \<le> n \<and> n \<le> 126 then [c]
     else char_of (92 :: nat) # ''u00'' @ [hex_char (n div 16), hex_char (n mod 16)])"

definition quote_char :: char where "quote_char = char_of (34 :: nat)"

definition json_string :: "string \<Rightarrow> string" where
  "json_string s = quote_char # concat (map json_char s) @ [quote_char]"

record stream_error =
  err_code :: string
  err_message :: string

definition trailer_json :: "stream_error option \<Rightarrow> string" where
  "trailer_json err = (case err of
     None \<Rightarrow> ''{}''
   | Some e \<Rightarrow> ''{'' @ json_string ''error'' @ '':{'' @ json_string ''code'' @ '':''
       @ json_string (err_code e) @ '','' @ json_string ''message'' @ '':''
       @ json_string (err_message e) @ ''}}'')"

definition encode_end_stream :: "stream_error option \<Rightarrow> bytes option" where
  "encode_end_stream err =
     encode_frame FLAG_END_STREAM (map (\<lambda>c. of_nat (code_of c)) (trailer_json err))"

subsection \<open>FrameDecoder\<close>

text \<open>The decoder is its buffer.\<close>

definition feed :: "bytes \<Rightarrow> bytes \<Rightarrow> bytes" where
  "feed data buf = (if data \<noteq> [] then buf @ data else buf)"

definition next_frame :: "bytes \<Rightarrow> (nat \<times> bytes) option \<times> bytes" where
  "next_frame buf =
     (if length buf < PREFIX_LEN then (None, buf)
      else let flags = unat (hd buf); len = nat_of_bytes (take 4 (drop 1 buf));
               total = PREFIX_LEN + len
           in if length buf < total then (None, buf)
              else (Some (flags, drop PREFIX_LEN (take total buf)), drop total buf))"

lemma next_frame_shrinks: "next_frame buf = (Some f, buf') \<Longrightarrow> length buf' < length buf"
  by (auto simp: next_frame_def PREFIX_LEN_def Let_def split: if_splits)

text \<open>Iterating the decoder until it has no whole frame left.\<close>

function pull_frames :: "bytes \<Rightarrow> (nat \<times> bytes) list \<times> bytes" where
  "pull_frames buf = (case next_frame buf of
     (None, buf') \<Rightarrow> ([], buf')
   | (Some f, buf') \<Rightarrow> (let (fs, rest) = pull_frames buf' in (f # fs, rest)))"
  by pat_completeness auto
termination
  by (relation "measure length") (auto dest: next_frame_shrinks [OF sym])

declare pull_frames.simps [simp del]

text \<open>The reading loop: feed a chunk, pull what is complete, go on.\<close>

fun read_chunks :: "bytes list \<Rightarrow> bytes \<Rightarrow> (nat \<times> bytes) list \<times> bytes" where
  "read_chunks [] buf = pull_frames buf"
| "read_chunks (c # cs) buf =
     (let (fs, buf') = pull_frames buf; (gs, rest) = read_chunks cs (feed c buf') in (fs @ gs, rest))"

subsection \<open>Lemmas\<close>

lemma feed_append [simp]: "feed data buf = buf @ data"
  by (simp add: feed_def)

lemma next_frame_append:
  assumes "next_frame buf = (Some f, buf')"
  shows "next_frame (buf @ ext) = (Some f, buf' @ ext)"
proof -
  have len: "5 \<le> length buf" "5 + nat_of_bytes (take 4 (drop 1 buf)) \<le> length buf"
    using assms by (auto simp: next_frame_def PREFIX_LEN_def Let_def split: if_splits)
  then have "hd (buf @ ext) = hd buf" "take 4 (drop 1 (buf @ ext)) = take 4 (drop 1 buf)"
    by (auto simp: hd_append)
  with len assms show ?thesis
    by (auto simp: next_frame_def PREFIX_LEN_def Let_def split: if_splits)
qed

lemma next_frame_none: "next_frame buf = (None, buf') \<Longrightarrow> buf' = buf"
  by (auto simp: next_frame_def Let_def split: if_splits)

lemma pull_frames_append:
  "pull_frames (buf @ ext) = (let (fs, rest) = pull_frames buf; (gs, rest') = pull_frames (rest @ ext)
     in (fs @ gs, rest'))"
proof (induction buf rule: pull_frames.induct)
  case (1 buf)
  show ?case
  proof (cases "next_frame buf")
    case (Pair o' buf')
    show ?thesis
    proof (cases o')
      case None
      then show ?thesis
        using Pair next_frame_none [of buf buf'] by (simp add: pull_frames.simps [of buf] split_beta)
    next
      case (Some f)
      then show ?thesis
        using Pair 1 [of "Some f" buf' f] next_frame_append [of buf f buf' ext]
        by (simp add: pull_frames.simps [of buf] pull_frames.simps [of "buf @ ext"] split_beta Let_def)
    qed
  qed
qed

lemma read_chunks_whole: "read_chunks cs buf = pull_frames (buf @ concat cs)"
proof (induction cs arbitrary: buf)
  case (Cons c cs)
  then show ?case
    by (simp add: pull_frames_append [of buf "c @ concat cs"] split_beta Let_def)
qed simp

lemma encode_frame_Some:
  "encode_frame flags p = Some e \<Longrightarrow>
   e = of_nat (flags mod 256) # bytes_of_nat 4 (length p) @ p \<and> length p < 2 ^ 32"
  by (simp add: encode_frame_def split: if_splits)

lemma next_frame_encoded:
  assumes "encode_frame flags p = Some e"
  shows "next_frame (e @ rest) = (Some (flags mod 256, p), rest)"
proof -
  have e: "e = of_nat (flags mod 256) # bytes_of_nat 4 (length p) @ p" and len: "length p < 2 ^ 32"
    using encode_frame_Some [OF assms] by auto
  have n: "nat_of_bytes (bytes_of_nat 4 (length p)) = length p"
    using len by (simp only: nat_of_bytes_of_nat) simp
  have b: "unat (of_nat (flags mod 256) :: 8 word) = flags mod 256"
    by (rule byte_of_nat) simp
  have "next_frame (x # l @ p @ rest) = (Some (unat x, p), rest)"
    if "length l = 4" "nat_of_bytes l = length p" for x l
    using that by (simp add: next_frame_def PREFIX_LEN_def Let_def take_Cons' drop_Cons')
  from this [of "bytes_of_nat 4 (length p)" "of_nat (flags mod 256)"] show ?thesis
    by (simp add: e n b del: of_nat_mod)
qed

lemma pull_encoded:
  "list_all2 (\<lambda>(flags, p) e. encode_frame flags p = Some e) fs es \<Longrightarrow>
   next_frame rest = (None, rest) \<Longrightarrow>
   pull_frames (concat es @ rest) = (map (\<lambda>(flags, p). (flags mod 256, p)) fs, rest)"
proof (induction fs es rule: list_all2_induct)
  case Nil
  then show ?case by (simp add: pull_frames.simps)
next
  case (Cons f fs e es)
  then show ?case
    by (cases f) (simp add: pull_frames.simps [of "e @ _"] next_frame_encoded)
qed

subsection \<open>Properties\<close>

text \<open>C38: the decoder recovers exactly the frames that were encoded, in order, whatever the
  boundaries at which the transport cuts the byte stream, and keeps an incomplete last envelope
  for later.\<close>

theorem chunked_roundtrip:
  assumes "list_all2 (\<lambda>(flags, p) e. encode_frame flags p = Some e) fs es"
    and "next_frame rest = (None, rest)"
    and "concat pieces = concat es @ rest"
  shows "read_chunks pieces [] = (map (\<lambda>(flags, p). (flags mod 256, p)) fs, rest)"
  using assms by (simp add: read_chunks_whole pull_encoded)

lemma bytes4: "bytes_of_nat 4 x = [of_nat (x div 256 div 256 div 256 mod 256),
    of_nat (x div 256 div 256 mod 256), of_nat (x div 256 mod 256), of_nat (x mod 256)]"
proof -
  have four: "4 = Suc (Suc (Suc (Suc 0)))" by simp
  show ?thesis unfolding bytes_of_nat_def four by simp
qed

lemma chunked_roundtrip_witness:
  "read_chunks [[0, 0], [0, 0, 2, 65], [66, 2, 0, 0, 0], [0, 0]] [] = ([(0, [65, 66]), (2, [])], [0])"
proof -
  have "encode_frame 0 [65, 66] = Some [0, 0, 0, 0, 2, 65, 66]" "encode_frame 2 [] = Some [2, 0, 0, 0, 0]"
    by (simp_all add: encode_frame_def bytes4)
  then have es: "list_all2 (\<lambda>(flags, p) e. encode_frame flags p = Some e) [(0, [65, 66]), (2, [])]
      [[0, 0, 0, 0, 2, 65, 66], [2, 0, 0, 0, 0]]" by simp
  show ?thesis
    by (subst chunked_roundtrip [OF es, of "[0]"]) (simp_all add: next_frame_def PREFIX_LEN_def)
qed

end
