(* ===== verification/Upstream_Reader.thy ===== *)
theory Upstream_Reader
  imports Envelope
begin

text \<open>
  The request half of a Connect stream: \<open>_UpstreamReader\<close> of connect_stream.py and the
  single-message readers of the follow streams. The ASGI \<open>receive\<close> channel is the list of events
  still to come; \<open>parse\<close> stands for the generated \<open>ParseFromString\<close> (\<open>None\<close> is a DecodeError).
\<close>

datatype asgi_event =
    Http_request bytes bool      \<comment> \<open>body, more_body\<close>
  | Http_disconnect
  | Other_event

record reader =
  rd_buf :: bytes
  rd_eof :: bool

definition new_reader :: reader where
  "new_reader = \<lparr>rd_buf = [], rd_eof = False\<rparr>"

text \<open>\<open>Read_blocked\<close>: the coroutine waits for an event that never comes.\<close>

datatype 'm read_result = Read_msg 'm | Read_eof | Read_error | Read_blocked

definition is_end_stream :: "nat \<Rightarrow> bool" where
  "is_end_stream flags = (and flags FLAG_END_STREAM \<noteq> 0)"

definition receive_event :: "asgi_event \<Rightarrow> reader \<Rightarrow> reader" where
  "receive_event e r = (case e of
     Http_request body more_body \<Rightarrow>
       r\<lparr>rd_buf := feed body (rd_buf r), rd_eof := (if more_body then rd_eof r else True)\<rparr>
   | Http_disconnect \<Rightarrow> r\<lparr>rd_eof := True\<rparr>
   | Other_event \<Rightarrow> r)"

fun reader_next ::
  "(bytes \<Rightarrow> 'm option) \<Rightarrow> reader \<Rightarrow> asgi_event list \<Rightarrow> 'm read_result \<times> reader \<times> asgi_event list" where
  "reader_next parse r events = (case next_frame (rd_buf r) of
     (Some (flags, payload), buf) \<Rightarrow>
       (if is_end_stream flags then (Read_eof, r\<lparr>rd_buf := buf, rd_eof := True\<rparr>, events)
        else (case parse payload of None \<Rightarrow> Read_error | Some m \<Rightarrow> Read_msg m,
              r\<lparr>rd_buf := buf\<rparr>, events))
   | (None, buf) \<Rightarrow>
       (if rd_eof r then (Read_eof, r, events)
        else case events of
          [] \<Rightarrow> (Read_blocked, r, [])
        | e # es \<Rightarrow> reader_next parse (receive_event e r) es))"

declare reader_next.simps [simp del]

text \<open>The bytes still to come before the stream ends, and whether it ends.\<close>

fun pending_bytes :: "asgi_event list \<Rightarrow> bytes" where
  "pending_bytes [] = []"
| "pending_bytes (Http_request b more_body # es) = b @ (if more_body then pending_bytes es else [])"
| "pending_bytes (Http_disconnect # es) = []"
| "pending_bytes (Other_event # es) = pending_bytes es"

fun stream_ends :: "asgi_event list \<Rightarrow> bool" where
  "stream_ends [] = False"
| "stream_ends (Http_request b more_body # es) = (more_body \<longrightarrow> stream_ends es)"
| "stream_ends (Http_disconnect # es) = True"
| "stream_ends (Other_event # es) = stream_ends es"

definition reader_bytes :: "reader \<Rightarrow> asgi_event list \<Rightarrow> bytes" where
  "reader_bytes r es = rd_buf r @ (if rd_eof r then [] else pending_bytes es)"

definition reader_ends :: "reader \<Rightarrow> asgi_event list \<Rightarrow> bool" where
  "reader_ends r es = (rd_eof r \<or> stream_ends es)"

lemma receive_event_bytes:
  assumes "\<not> rd_eof r"
  shows "reader_bytes (receive_event e r) es = reader_bytes r (e # es)"
    "reader_ends (receive_event e r) es = reader_ends r (e # es)"
  using assms by (cases e; simp add: receive_event_def reader_bytes_def reader_ends_def)+

text \<open>What one call returns, in terms of the frames of everything still to come.\<close>

definition reader_spec :: "(bytes \<Rightarrow> 'm option) \<Rightarrow> reader \<Rightarrow> asgi_event list \<Rightarrow> bool" where
  "reader_spec parse r es \<longleftrightarrow> (case fst (pull_frames (reader_bytes r es)) of
     [] \<Rightarrow> fst (reader_next parse r es) = (if reader_ends r es then Read_eof else Read_blocked)
   | (flags, p) # fs \<Rightarrow>
       if is_end_stream flags then fst (reader_next parse r es) = Read_eof
       else case parse p of
         None \<Rightarrow> fst (reader_next parse r es) = Read_error
       | Some m \<Rightarrow> \<exists>r' es'. reader_next parse r es = (Read_msg m, r', es')
           \<and> fst (pull_frames (reader_bytes r' es')) = fs \<and> reader_ends r' es' = reader_ends r es
           \<and> length (reader_bytes r' es') + PREFIX_LEN \<le> length (reader_bytes r es))"

lemma next_frame_consumes: "next_frame buf = (Some f, buf') \<Longrightarrow> length buf' + PREFIX_LEN \<le> length buf"
  by (auto simp: next_frame_def PREFIX_LEN_def Let_def split: if_splits)

lemma reader_spec_buffered:
  assumes "next_frame (rd_buf r) = (Some (flags, p), buf)"
  shows "reader_spec parse r es"
proof -
  let ?x = "if rd_eof r then [] else pending_bytes es"
  have "next_frame (reader_bytes r es) = (Some (flags, p), buf @ ?x)"
    unfolding reader_bytes_def by (rule next_frame_append [OF assms])
  then have "fst (pull_frames (reader_bytes r es)) = (flags, p) # fst (pull_frames (buf @ ?x))"
    by (simp add: pull_frames.simps [of "reader_bytes r es"] split_beta)
  moreover have "length buf + PREFIX_LEN \<le> length (rd_buf r)"
    by (rule next_frame_consumes [OF assms])
  ultimately show ?thesis
    using assms by (auto simp: reader_spec_def reader_next.simps [of parse r es] reader_bytes_def
        reader_ends_def split: option.split)
qed

lemma reader_spec_eof:
  assumes "next_frame (rd_buf r) = (None, buf)" "rd_eof r"
  shows "reader_spec parse r es"
  using assms by (simp add: reader_spec_def reader_next.simps [of parse r es] reader_bytes_def
      reader_ends_def pull_frames.simps [of "rd_buf r"])

lemma reader_spec_blocked:
  assumes "next_frame (rd_buf r) = (None, buf)" "\<not> rd_eof r"
  shows "reader_spec parse r []"
  using assms by (simp add: reader_spec_def reader_next.simps [of parse r "[]"] reader_bytes_def
      reader_ends_def pull_frames.simps [of "rd_buf r"])

lemma reader_next_spec: "reader_spec parse r es"
proof (induction es arbitrary: r)
  case Nil
  show ?case
  proof (cases "next_frame (rd_buf r)")
    case (Pair f buf)
    then show ?thesis
      by (cases f; cases "rd_eof r")
        (auto intro: reader_spec_buffered reader_spec_eof reader_spec_blocked)
  qed
next
  case (Cons e es)
  show ?case
  proof (cases "next_frame (rd_buf r)")
    case (Pair f buf)
    show ?thesis
    proof (cases "f = None \<and> \<not> rd_eof r")
      case True
      then have n: "reader_next parse r (e # es) = reader_next parse (receive_event e r) es"
        using Pair by (simp add: reader_next.simps [of parse r "e # es"])
      have b: "reader_bytes (receive_event e r) es = reader_bytes r (e # es)"
        "reader_ends (receive_event e r) es = reader_ends r (e # es)"
        using receive_event_bytes True by auto
      show ?thesis
        using Cons.IH [of "receive_event e r"] unfolding reader_spec_def b n .
    next
      case False
      then show ?thesis
        using Pair by (cases f) (auto intro: reader_spec_buffered reader_spec_eof)
    qed
  qed
qed

text \<open>The upstream loop: messages one after the other until the reader gives none.\<close>

lemma reader_next_decreases:
  assumes "reader_next parse r es = (Read_msg m, r', es')"
  shows "length (reader_bytes r' es') + PREFIX_LEN \<le> length (reader_bytes r es)"
    "reader_ends r' es' = reader_ends r es"
  using reader_next_spec [of parse r es] assms
  by (auto simp: reader_spec_def split: list.splits option.splits if_splits)

lemma reader_next_shrinks:
  "reader_next parse r es = (Read_msg m, r', es') \<Longrightarrow> length (reader_bytes r' es') < length (reader_bytes r es)"
  by (drule reader_next_decreases(1)) (simp add: PREFIX_LEN_def)

lemma reader_waits_only_for_more:
  "fst (reader_next parse r es) = Read_blocked \<Longrightarrow> \<not> reader_ends r es"
  using reader_next_spec [of parse r es]
  by (auto simp: reader_spec_def split: list.splits option.splits if_splits)

function upstream_messages ::
  "(bytes \<Rightarrow> 'm option) \<Rightarrow> reader \<Rightarrow> asgi_event list \<Rightarrow> 'm list \<times> 'm read_result" where
  "upstream_messages parse r es = (case reader_next parse r es of
     (Read_msg m, r', es') \<Rightarrow>
       (let (ms, out) = upstream_messages parse r' es' in (m # ms, out))
   | (out, _, _) \<Rightarrow> ([], out))"
  by pat_completeness auto
termination
  by (relation "measure (\<lambda>(parse, r, es). length (reader_bytes r es))")
    (auto dest: reader_next_shrinks [OF sym])

declare upstream_messages.simps [simp del]

text \<open>The abstract reader: the frames up to the end-of-stream envelope, each parsed.\<close>

fun deliver_frames ::
  "(bytes \<Rightarrow> 'm option) \<Rightarrow> bool \<Rightarrow> (nat \<times> bytes) list \<Rightarrow> 'm list \<times> 'm read_result" where
  "deliver_frames parse ended [] = ([], if ended then Read_eof else Read_blocked)"
| "deliver_frames parse ended ((flags, p) # fs) =
     (if is_end_stream flags then ([], Read_eof)
      else case parse p of
        None \<Rightarrow> ([], Read_error)
      | Some m \<Rightarrow> (let (ms, out) = deliver_frames parse ended fs in (m # ms, out)))"

text \<open>C34: the server reads exactly the messages of the whole byte stream: whatever the ASGI
  chunking, the messages the upstream loop hands on are the payloads of the stream's frames in
  order, up to the first end-of-stream envelope or undecodable payload, and the loop waits for
  more only while the client may still send. The compression flag plays no part in it.\<close>

theorem upstream_reads_the_stream:
  "upstream_messages parse r es
     = deliver_frames parse (reader_ends r es) (fst (pull_frames (reader_bytes r es)))"
proof (induction "length (reader_bytes r es)" arbitrary: r es rule: less_induct)
  case less
  have spec: "reader_spec parse r es" by (rule reader_next_spec)
  show ?case
  proof (cases "fst (pull_frames (reader_bytes r es))")
    case Nil
    with spec show ?thesis
      by (subst upstream_messages.simps) (auto simp: reader_spec_def split_beta)
  next
    case (Cons f fs)
    obtain flags p where f: "f = (flags, p)" by (cases f)
    show ?thesis
    proof (cases "is_end_stream flags \<or> parse p = None")
      case True
      with spec Cons f show ?thesis
        by (subst upstream_messages.simps)
          (cases "reader_next parse r es", auto simp: reader_spec_def split: if_splits)
    next
      case False
      then obtain m where m: "parse p = Some m" by auto
      with spec Cons f False obtain r' es' where n: "reader_next parse r es = (Read_msg m, r', es')"
        "fst (pull_frames (reader_bytes r' es')) = fs" "reader_ends r' es' = reader_ends r es"
        "length (reader_bytes r' es') < length (reader_bytes r es)"
        by (auto simp: reader_spec_def PREFIX_LEN_def)
      show ?thesis
        using less [OF n(4)] n False m Cons f by (subst upstream_messages.simps) simp
    qed
  qed
qed

text \<open>C35: the upstream loop of a stream always comes to an end with its client. On a stream that is
  closed, cut or completed by the client the loop stops, with an end or an error and never waiting,
  after at most one message for every five bytes received.\<close>

theorem upstream_loop_ends:
  assumes "reader_ends r es" "upstream_messages parse r es = (ms, out)"
  shows "out \<in> {Read_eof, Read_error} \<and> 5 * length ms \<le> length (reader_bytes r es)"
  using assms
proof (induction "length (reader_bytes r es)" arbitrary: r es ms out rule: less_induct)
  case less
  obtain o1 r' es' where n: "reader_next parse r es = (o1, r', es')" by (cases "reader_next parse r es")
  show ?case
  proof (cases o1)
    case (Read_msg m)
    obtain ms' where ms': "upstream_messages parse r' es' = (ms', out)" "ms = m # ms'"
      using less.prems(2) n Read_msg
      by (subst (asm) upstream_messages.simps) (auto split: prod.splits)
    note step = reader_next_decreases [OF n [unfolded Read_msg]] reader_next_shrinks [OF n [unfolded Read_msg]]
    have "out \<in> {Read_eof, Read_error} \<and> 5 * length ms' \<le> length (reader_bytes r' es')"
      using less.hyps [OF step(3) _ ms'(1)] less.prems(1) step(2) by simp
    with step(1) ms'(2) show ?thesis by (simp add: PREFIX_LEN_def)
  next
    case Read_blocked
    with n reader_waits_only_for_more [of parse r es] less.prems(1) show ?thesis by simp
  qed (use less.prems(2) n in \<open>subst (asm) upstream_messages.simps; simp\<close>)+
qed

lemma upstream_loop_ends_witness:
  "snd (upstream_messages Some new_reader [Http_request [0, 0, 0, 0, 1, 7, 0] True, Http_disconnect]) \<in> {Read_eof, Read_error}"
proof -
  have "reader_ends new_reader [Http_request [0, 0, 0, 0, 1, 7, 0] True, Http_disconnect]"
    by (simp add: reader_ends_def)
  from upstream_loop_ends [OF this] show ?thesis by (metis prod.collapse)
qed

subsection \<open>Single-message requests (FollowNodeSession, FollowToolRun)\<close>

definition read_first_request ::
  "(bytes \<Rightarrow> 'm option) \<Rightarrow> asgi_event list \<Rightarrow> 'm read_result" where
  "read_first_request parse events = fst (reader_next parse new_reader events)"

end
