(* ===== verification/Upgrade.thy ===== *)
theory Upgrade
  imports Prelude
begin

text \<open>
  upgrade_progress.py: the tracker of node upgrades, keyed by node id and surviving reconnects.
  The Chinese display texts are constructors of \<open>upgrade_message\<close>; \<open>now\<close> is the formatted clock.
\<close>

definition EVENTS_TAIL :: nat where "EVENTS_TAIL = 20"

definition normalize_version :: "string \<Rightarrow> string" where
  "normalize_version v = lstrip_char (CHR ''v'') (strip v)"

subsection \<open>State\<close>

datatype upgrade_message =
    Msg_dispatched
  | Msg_text string
  | Msg_runtime_switched
  | Msg_node_accepted
  | Msg_restarting
  | Msg_node_updated string
  | Msg_ack_timeout int          \<comment> \<open>the ack window passed; the node may still be working\<close>
  | Msg_connection_lost

record upgrade_entry =
  ue_seq :: int
  ue_stage :: string
  ue_message :: upgrade_message
  ue_timestamp :: string

record upgrade_snapshot =
  us_kind :: string
  us_target_version :: string
  us_server_frame_id :: string
  us_status :: string
  us_stage :: string
  us_message :: upgrade_message
  us_percent :: int
  us_current_bytes :: int
  us_total_bytes :: int
  us_error :: string
  us_created_at :: string
  us_updated_at :: string
  us_completed_at :: string
  us_events :: "upgrade_entry list"

record upgrade_job =
  uj_runtime :: "upgrade_snapshot option"
  uj_node :: "upgrade_snapshot option"

type_synonym tracker = "(string, upgrade_job) dict"

record upgrade_event =
  uv_server_frame_id :: string
  uv_kind :: string
  uv_seq :: int
  uv_stage :: string
  uv_message :: string
  uv_percent :: int
  uv_current_bytes :: int
  uv_total_bytes :: int

definition node_entry :: "string \<Rightarrow> tracker \<Rightarrow> upgrade_job \<times> tracker" where
  "node_entry node_id t = (case dget t node_id of
     Some e \<Rightarrow> (e, t)
   | None \<Rightarrow> let e = \<lparr>uj_runtime = None, uj_node = None\<rparr> in (e, dset node_id e t))"

definition job_step :: "string \<Rightarrow> upgrade_job \<Rightarrow> upgrade_snapshot option" where
  "job_step kind j = (if kind = ''runtime'' then uj_runtime j
     else if kind = ''node'' then uj_node j else None)"

definition set_step :: "string \<Rightarrow> upgrade_snapshot \<Rightarrow> upgrade_job \<Rightarrow> upgrade_job" where
  "set_step kind s j = (if kind = ''runtime'' then j\<lparr>uj_runtime := Some s\<rparr>
     else if kind = ''node'' then j\<lparr>uj_node := Some s\<rparr> else j)"

definition step_snapshot :: "string \<Rightarrow> string \<Rightarrow> tracker \<Rightarrow> upgrade_snapshot option" where
  "step_snapshot node_id kind t = (case dget t node_id of None \<Rightarrow> None | Some e \<Rightarrow> job_step kind e)"

text \<open>The in-place mutation of a snapshot reached through \<open>step_snapshot\<close>.\<close>

definition store_snapshot :: "string \<Rightarrow> string \<Rightarrow> upgrade_snapshot \<Rightarrow> tracker \<Rightarrow> tracker" where
  "store_snapshot node_id kind s t = (case dget t node_id of
     None \<Rightarrow> t | Some e \<Rightarrow> dset node_id (set_step kind s e) t)"

definition new_upgrade_snapshot :: "string \<Rightarrow> string \<Rightarrow> string \<Rightarrow> string \<Rightarrow> upgrade_snapshot" where
  "new_upgrade_snapshot now kind target_version server_frame_id =
     \<lparr>us_kind = kind, us_target_version = target_version, us_server_frame_id = server_frame_id,
      us_status = ''dispatched'', us_stage = ''dispatched'', us_message = Msg_dispatched,
      us_percent = 0, us_current_bytes = 0, us_total_bytes = 0, us_error = [],
      us_created_at = now, us_updated_at = now, us_completed_at = [], us_events = []\<rparr>"

definition finished :: "upgrade_snapshot \<Rightarrow> bool" where
  "finished s = (us_status s \<in> {''completed'', ''failed''})"

subsection \<open>Operations\<close>

definition init_upgrade :: "string \<Rightarrow> string \<Rightarrow> string \<Rightarrow> string \<Rightarrow> string \<Rightarrow> tracker \<Rightarrow> tracker" where
  "init_upgrade now node_id kind target_version server_frame_id t =
     (if kind \<notin> {''runtime'', ''node''} then t
      else let (e, t1) = node_entry node_id t
           in dset node_id (set_step kind (new_upgrade_snapshot now kind target_version server_frame_id) e) t1)"

definition push_event :: "string \<Rightarrow> int \<Rightarrow> string \<Rightarrow> upgrade_message \<Rightarrow> upgrade_snapshot \<Rightarrow> upgrade_snapshot" where
  "push_event now seq stage msg s = s\<lparr>us_events := lastn EVENTS_TAIL (us_events s
     @ [\<lparr>ue_seq = seq, ue_stage = stage, ue_message = msg, ue_timestamp = now\<rparr>])\<rparr>"

definition apply_event :: "string \<Rightarrow> string \<Rightarrow> upgrade_event \<Rightarrow> tracker \<Rightarrow> tracker" where
  "apply_event now node_id e t =
     (if uv_kind e \<notin> {''runtime'', ''node''} then t
      else case step_snapshot node_id (uv_kind e) t of
        None \<Rightarrow> t
      | Some s \<Rightarrow>
          if us_server_frame_id s \<noteq> [] \<and> uv_server_frame_id e \<noteq> []
             \<and> us_server_frame_id s \<noteq> uv_server_frame_id e then t
          else let terminal = uv_stage e \<in> {''done'', ''failed''}
            in if finished s \<and> \<not> terminal then t
               else let s1 = s\<lparr>us_stage := uv_stage e, us_message := Msg_text (uv_message e),
                          us_percent := uv_percent e, us_current_bytes := uv_current_bytes e,
                          us_total_bytes := uv_total_bytes e, us_updated_at := now\<rparr>;
                        s2 = (if terminal
                              then s1\<lparr>us_status := (if uv_stage e = ''done'' then ''completed'' else ''failed''),
                                      us_completed_at := now\<rparr>
                              else s1)
                    in store_snapshot node_id (uv_kind e)
                         (push_event now (uv_seq e) (uv_stage e) (us_message s2) s2) t)"

definition finalize_from_ack :: "string \<Rightarrow> string \<Rightarrow> string \<Rightarrow> bool \<Rightarrow> string \<Rightarrow> tracker \<Rightarrow> tracker" where
  "finalize_from_ack now node_id kind ok error t = (case step_snapshot node_id kind t of
     None \<Rightarrow> t
   | Some s \<Rightarrow>
       if finished s then t
       else let s1 = s\<lparr>us_updated_at := now\<rparr> in
         store_snapshot node_id kind
           (if ok then
              (if kind = ''runtime''
               then s1\<lparr>us_status := ''completed'', us_stage := ''done'', us_percent := 100,
                       us_message := Msg_runtime_switched, us_completed_at := now\<rparr>
               else s1\<lparr>us_stage := ''downloading'', us_message := Msg_node_accepted\<rparr>)
            else let err = or_str error ''node rejected the upgrade'' in
              s1\<lparr>us_status := ''failed'', us_error := err, us_message := Msg_text err,
                 us_completed_at := now\<rparr>) t)"

definition note_ack_timeout :: "string \<Rightarrow> string \<Rightarrow> string \<Rightarrow> upgrade_message \<Rightarrow> tracker \<Rightarrow> tracker" where
  "note_ack_timeout now node_id kind message t = (case step_snapshot node_id kind t of
     None \<Rightarrow> t
   | Some s \<Rightarrow> if finished s then t
       else store_snapshot node_id kind (s\<lparr>us_message := message, us_updated_at := now\<rparr>) t)"

definition mark_restarting :: "string \<Rightarrow> string \<Rightarrow> tracker \<Rightarrow> tracker" where
  "mark_restarting now node_id t = (case step_snapshot node_id ''node'' t of
     None \<Rightarrow> t
   | Some s \<Rightarrow> if finished s then t
       else store_snapshot node_id ''node'' (s\<lparr>us_status := ''restarting'', us_stage := ''restarting'',
              us_message := Msg_restarting, us_updated_at := now\<rparr>) t)"

definition finalize_from_reconnect :: "string \<Rightarrow> string \<Rightarrow> string \<Rightarrow> tracker \<Rightarrow> tracker" where
  "finalize_from_reconnect now node_id client_version t =
     (let version = normalize_version client_version
      in if version = [] then t
         else case step_snapshot node_id ''node'' t of
           None \<Rightarrow> t
         | Some s \<Rightarrow>
             if finished s then t
             else if version \<noteq> normalize_version (us_target_version s) then t
             else store_snapshot node_id ''node''
               (push_event now (-1) ''done'' (Msg_node_updated version)
                 (s\<lparr>us_status := ''completed'', us_stage := ''done'', us_percent := 100,
                    us_message := Msg_node_updated version, us_updated_at := now,
                    us_completed_at := now\<rparr>)) t)"

definition get_upgrade :: "string \<Rightarrow> tracker \<Rightarrow> upgrade_job option" where
  "get_upgrade node_id t = dget t node_id"

subsection \<open>Steps\<close>

datatype upgrade_op =
    Up_init string string string
  | Up_event upgrade_event
  | Up_ack string bool string
  | Up_ack_timeout string upgrade_message
  | Up_restarting
  | Up_reconnect string

definition upgrade_step :: "string \<Rightarrow> string \<Rightarrow> upgrade_op \<Rightarrow> tracker \<Rightarrow> tracker" where
  "upgrade_step now n op t = (case op of
     Up_init kind v f \<Rightarrow> init_upgrade now n kind v f t
   | Up_event e \<Rightarrow> apply_event now n e t
   | Up_ack kind ok err \<Rightarrow> finalize_from_ack now n kind ok err t
   | Up_ack_timeout kind m \<Rightarrow> note_ack_timeout now n kind m t
   | Up_restarting \<Rightarrow> mark_restarting now n t
   | Up_reconnect v \<Rightarrow> finalize_from_reconnect now n v t)"

lemma step_store [simp]:
  "step_snapshot n k (store_snapshot m j s t) =
     (if n = m \<and> k = j \<and> k \<in> {''runtime'', ''node''} \<and> dget t m \<noteq> None then Some s
      else step_snapshot n k t)"
  by (auto simp: step_snapshot_def store_snapshot_def job_step_def set_step_def split: option.split)

lemma step_snapshot_present:
  "step_snapshot n k t = Some s \<Longrightarrow> dget t n \<noteq> None \<and> k \<in> {''runtime'', ''node''}"
  by (auto simp: step_snapshot_def job_step_def split: option.splits if_splits)

lemma step_init [simp]:
  "step_snapshot n k (init_upgrade now m j v f t) =
     (if n = m \<and> k = j \<and> k \<in> {''runtime'', ''node''} then Some (new_upgrade_snapshot now k v f)
      else step_snapshot n k t)"
  by (auto simp: init_upgrade_def node_entry_def step_snapshot_def job_step_def set_step_def Let_def
      split: option.split)

text \<open>Which step of which node an operation is about.\<close>

definition op_kind :: "upgrade_op \<Rightarrow> string" where
  "op_kind op = (case op of Up_init k _ _ \<Rightarrow> k | Up_event e \<Rightarrow> uv_kind e | Up_ack k _ _ \<Rightarrow> k
     | Up_ack_timeout k _ \<Rightarrow> k | Up_restarting \<Rightarrow> ''node'' | Up_reconnect _ \<Rightarrow> ''node'')"

lemma step_store_other:
  "(n, k) \<noteq> (m, j) \<Longrightarrow> step_snapshot n k (store_snapshot m j s t) = step_snapshot n k t"
  by (simp add: step_store) blast

text \<open>An operation writes one snapshot, or nothing.\<close>

definition store_like :: "string \<Rightarrow> string \<Rightarrow> tracker \<Rightarrow> tracker \<Rightarrow> bool" where
  "store_like m j t t' \<longleftrightarrow> t' = t \<or> (\<exists>s. t' = store_snapshot m j s t)"

lemma store_like_simps [simp]: "store_like m j t t" "store_like m j t (store_snapshot m j s t)"
  by (auto simp: store_like_def)

lemma op_stores:
  "store_like m (uv_kind e) t (apply_event now m e t)"
  "store_like m j t (finalize_from_ack now m j ok err t)"
  "store_like m j t (note_ack_timeout now m j msg t)"
  "store_like m ''node'' t (mark_restarting now m t)"
  "store_like m ''node'' t (finalize_from_reconnect now m v t)"
  unfolding apply_event_def finalize_from_ack_def note_ack_timeout_def mark_restarting_def
    finalize_from_reconnect_def Let_def
  by (simp_all split: option.split)

lemma store_like_other:
  "(n, k) \<noteq> (m, j) \<Longrightarrow> store_like m j t t' \<Longrightarrow> step_snapshot n k t' = step_snapshot n k t"
  using step_store_other by (auto simp: store_like_def)

lemma step_other:
  assumes "(n, k) \<noteq> (m, j)"
  shows "uv_kind e = j \<Longrightarrow> step_snapshot n k (apply_event now m e t) = step_snapshot n k t"
    and "step_snapshot n k (finalize_from_ack now m j ok err t) = step_snapshot n k t"
    and "step_snapshot n k (note_ack_timeout now m j msg t) = step_snapshot n k t"
    and "j = ''node'' \<Longrightarrow> step_snapshot n k (mark_restarting now m t) = step_snapshot n k t"
    and "j = ''node'' \<Longrightarrow> step_snapshot n k (finalize_from_reconnect now m v t) = step_snapshot n k t"
  using store_like_other [OF assms] op_stores(1) [of m e t now] op_stores(2) [of m j t now ok err]
    op_stores(3) [of m j t now msg] op_stores(4) [of m t now] op_stores(5) [of m t now v]
  by simp_all

lemma step_frame:
  assumes "(n, k) \<noteq> (m, op_kind op)"
  shows "step_snapshot n k (upgrade_step now m op t) = step_snapshot n k t"
proof (cases op)
  case (Up_init kind v f)
  then show ?thesis using assms by (simp add: upgrade_step_def op_kind_def) blast
qed (use step_other [OF assms] in \<open>simp_all add: upgrade_step_def op_kind_def\<close>)

text \<open>The version comparison and the frame check an operation must pass to finish a step.\<close>

definition same_run :: "upgrade_event \<Rightarrow> upgrade_snapshot \<Rightarrow> bool" where
  "same_run e s = (us_server_frame_id s = [] \<or> uv_server_frame_id e = []
     \<or> us_server_frame_id s = uv_server_frame_id e)"

subsection \<open>Properties\<close>

text \<open>the only way a pending upgrade step becomes completed: the runtime step by its
  acknowledgement or a done event of the same run; the node-binary step by a reconnect that
  reports the very version it was to install (up to white space and leading v's) or by a done
  event of the same run. Nothing else, in particular no timeout, no dropped connection, no
  reconnect with another version and no event of an earlier run, completes it.\<close>

theorem completion_sources:
  assumes before: "step_snapshot n k t = Some s" "\<not> finished s"
    and after: "step_snapshot n k (upgrade_step now m op t) = Some s'" "us_status s' = ''completed''"
  shows "n = m \<and> (case op of
      Up_event e \<Rightarrow> uv_kind e = k \<and> uv_stage e = ''done'' \<and> same_run e s
    | Up_ack j ok err \<Rightarrow> j = k \<and> k = ''runtime'' \<and> ok
    | Up_reconnect v \<Rightarrow> k = ''node'' \<and> normalize_version v \<noteq> []
        \<and> normalize_version v = normalize_version (us_target_version s)
    | _ \<Rightarrow> False)"
proof -
  have ne: "us_status s \<noteq> ''completed''" using before(2) by (simp add: finished_def)
  then have mk: "n = m" "k = op_kind op"
    using step_frame [of n k m op now t] before(1) after by auto
  note pres = step_snapshot_present [OF before(1)]
  show ?thesis
  proof (cases op)
    case (Up_init kind v f)
    with mk pres after show ?thesis
      by (simp add: upgrade_step_def op_kind_def new_upgrade_snapshot_def)
        (auto simp: new_upgrade_snapshot_def)
  next
    case (Up_event e)
    with mk pres after before ne show ?thesis
      by (auto simp: upgrade_step_def op_kind_def apply_event_def same_run_def push_event_def Let_def
          split: if_splits)
  next
    case (Up_ack kind ok err)
    with mk pres after before ne show ?thesis
      by (auto simp: upgrade_step_def op_kind_def finalize_from_ack_def Let_def split: if_splits)
  next
    case (Up_ack_timeout kind msg)
    with mk pres after before ne show ?thesis
      by (auto simp: upgrade_step_def op_kind_def note_ack_timeout_def split: if_splits)
  next
    case Up_restarting
    with mk pres after before ne show ?thesis
      by (auto simp: upgrade_step_def op_kind_def mark_restarting_def split: if_splits)
  next
    case (Up_reconnect v)
    with mk pres after before ne show ?thesis
      by (auto simp: upgrade_step_def op_kind_def finalize_from_reconnect_def Let_def split: if_splits)
  qed
qed

definition sample_upgrade :: tracker where
  "sample_upgrade = init_upgrade ''t0'' ''n1'' ''node'' ''v1.4.0'' ''f1'' []"

lemma sample_upgrade_step:
  "step_snapshot ''n1'' ''node'' sample_upgrade = Some (new_upgrade_snapshot ''t0'' ''node'' ''v1.4.0'' ''f1'')"
  by (simp add: sample_upgrade_def)

lemma completion_sources_witness:
  "\<not> (\<exists>s'. step_snapshot ''n1'' ''node'' (upgrade_step ''t1'' ''n1'' (Up_ack ''node'' True []) sample_upgrade)
     = Some s' \<and> us_status s' = ''completed'')"
  using completion_sources [OF sample_upgrade_step, of "''t1''" "''n1''" "Up_ack ''node'' True []"]
  by (auto simp: finished_def new_upgrade_snapshot_def)

text \<open>a finished step stays finished under every operation but a new upgrade of the same
  step, and what the operator sees of it changes only by a terminal event of the same run; events
  left over from an earlier run change nothing anywhere.\<close>

theorem finished_stays_finished:
  assumes "step_snapshot n k t = Some s" "finished s"
    and "\<not> (\<exists>v f. op = Up_init k v f \<and> m = n)"
  shows "\<exists>s'. step_snapshot n k (upgrade_step now m op t) = Some s' \<and> finished s'
     \<and> (s' = s \<or> (\<exists>e. op = Up_event e \<and> same_run e s \<and> uv_stage e \<in> {''done'', ''failed''}))"
proof (cases "n = m \<and> k = op_kind op")
  case False
  then show ?thesis using step_frame [of n k m op now t] assms(1,2) by auto
next
  case True
  note pres = step_snapshot_present [OF assms(1)]
  show ?thesis
  proof (cases op)
    case (Up_init kind v f)
    with True assms(3) show ?thesis by (simp add: op_kind_def)
  next
    case (Up_event e)
    with True pres assms show ?thesis
      by (auto simp: upgrade_step_def op_kind_def apply_event_def same_run_def push_event_def Let_def
          finished_def split: if_splits)
  qed (use True assms in \<open>auto simp: upgrade_step_def op_kind_def finalize_from_ack_def
      note_ack_timeout_def mark_restarting_def finalize_from_reconnect_def Let_def\<close>)
qed

definition finished_upgrade :: tracker where
  "finished_upgrade = upgrade_step ''t1'' ''n1'' (Up_reconnect '' 1.4.0 '') sample_upgrade"

lemma finished_upgrade_step:
  "\<exists>s. step_snapshot ''n1'' ''node'' finished_upgrade = Some s \<and> finished s \<and> us_server_frame_id s = ''f1''"
proof -
  have v: "normalize_version '' 1.4.0 '' = ''1.4.0''" "normalize_version ''v1.4.0'' = ''1.4.0''"
    by code_simp+
  have "dget sample_upgrade ''n1'' \<noteq> None"
    by (rule conjunct1 [OF step_snapshot_present [OF sample_upgrade_step]])
  then show ?thesis
    by (simp add: finished_upgrade_def upgrade_step_def finalize_from_reconnect_def v Let_def
        sample_upgrade_step finished_def new_upgrade_snapshot_def push_event_def)
qed

lemma finished_stays_finished_witness:
  "\<exists>s'. step_snapshot ''n1'' ''node'' (upgrade_step ''t2'' ''n1'' Up_restarting finished_upgrade) = Some s'
     \<and> finished s'"
proof -
  obtain s where "step_snapshot ''n1'' ''node'' finished_upgrade = Some s" "finished s"
    using finished_upgrade_step by blast
  from finished_stays_finished [OF this, of Up_restarting "''n1''" "''t2''"] show ?thesis by auto
qed

end
