(* ===== verification/Json_Values.thy ===== *)
theory Json_Values
  imports Prelude Complex_Main
begin

text \<open>
  Decoded JSON values as Python sees them, with the conversions the sources apply to them:
  truth value, \<open>str(...)\<close>, \<open>int(...)\<close>, \<open>dict.get\<close>. The parser \<open>json.loads\<close> itself is a
  parameter of the definitions that use it (\<open>None\<close> is a JSONDecodeError), and so is the textual
  form Python gives to floats and containers. Numbers with a fraction are rationals.
\<close>

datatype json =
    J_null
  | J_bool bool
  | J_int int
  | J_float rat
  | J_str string
  | J_list "json list"
  | J_obj "(string \<times> json) list"

definition truthy :: "json \<Rightarrow> bool" where
  "truthy v = (case v of J_null \<Rightarrow> False | J_bool b \<Rightarrow> b | J_int i \<Rightarrow> i \<noteq> 0 | J_float q \<Rightarrow> q \<noteq> 0
     | J_str s \<Rightarrow> s \<noteq> [] | J_list xs \<Rightarrow> xs \<noteq> [] | J_obj kvs \<Rightarrow> kvs \<noteq> [])"

text \<open>\<open>d.get(k)\<close> on a decoded object; a duplicate key keeps its last value.\<close>

definition obj_get :: "(string \<times> json) list \<Rightarrow> string \<Rightarrow> json" where
  "obj_get kvs k = (case map_of (rev kvs) k of None \<Rightarrow> J_null | Some v \<Rightarrow> v)"

definition hashable :: "json \<Rightarrow> bool" where
  "hashable v = (case v of J_list xs \<Rightarrow> False | J_obj kvs \<Rightarrow> False | _ \<Rightarrow> True)"

text \<open>\<open>a or b\<close> on values.\<close>

definition or_json :: "json \<Rightarrow> json \<Rightarrow> json" where
  "or_json a b = (if truthy a then a else b)"

text \<open>\<open>str(v)\<close>; \<open>render\<close> gives the text of floats and containers.\<close>

definition py_str :: "(json \<Rightarrow> string) \<Rightarrow> json \<Rightarrow> string" where
  "py_str render v = (case v of J_null \<Rightarrow> ''None'' | J_bool b \<Rightarrow> (if b then ''True'' else ''False'')
     | J_int i \<Rightarrow> str_of_int i | J_str s \<Rightarrow> s | _ \<Rightarrow> render v)"

text \<open>The decimal digits of an int literal: single underscores may separate digits.\<close>

fun digits_value :: "bool \<Rightarrow> nat \<Rightarrow> string \<Rightarrow> nat option" where
  "digits_value after_digit acc [] = (if after_digit then Some acc else None)"
| "digits_value after_digit acc (c # cs) =
     (if is_digit c then digits_value True (10 * acc + (code_of c - 48)) cs
      else if c = CHR ''_'' \<and> after_digit then digits_value False acc cs else None)"

text \<open>
  What \<open>int\<close> trims around a literal: C white space, and the Unicode spaces past 127 (the
  separators 28 to 31 stay, unlike in \<open>str.strip\<close>).
\<close>

definition is_int_space :: "char \<Rightarrow> bool" where
  "is_int_space c = (let n = code_of c in (9 \<le> n \<and> n \<le> 13) \<or> n = 32 \<or> n = 133 \<or> n = 160)"

definition strip_int :: "string \<Rightarrow> string" where
  "strip_int s = rev (dropWhile is_int_space (rev (dropWhile is_int_space s)))"

text \<open>\<open>int(s)\<close> on a string; \<open>None\<close> is ValueError.\<close>

definition int_of_str :: "string \<Rightarrow> int option" where
  "int_of_str s = (case strip_int s of
     [] \<Rightarrow> None
   | c # cs \<Rightarrow>
       if c = CHR ''-'' then map_option (\<lambda>n. - int n) (digits_value False 0 cs)
       else if c = CHR ''+'' then map_option int (digits_value False 0 cs)
       else map_option int (digits_value False 0 (c # cs)))"

text \<open>\<open>int(v)\<close>: truncation of floats; \<open>None\<close> is TypeError or ValueError.\<close>

definition trunc_rat :: "rat \<Rightarrow> int" where
  "trunc_rat q = (if q < 0 then - \<lfloor>- q\<rfloor> else \<lfloor>q\<rfloor>)"

definition py_int :: "json \<Rightarrow> int option" where
  "py_int v = (case v of J_bool b \<Rightarrow> Some (if b then 1 else 0) | J_int i \<Rightarrow> Some i
     | J_float q \<Rightarrow> Some (trunc_rat q) | J_str s \<Rightarrow> int_of_str s | _ \<Rightarrow> None)"

text \<open>\<open>float(v)\<close>; \<open>parse_float\<close> reads a string.\<close>

definition py_float :: "(string \<Rightarrow> rat option) \<Rightarrow> json \<Rightarrow> rat option" where
  "py_float parse_float v = (case v of J_bool b \<Rightarrow> Some (if b then 1 else 0)
     | J_int i \<Rightarrow> Some (of_int i) | J_float q \<Rightarrow> Some q | J_str s \<Rightarrow> parse_float s | _ \<Rightarrow> None)"

lemma obj_get_Nil [simp]: "obj_get [] k = J_null"
  by (simp add: obj_get_def)

end
