(* ===== verification/Node_Store.thy ===== *)
theory Node_Store
  imports Json_Values
begin

text \<open>
  store.py: the durable node ledger. A table is an ordered dictionary on its primary key, a row a
  record, a statement a state-passing definition; an exception is an \<open>Inl\<close>. A JSON column holds
  the decoded object. What PostgreSQL and Tortoise contribute is explicit: the primary-key check of
  an insert, the row count of an update, and (in \<open>bind_session_to_node\<close>) the points at which other
  clients may act. The clock is an argument.
\<close>

subsection \<open>Constants and normalisation\<close>

definition NODE_STATUS_PENDING :: string where "NODE_STATUS_PENDING = ''pending''"
definition NODE_STATUS_APPROVED :: string where "NODE_STATUS_APPROVED = ''approved''"
definition NODE_STATUS_REVOKED :: string where "NODE_STATUS_REVOKED = ''revoked''"
definition NODE_ROLE_EXECUTION :: string where "NODE_ROLE_EXECUTION = ''execution''"
definition NODE_ROLE_MANAGEMENT :: string where "NODE_ROLE_MANAGEMENT = ''management''"
definition NODE_ROLE_PASSIVE_MANAGEMENT :: string where
  "NODE_ROLE_PASSIVE_MANAGEMENT = ''passive_management''"
definition NODE_ROLE_IOS_HOST :: string where "NODE_ROLE_IOS_HOST = ''ios_host''"
definition NODE_STARTUP_METHODS :: "string list" where
  "NODE_STARTUP_METHODS = [''standalone'', ''systemd'', ''docker'', ''docker-compose'']"
definition PUBLIC_IP_LOOKUP_MAX_URLS :: nat where "PUBLIC_IP_LOOKUP_MAX_URLS = 64"
definition PUBLIC_IP_LOOKUP_MAX_URL_LEN :: nat where "PUBLIC_IP_LOOKUP_MAX_URL_LEN = 512"
definition PUBLIC_IP_LOOKUP_MIN_URLS :: nat where "PUBLIC_IP_LOOKUP_MIN_URLS = 3"

definition normalize_node_status :: "string \<Rightarrow> string" where
  "normalize_node_status status = (let s = lower (strip status) in
     if s = NODE_STATUS_APPROVED then NODE_STATUS_APPROVED
     else if s = NODE_STATUS_REVOKED then NODE_STATUS_REVOKED
     else NODE_STATUS_PENDING)"

definition normalize_node_role :: "string \<Rightarrow> string" where
  "normalize_node_role role = (let s = lower (strip role) in
     if s = NODE_ROLE_MANAGEMENT then NODE_ROLE_MANAGEMENT
     else if s = NODE_ROLE_PASSIVE_MANAGEMENT then NODE_ROLE_PASSIVE_MANAGEMENT
     else if s = NODE_ROLE_IOS_HOST then NODE_ROLE_IOS_HOST
     else NODE_ROLE_EXECUTION)"

definition normalize_startup_method :: "string \<Rightarrow> string" where
  "normalize_startup_method m = (let s = lower (strip m) in
     if s \<in> set NODE_STARTUP_METHODS then s else [])"

record capacity =
  cap_max_sessions :: "int option"
  cap_cpu_total :: "rat option"
  cap_memory_total :: "int option"

definition no_capacity :: capacity where
  "no_capacity = \<lparr>cap_max_sessions = None, cap_cpu_total = None, cap_memory_total = None\<rparr>"

definition positive_limit :: "int option \<Rightarrow> int option" where
  "positive_limit v = (case v of Some n \<Rightarrow> if 0 < n then Some n else None | None \<Rightarrow> None)"

text \<open>\<open>value.get(k) or 0\<close> is \<open>J_int 0\<close> for every falsy value.\<close>

definition normalize_node_capacity :: "(string \<Rightarrow> rat option) \<Rightarrow> json \<Rightarrow> capacity" where
  "normalize_node_capacity parse_float v = (case v of
     J_obj kvs \<Rightarrow>
       \<lparr>cap_max_sessions = positive_limit (py_int (or_json (obj_get kvs ''max_sessions'') (J_int 0))),
        cap_cpu_total = (case py_float parse_float (or_json (obj_get kvs ''cpu_total'') (J_int 0)) of
            Some q \<Rightarrow> if 0 < q then Some q else None | None \<Rightarrow> None),
        cap_memory_total = positive_limit (py_int (or_json (obj_get kvs ''memory_total'') (J_int 0)))\<rparr>
   | _ \<Rightarrow> no_capacity)"

subsection \<open>Lookup URLs\<close>

definition is_scheme_char :: "char \<Rightarrow> bool" where
  "is_scheme_char c = (let n = code_of c in
     (97 \<le> n \<and> n \<le> 122) \<or> (65 \<le> n \<and> n \<le> 90) \<or> (48 \<le> n \<and> n \<le> 57) \<or> n \<in> {43, 45, 46})"

definition is_ascii_letter :: "char \<Rightarrow> bool" where
  "is_ascii_letter c = (let n = code_of c in (97 \<le> n \<and> n \<le> 122) \<or> (65 \<le> n \<and> n \<le> 90))"

text \<open>
  The scheme and the network location \<open>urllib.parse.urlparse\<close> finds. It raises ValueError on
  unbalanced brackets in the latter (checked by the caller below); newer versions also look inside
  the brackets.
\<close>

definition url_parts :: "string \<Rightarrow> string \<times> string" where
  "url_parts raw =
     (let url = filter (\<lambda>c. code_of c \<notin> {9, 10, 13}) (dropWhile (\<lambda>c. code_of c \<le> 32) raw);
          head = takeWhile (\<lambda>c. c \<noteq> CHR '':'') url;
          has_scheme = (head \<noteq> url \<and> head \<noteq> [] \<and> is_ascii_letter (hd head) \<and> list_all is_scheme_char head);
          rest = (if has_scheme then drop (length head + 1) url else url);
          netloc = (if take 2 rest = ''//''
                    then takeWhile (\<lambda>c. c \<noteq> CHR ''/'' \<and> c \<noteq> CHR ''?'' \<and> c \<noteq> CHR ''#'') (drop 2 rest)
                    else [])
      in (if has_scheme then lower head else [], netloc))"

datatype url_error =
    Url_list_not_array
  | Url_not_string
  | Url_bad_netloc string
  | Url_not_absolute string
  | Url_too_long string
  | Url_list_too_long
  | Url_list_too_short

text \<open>The loop: \<open>out\<close> so far (the set of seen URLs is its set).\<close>

fun normalize_urls_loop :: "json list \<Rightarrow> string list \<Rightarrow> url_error + string list" where
  "normalize_urls_loop [] out = Inr out"
| "normalize_urls_loop (item # items) out = (case item of
     J_str s \<Rightarrow>
       (let url = strip s in
        if url = [] then normalize_urls_loop items out
        else let (scheme, netloc) = url_parts url in
          if (CHR ''['' \<in> set netloc) \<noteq> (CHR '']'' \<in> set netloc) then Inl (Url_bad_netloc url)
          else if scheme \<notin> {''http'', ''https''} \<or> netloc = [] then Inl (Url_not_absolute url)
          else if PUBLIC_IP_LOOKUP_MAX_URL_LEN < length url then Inl (Url_too_long (take 64 url))
          else if url \<in> set out then normalize_urls_loop items out
          else normalize_urls_loop items (out @ [url]))
   | _ \<Rightarrow> Inl Url_not_string)"

text \<open>\<open>None\<close> for the argument is Python's None; \<open>loads\<close> decodes a JSON string argument.\<close>

definition normalize_lookup_urls ::
  "(string \<Rightarrow> json option) \<Rightarrow> json \<Rightarrow> url_error + string list" where
  "normalize_lookup_urls loads raw =
     (let checked = (\<lambda>items. case normalize_urls_loop items [] of
          Inl e \<Rightarrow> Inl e
        | Inr out \<Rightarrow>
            if PUBLIC_IP_LOOKUP_MAX_URLS < length out then Inl Url_list_too_long
            else if 0 < length out \<and> length out < PUBLIC_IP_LOOKUP_MIN_URLS then Inl Url_list_too_short
            else Inr out)
      in case raw of
           J_null \<Rightarrow> Inr []
         | J_list items \<Rightarrow> checked items
         | J_str s \<Rightarrow> (case loads (or_str s ''[]'') of
               Some (J_list items) \<Rightarrow> checked items | _ \<Rightarrow> Inl Url_list_not_array)
         | _ \<Rightarrow> Inl Url_list_not_array)"

subsection \<open>Tables\<close>

record node_row =
  n_id :: string
  n_name :: string
  n_status :: string
  n_role :: string
  n_startup_method :: string
  n_manager_node_id :: string
  n_credential_secret_enc :: string
  n_platform :: string
  n_capabilities :: "(string, string) dict"
  n_capacity :: capacity
  n_proxy_config_id :: string
  n_last_proxy_config_id :: string
  n_proxy_revision :: int
  n_last_seen_at :: "microseconds option"
  n_created_at :: microseconds
  n_updated_at :: microseconds

record session_row =
  s_session_id :: string
  s_node_id :: string
  s_project_id :: string
  s_task_id :: string
  s_editor_id :: string
  s_editor_session_id :: string
  s_provider :: string
  s_model :: string
  s_mode :: string
  s_status :: string
  s_applied_revision :: int
  s_effective_revision :: int
  s_created_at :: microseconds
  s_updated_at :: microseconds

record lookup_row =
  l_revision :: int
  l_ipv4_urls :: "string list"
  l_ipv6_urls :: "string list"
  l_updated_at :: microseconds

record ledger =
  nodes :: "(string, node_row) dict"
  sessions :: "(string, session_row) dict"
  lookup_config :: "lookup_row option"

definition empty_ledger :: ledger where
  "empty_ledger = \<lparr>nodes = [], sessions = [], lookup_config = None\<rparr>"

text \<open>\<open>NodeRecord\<close> as the callers of \<open>upsert_node\<close> fill it, and as \<open>from_row\<close> returns it: the same
  fields as the row. \<open>NodeSessionBinding\<close> likewise.\<close>

type_synonym node_record = node_row
type_synonym session_binding = session_row

datatype store_error =
    Value_error string
  | Url_error url_error
  | Node_not_found string
  | Session_not_bound string
  | Integrity_error

type_synonym 'a stored = "store_error + 'a"

text \<open>\<open>filter(id=...).update(...)\<close>: the number of rows changed and the new table.\<close>

definition update_node :: "string \<Rightarrow> (node_row \<Rightarrow> node_row) \<Rightarrow> ledger \<Rightarrow> nat \<times> ledger" where
  "update_node node_id f db = (case dget (nodes db) node_id of
     None \<Rightarrow> (0, db)
   | Some r \<Rightarrow> (1, db\<lparr>nodes := dset node_id (f r) (nodes db)\<rparr>))"

definition get_node_if_exists :: "string \<Rightarrow> ledger \<Rightarrow> node_record option stored" where
  "get_node_if_exists node_id db = (let key = strip node_id in
     if key = [] then Inl (Value_error ''node id is required'')
     else Inr (dget (nodes db) key))"

definition get_node :: "string \<Rightarrow> ledger \<Rightarrow> node_record stored" where
  "get_node node_id db = (case get_node_if_exists node_id db of
     Inl e \<Rightarrow> Inl e
   | Inr None \<Rightarrow> Inl (Node_not_found (strip node_id))
   | Inr (Some r) \<Rightarrow> Inr r)"

subsection \<open>Lookup configuration and proxies\<close>

definition get_public_ip_lookup_config :: "ledger \<Rightarrow> int \<times> string list \<times> string list" where
  "get_public_ip_lookup_config db = (case lookup_config db of
     None \<Rightarrow> (0, [], []) | Some r \<Rightarrow> (l_revision r, l_ipv4_urls r, l_ipv6_urls r))"

definition update_public_ip_lookup_config ::
  "(string \<Rightarrow> json option) \<Rightarrow> microseconds \<Rightarrow> json \<Rightarrow> json \<Rightarrow> ledger
   \<Rightarrow> ((int \<times> string list \<times> string list) \<times> ledger) stored" where
  "update_public_ip_lookup_config loads now ipv4_urls ipv6_urls db =
     (case normalize_lookup_urls loads ipv4_urls of
        Inl e \<Rightarrow> Inl (Url_error e)
      | Inr ipv4 \<Rightarrow> (case normalize_lookup_urls loads ipv6_urls of
          Inl e \<Rightarrow> Inl (Url_error e)
        | Inr ipv6 \<Rightarrow>
            let row = (case lookup_config db of
                  None \<Rightarrow> \<lparr>l_revision = 1, l_ipv4_urls = ipv4, l_ipv6_urls = ipv6, l_updated_at = now\<rparr>
                | Some r \<Rightarrow> r\<lparr>l_revision := l_revision r + 1, l_ipv4_urls := ipv4,
                              l_ipv6_urls := ipv6, l_updated_at := now\<rparr>);
                db' = db\<lparr>lookup_config := Some row\<rparr>
            in Inr (get_public_ip_lookup_config db', db')))"

definition update_node_proxy ::
  "microseconds \<Rightarrow> string \<Rightarrow> string \<Rightarrow> ledger \<Rightarrow> (node_record \<times> ledger) stored" where
  "update_node_proxy now node_id0 proxy_config_id db =
     (let node_id = strip node_id0 in
      if node_id = [] then Inl (Value_error ''node id is required'')
      else case dget (nodes db) node_id of
        None \<Rightarrow> Inl (Node_not_found node_id)
      | Some row \<Rightarrow>
          let rev0 = n_proxy_revision row + 1;
              row' = row\<lparr>n_proxy_config_id := strip proxy_config_id,
                         n_proxy_revision := (if rev0 < 1 then 1 else rev0), n_updated_at := now\<rparr>;
              db' = db\<lparr>nodes := dset node_id row' (nodes db)\<rparr>
          in map_sum id (\<lambda>r. (r, db')) (get_node node_id db'))"

definition set_node_last_proxy :: "microseconds \<Rightarrow> string \<Rightarrow> string \<Rightarrow> ledger \<Rightarrow> ledger" where
  "set_node_last_proxy now node_id0 proxy_config_id db =
     (let node_id = strip node_id0 in
      if node_id = [] then db
      else snd (update_node node_id (\<lambda>r. r\<lparr>n_last_proxy_config_id := strip proxy_config_id,
                                           n_updated_at := now\<rparr>) db))"

record public_ip_report =
  pr_ipv4 :: string
  pr_ipv6 :: string
  pr_clear_ipv4 :: bool
  pr_clear_ipv6 :: bool
  pr_config_revision :: int
  pr_ipv4_resolved_at :: string
  pr_ipv6_resolved_at :: string

text \<open>One address family of the report.\<close>

definition patch_family ::
  "string \<Rightarrow> string \<Rightarrow> bool \<Rightarrow> string \<Rightarrow> string \<Rightarrow> (string, string) dict \<Rightarrow> (string, string) dict" where
  "patch_family key stamp_key clear addr resolved_at caps =
     (if clear then dpop stamp_key (dpop key caps)
      else if addr \<noteq> [] then
        (let caps1 = dset key addr caps
         in if resolved_at \<noteq> [] then dset stamp_key resolved_at caps1 else caps1)
      else caps)"

definition patch_node_public_ip_report ::
  "microseconds \<Rightarrow> string \<Rightarrow> public_ip_report \<Rightarrow> ledger \<Rightarrow> ledger stored" where
  "patch_node_public_ip_report now node_id0 p db =
     (let node_id = strip node_id0 in
      case dget (nodes db) node_id of
        None \<Rightarrow> Inl (Node_not_found node_id)
      | Some row \<Rightarrow>
          let caps1 = patch_family ''public_ip'' ''public_ip_resolved_at'' (pr_clear_ipv4 p) (pr_ipv4 p)
                        (pr_ipv4_resolved_at p) (n_capabilities row);
              caps2 = patch_family ''public_ipv6'' ''public_ipv6_resolved_at'' (pr_clear_ipv6 p) (pr_ipv6 p)
                        (pr_ipv6_resolved_at p) caps1;
              caps3 = (if pr_config_revision p \<noteq> 0
                       then dset ''public_ip_config_revision'' (str_of_int (pr_config_revision p)) caps2
                       else caps2)
          in Inr (snd (update_node node_id (\<lambda>r. r\<lparr>n_capabilities := caps3,
               n_last_seen_at := Some now, n_updated_at := now\<rparr>) db)))"

subsection \<open>Node registrations\<close>

definition upsert_node :: "microseconds \<Rightarrow> node_record \<Rightarrow> ledger \<Rightarrow> (node_record \<times> ledger) stored" where
  "upsert_node now item db =
     (let node_id = strip (n_id item) in
      if node_id = [] then Inl (Value_error ''node id is required'')
      else let name = or_str (strip (n_name item)) node_id;
               row = (case dget (nodes db) node_id of
                  None \<Rightarrow>
                    \<lparr>n_id = node_id, n_name = name, n_status = normalize_node_status (n_status item),
                     n_role = normalize_node_role (n_role item),
                     n_startup_method = normalize_startup_method (n_startup_method item),
                     n_manager_node_id = strip (n_manager_node_id item),
                     n_credential_secret_enc = n_credential_secret_enc item,
                     n_platform = strip (n_platform item), n_capabilities = n_capabilities item,
                     n_capacity = no_capacity, n_proxy_config_id = strip (n_proxy_config_id item),
                     n_last_proxy_config_id = [], n_proxy_revision = 1,
                     n_last_seen_at = n_last_seen_at item, n_created_at = now, n_updated_at = now\<rparr>
                | Some old \<Rightarrow>
                    old\<lparr>n_name := name, n_platform := strip (n_platform item),
                        n_capabilities := n_capabilities item,
                        n_credential_secret_enc :=
                          or_str (n_credential_secret_enc item) (n_credential_secret_enc old),
                        n_last_seen_at := (if n_last_seen_at item \<noteq> None then n_last_seen_at item
                                           else n_last_seen_at old),
                        n_updated_at := now\<rparr>);
               db' = db\<lparr>nodes := dset node_id row (nodes db)\<rparr>
           in map_sum id (\<lambda>r. (r, db')) (get_node node_id db'))"

text \<open>An update by primary key that raises \<open>NodeNotFound\<close> when no row matched.\<close>

definition update_existing :: "string \<Rightarrow> (node_row \<Rightarrow> node_row) \<Rightarrow> ledger \<Rightarrow> ledger stored" where
  "update_existing node_id f db =
     (if node_id = [] then Inl (Value_error ''node id is required'')
      else let (rows, db') = update_node node_id f db
           in if rows = 0 then Inl (Node_not_found node_id) else Inr db')"

definition set_node_status :: "microseconds \<Rightarrow> string \<Rightarrow> string \<Rightarrow> ledger \<Rightarrow> ledger stored" where
  "set_node_status now node_id status db = update_existing (strip node_id)
     (\<lambda>r. r\<lparr>n_status := normalize_node_status status, n_updated_at := now\<rparr>) db"

definition touch_node_last_seen :: "microseconds \<Rightarrow> string \<Rightarrow> microseconds option \<Rightarrow> ledger \<Rightarrow> ledger stored" where
  "touch_node_last_seen now node_id0 seen db = (let node_id = strip node_id0 in
     if node_id = [] then Inl (Value_error ''node id is required'')
     else Inr (snd (update_node node_id (\<lambda>r. r\<lparr>n_last_seen_at := Some (case seen of None \<Rightarrow> now | Some t \<Rightarrow> t),
                                              n_updated_at := now\<rparr>) db)))"

text \<open>\<open>order_by\<close> stands for the database's collation of (name, id).\<close>

definition list_nodes :: "(node_row list \<Rightarrow> node_row list) \<Rightarrow> string \<Rightarrow> string \<Rightarrow> ledger \<Rightarrow> node_record list" where
  "list_nodes order_by status query db =
     (let q = lower (strip query)
      in filter (\<lambda>r. (q = [] \<or> contains_sub q (lower (n_name r)) \<or> contains_sub q (lower (n_id r)))
             \<and> (strip status = [] \<or> n_status r = normalize_node_status status))
           (order_by (map snd (nodes db))))"

definition set_node_capacity ::
  "(string \<Rightarrow> rat option) \<Rightarrow> microseconds \<Rightarrow> string \<Rightarrow> json \<Rightarrow> ledger \<Rightarrow> (node_record \<times> ledger) stored" where
  "set_node_capacity parse_float now node_id0 cap db =
     (let node_id = strip node_id0 in
      case update_existing node_id (\<lambda>r. r\<lparr>n_capacity := normalize_node_capacity parse_float
             (if truthy cap then cap else J_obj []), n_updated_at := now\<rparr>) db of
        Inl e \<Rightarrow> Inl e
      | Inr db' \<Rightarrow> map_sum id (\<lambda>r. (r, db')) (get_node node_id db'))"

definition get_node_capacities :: "string list option \<Rightarrow> ledger \<Rightarrow> (string, capacity) dict" where
  "get_node_capacities node_ids db =
     map (\<lambda>p. (fst p, n_capacity (snd p)))
       (filter (\<lambda>p. (case node_ids of None \<Rightarrow> True | Some ids \<Rightarrow> fst p \<in> set (filter (\<lambda>i. i \<noteq> []) ids))
                 \<and> n_capacity (snd p) \<noteq> no_capacity) (nodes db))"

fun count_rows :: "session_row list \<Rightarrow> (string, nat) dict \<Rightarrow> (string, nat) dict" where
  "count_rows [] counts = counts"
| "count_rows (r # rs) counts =
     (if s_status r = ''closed'' then count_rows rs counts
      else count_rows rs (dset (s_node_id r) (dget_or counts (s_node_id r) 0 + 1) counts))"

definition count_node_sessions :: "string list option \<Rightarrow> ledger \<Rightarrow> (string, nat) dict" where
  "count_node_sessions node_ids db =
     (case node_ids of
        None \<Rightarrow> count_rows (map snd (sessions db)) []
      | Some given \<Rightarrow> (let ids = filter (\<lambda>i. i \<noteq> []) given in
          if ids = [] then []
          else count_rows (filter (\<lambda>r. s_node_id r \<in> set ids) (map snd (sessions db))) []))"

definition set_node_credential_secret :: "microseconds \<Rightarrow> string \<Rightarrow> string \<Rightarrow> ledger \<Rightarrow> ledger stored" where
  "set_node_credential_secret now node_id sealed db = update_existing (strip node_id)
     (\<lambda>r. r\<lparr>n_credential_secret_enc := sealed, n_updated_at := now\<rparr>) db"

definition set_node_manager :: "microseconds \<Rightarrow> string \<Rightarrow> string \<Rightarrow> ledger \<Rightarrow> ledger stored" where
  "set_node_manager now node_id0 manager0 db =
     (let node_id = strip node_id0; manager = strip manager0 in
      if node_id = [] then Inl (Value_error ''node id is required'')
      else if manager = [] then Inl (Value_error ''manager_node_id is required'')
      else if node_id = manager then Inl (Value_error ''cannot move a node under itself'')
      else case dget (nodes db) node_id of
        None \<Rightarrow> Inl (Node_not_found node_id)
      | Some node \<Rightarrow>
          if n_role node \<noteq> NODE_ROLE_EXECUTION then Inl (Value_error ''only execution nodes can be moved'')
          else case dget (nodes db) manager of
            None \<Rightarrow> Inl (Node_not_found manager)
          | Some target \<Rightarrow>
              if n_role target \<noteq> NODE_ROLE_MANAGEMENT
              then Inl (Value_error ''target must be a management node'')
              else update_existing node_id (\<lambda>r. r\<lparr>n_manager_node_id := manager, n_updated_at := now\<rparr>) db)"

text \<open>The bindings are deleted first; a missing node is reported after that.\<close>

definition delete_node :: "string \<Rightarrow> ledger \<Rightarrow> store_error option \<times> ledger" where
  "delete_node node_id0 db =
     (let node_id = strip node_id0 in
      if node_id = [] then (Some (Value_error ''node id is required''), db)
      else let db1 = db\<lparr>sessions := filter (\<lambda>p. s_node_id (snd p) \<noteq> node_id) (sessions db)\<rparr>
           in if dget (nodes db1) node_id = None then (Some (Node_not_found node_id), db1)
              else (None, db1\<lparr>nodes := dpop node_id (nodes db1)\<rparr>))"

subsection \<open>Session bindings\<close>

text \<open>The columns a bind always sets, and those it sets only when given.\<close>

definition bind_row :: "microseconds \<Rightarrow> session_binding \<Rightarrow> session_row \<Rightarrow> session_row" where
  "bind_row now b row =
     row\<lparr>s_node_id := strip (s_node_id b), s_project_id := strip (s_project_id b),
         s_task_id := strip (s_task_id b), s_editor_id := strip (s_editor_id b),
         s_editor_session_id := strip (s_editor_session_id b),
         s_applied_revision := s_applied_revision b, s_effective_revision := s_effective_revision b,
         s_provider := or_str (strip (s_provider b)) (s_provider row),
         s_model := or_str (strip (s_model b)) (s_model row),
         s_mode := or_str (strip (s_mode b)) (s_mode row),
         s_status := or_str (strip (s_status b)) (s_status row), s_updated_at := now\<rparr>"

definition fresh_session_row :: "microseconds \<Rightarrow> string \<Rightarrow> session_row" where
  "fresh_session_row now session_id =
     \<lparr>s_session_id = session_id, s_node_id = [], s_project_id = [], s_task_id = [], s_editor_id = [],
      s_editor_session_id = [], s_provider = [], s_model = [], s_mode = [], s_status = [],
      s_applied_revision = 0, s_effective_revision = 0, s_created_at = now, s_updated_at = now\<rparr>"

text \<open>
  One round of the loop: lock and update the row, or (after \<open>gap\<close>, whatever other clients commit
  between the two statements) insert it. \<open>None\<close> is the IntegrityError of a lost insert.
\<close>

definition bind_attempt ::
  "microseconds \<Rightarrow> session_binding \<Rightarrow> (ledger \<Rightarrow> ledger) \<Rightarrow> ledger \<Rightarrow> ledger option \<times> ledger" where
  "bind_attempt now b gap db =
     (let key = strip (s_session_id b) in
      case dget (sessions db) key of
        Some row \<Rightarrow> (let db' = db\<lparr>sessions := dset key (bind_row now b row) (sessions db)\<rparr>
                      in (Some db', db'))
      | None \<Rightarrow>
          (let db1 = gap db in
           if dget (sessions db1) key \<noteq> None then (None, db1)
           else let db' = db1\<lparr>sessions := dset key (bind_row now b (fresh_session_row now key)) (sessions db1)\<rparr>
                in (Some db', db')))"

text \<open>\<open>gap1\<close>, \<open>gap2\<close>: the interference inside the rounds; \<open>between\<close>: that between them.\<close>

definition bind_session_to_node ::
  "microseconds \<Rightarrow> session_binding \<Rightarrow> (ledger \<Rightarrow> ledger) \<Rightarrow> (ledger \<Rightarrow> ledger) \<Rightarrow> (ledger \<Rightarrow> ledger)
   \<Rightarrow> ledger \<Rightarrow> store_error option \<times> ledger" where
  "bind_session_to_node now b gap1 between gap2 db =
     (if strip (s_session_id b) = [] \<or> strip (s_node_id b) = []
      then (Some (Value_error ''session id and node id are required''), db)
      else case bind_attempt now b gap1 db of
        (Some db', _) \<Rightarrow> (None, db')
      | (None, db1) \<Rightarrow>
          (case bind_attempt now b gap2 (between db1) of
             (Some db', _) \<Rightarrow> (None, db')
           | (None, db2) \<Rightarrow> (Some Integrity_error, db2)))"

definition update_session_config_snapshot :: "microseconds \<Rightarrow> session_binding \<Rightarrow> ledger \<Rightarrow> ledger stored" where
  "update_session_config_snapshot now b db =
     (let key = strip (s_session_id b) in
      if key = [] then Inl (Value_error ''session id is required'')
      else case dget (sessions db) key of
        None \<Rightarrow> Inl (Session_not_bound key)
      | Some row \<Rightarrow> Inr (db\<lparr>sessions := dset key
          (row\<lparr>s_provider := or_str (strip (s_provider b)) (s_provider row),
               s_model := or_str (strip (s_model b)) (s_model row),
               s_mode := or_str (strip (s_mode b)) (s_mode row),
               s_status := or_str (strip (s_status b)) (s_status row),
               s_applied_revision := s_applied_revision b,
               s_effective_revision := s_effective_revision b, s_updated_at := now\<rparr>) (sessions db)\<rparr>))"

definition get_session_node :: "string \<Rightarrow> ledger \<Rightarrow> session_binding option stored" where
  "get_session_node session_id db = (let key = strip session_id in
     if key = [] then Inl (Value_error ''session id is required'') else Inr (dget (sessions db) key))"

definition list_node_sessions :: "string \<Rightarrow> ledger \<Rightarrow> session_binding list stored" where
  "list_node_sessions node_id db = (let key = strip node_id in
     if key = [] then Inl (Value_error ''node id is required'')
     else Inr (sort_key s_created_at (filter (\<lambda>r. s_node_id r = key) (map snd (sessions db)))))"

definition unbind_session :: "string \<Rightarrow> ledger \<Rightarrow> ledger stored" where
  "unbind_session session_id db = (let key = strip session_id in
     if key = [] then Inl (Value_error ''session id is required'')
     else Inr (db\<lparr>sessions := dpop key (sessions db)\<rparr>))"

end
