(* ===== verification/Store_Safety.thy ===== *)
theory Store_Safety
  imports Node_Store
begin

text \<open>
  What the ledger guarantees: the invariant every statement keeps, what a re-registration may
  change, that a session bind cannot fail on a lost insert race, and what the lookup-URL
  normalisation accepts.
\<close>

named_theorems node_rows \<open>row transformations keep a node row well formed\<close>

subsection \<open>Invariant\<close>

definition node_ok :: "string \<Rightarrow> node_row \<Rightarrow> bool" where
  "node_ok k r \<longleftrightarrow> k \<noteq> [] \<and> strip k = k \<and> n_id r = k \<and> n_name r \<noteq> []
     \<and> n_status r \<in> {NODE_STATUS_PENDING, NODE_STATUS_APPROVED, NODE_STATUS_REVOKED}
     \<and> n_role r \<in> {NODE_ROLE_EXECUTION, NODE_ROLE_MANAGEMENT, NODE_ROLE_PASSIVE_MANAGEMENT, NODE_ROLE_IOS_HOST}
     \<and> (n_startup_method r = [] \<or> n_startup_method r \<in> set NODE_STARTUP_METHODS)
     \<and> 1 \<le> n_proxy_revision r"

definition session_ok :: "string \<Rightarrow> session_row \<Rightarrow> bool" where
  "session_ok k r \<longleftrightarrow> k \<noteq> [] \<and> s_session_id r = k \<and> s_node_id r \<noteq> []"

definition ledger_ok :: "ledger \<Rightarrow> bool" where
  "ledger_ok db \<longleftrightarrow> distinct (dkeys (nodes db)) \<and> distinct (dkeys (sessions db))
     \<and> list_all (\<lambda>p. node_ok (fst p) (snd p)) (nodes db)
     \<and> list_all (\<lambda>p. session_ok (fst p) (snd p)) (sessions db)"

text \<open>The statements the service issues, each on its own.\<close>

inductive ledger_step :: "ledger \<Rightarrow> ledger \<Rightarrow> bool" where
  ls_lookup: "update_public_ip_lookup_config loads now u4 u6 db = Inr (v, db') \<Longrightarrow> ledger_step db db'"
| ls_proxy: "update_node_proxy now n p db = Inr (v, db') \<Longrightarrow> ledger_step db db'"
| ls_last_proxy: "ledger_step db (set_node_last_proxy now n p db)"
| ls_report: "patch_node_public_ip_report now n rep db = Inr db' \<Longrightarrow> ledger_step db db'"
| ls_upsert: "upsert_node now item db = Inr (v, db') \<Longrightarrow> ledger_step db db'"
| ls_status: "set_node_status now n st db = Inr db' \<Longrightarrow> ledger_step db db'"
| ls_touch: "touch_node_last_seen now n seen db = Inr db' \<Longrightarrow> ledger_step db db'"
| ls_capacity: "set_node_capacity pf now n cap db = Inr (v, db') \<Longrightarrow> ledger_step db db'"
| ls_secret: "set_node_credential_secret now n sealed db = Inr db' \<Longrightarrow> ledger_step db db'"
| ls_manager: "set_node_manager now n m db = Inr db' \<Longrightarrow> ledger_step db db'"
| ls_delete: "ledger_step db (snd (delete_node n db))"
| ls_bind: "strip (s_session_id b) \<noteq> [] \<Longrightarrow> strip (s_node_id b) \<noteq> [] \<Longrightarrow>
     bind_attempt now b (\<lambda>d. d) db = (Some db', db'') \<Longrightarrow> ledger_step db db'"
| ls_config: "update_session_config_snapshot now b db = Inr db' \<Longrightarrow> ledger_step db db'"
| ls_unbind: "unbind_session k db = Inr db' \<Longrightarrow> ledger_step db db'"

subsection \<open>Preservation\<close>

lemma normalized_status [simp]:
  "normalize_node_status s \<in> {NODE_STATUS_PENDING, NODE_STATUS_APPROVED, NODE_STATUS_REVOKED}"
  by (simp add: normalize_node_status_def Let_def)

lemma normalized_role [simp]:
  "normalize_node_role s \<in> {NODE_ROLE_EXECUTION, NODE_ROLE_MANAGEMENT, NODE_ROLE_PASSIVE_MANAGEMENT, NODE_ROLE_IOS_HOST}"
  by (simp add: normalize_node_role_def Let_def)

lemma normalized_startup [simp]:
  "normalize_startup_method s = [] \<or> normalize_startup_method s \<in> set NODE_STARTUP_METHODS"
  by (simp add: normalize_startup_method_def Let_def)

lemma list_all_dset_pair:
  "list_all P d \<Longrightarrow> P (k, v) \<Longrightarrow> list_all P (dset k v d)"
  using set_dset_subset [of k v d] by (auto simp: list_all_iff)

lemma list_all_dpop_pair: "list_all P d \<Longrightarrow> list_all P (dpop k d)"
  by (auto simp: list_all_iff set_dpop)

lemma list_all_dget_pair: "list_all P d \<Longrightarrow> dget d k = Some v \<Longrightarrow> P (k, v)"
  by (auto simp: list_all_iff dest: map_of_SomeD)

lemma ledger_ok_nodes:
  "ledger_ok db \<Longrightarrow> node_ok k r \<Longrightarrow> ledger_ok (db\<lparr>nodes := dset k r (nodes db)\<rparr>)"
  by (auto simp: ledger_ok_def intro: list_all_dset_pair distinct_dset)

lemma ledger_ok_sessions:
  "ledger_ok db \<Longrightarrow> session_ok k r \<Longrightarrow> ledger_ok (db\<lparr>sessions := dset k r (sessions db)\<rparr>)"
  by (auto simp: ledger_ok_def intro: list_all_dset_pair distinct_dset)

lemma ledger_ok_get:
  "ledger_ok db \<Longrightarrow> dget (nodes db) k = Some r \<Longrightarrow> node_ok k r"
  "ledger_ok db \<Longrightarrow> dget (sessions db) k = Some w \<Longrightarrow> session_ok k w"
  by (auto simp: ledger_ok_def dest: list_all_dget_pair)

lemma ledger_ok_lookup [simp]: "ledger_ok (db\<lparr>lookup_config := c\<rparr>) = ledger_ok db"
  by (simp add: ledger_ok_def)

lemma ledger_ok_update:
  "ledger_ok db \<Longrightarrow> (\<And>r. node_ok k r \<Longrightarrow> node_ok k (f r)) \<Longrightarrow> ledger_ok (snd (update_node k f db))"
  by (auto simp: update_node_def dest: ledger_ok_get intro!: ledger_ok_nodes split: option.split)

lemma ledger_ok_existing:
  "update_existing k f db = Inr db' \<Longrightarrow> ledger_ok db \<Longrightarrow> (\<And>r. node_ok k r \<Longrightarrow> node_ok k (f r)) \<Longrightarrow>
   ledger_ok db'"
  using ledger_ok_update [of db k f]
  by (auto simp: update_existing_def split_beta Let_def split: if_splits)

lemma node_ok_updates [node_rows]:
  "node_ok k r \<Longrightarrow> node_ok k (r\<lparr>n_last_proxy_config_id := p, n_updated_at := now\<rparr>)"
  "node_ok k r \<Longrightarrow> node_ok k (r\<lparr>n_capabilities := caps, n_last_seen_at := seen, n_updated_at := now\<rparr>)"
  "node_ok k r \<Longrightarrow> node_ok k (r\<lparr>n_status := normalize_node_status st, n_updated_at := now\<rparr>)"
  "node_ok k r \<Longrightarrow> node_ok k (r\<lparr>n_last_seen_at := seen, n_updated_at := now\<rparr>)"
  "node_ok k r \<Longrightarrow> node_ok k (r\<lparr>n_capacity := cap, n_updated_at := now\<rparr>)"
  "node_ok k r \<Longrightarrow> node_ok k (r\<lparr>n_credential_secret_enc := sec, n_updated_at := now\<rparr>)"
  "node_ok k r \<Longrightarrow> node_ok k (r\<lparr>n_manager_node_id := m, n_updated_at := now\<rparr>)"
  using normalized_status [of st] by (simp_all add: node_ok_def)

lemma ledger_ok_step:
  assumes "ledger_step db db'" "ledger_ok db"
  shows "ledger_ok db'"
  using assms
proof (cases rule: ledger_step.cases)
  case (ls_lookup loads now u4 u6 v)
  with assms(2) show ?thesis
    by (auto simp: update_public_ip_lookup_config_def Let_def split: sum.splits)
next
  case (ls_proxy now n p v)
  with assms(2) show ?thesis
    by (auto simp: update_node_proxy_def Let_def map_sum_def split: if_splits option.splits sum.splits
        dest!: ledger_ok_get(1) intro!: ledger_ok_nodes simp: node_ok_def)
next
  case (ls_last_proxy now n p)
  with assms(2) show ?thesis
    by (auto simp: set_node_last_proxy_def Let_def intro!: ledger_ok_update node_rows)
next
  case (ls_report now n rep)
  with assms(2) show ?thesis
    by (auto simp: patch_node_public_ip_report_def Let_def node_ok_def split: option.splits
        intro!: ledger_ok_update)
next
  case (ls_upsert now item v)
  then obtain k where "k = strip (n_id item)" "k \<noteq> []"
    by (auto simp: upsert_node_def Let_def split: if_splits)
  with ls_upsert assms(2) show ?thesis
    using normalized_status [of "n_status item"] normalized_role [of "n_role item"]
      normalized_startup [of "n_startup_method item"]
    by (auto simp: upsert_node_def Let_def map_sum_def node_ok_def or_str_nonempty
        split: option.splits sum.splits dest!: ledger_ok_get(1) intro!: ledger_ok_nodes)
next
  case (ls_status now n st)
  with assms(2) show ?thesis
    by (auto simp: set_node_status_def elim!: ledger_ok_existing intro!: node_rows)
next
  case (ls_touch now n seen)
  with assms(2) show ?thesis
    by (auto simp: touch_node_last_seen_def Let_def split: if_splits intro!: ledger_ok_update node_rows)
next
  case (ls_capacity pf now n cap v)
  with assms(2) show ?thesis
    by (auto simp: set_node_capacity_def Let_def map_sum_def split: sum.splits
        elim!: ledger_ok_existing intro!: node_rows)
next
  case (ls_secret now n sealed)
  with assms(2) show ?thesis
    by (auto simp: set_node_credential_secret_def elim!: ledger_ok_existing intro!: node_rows)
next
  case (ls_manager now n m)
  with assms(2) show ?thesis
    by (auto simp: set_node_manager_def Let_def split: if_splits option.splits
        elim!: ledger_ok_existing intro!: node_rows)
next
  case (ls_delete n)
  with assms(2) show ?thesis
    by (auto simp: delete_node_def Let_def ledger_ok_def list_all_iff set_dpop distinct_map_filter
        intro: distinct_dpop)
next
  case (ls_bind b now db'')
  with assms(2) show ?thesis
    by (auto simp: bind_attempt_def Let_def split: option.splits if_splits intro!: ledger_ok_sessions)
      (auto simp: session_ok_def bind_row_def fresh_session_row_def dest: ledger_ok_get(2))
next
  case (ls_config now b)
  with assms(2) show ?thesis
    using ledger_ok_get(2) [of db "strip (s_session_id b)"]
    by (auto simp: update_session_config_snapshot_def Let_def session_ok_def
        split: option.splits if_splits intro!: ledger_ok_sessions)
next
  case (ls_unbind k)
  with assms(2) show ?thesis
    by (auto simp: unbind_session_def Let_def ledger_ok_def split: if_splits
        intro: list_all_dpop_pair distinct_dpop)
qed

lemma ledger_ok_empty [simp]: "ledger_ok empty_ledger"
  by (simp add: ledger_ok_def empty_ledger_def)

lemma ledger_ok_steps: "ledger_step\<^sup>*\<^sup>* db db' \<Longrightarrow> ledger_ok db \<Longrightarrow> ledger_ok db'"
  by (induction rule: rtranclp_induct) (auto intro: ledger_ok_step)

subsection \<open>Properties\<close>

text \<open>C32: in every ledger that statements can produce, node ids are unique, non-empty and trimmed,
  every status, role and startup method is one of the known ones, every node has a name and a
  proxy revision of at least one, and every session binding names a session and a node.\<close>

theorem reachable_ledger_ok:
  assumes "ledger_step\<^sup>*\<^sup>* empty_ledger db" "dget (nodes db) k = Some r"
  shows "node_ok k r \<and> distinct (dkeys (nodes db)) \<and> distinct (dkeys (sessions db))
     \<and> list_all (\<lambda>p. session_ok (fst p) (snd p)) (sessions db)"
proof -
  have ok: "ledger_ok db" using ledger_ok_steps [OF assms(1)] by simp
  show ?thesis using ledger_ok_get(1) [OF ok assms(2)] ok by (simp add: ledger_ok_def)
qed

definition sample_node :: node_row where
  "sample_node = \<lparr>n_id = ''n1'', n_name = [], n_status = ''bogus'', n_role = '' Management '',
     n_startup_method = ''systemd'', n_manager_node_id = [], n_credential_secret_enc = ''sealed'',
     n_platform = ''linux'', n_capabilities = [(''os'', ''linux'')], n_capacity = no_capacity,
     n_proxy_config_id = ''p1'', n_last_proxy_config_id = [], n_proxy_revision = 0,
     n_last_seen_at = None, n_created_at = 0, n_updated_at = 0\<rparr>"

definition stored_node :: node_row where
  "stored_node = sample_node\<lparr>n_name := ''n1'', n_status := ''pending'', n_role := ''management'',
     n_proxy_revision := 1, n_created_at := 5, n_updated_at := 5\<rparr>"

lemma sample_upsert: "upsert_node 5 sample_node empty_ledger
     = Inr (stored_node, \<lparr>nodes = [(''n1'', stored_node)], sessions = [], lookup_config = None\<rparr>)"
proof -
  have str: "strip ''n1'' = ''n1''" "strip ''linux'' = ''linux''" "strip ''p1'' = ''p1''"
    "normalize_node_status ''bogus'' = ''pending''" "normalize_node_role '' Management '' = ''management''"
    "normalize_startup_method ''systemd'' = ''systemd''"
    by code_simp+
  show ?thesis
    by (simp add: upsert_node_def sample_node_def stored_node_def empty_ledger_def str get_node_def
        get_node_if_exists_def Let_def)
qed

lemma reachable_ledger_ok_witness: "node_ok ''n1'' stored_node"
proof -
  have "ledger_step empty_ledger \<lparr>nodes = [(''n1'', stored_node)], sessions = [], lookup_config = None\<rparr>"
    by (rule ls_upsert [OF sample_upsert])
  then have "ledger_step\<^sup>*\<^sup>* empty_ledger \<lparr>nodes = [(''n1'', stored_node)], sessions = [], lookup_config = None\<rparr>"
    by (rule r_into_rtranclp)
  from reachable_ledger_ok [OF this, of "''n1''" stored_node] show ?thesis by simp
qed

text \<open>a node that registers again cannot promote itself: whatever it reports, its approval
  status, role, startup method, manager, capacity, proxy binding, proxy revision and creation time
  stay as they are, its sealed secret is replaced only by a non-empty one, and no other node and no
  session binding changes.\<close>

theorem reregistration_pins_admin_fields:
  assumes "dget (nodes db) (strip (n_id item)) = Some old" "strip (n_id item) \<noteq> []"
    and "upsert_node now item db = Inr (r, db')"
  shows "dget (nodes db') (strip (n_id item)) = Some r
     \<and> n_status r = n_status old \<and> n_role r = n_role old \<and> n_startup_method r = n_startup_method old
     \<and> n_manager_node_id r = n_manager_node_id old \<and> n_capacity r = n_capacity old
     \<and> n_proxy_config_id r = n_proxy_config_id old \<and> n_last_proxy_config_id r = n_last_proxy_config_id old
     \<and> n_proxy_revision r = n_proxy_revision old \<and> n_created_at r = n_created_at old
     \<and> n_credential_secret_enc r = or_str (n_credential_secret_enc item) (n_credential_secret_enc old)
     \<and> (\<forall>k. k \<noteq> strip (n_id item) \<longrightarrow> dget (nodes db') k = dget (nodes db) k)
     \<and> sessions db' = sessions db"
  using assms by (auto simp: upsert_node_def get_node_def get_node_if_exists_def Let_def)

lemma reregistration_pins_admin_fields_witness:
  "\<exists>r db'. upsert_node 9 (sample_node\<lparr>n_status := ''approved'', n_credential_secret_enc := []\<rparr>)
       \<lparr>nodes = [(''n1'', stored_node)], sessions = [], lookup_config = None\<rparr> = Inr (r, db')
     \<and> n_status r = ''pending'' \<and> n_credential_secret_enc r = ''sealed''"
proof -
  have str: "strip ''n1'' = ''n1''" by code_simp
  obtain r db' where up: "upsert_node 9 (sample_node\<lparr>n_status := ''approved'', n_credential_secret_enc := []\<rparr>)
       \<lparr>nodes = [(''n1'', stored_node)], sessions = [], lookup_config = None\<rparr> = Inr (r, db')"
    by (simp add: upsert_node_def sample_node_def str get_node_def get_node_if_exists_def Let_def)
  moreover have "n_status r = ''pending'' \<and> n_credential_secret_enc r = ''sealed''"
    using reregistration_pins_admin_fields [OF _ _ up, of stored_node] str
    by (simp add: sample_node_def stored_node_def)
  ultimately show ?thesis by blast
qed

text \<open>binding a session is safe under concurrency: whatever other clients commit while it runs,
  it never fails on the primary key as long as nobody deletes the row between its two rounds, and
  the session ends up bound to the requested node with the requested revisions.\<close>

theorem bind_survives_insert_race:
  assumes "strip (s_session_id b) = k" "k \<noteq> []" "strip (s_node_id b) \<noteq> []"
    and "\<And>d. dget (sessions d) k \<noteq> None \<Longrightarrow> dget (sessions (between d)) k \<noteq> None"
  shows "\<exists>db' row. bind_session_to_node now b gap1 between gap2 db = (None, db')
     \<and> dget (sessions db') k = Some row \<and> s_node_id row = strip (s_node_id b)
     \<and> s_applied_revision row = s_applied_revision b
     \<and> s_effective_revision row = s_effective_revision b
     \<and> (strip (s_status b) \<noteq> [] \<longrightarrow> s_status row = strip (s_status b))"
proof -
  have round: "\<exists>db' row. bind_attempt now b gap d = (Some db', db') \<and> dget (sessions db') k = Some row
      \<and> s_node_id row = strip (s_node_id b) \<and> s_applied_revision row = s_applied_revision b
      \<and> s_effective_revision row = s_effective_revision b
      \<and> (strip (s_status b) \<noteq> [] \<longrightarrow> s_status row = strip (s_status b))"
    if "dget (sessions d) k \<noteq> None \<or> dget (sessions (gap d)) k = None" for gap d
  proof (cases "dget (sessions d) k")
    case (Some row)
    then show ?thesis
      using assms(1) by (simp add: bind_attempt_def Let_def bind_row_def or_str_def)
  next
    case None
    with that have "dget (sessions (gap d)) k = None" by simp
    with None show ?thesis
      using assms(1) by (simp add: bind_attempt_def Let_def bind_row_def or_str_def)
  qed
  show ?thesis
  proof (cases "dget (sessions db) k \<noteq> None \<or> dget (sessions (gap1 db)) k = None")
    case True
    with round [of db gap1] obtain db' row where "bind_attempt now b gap1 db = (Some db', db')"
      "dget (sessions db') k = Some row \<and> s_node_id row = strip (s_node_id b)
        \<and> s_applied_revision row = s_applied_revision b \<and> s_effective_revision row = s_effective_revision b
        \<and> (strip (s_status b) \<noteq> [] \<longrightarrow> s_status row = strip (s_status b))" by blast
    then show ?thesis
      using assms(1-3) by (intro exI [of _ db'] exI [of _ row]) (simp add: bind_session_to_node_def)
  next
    case False
    then have lost: "bind_attempt now b gap1 db = (None, gap1 db)"
      using assms(1) by (auto simp: bind_attempt_def Let_def)
    have "dget (sessions (between (gap1 db))) k \<noteq> None" using False assms(4) by blast
    then obtain db' row where "bind_attempt now b gap2 (between (gap1 db)) = (Some db', db')"
      "dget (sessions db') k = Some row \<and> s_node_id row = strip (s_node_id b)
        \<and> s_applied_revision row = s_applied_revision b \<and> s_effective_revision row = s_effective_revision b
        \<and> (strip (s_status b) \<noteq> [] \<longrightarrow> s_status row = strip (s_status b))"
      using round [of "between (gap1 db)" gap2] by blast
    then show ?thesis
      using assms(1-3) lost
      by (intro exI [of _ db'] exI [of _ row]) (simp add: bind_session_to_node_def)
  qed
qed

definition sample_binding :: session_row where
  "sample_binding = (fresh_session_row 0 ''s1'')\<lparr>s_node_id := ''n1'', s_status := ''running'', s_applied_revision := 3\<rparr>"

lemma bind_survives_insert_race_witness:
  "\<exists>db'. bind_session_to_node 1 sample_binding
     (\<lambda>d. d\<lparr>sessions := dset ''s1'' (fresh_session_row 0 ''s1'') (sessions d)\<rparr>) (\<lambda>d. d) (\<lambda>d. d)
     empty_ledger = (None, db')"
proof -
  have "strip ''s1'' = ''s1''" "strip ''n1'' = ''n1''" by code_simp+
  then show ?thesis
    using bind_survives_insert_race [of sample_binding "''s1''" "\<lambda>d. d" 1
        "\<lambda>d. d\<lparr>sessions := dset ''s1'' (fresh_session_row 0 ''s1'') (sessions d)\<rparr>" "\<lambda>d. d" empty_ledger]
    by (auto simp: sample_binding_def fresh_session_row_def)
qed

subsection \<open>Lookup URLs\<close>

definition url_ok :: "string \<Rightarrow> bool" where
  "url_ok u \<longleftrightarrow> strip u = u \<and> u \<noteq> [] \<and> fst (url_parts u) \<in> {''http'', ''https''}
     \<and> snd (url_parts u) \<noteq> [] \<and> length u \<le> 512
     \<and> (CHR ''['' \<in> set (snd (url_parts u))) = (CHR '']'' \<in> set (snd (url_parts u)))"

text \<open>One turn of the loop on a string.\<close>

lemma urls_loop_str:
  "normalize_urls_loop (J_str s # items) out = Inr us \<Longrightarrow>
   normalize_urls_loop items out = Inr us \<or>
   (url_ok (strip s) \<and> strip s \<notin> set out \<and> normalize_urls_loop items (out @ [strip s]) = Inr us)"
  by (cases "url_parts (strip s)")
    (simp add: url_ok_def Let_def PUBLIC_IP_LOOKUP_MAX_URL_LEN_def split: if_splits)

lemma urls_loop_ok:
  "normalize_urls_loop items out = Inr us \<Longrightarrow> distinct out \<Longrightarrow> \<forall>u \<in> set out. url_ok u \<Longrightarrow>
   distinct us \<and> (\<forall>u \<in> set us. url_ok u)"
proof (induction items arbitrary: out)
  case (Cons item items)
  then obtain s where item: "item = J_str s" by (cases item) simp_all
  from urls_loop_str [OF Cons.prems(1) [unfolded item]] show ?case
    using Cons.IH [of out] Cons.IH [of "out @ [strip s]"] Cons.prems by auto
qed simp

lemma urls_loop_again:
  "distinct (out @ us) \<Longrightarrow> \<forall>u \<in> set us. url_ok u \<Longrightarrow>
   normalize_urls_loop (map J_str us) out = Inr (out @ us)"
proof (induction us arbitrary: out)
  case (Cons u us)
  have "normalize_urls_loop (map J_str (u # us)) out = normalize_urls_loop (map J_str us) (out @ [u])"
    using Cons.prems
    by (cases "url_parts u") (simp add: url_ok_def Let_def PUBLIC_IP_LOOKUP_MAX_URL_LEN_def)
  then show ?case using Cons.IH [of "out @ [u]"] Cons.prems by simp
qed simp

text \<open>an accepted lookup-URL list is empty or has 3 to 64 distinct entries, each a trimmed,
  absolute http or https URL of at most 512 characters; and normalising an accepted list again
  gives the same list.\<close>

theorem normalized_urls_ok:
  assumes "normalize_lookup_urls loads raw = Inr us"
  shows "distinct us \<and> (\<forall>u \<in> set us. url_ok u) \<and> (us = [] \<or> 3 \<le> length us \<and> length us \<le> 64)
     \<and> normalize_lookup_urls loads (J_list (map J_str us)) = Inr us"
proof -
  have "us = [] \<or> (\<exists>items. normalize_urls_loop items [] = Inr us \<and> length us \<le> 64
      \<and> \<not> (0 < length us \<and> length us < 3))"
    using assms by (auto simp: normalize_lookup_urls_def Let_def PUBLIC_IP_LOOKUP_MAX_URLS_def
        PUBLIC_IP_LOOKUP_MIN_URLS_def split: json.splits option.splits sum.splits if_splits)
  then have ok: "distinct us \<and> (\<forall>u \<in> set us. url_ok u)" and len: "us = [] \<or> 3 \<le> length us \<and> length us \<le> 64"
    using urls_loop_ok [of _ "[]" us] by auto
  from ok have "normalize_urls_loop (map J_str us) [] = Inr us"
    using urls_loop_again [of "[]" us] by simp
  with ok len show ?thesis
    by (auto simp: normalize_lookup_urls_def PUBLIC_IP_LOOKUP_MAX_URLS_def PUBLIC_IP_LOOKUP_MIN_URLS_def)
qed

definition sample_urls :: "string list" where
  "sample_urls = [''https://a.b/x'', ''http://c'', ''https://d'']"

lemma normalized_urls_ok_witness:
  "normalize_lookup_urls (\<lambda>s. None) (J_list [J_str '' https://a.b/x '', J_str ''http://c'',
     J_str ''http://c'', J_str [], J_str ''https://d'']) = Inr sample_urls
   \<and> list_all url_ok sample_urls"
proof -
  have n: "normalize_lookup_urls (\<lambda>s. None) (J_list [J_str '' https://a.b/x '', J_str ''http://c'',
     J_str ''http://c'', J_str [], J_str ''https://d'']) = Inr sample_urls"
    unfolding sample_urls_def by code_simp
  from normalized_urls_ok [OF n] n show ?thesis by (simp add: list_all_iff)
qed

end
