(* ===== verification/Service_Types.thy ===== *)
theory Service_Types
  imports Registry Crypto Upgrade Store_Safety
begin

text \<open>
  The vocabulary of service.py: Connect status codes and errors, the payloads of a downstream
  frame, the state of the NodeService, and the two halves of every call that waits for a node
  (register a waiter and send; collect the reply). uuids and clock readings are arguments of the
  handlers; \<open>stamp\<close> is a formatted clock reading.
\<close>

subsection \<open>Errors\<close>

datatype rpc_code =
    CANCELED | UNKNOWN | INVALID_ARGUMENT | DEADLINE_EXCEEDED | NOT_FOUND | PERMISSION_DENIED
  | FAILED_PRECONDITION | UNAVAILABLE | INTERNAL

datatype requirement = Req_docker | Req_nodejs | Req_npm | Req_runtime | Req_editor

text \<open>Messages the code writes in Chinese are constructors of their own.\<close>

datatype rpc_message =
    Text string
  | Missing_environment "requirement list"
  | Field_empty string
  | Field_not_base64 string
  | Unknown_signing_kind string
  | Unknown_wda_action string
  | Unsupported_tool string
  | Unknown_runner_action string
  | Asc_without_p8_key
  | Bad_lookup_urls url_error
  | Mode_unsupported string string "string list"
  | Cannot_run string rpc_message

text \<open>\<open>Escaped\<close> is an exception that is not an RPCError leaving the handler.\<close>

datatype escaped =
    Attribute_error string | Type_error | Bad_value | Connection_lost string | Store_failed store_error

datatype rpc_error =
    Rpc_error rpc_code rpc_message
  | Escaped escaped

type_synonym 'a rpc = "rpc_error + 'a"

definition fail_rpc :: "rpc_code \<Rightarrow> string \<Rightarrow> 'a rpc" where
  "fail_rpc code msg = Inl (Rpc_error code (Text msg))"

subsection \<open>Downstream frames\<close>

record ip_config =
  ipc_revision :: int
  ipc_ipv4_urls :: "string list"
  ipc_ipv6_urls :: "string list"

record proxy_config =
  px_revision :: int
  px_mode :: string
  px_url :: string
  px_url_prefix :: string
  px_config_id :: string

record tool_run_request =
  tq_run_id :: string
  tq_binary_path :: string
  tq_args :: "string list"
  tq_env :: "(string, string) dict"
  tq_cwd :: string
  tq_node_id :: string
  tq_revision :: int

record launch_request =
  lq_launch_id :: string
  lq_server_url :: string
  lq_node_id :: string
  lq_secret :: string
  lq_startup_method :: int
  lq_node_name :: string
  lq_guest_image :: string

record session_spec =
  sp_session_id :: string
  sp_project_id :: string
  sp_task_id :: string
  sp_editor_id :: string
  sp_editor_session_id :: string
  sp_provider :: string
  sp_model :: string
  sp_mode :: string
  sp_driver :: string
  sp_defer_start :: bool

record session_input =
  si_session_id :: string
  si_kind :: string
  si_text :: string
  si_model :: string
  si_mode :: string
  si_client_message_id :: string
  si_delivery_attempt :: int
  si_llm :: "string option"        \<comment> \<open>the serialised NodeLLMConfig, passed through\<close>

record host_exec_request =
  hq_request_id :: string
  hq_command :: string
  hq_cwd :: string
  hq_timeout_ms :: int
  hq_max_output_bytes :: int

record file_upload_request =
  uq_upload_id :: string
  uq_path :: string
  uq_offset :: int
  uq_data :: bytes
  uq_total_size :: int
  uq_sha256 :: string
  uq_overwrite :: bool
  uq_final :: bool

record archive_target =
  tg_target_version :: string
  tg_download_url :: string
  tg_sha256 :: string
  tg_proxy_mode :: string
  tg_proxy_url :: string
  tg_proxy_url_prefix :: string

record build_request =
  bq_build_id :: string
  bq_recipe_kind :: string
  bq_source_url :: string
  bq_source_ref :: string
  bq_steps :: "string list"
  bq_artifact_glob :: string
  bq_upload_url :: string
  bq_upload_token :: string
  bq_timeout_seconds :: int
  bq_artifact_name :: string
  bq_artifact_version :: string
  bq_source_kind :: string
  bq_source_subdir :: string
  bq_source_no_proxy :: bool

record host_tool_request =
  tj_job_id :: string
  tj_tool :: string
  tj_target :: archive_target
  tj_download_size_bytes :: int
  tj_timeout_seconds :: int

datatype signing_mode =
    SIGNING_MODE_UNSPECIFIED | SIGNING_MODE_APP_STORE_CONNECT | SIGNING_MODE_MANUAL_P12
  | SIGNING_MODE_PRESIGNED

record signing_material =
  sg_mode :: signing_mode
  sg_asc_key_id :: string
  sg_asc_issuer_id :: string
  sg_asc_private_key :: string
  sg_certificate_p12 :: bytes
  sg_p12_password :: string
  sg_provisioning_profile :: bytes

record wda_artifact =
  wa_artifact_id :: string
  wa_sha256 :: string
  wa_url :: string
  wa_size_bytes :: int
  wa_version :: string
  wa_target_bundle_id :: string
  wa_xctest_config_name :: string

datatype wda_action = WDA_PREPARE | WDA_RENEW | WDA_REINSTALL | WDA_INSTALL_SIGNED

record wda_job_request =
  wj_job_id :: string
  wj_udid :: string
  wj_device_id :: string
  wj_action :: wda_action
  wj_artifact :: wda_artifact
  wj_signing :: "signing_material option"

record device_config =
  dc_device_id :: string
  dc_udid :: string
  dc_config_revision :: int
  dc_transport :: string
  dc_wda_bundle_id :: string
  dc_xctest_config_name :: string
  dc_auto_prepare :: bool
  dc_renew_before_days :: int

record git_spec =
  gs_url :: string
  gs_branch :: string
  gs_commit :: string
  gs_new_branch :: string
  gs_username :: string
  gs_password :: string
  gs_token :: string
  gs_create_branch :: bool

record skill_spec =
  sk_name :: string
  sk_source :: string
  sk_url :: string
  sk_path :: string
  sk_ref :: string
  sk_token :: string

record plugin_spec =
  pl_name :: string
  pl_url :: string
  pl_version :: string

datatype config_command =
    Configure_llm int "string option"
  | Apply_mcps int "string list"
  | Apply_skills int "skill_spec list"
  | Apply_plugins int "plugin_spec list"
  | Configure_mode int string
  | Start_runtime
  | Restart_runtime bool
  | Collect_artifacts string

datatype runner_action = RUNNER_START | RUNNER_STOP | RUNNER_RESTART

record terminal_spec =
  to_terminal_id :: string
  to_shell :: string
  to_cwd :: string
  to_session_id :: string
  to_env_id :: string
  to_rows :: int
  to_cols :: int

text \<open>\<open>NodeTunnelRequest\<close> and \<open>NodeProxyRequest\<close>; the body is always complete.\<close>

record tunnel_request =
  tq_tunnel_id :: string
  tq_session_id :: string
  tq_service :: string
  tq_method :: string
  tq_path :: string
  tq_headers :: "(string \<times> string) list"
  tq_body :: bytes

record proxy_request =
  pq_tunnel_id :: string
  pq_method :: string
  pq_url :: string
  pq_headers :: "(string \<times> string) list"
  pq_body :: bytes

text \<open>The \<open>frame\<close> oneof of NodeDownstreamFrame.\<close>

datatype payload =
    P_terminal_list string
  | P_terminal_interrupt string
  | P_tool_run_request tool_run_request
  | P_tool_run_stop string int string
  | P_public_ip_lookup_config ip_config
  | P_node_proxy_config proxy_config
  | P_create_execution_node launch_request
  | P_delete_execution_node string
  | P_create_session session_spec
  | P_delete_session string
  | P_session_input session_input
  | P_session_config string config_command
  | P_host_exec host_exec_request
  | P_file_upload file_upload_request
  | P_manage_editor string bool
  | P_refresh_labels
  | P_install_host_tool string archive_target
  | P_manage_environment string bool git_spec string
  | P_sync_environment string "skill_spec list" "plugin_spec list"
  | P_inspect_environment string
  | P_inspect_system_env string
  | P_sync_system_env "skill_spec list" "plugin_spec list" "string list" bool
  | P_archive_system_env_resource string string string string
  | P_ios_discover string
  | P_ios_claim_device string string string string string
  | P_ios_release_device string string string bool
  | P_ios_configure_device string device_config
  | P_ios_wda_job wda_job_request
  | P_ios_job_cancel string
  | P_ios_runner_control string string string runner_action
  | P_node_build build_request
  | P_node_build_cancel string
  | P_host_tool_job host_tool_request
  | P_host_tool_job_cancel string
  | P_runtime_upgrade archive_target
  | P_self_upgrade archive_target
  | P_terminal_open terminal_spec
  | P_terminal_input string string
  | P_terminal_resize string int int
  | P_terminal_attach string int
  | P_terminal_close string
  | P_tunnel_request tunnel_request
  | P_proxy_request proxy_request

record frame =
  f_server_frame_id :: string
  f_created_at :: string
  f_payload :: payload

definition new_frame :: "string \<Rightarrow> string \<Rightarrow> payload \<Rightarrow> frame" where
  "new_frame frame_id stamp p = \<lparr>f_server_frame_id = frame_id, f_created_at = stamp, f_payload = p\<rparr>"

subsection \<open>The service\<close>

record service =
  sv_ledger :: ledger
  sv_registry :: "frame registry"
  sv_replay :: replay_cache
  sv_tracker :: tracker
  sv_master_key :: bytes
  sv_server_url :: string
  sv_gateway_origin :: string
  sv_agent_image :: string

definition new_service :: "bytes \<Rightarrow> string \<Rightarrow> string \<Rightarrow> string \<Rightarrow> ledger \<Rightarrow> seal_error + service" where
  "new_service master_key server_url gateway_origin agent_image db =
     (case new_secret_store master_key of
        Inl e \<Rightarrow> Inl e
      | Inr key \<Rightarrow>
          let url = rstrip_char (CHR ''/'') (strip server_url) in
          Inr \<lparr>sv_ledger = db, sv_registry = new_registry True, sv_replay = new_replay_cache,
               sv_tracker = [], sv_master_key = key, sv_server_url = url,
               sv_gateway_origin = or_str (rstrip_char (CHR ''/'') (strip gateway_origin)) url,
               sv_agent_image = strip agent_image\<rparr>)"

text \<open>
  The hook the registry fires when a node's live connection goes away; the reconcile task it
  schedules only touches the data service's tables.
\<close>

definition on_node_disconnect :: "string \<Rightarrow> string \<Rightarrow> service \<Rightarrow> service" where
  "on_node_disconnect stamp node_id sv =
     sv\<lparr>sv_replay := release node_id (sv_replay sv),
        sv_tracker := mark_restarting stamp node_id (sv_tracker sv)\<rparr>"

text \<open>A registry operation together with the hook calls it makes, in order.\<close>

definition with_hook :: "string \<Rightarrow> (frame registry \<Rightarrow> frame registry) \<Rightarrow> service \<Rightarrow> service" where
  "with_hook stamp f sv =
     (let r = sv_registry sv; r' = f r
      in fold (on_node_disconnect stamp) (drop (length (r_fired r)) (r_fired r')) (sv\<lparr>sv_registry := r'\<rparr>))"

definition sv_disconnect :: "string \<Rightarrow> string \<Rightarrow> service \<Rightarrow> service" where
  "sv_disconnect stamp node_id sv = with_hook stamp (disconnect node_id) sv"

definition conn_at :: "nat \<Rightarrow> service \<Rightarrow> frame connection" where
  "conn_at i sv = r_heap (sv_registry sv) ! i"

definition put_conn :: "nat \<Rightarrow> frame connection \<Rightarrow> service \<Rightarrow> service" where
  "put_conn i c sv = sv\<lparr>sv_registry := (sv_registry sv)\<lparr>r_heap := (r_heap (sv_registry sv))[i := c]\<rparr>\<rparr>"

definition sv_lookup :: "string \<Rightarrow> service \<Rightarrow> nat option" where
  "sv_lookup node_id sv = lookup node_id (sv_registry sv)"

text \<open>\<open>get_node_if_exists\<close> on an id that was already found to be non-blank.\<close>

definition find_node :: "string \<Rightarrow> service \<Rightarrow> node_record option" where
  "find_node node_id sv = (case get_node_if_exists node_id (sv_ledger sv) of Inl _ \<Rightarrow> None | Inr r \<Rightarrow> r)"

subsection \<open>Calls that wait for the node\<close>

text \<open>
  \<open>fut = conn.await_x(k); try: conn.send(frame) except: conn.cancel_x(k); raise\<close>: the future's
  index, or the text of the send error.
\<close>

definition begin_call ::
  "(string \<Rightarrow> frame connection \<Rightarrow> nat \<times> frame connection)
   \<Rightarrow> (string \<Rightarrow> frame connection \<Rightarrow> frame connection)
   \<Rightarrow> string \<Rightarrow> frame \<Rightarrow> frame connection \<Rightarrow> (string + nat) \<times> frame connection" where
  "begin_call await cancel k fr c =
     (let (j, c1) = await k c
      in case send fr c1 of
           Inl e \<Rightarrow> (Inl e, cancel k c1)
         | Inr c2 \<Rightarrow> (Inr j, c2))"

datatype 'r waited = Got 'r | Timed_out | Lost string

text \<open>
  \<open>await asyncio.wait_for(fut, ...)\<close> resumed: with the reply, with the ConnectionError of the
  teardown, or (the future still pending) with TimeoutError, upon which the caller cancels the
  waiter. A call that has begun is the triple of its connection, key and future.
\<close>

definition end_call ::
  "(frame connection \<Rightarrow> 'r reply_table) \<Rightarrow> (string \<Rightarrow> frame connection \<Rightarrow> frame connection)
   \<Rightarrow> string \<Rightarrow> nat \<Rightarrow> frame connection \<Rightarrow> 'r waited \<times> frame connection" where
  "end_call table_of cancel k j c = (case objs (table_of c) ! j of
     Resolved r \<Rightarrow> (Got r, c)
   | Failed e \<Rightarrow> (Lost e, c)
   | _ \<Rightarrow> (Timed_out, cancel k c))"

record call =
  cl_conn :: nat
  cl_key :: string
  cl_fut :: nat

definition begin_on ::
  "nat \<Rightarrow> string \<Rightarrow> (frame connection \<Rightarrow> (string + nat) \<times> frame connection) \<Rightarrow> service
   \<Rightarrow> (string + call) \<times> service" where
  "begin_on i k f sv =
     (let (res, c) = f (conn_at i sv)
      in (map_sum id (\<lambda>j. \<lparr>cl_conn = i, cl_key = k, cl_fut = j\<rparr>) res, put_conn i c sv))"

definition end_on ::
  "(frame connection \<Rightarrow> 'r reply_table) \<Rightarrow> (string \<Rightarrow> frame connection \<Rightarrow> frame connection) \<Rightarrow> call
   \<Rightarrow> service \<Rightarrow> 'r waited \<times> service" where
  "end_on table_of cancel cl sv =
     (let (w, c) = end_call table_of cancel (cl_key cl) (cl_fut cl) (conn_at (cl_conn cl) sv)
      in (w, put_conn (cl_conn cl) c sv))"

text \<open>The pair of phases for a command ack: its key is the frame id.\<close>

definition begin_ack :: "nat \<Rightarrow> string \<Rightarrow> string \<Rightarrow> payload \<Rightarrow> service \<Rightarrow> (string + call) \<times> service" where
  "begin_ack i frame_id stamp p sv =
     begin_on i frame_id (begin_call await_ack cancel_ack frame_id (new_frame frame_id stamp p)) sv"

definition end_ack :: "call \<Rightarrow> service \<Rightarrow> command_ack waited \<times> service" where
  "end_ack cl sv = end_on c_acks cancel_ack cl sv"

text \<open>A frame nobody waits for.\<close>

definition send_only :: "nat \<Rightarrow> frame \<Rightarrow> service \<Rightarrow> string + service" where
  "send_only i fr sv = (case send fr (conn_at i sv) of Inl e \<Rightarrow> Inl e | Inr c \<Rightarrow> Inr (put_conn i c sv))"

text \<open>\<open>(getattr(ack, 'error', '') or '').strip() or 'node reported failure'\<close>.\<close>

definition ack_failure :: "command_ack \<Rightarrow> string" where
  "ack_failure a = or_str (strip (ack_error a)) ''node reported failure''"

end
