(* ===== verification/Service_Nodes.thy ===== *)
theory Service_Nodes
  imports Service_Types
begin

text \<open>
  The node half of service.py: enum mappings, capability labels, the NodeInfo projection,
  registration (authenticate_registration), and the onboard / approve / revoke / move / delete
  handlers. A handler that waits for a management node is split where it waits.
\<close>

subsection \<open>Enum mappings\<close>

text \<open>The numbers are those of the generated proto enums; the enums are open, so the argument of a
  \<open>_from_proto\<close> function is any int.\<close>

definition status_to_proto :: "string \<Rightarrow> int" where
  "status_to_proto status =
     (if status = NODE_STATUS_APPROVED then 2 else if status = NODE_STATUS_REVOKED then 3
      else if status = NODE_STATUS_PENDING then 1 else 0)"

definition status_from_proto :: "int \<Rightarrow> string" where
  "status_from_proto s =
     (if s = 2 then NODE_STATUS_APPROVED else if s = 3 then NODE_STATUS_REVOKED
      else if s = 1 then NODE_STATUS_PENDING else [])"

definition role_to_proto :: "string \<Rightarrow> int" where
  "role_to_proto role = (let r = normalize_node_role role in
     if r = NODE_ROLE_MANAGEMENT then 2 else if r = NODE_ROLE_PASSIVE_MANAGEMENT then 3
     else if r = NODE_ROLE_EXECUTION then 1 else if r = NODE_ROLE_IOS_HOST then 4 else 1)"

definition role_from_proto :: "int \<Rightarrow> string" where
  "role_from_proto r =
     (if r = 2 then NODE_ROLE_MANAGEMENT else if r = 3 then NODE_ROLE_PASSIVE_MANAGEMENT
      else if r = 1 then NODE_ROLE_EXECUTION else if r = 4 then NODE_ROLE_IOS_HOST else [])"

definition startup_to_proto :: "string \<Rightarrow> int" where
  "startup_to_proto meth = (let m = normalize_startup_method meth in
     if m = ''standalone'' then 1 else if m = ''systemd'' then 2
     else if m = ''docker'' then 3 else if m = ''docker-compose'' then 4 else 0)"

definition startup_from_proto :: "int \<Rightarrow> string" where
  "startup_from_proto m =
     (if m = 1 then ''standalone'' else if m = 2 then ''systemd''
      else if m = 3 then ''docker'' else if m = 4 then ''docker-compose'' else [])"

subsection \<open>Capabilities and roles\<close>

text \<open>\<open>editors_json\<close> is the protobuf-to-JSON rendering of the editor list.\<close>

definition capability_labels ::
  "(editor_capability list \<Rightarrow> string) \<Rightarrow> capabilities option \<Rightarrow> (string, string) dict" where
  "capability_labels editors_json caps = (case caps of
     None \<Rightarrow> []
   | Some c \<Rightarrow>
       let l1 = dset ''arch'' (caps_arch c) (dset ''os'' (caps_os c) (caps_labels c));
           l2 = (if caps_docker c then dset ''docker'' ''true'' l1 else l1);
           l3 = (if caps_providers c \<noteq> []
                 then dset ''providers'' (join_with '','' (caps_providers c)) l2 else l2)
       in if caps_editors c \<noteq> [] then dset ''editors_json'' (editors_json (caps_editors c)) l3 else l3)"

definition capability_platform :: "capabilities option \<Rightarrow> string" where
  "capability_platform caps = (case caps of
     None \<Rightarrow> [] | Some c \<Rightarrow> strip (caps_os c @ ''/'' @ caps_arch c))"

definition is_manager_role :: "string \<Rightarrow> bool" where
  "is_manager_role role = (normalize_node_role role \<in> {NODE_ROLE_MANAGEMENT, NODE_ROLE_PASSIVE_MANAGEMENT})"

definition is_passive_manager :: "node_record \<Rightarrow> bool" where
  "is_passive_manager r =
     (n_role r = NODE_ROLE_PASSIVE_MANAGEMENT
      \<or> (n_role r = NODE_ROLE_MANAGEMENT \<and> strip (n_credential_secret_enc r) = []))"

definition install_command :: "string \<Rightarrow> string \<Rightarrow> string \<Rightarrow> string" where
  "install_command script_url node_id secret =
     ''AGENT_COMPOSE_NODE_ID='' @ node_id @ '' AGENT_COMPOSE_NODE_SECRET='' @ secret
     @ '' bash <(curl -fsSL '' @ [CHR 0x22] @ script_url @ [CHR 0x22] @ '')''"

definition script_filename :: "string \<Rightarrow> string \<Rightarrow> string" where
  "script_filename role meth =
     ''install-'' @ or_str (normalize_node_role role) NODE_ROLE_EXECUTION @ ''-''
     @ or_str (normalize_startup_method meth) ''standalone'' @ ''.sh''"

definition script_url :: "string \<Rightarrow> string \<Rightarrow> service \<Rightarrow> string" where
  "script_url role meth sv =
     (let path = ''/api/nodes/scripts/'' @ script_filename role meth
      in if sv_server_url sv = [] then path else sv_server_url sv @ path)"

subsection \<open>The otpauth URI\<close>

text \<open>\<open>urllib.parse.quote\<close>: UTF-8 bytes outside the safe set are percent-encoded.\<close>

definition hex_upper :: "nat \<Rightarrow> char" where
  "hex_upper d = (if d < 10 then char_of (48 + d) else char_of (55 + d))"

definition quote_safe :: "string \<Rightarrow> nat \<Rightarrow> bool" where
  "quote_safe extra n =
     ((48 \<le> n \<and> n \<le> 57) \<or> (65 \<le> n \<and> n \<le> 90) \<or> (97 \<le> n \<and> n \<le> 122)
      \<or> n \<in> code_of ` set (''_.-~'' @ extra))"

definition quote :: "string \<Rightarrow> string \<Rightarrow> string" where
  "quote extra s = concat (map (\<lambda>n. if quote_safe extra n then [char_of n]
     else [CHR ''%'', hex_upper (n div 16), hex_upper (n mod 16)]) (concat (map utf8_bytes s)))"

definition otpauth_uri :: "string \<Rightarrow> string \<Rightarrow> string" where
  "otpauth_uri secret_b32 node_id =
     ''otpauth://totp/'' @ quote ''/'' (''agent-compose:'' @ node_id)
     @ ''?secret='' @ quote [] secret_b32 @ ''&issuer=agent-compose&algorithm=SHA1''
     @ ''&digits='' @ str_of_nat DIGITS @ ''&period='' @ str_of_int TIME_STEP"

subsection \<open>Configuration snapshots\<close>

definition public_ip_config_proto :: "int \<times> string list \<times> string list \<Rightarrow> ip_config" where
  "public_ip_config_proto cfg = (case cfg of (revision, v4, v6) \<Rightarrow>
     \<lparr>ipc_revision = max revision 0, ipc_ipv4_urls = v4, ipc_ipv6_urls = v6\<rparr>)"

text \<open>The three fields of a resolved proxy: mode, url, url prefix.\<close>

type_synonym proxy_fields = "string \<times> string \<times> string"

datatype proxy_failure = Proxy_refused string | Proxy_raised escaped

definition node_proxy_config_proto :: "int \<Rightarrow> proxy_fields \<Rightarrow> string \<Rightarrow> proxy_config" where
  "node_proxy_config_proto revision pf proxy_config_id = (case pf of (mode, url, pre) \<Rightarrow>
     \<lparr>px_revision = max revision 0, px_mode = mode, px_url = url, px_url_prefix = pre,
      px_config_id = proxy_config_id\<rparr>)"

text \<open>\<open>resolve\<close> reads the proxy pool: a ProxyResolveError with its text, or any other exception.\<close>

definition resolve_proxy_safe :: "(string \<Rightarrow> proxy_failure + proxy_fields) \<Rightarrow> string \<Rightarrow> proxy_fields" where
  "resolve_proxy_safe resolve pid = (case resolve pid of Inl _ \<Rightarrow> ([], [], []) | Inr f \<Rightarrow> f)"

definition resolve_proxy_strict :: "(string \<Rightarrow> proxy_failure + proxy_fields) \<Rightarrow> string \<Rightarrow> proxy_fields rpc" where
  "resolve_proxy_strict resolve pid = (case resolve pid of
     Inl (Proxy_refused e) \<Rightarrow> fail_rpc INVALID_ARGUMENT e
   | Inl (Proxy_raised x) \<Rightarrow> Inl (Escaped x)
   | Inr f \<Rightarrow> Inr f)"

definition public_ip_lookup_config_frame :: "string \<Rightarrow> service \<Rightarrow> frame" where
  "public_ip_lookup_config_frame stamp sv = new_frame [] stamp
     (P_public_ip_lookup_config (public_ip_config_proto (get_public_ip_lookup_config (sv_ledger sv))))"

definition node_proxy_config_frame ::
  "(string \<Rightarrow> proxy_failure + proxy_fields) \<Rightarrow> string \<Rightarrow> string \<Rightarrow> service \<Rightarrow> frame rpc" where
  "node_proxy_config_frame resolve stamp node_id sv =
     (case get_node_if_exists (strip node_id) (sv_ledger sv) of
        Inl e \<Rightarrow> Inl (Escaped (Store_failed e))
      | Inr rec \<Rightarrow>
          let pid = (case rec of None \<Rightarrow> [] | Some r \<Rightarrow> n_proxy_config_id r);
              revision = (case rec of None \<Rightarrow> 0 | Some r \<Rightarrow> n_proxy_revision r)
          in Inr (new_frame [] stamp (P_node_proxy_config
               (node_proxy_config_proto revision (resolve_proxy_safe resolve pid) pid))))"

definition get_node_proxy_config ::
  "(string \<Rightarrow> proxy_failure + proxy_fields) \<Rightarrow> string \<Rightarrow> service \<Rightarrow> proxy_config rpc" where
  "get_node_proxy_config resolve node_id0 sv = (let node_id = strip node_id0 in
     case get_node_if_exists node_id (sv_ledger sv) of
       Inl e \<Rightarrow> Inl (Escaped (Store_failed e))
     | Inr None \<Rightarrow> fail_rpc NOT_FOUND (''node '' @ node_id @ '' not found'')
     | Inr (Some r) \<Rightarrow> Inr (node_proxy_config_proto (n_proxy_revision r)
         (resolve_proxy_safe resolve (n_proxy_config_id r)) (n_proxy_config_id r)))"

text \<open>A push that ignores a closed or full connection.\<close>

definition push_quietly :: "nat \<Rightarrow> frame \<Rightarrow> service \<Rightarrow> service" where
  "push_quietly i fr sv = (case send_only i fr sv of Inl _ \<Rightarrow> sv | Inr sv' \<Rightarrow> sv')"

definition update_node_proxy_config ::
  "(string \<Rightarrow> proxy_failure + proxy_fields) \<Rightarrow> microseconds \<Rightarrow> string \<Rightarrow> string \<Rightarrow> string \<Rightarrow> service
   \<Rightarrow> proxy_config rpc \<times> service" where
  "update_node_proxy_config resolve now stamp node_id0 pid0 sv =
     (let node_id = strip node_id0; pid = strip pid0 in
      if node_id = [] then (fail_rpc INVALID_ARGUMENT ''node_id is required'', sv)
      else case resolve_proxy_strict resolve pid of
        Inl e \<Rightarrow> (Inl e, sv)
      | Inr pf \<Rightarrow>
          (case update_node_proxy now node_id pid (sv_ledger sv) of
             Inl e \<Rightarrow> (Inl (Escaped (Store_failed e)), sv)
           | Inr (r, db) \<Rightarrow>
               let sv1 = sv\<lparr>sv_ledger := db\<rparr>;
                   snap = node_proxy_config_proto (n_proxy_revision r) pf pid
               in case sv_lookup node_id sv1 of
                    None \<Rightarrow> (Inr snap, sv1)
                  | Some i \<Rightarrow> (Inr snap, push_quietly i (new_frame [] stamp (P_node_proxy_config snap)) sv1)))"

definition set_node_last_proxy_rpc ::
  "microseconds \<Rightarrow> string \<Rightarrow> string \<Rightarrow> service \<Rightarrow> (string \<times> string) rpc \<times> service" where
  "set_node_last_proxy_rpc now node_id0 pid0 sv =
     (let node_id = strip node_id0; pid = strip pid0 in
      if node_id = [] then (fail_rpc INVALID_ARGUMENT ''node_id is required'', sv)
      else (Inr (node_id, pid), sv\<lparr>sv_ledger := set_node_last_proxy now node_id pid (sv_ledger sv)\<rparr>))"

fun broadcast :: "frame \<Rightarrow> string list \<Rightarrow> service \<Rightarrow> service" where
  "broadcast fr [] sv = sv"
| "broadcast fr (n # ns) sv = broadcast fr ns
     (case sv_lookup n sv of None \<Rightarrow> sv | Some i \<Rightarrow> push_quietly i fr sv)"

definition update_lookup_config_rpc ::
  "(string \<Rightarrow> json option) \<Rightarrow> microseconds \<Rightarrow> string \<Rightarrow> string list \<Rightarrow> string list \<Rightarrow> service
   \<Rightarrow> ip_config rpc \<times> service" where
  "update_lookup_config_rpc loads now stamp v4 v6 sv =
     (case update_public_ip_lookup_config loads now
             (J_list (map J_str v4)) (J_list (map J_str v6)) (sv_ledger sv) of
        Inl (Url_error e) \<Rightarrow> (Inl (Rpc_error INVALID_ARGUMENT (Bad_lookup_urls e)), sv)
      | Inl e \<Rightarrow> (Inl (Escaped (Store_failed e)), sv)
      | Inr (cfg, db) \<Rightarrow>
          let snap = public_ip_config_proto cfg; sv1 = sv\<lparr>sv_ledger := db\<rparr>
          in (Inr snap, broadcast (new_frame [] stamp (P_public_ip_lookup_config snap))
                (registry_list (sv_registry sv1)) sv1))"


subsection \<open>NodeInfo\<close>

text \<open>Times are the clock readings \<open>rfc3339nano\<close> formats.\<close>

record node_info =
  ni_node_id :: string
  ni_node_name :: string
  ni_status :: int
  ni_role :: int
  ni_startup_method :: int
  ni_manager_node_id :: string
  ni_capabilities :: capabilities
  ni_proxy_config_id :: string
  ni_last_proxy_config_id :: string
  ni_last_heartbeat_at :: "microseconds option"
  ni_online :: bool
  ni_connected :: bool
  ni_active_session_ids :: "string list"
  ni_connected_at :: "microseconds option"

definition NODE_HEARTBEAT_TIMEOUT :: microseconds where
  "NODE_HEARTBEAT_TIMEOUT = seconds 60"

definition connection_live :: "microseconds \<Rightarrow> 'f connection \<Rightarrow> bool" where
  "connection_live now c = (case snapshot c of (connected_at, last_hb, _) \<Rightarrow>
     let liveness = (case last_hb of None \<Rightarrow> connected_at
                     | Some t \<Rightarrow> if t < connected_at then connected_at else t)
     in now - liveness \<le> NODE_HEARTBEAT_TIMEOUT)"

definition stored_labels :: "string list" where
  "stored_labels = [''os'', ''arch'', ''docker'', ''providers'', ''editors_json'']"

text \<open>\<open>parse_editors\<close>: the editors rebuilt from the stored JSON, up to the first bad one.\<close>

definition stored_capabilities ::
  "(string \<Rightarrow> editor_capability list) \<Rightarrow> (string, string) dict \<Rightarrow> capabilities" where
  "stored_capabilities parse_editors caps =
     (let providers = dget_or caps ''providers'' []; ej = dget_or caps ''editors_json'' []
      in \<lparr>caps_os = dget_or caps ''os'' [], caps_arch = dget_or caps ''arch'' [],
          caps_docker = (dget caps ''docker'' = Some ''true''),
          caps_providers = (if providers = [] then []
                            else filter (\<lambda>p. p \<noteq> []) (split_on (CHR '','') providers)),
          caps_labels = filter (\<lambda>p. fst p \<notin> set stored_labels) caps,
          caps_editors = (if ej = [] then [] else parse_editors ej)\<rparr>)"

definition node_info_of ::
  "(string \<Rightarrow> editor_capability list) \<Rightarrow> microseconds \<Rightarrow> node_record \<Rightarrow> service \<Rightarrow> node_info" where
  "node_info_of parse_editors now r sv =
     (let info = \<lparr>ni_node_id = n_id r, ni_node_name = n_name r, ni_status = status_to_proto (n_status r),
            ni_role = role_to_proto (n_role r), ni_startup_method = startup_to_proto (n_startup_method r),
            ni_manager_node_id = n_manager_node_id r,
            ni_capabilities = stored_capabilities parse_editors (n_capabilities r),
            ni_proxy_config_id = n_proxy_config_id r, ni_last_proxy_config_id = n_last_proxy_config_id r,
            ni_last_heartbeat_at = n_last_seen_at r, ni_online = False, ni_connected = False,
            ni_active_session_ids = [], ni_connected_at = None\<rparr>
      in if is_passive_manager r then info\<lparr>ni_online := True\<rparr>
         else case sv_lookup (n_id r) sv of
           None \<Rightarrow> info
         | Some i \<Rightarrow>
             let c = conn_at i sv;
                 info1 = info\<lparr>ni_connected := True, ni_active_session_ids := active_sessions c,
                   ni_connected_at := Some (c_connected_at c),
                   ni_last_heartbeat_at := (case c_last_heartbeat_at c of
                      None \<Rightarrow> ni_last_heartbeat_at info | Some t \<Rightarrow> Some t),
                   ni_online := connection_live now c\<rparr>;
                 peer = strip (c_peer_address c);
                 caps = ni_capabilities info1
             in if peer = [] then info1
                else info1\<lparr>ni_capabilities :=
                       caps\<lparr>caps_labels := dset ''server_seen_address'' peer (caps_labels caps)\<rparr>\<rparr>)"

subsection \<open>Registration\<close>

record registration =
  rg_node_id :: string
  rg_totp_code :: string
  rg_node_name :: string
  rg_capabilities :: "capabilities option"

definition bytes_text :: "bytes \<Rightarrow> string" where
  "bytes_text bs = map (\<lambda>b. char_of (unat b)) bs"

definition text_bytes :: "string \<Rightarrow> bytes" where
  "text_bytes s = map (\<lambda>c. of_nat (code_of c)) s"

text \<open>\<open>crypto.decode_secret(self.secrets.open(...).decode("ascii"))\<close>; any exception is \<open>None\<close>.\<close>

definition open_credential ::
  "(bytes \<Rightarrow> bytes \<Rightarrow> bytes \<Rightarrow> bytes option) \<Rightarrow> string \<Rightarrow> service \<Rightarrow> bytes option" where
  "open_credential open_with sealed sv = (case open_blob open_with (sv_master_key sv) sealed of
     Inl _ \<Rightarrow> None
   | Inr b32 \<Rightarrow>
       if \<not> list_all (\<lambda>b. unat b < 128) b32 then None
       else case decode_secret (bytes_text b32) of Inl _ \<Rightarrow> None | Inr secret \<Rightarrow> Some secret)"

text \<open>
  The checks up to the TOTP claim. \<open>server_time\<close> is the instant the server announced in its
  hello; the claim is recorded even if the handler fails later.
\<close>

definition authenticate ::
  "(bytes \<Rightarrow> bytes \<Rightarrow> bytes \<Rightarrow> bytes option) \<Rightarrow> microseconds \<Rightarrow> registration \<Rightarrow> service
   \<Rightarrow> node_record rpc \<times> service" where
  "authenticate open_with server_time reg sv =
     (let node_id = strip (rg_node_id reg); code = strip (rg_totp_code reg);
          refused = fail_rpc PERMISSION_DENIED ''node authentication failed'' in
      if node_id = [] then (fail_rpc PERMISSION_DENIED ''node_id is required'', sv)
      else if code = [] then (fail_rpc PERMISSION_DENIED ''totp code is required'', sv)
      else case find_node node_id sv of
        None \<Rightarrow> (refused, sv)
      | Some r \<Rightarrow>
          if n_status r = NODE_STATUS_REVOKED
          then (fail_rpc PERMISSION_DENIED (''node '' @ n_id r @ '' is revoked''), sv)
          else if strip (n_credential_secret_enc r) = [] then (refused, sv)
          else case open_credential open_with (n_credential_secret_enc r) sv of
            None \<Rightarrow> (fail_rpc INTERNAL ''open node credential'', sv)
          | Some secret \<Rightarrow>
              (case validate secret code server_time (Some (sv_replay sv)) (n_id r) of
                 (ok, replay) \<Rightarrow>
                   let sv1 = (case replay of None \<Rightarrow> sv | Some rc \<Rightarrow> sv\<lparr>sv_replay := rc\<rparr>)
                   in if ok then (Inr r, sv1) else (refused, sv1)))"

definition refreshed_record ::
  "(editor_capability list \<Rightarrow> string) \<Rightarrow> microseconds \<Rightarrow> node_record \<Rightarrow> registration \<Rightarrow> string \<Rightarrow> node_record" where
  "refreshed_record editors_json now r reg peer =
     (let self_reported = strip (rg_node_name reg);
          name = or_str (n_name r) (or_str self_reported (n_id r));
          l0 = capability_labels editors_json (rg_capabilities reg);
          l1 = (if n_role r \<noteq> [] then dset ''role'' (n_role r) l0 else l0);
          l2 = (if self_reported \<noteq> [] \<and> self_reported \<noteq> name then dset ''hostname'' self_reported l1 else l1);
          l3 = (if peer \<noteq> [] then dset ''server_seen_address'' peer l2 else l2)
      in \<lparr>n_id = n_id r, n_name = name, n_status = n_status r, n_role = n_role r,
          n_startup_method = n_startup_method r, n_manager_node_id = n_manager_node_id r,
          n_credential_secret_enc = n_credential_secret_enc r,
          n_platform = capability_platform (rg_capabilities reg), n_capabilities = l3,
          n_capacity = no_capacity, n_proxy_config_id = [], n_last_proxy_config_id = [],
          n_proxy_revision = 0, n_last_seen_at = Some now, n_created_at = 0, n_updated_at = 0\<rparr>)"

text \<open>The rest of \<open>authenticate_registration\<close>, after the database has been read.\<close>

definition admit ::
  "(editor_capability list \<Rightarrow> string) \<Rightarrow> microseconds \<Rightarrow> string \<Rightarrow> registration \<Rightarrow> string \<Rightarrow> node_record
   \<Rightarrow> service \<Rightarrow> node_record rpc \<times> service" where
  "admit editors_json now stamp reg peer r sv =
     (let updated = refreshed_record editors_json now r reg peer;
          sv1 = sv\<lparr>sv_tracker := finalize_from_reconnect stamp (strip (rg_node_id reg))
                    (dget_or (n_capabilities updated) ''client_version'' []) (sv_tracker sv)\<rparr>
      in case upsert_node now updated (sv_ledger sv1) of
           Inl e \<Rightarrow> (Inl (Escaped (Store_failed e)), sv1)
         | Inr (row, db) \<Rightarrow> (Inr row, sv1\<lparr>sv_ledger := db\<rparr>))"

definition authenticate_registration ::
  "(bytes \<Rightarrow> bytes \<Rightarrow> bytes \<Rightarrow> bytes option) \<Rightarrow> (editor_capability list \<Rightarrow> string) \<Rightarrow> microseconds \<Rightarrow>
   microseconds \<Rightarrow> string \<Rightarrow> registration \<Rightarrow> string \<Rightarrow> (service \<Rightarrow> service) \<Rightarrow> service
   \<Rightarrow> node_record rpc \<times> service" where
  "authenticate_registration open_with editors_json server_time now stamp reg peer between sv =
     (case authenticate open_with server_time reg sv of
        (Inl e, sv1) \<Rightarrow> (Inl e, sv1)
      | (Inr r, sv1) \<Rightarrow> admit editors_json now stamp reg peer r (between sv1))"

end
