(* ===== verification/Service_Admin.thy ===== *)
theory Service_Admin
  imports Service_Nodes
begin

text \<open>
  The administrative handlers of service.py: list, approve, revoke, move, delete, onboard and
  revoke_onboard. Where a handler waits for a management node to acknowledge a frame it is two
  definitions: \<open>_start\<close> runs up to the wait, \<open>_resume\<close> runs after it on whatever the state has
  become meanwhile.
\<close>

datatype 'a phase = Done "'a rpc" | Awaiting call

subsection \<open>List and approve\<close>

definition list_nodes_rpc ::
  "(node_row list \<Rightarrow> node_row list) \<Rightarrow> (string \<Rightarrow> editor_capability list) \<Rightarrow> microseconds \<Rightarrow> int
   \<Rightarrow> service \<Rightarrow> node_info list" where
  "list_nodes_rpc order_by parse_editors now status sv =
     map (\<lambda>r. node_info_of parse_editors now r sv)
       (list_nodes order_by (status_from_proto status) [] (sv_ledger sv))"

definition missing_requirements :: "node_record \<Rightarrow> requirement list" where
  "missing_requirements r =
     (let caps = n_capabilities r; label = (\<lambda>k. dget_or caps k []) in
      if n_role r = NODE_ROLE_MANAGEMENT
      then (if lower (label ''docker'') \<notin> {''true'', ''1'', ''yes''} then [Req_docker] else [])
      else if n_role r = NODE_ROLE_IOS_HOST then []
      else (if strip (label ''node_version'') = [] then [Req_nodejs] else [])
         @ (if strip (label ''npm_version'') = [] then [Req_npm] else [])
         @ (if strip (label ''runtime_version'') = [] then [Req_runtime] else [])
         @ (let ej = strip (label ''editors_json'');
                has_editors = (ej \<noteq> [] \<and> ej \<notin> {''[]'', ''null''})
            in if strip (label ''providers'') = [] \<and> \<not> has_editors then [Req_editor] else []))"

text \<open>\<open>NodeNotFound\<close> becomes NOT_FOUND, any other store error escapes.\<close>

definition store_rpc :: "store_error \<Rightarrow> 'a rpc" where
  "store_rpc e = (case e of Node_not_found n \<Rightarrow> fail_rpc NOT_FOUND (''node '' @ n @ '' not found'')
     | _ \<Rightarrow> Inl (Escaped (Store_failed e)))"

definition info_after ::
  "(string \<Rightarrow> editor_capability list) \<Rightarrow> microseconds \<Rightarrow> string \<Rightarrow> service \<Rightarrow> node_info option" where
  "info_after parse_editors now node_id sv =
     map_option (\<lambda>r. node_info_of parse_editors now r sv) (find_node node_id sv)"

definition approve_node ::
  "(string \<Rightarrow> editor_capability list) \<Rightarrow> microseconds \<Rightarrow> string \<Rightarrow> service
   \<Rightarrow> node_info option rpc \<times> service" where
  "approve_node parse_editors now node_id0 sv = (let node_id = strip node_id0 in
     case get_node_if_exists node_id (sv_ledger sv) of
       Inl e \<Rightarrow> (Inl (Escaped (Store_failed e)), sv)
     | Inr None \<Rightarrow> (fail_rpc NOT_FOUND (''node '' @ node_id @ '' not found''), sv)
     | Inr (Some r) \<Rightarrow>
         let missing = (if is_passive_manager r then [] else missing_requirements r) in
         if missing \<noteq> [] then (Inl (Rpc_error FAILED_PRECONDITION (Missing_environment missing)), sv)
         else case set_node_status now node_id NODE_STATUS_APPROVED (sv_ledger sv) of
           Inl e \<Rightarrow> (store_rpc e, sv)
         | Inr db \<Rightarrow> let sv1 = sv\<lparr>sv_ledger := db\<rparr> in (Inr (info_after parse_editors now node_id sv1), sv1))"

definition revoke_node ::
  "(string \<Rightarrow> editor_capability list) \<Rightarrow> microseconds \<Rightarrow> string \<Rightarrow> string \<Rightarrow> service
   \<Rightarrow> node_info option rpc \<times> service" where
  "revoke_node parse_editors now stamp node_id0 sv = (let node_id = strip node_id0 in
     case set_node_status now node_id NODE_STATUS_REVOKED (sv_ledger sv) of
       Inl e \<Rightarrow> (store_rpc e, sv)
     | Inr db \<Rightarrow>
         let sv1 = sv_disconnect stamp node_id (sv\<lparr>sv_ledger := db\<rparr>)
         in (Inr (info_after parse_editors now node_id sv1), sv1))"

text \<open>\<open>store.set_node_manager\<close> rejects a bad move with a ValueError.\<close>

definition move_node :: "microseconds \<Rightarrow> string \<Rightarrow> string \<Rightarrow> service \<Rightarrow> node_record rpc \<times> service" where
  "move_node now node_id0 manager0 sv = (let node_id = strip node_id0; manager = strip manager0 in
     if node_id = [] then (fail_rpc INVALID_ARGUMENT ''node_id is required'', sv)
     else if manager = [] then (fail_rpc INVALID_ARGUMENT ''manager_node_id is required'', sv)
     else case set_node_manager now node_id manager (sv_ledger sv) of
       Inl (Value_error m) \<Rightarrow> (fail_rpc FAILED_PRECONDITION m, sv)
     | Inl e \<Rightarrow> (store_rpc e, sv)
     | Inr db \<Rightarrow> let sv1 = sv\<lparr>sv_ledger := db\<rparr> in
         (case get_node node_id db of Inl e \<Rightarrow> (Inl (Escaped (Store_failed e)), sv1) | Inr r \<Rightarrow> (Inr r, sv1)))"

subsection \<open>Stopping a launched child\<close>

text \<open>\<open>Inr None\<close>: nothing to wait for (no manager, or it is passive or offline).\<close>

definition dispatch_delete_start ::
  "string \<Rightarrow> string \<Rightarrow> string \<Rightarrow> string \<Rightarrow> service \<Rightarrow> call option rpc \<times> service" where
  "dispatch_delete_start stamp frame_id manager0 launch0 sv =
     (let manager = strip manager0; launch = strip launch0 in
      if manager = [] \<or> launch = [] then (Inr None, sv)
      else case find_node manager sv of
        None \<Rightarrow> (Inr None, sv)
      | Some m \<Rightarrow>
          if is_passive_manager m then (Inr None, sv)
          else case sv_lookup manager sv of
            None \<Rightarrow> (Inr None, sv)
          | Some i \<Rightarrow>
              (case begin_ack i frame_id stamp (P_delete_execution_node launch) sv of
                 (Inl e, sv1) \<Rightarrow> (fail_rpc UNAVAILABLE (''failed to stop execution node '' @ launch
                    @ '' on manager '' @ manager @ '': '' @ e), sv1)
               | (Inr cl, sv1) \<Rightarrow> (Inr (Some cl), sv1)))"

definition dispatch_delete_resume ::
  "call \<Rightarrow> string \<Rightarrow> string \<Rightarrow> service \<Rightarrow> unit rpc \<times> service" where
  "dispatch_delete_resume cl manager launch sv =
     (let failed = (\<lambda>e. fail_rpc UNAVAILABLE (''failed to stop execution node '' @ launch
                        @ '' on manager '' @ manager @ '': '' @ e))
      in case end_ack cl sv of
           (Timed_out, sv1) \<Rightarrow> (failed [], sv1)
         | (Lost e, sv1) \<Rightarrow> (failed e, sv1)
         | (Got ack, sv1) \<Rightarrow>
             if ack_ok ack then (Inr (), sv1)
             else (fail_rpc INTERNAL (''manager '' @ manager @ '' failed to stop execution node '' @ launch
                     @ '': '' @ ack_error ack), sv1))"

subsection \<open>Delete\<close>

definition delete_commit :: "string \<Rightarrow> string \<Rightarrow> service \<Rightarrow> bool rpc \<times> service" where
  "delete_commit stamp node_id sv = (case delete_node node_id (sv_ledger sv) of
     (Some e, db) \<Rightarrow> (store_rpc e, sv\<lparr>sv_ledger := db\<rparr>)
   | (None, db) \<Rightarrow> (Inr True, sv_disconnect stamp node_id (sv\<lparr>sv_ledger := db\<rparr>)))"

definition owned_count :: "string \<Rightarrow> service \<Rightarrow> nat" where
  "owned_count node_id sv = length (filter (\<lambda>r. n_manager_node_id r = node_id) (map snd (nodes (sv_ledger sv))))"

definition delete_node_start ::
  "string \<Rightarrow> string \<Rightarrow> string \<Rightarrow> bool \<Rightarrow> service \<Rightarrow> bool phase \<times> service" where
  "delete_node_start stamp frame_id node_id0 force sv = (let node_id = strip node_id0 in
     if node_id = [] then (Done (fail_rpc INVALID_ARGUMENT ''node_id is required''), sv)
     else case find_node node_id sv of
       None \<Rightarrow> (Done (Inr False), sv)
     | Some r \<Rightarrow>
         let count = owned_count node_id sv in
         if is_manager_role (n_role r) \<and> 0 < count
         then (Done (fail_rpc FAILED_PRECONDITION (''management node '' @ node_id @ '' still owns ''
                @ str_of_nat count @ '' execution node(s); delete or reassign them first'')), sv)
         else if sv_lookup node_id sv \<noteq> None \<and> \<not> force
         then (Done (fail_rpc FAILED_PRECONDITION (''node '' @ node_id
                @ '' is online; retry with force to delete it anyway'')), sv)
         else if n_role r = NODE_ROLE_EXECUTION \<and> strip (n_manager_node_id r) \<noteq> []
         then (case dispatch_delete_start stamp frame_id (n_manager_node_id r) node_id sv of
                 (Inl e, sv1) \<Rightarrow> (Done (Inl e), sv1)
               | (Inr None, sv1) \<Rightarrow> (let (res, sv2) = delete_commit stamp node_id sv1 in (Done res, sv2))
               | (Inr (Some cl), sv1) \<Rightarrow> (Awaiting cl, sv1))
         else (let (res, sv2) = delete_commit stamp node_id sv in (Done res, sv2)))"

definition delete_node_resume ::
  "string \<Rightarrow> call \<Rightarrow> string \<Rightarrow> string \<Rightarrow> service \<Rightarrow> bool rpc \<times> service" where
  "delete_node_resume stamp cl manager node_id sv = (case dispatch_delete_resume cl manager node_id sv of
     (Inl e, sv1) \<Rightarrow> (Inl e, sv1)
   | (Inr (), sv1) \<Rightarrow> delete_commit stamp node_id sv1)"

subsection \<open>Revoking an onboarded node\<close>

datatype revoke_outcome = Nothing_to_revoke | Onboard_deleted | Onboard_revoked "node_info option"

definition never_connected :: "string \<Rightarrow> node_record \<Rightarrow> service \<Rightarrow> bool" where
  "never_connected node_id r sv = (n_last_seen_at r = None \<and> sv_lookup node_id sv = None)"

text \<open>What follows the wait; \<open>fresh\<close> is the decision taken before it.\<close>

definition revoke_onboard_commit ::
  "(string \<Rightarrow> editor_capability list) \<Rightarrow> microseconds \<Rightarrow> string \<Rightarrow> bool \<Rightarrow> string \<Rightarrow> service
   \<Rightarrow> revoke_outcome rpc \<times> service" where
  "revoke_onboard_commit parse_editors now stamp fresh node_id sv =
     (if fresh
      then (case delete_node node_id (sv_ledger sv) of
              (Some e, db) \<Rightarrow> (store_rpc e, sv\<lparr>sv_ledger := db\<rparr>)
            | (None, db) \<Rightarrow> (Inr Onboard_deleted, sv\<lparr>sv_ledger := db\<rparr>))
      else (case set_node_status now node_id NODE_STATUS_REVOKED (sv_ledger sv) of
              Inl e \<Rightarrow> (store_rpc e, sv)
            | Inr db \<Rightarrow> let sv1 = sv_disconnect stamp node_id (sv\<lparr>sv_ledger := db\<rparr>)
                in (Inr (Onboard_revoked (info_after parse_editors now node_id sv1)), sv1)))"

definition revoke_onboard_start ::
  "(string \<Rightarrow> editor_capability list) \<Rightarrow> microseconds \<Rightarrow> string \<Rightarrow> string \<Rightarrow> string \<Rightarrow> service
   \<Rightarrow> revoke_outcome phase \<times> service" where
  "revoke_onboard_start parse_editors now stamp frame_id node_id0 sv = (let node_id = strip node_id0 in
     if node_id = [] then (Done (fail_rpc INVALID_ARGUMENT ''node_id is required''), sv)
     else case find_node node_id sv of
       None \<Rightarrow> (Done (Inr Nothing_to_revoke), sv)
     | Some r \<Rightarrow>
         let commit = (\<lambda>s. let (res, s2) = revoke_onboard_commit parse_editors now stamp
                                             (never_connected node_id r sv) node_id s
                           in (Done res, s2)) in
         if n_role r = NODE_ROLE_EXECUTION \<and> strip (n_manager_node_id r) \<noteq> []
         then (case dispatch_delete_start stamp frame_id (n_manager_node_id r) node_id sv of
                 (Inl e, sv1) \<Rightarrow> (Done (Inl e), sv1)
               | (Inr None, sv1) \<Rightarrow> commit sv1
               | (Inr (Some cl), sv1) \<Rightarrow> (Awaiting cl, sv1))
         else commit sv)"

definition revoke_onboard_resume ::
  "(string \<Rightarrow> editor_capability list) \<Rightarrow> microseconds \<Rightarrow> string \<Rightarrow> call \<Rightarrow> string \<Rightarrow> bool \<Rightarrow> string \<Rightarrow> service
   \<Rightarrow> revoke_outcome rpc \<times> service" where
  "revoke_onboard_resume parse_editors now stamp cl manager fresh node_id sv =
     (case dispatch_delete_resume cl manager node_id sv of
        (Inl e, sv1) \<Rightarrow> (Inl e, sv1)
      | (Inr (), sv1) \<Rightarrow> revoke_onboard_commit parse_editors now stamp fresh node_id sv1)"


subsection \<open>Onboarding\<close>

record onboard_request =
  oq_role :: int
  oq_startup_method :: int
  oq_node_name :: string
  oq_labels :: "(string, string) dict"
  oq_manager_node_id :: string
  oq_proxy_config_id :: string

record onboard_response =
  os_node_id :: string
  os_secret :: string
  os_script_url :: string
  os_install_command :: string
  os_launched :: bool
  os_otpauth_uri :: string
  os_node :: node_info

text \<open>What the handler draws from the environment: uuids, random bytes, clock.\<close>

record draws =
  dr_now :: microseconds
  dr_stamp :: string
  dr_node_uuid :: string
  dr_frame_id :: string
  dr_secret_bytes :: bytes
  dr_nonce :: bytes

definition clean_labels :: "(string, string) dict \<Rightarrow> (string, string) dict" where
  "clean_labels ls = fold (\<lambda>(k, v) d. if strip k = [] then d else dset (strip k) v d) ls []"

definition new_node_record :: "string \<Rightarrow> string \<Rightarrow> string \<Rightarrow> string \<Rightarrow> (string, string) dict \<Rightarrow> node_record" where
  "new_node_record node_id name status role labels =
     \<lparr>n_id = node_id, n_name = name, n_status = status, n_role = role, n_startup_method = [],
      n_manager_node_id = [], n_credential_secret_enc = [], n_platform = [], n_capabilities = labels,
      n_capacity = no_capacity, n_proxy_config_id = [], n_last_proxy_config_id = [],
      n_proxy_revision = 0, n_last_seen_at = None, n_created_at = 0, n_updated_at = 0\<rparr>"

text \<open>The parameters standing for code outside the sources, bundled.\<close>

record externals =
  ex_seal_with :: "bytes \<Rightarrow> bytes \<Rightarrow> bytes \<Rightarrow> bytes"
  ex_open_with :: "bytes \<Rightarrow> bytes \<Rightarrow> bytes \<Rightarrow> bytes option"
  ex_resolve_proxy :: "string \<Rightarrow> proxy_failure + proxy_fields"
  ex_editors_json :: "editor_capability list \<Rightarrow> string"
  ex_parse_editors :: "string \<Rightarrow> editor_capability list"

definition mint_credentialed_node ::
  "externals \<Rightarrow> draws \<Rightarrow> string \<Rightarrow> string \<Rightarrow> string \<Rightarrow> string \<Rightarrow> string \<Rightarrow> (string, string) dict \<Rightarrow> string
   \<Rightarrow> service \<Rightarrow> onboard_response rpc \<times> service" where
  "mint_credentialed_node ex d node_id name role meth manager_id labels proxy_config_id sv =
     (let secret = generate_secret (dr_secret_bytes d);
          sealed = seal (ex_seal_with ex) (sv_master_key sv) (dr_nonce d) (text_bytes secret)
      in case upsert_node (dr_now d)
                ((new_node_record node_id name NODE_STATUS_PENDING role labels)
                   \<lparr>n_startup_method := meth, n_manager_node_id := manager_id,
                    n_credential_secret_enc := sealed, n_proxy_config_id := proxy_config_id\<rparr>) (sv_ledger sv) of
           Inl e \<Rightarrow> (Inl (Escaped (Store_failed e)), sv)
         | Inr (r, db) \<Rightarrow>
             let sv1 = sv\<lparr>sv_ledger := db\<rparr>; url = script_url role meth sv
             in (Inr \<lparr>os_node_id = n_id r, os_secret = secret, os_script_url = url,
                      os_install_command = install_command url (n_id r) secret, os_launched = False,
                      os_otpauth_uri = otpauth_uri secret name,
                      os_node = node_info_of (ex_parse_editors ex) (dr_now d) r sv1\<rparr>, sv1))"

definition resolve_manager :: "string \<Rightarrow> service \<Rightarrow> string rpc" where
  "resolve_manager manager_id sv =
     (if manager_id = []
      then fail_rpc INVALID_ARGUMENT (''manager_node_id is required for an execution node: onboard a ''
             @ ''management node first and pass its id'')
      else case find_node manager_id sv of
        None \<Rightarrow> fail_rpc NOT_FOUND (''manager node '' @ manager_id @ '' not found'')
      | Some r \<Rightarrow>
          if is_manager_role (n_role r) then Inr manager_id
          else fail_rpc FAILED_PRECONDITION (''node '' @ manager_id @ '' is not a management node''))"

text \<open>Best effort: \<open>None\<close> is \<open>return False\<close> before anything is waited for.\<close>

definition dispatch_create_start ::
  "string \<Rightarrow> string \<Rightarrow> string \<Rightarrow> node_record \<Rightarrow> string \<Rightarrow> string \<Rightarrow> service \<Rightarrow> call option \<times> service" where
  "dispatch_create_start stamp frame_id manager_id r meth secret sv =
     (case find_node manager_id sv of
        None \<Rightarrow> (None, sv)
      | Some m \<Rightarrow>
          if n_status m \<noteq> NODE_STATUS_APPROVED \<or> is_passive_manager m then (None, sv)
          else case sv_lookup manager_id sv of
            None \<Rightarrow> (None, sv)
          | Some i \<Rightarrow>
              (case begin_ack i frame_id stamp (P_create_execution_node
                      \<lparr>lq_launch_id = n_id r, lq_server_url = sv_server_url sv, lq_node_id = n_id r,
                       lq_secret = secret, lq_startup_method = startup_to_proto meth,
                       lq_node_name = n_name r,
                       lq_guest_image = dget_or (n_capabilities r) ''guest_image'' []\<rparr>) sv of
                 (Inl _, sv1) \<Rightarrow> (None, sv1)
               | (Inr cl, sv1) \<Rightarrow> (Some cl, sv1)))"

definition dispatch_create_resume :: "call \<Rightarrow> service \<Rightarrow> bool \<times> service" where
  "dispatch_create_resume cl sv = (case end_ack cl sv of
     (Got ack, sv1) \<Rightarrow> (ack_ok ack, sv1) | (_, sv1) \<Rightarrow> (False, sv1))"

definition onboard_role :: "onboard_request \<Rightarrow> string" where
  "onboard_role req = or_str (role_from_proto (oq_role req)) NODE_ROLE_EXECUTION"

text \<open>The last two components are the response so far and the call to wait for.\<close>

definition onboard_start ::
  "externals \<Rightarrow> draws \<Rightarrow> onboard_request \<Rightarrow> service \<Rightarrow> (onboard_response \<times> call option) rpc \<times> service" where
  "onboard_start ex d req sv =
     (let role = onboard_role req; node_id = ''node-'' @ dr_node_uuid d;
          name = or_str (strip (oq_node_name req)) node_id;
          labels = clean_labels (oq_labels req); pid = strip (oq_proxy_config_id req);
          checked = (if role \<noteq> NODE_ROLE_PASSIVE_MANAGEMENT \<and> pid \<noteq> []
                     then map_sum id (\<lambda>_. ()) (resolve_proxy_strict (ex_resolve_proxy ex) pid) else Inr ());
          mint = (\<lambda>meth manager s. mint_credentialed_node ex d node_id name role meth manager
                     (dset ''role'' role labels) pid s);
          alone = (\<lambda>meth. case mint meth [] sv of
                     (Inl e, sv1) \<Rightarrow> (Inl e, sv1) | (Inr resp, sv1) \<Rightarrow> (Inr (resp, None), sv1))
      in case checked of
        Inl e \<Rightarrow> (Inl e, sv)
      | Inr _ \<Rightarrow>
        if role = NODE_ROLE_PASSIVE_MANAGEMENT
        then (case upsert_node (dr_now d) (new_node_record node_id name NODE_STATUS_APPROVED role
                     (dset ''role'' role labels)) (sv_ledger sv) of
                Inl e \<Rightarrow> (Inl (Escaped (Store_failed e)), sv)
              | Inr (r, db) \<Rightarrow>
                  let sv1 = sv\<lparr>sv_ledger := db\<rparr>
                  in (Inr (\<lparr>os_node_id = n_id r, os_secret = [], os_script_url = [],
                            os_install_command = [], os_launched = False, os_otpauth_uri = [],
                            os_node = node_info_of (ex_parse_editors ex) (dr_now d) r sv1\<rparr>, None), sv1))
        else if role = NODE_ROLE_MANAGEMENT
        then alone (or_str (startup_from_proto (oq_startup_method req)) ''docker'')
        else if role = NODE_ROLE_IOS_HOST
        then alone (or_str (startup_from_proto (oq_startup_method req)) ''standalone'')
        else let meth = or_str (startup_from_proto (oq_startup_method req)) ''standalone'' in
          case resolve_manager (strip (oq_manager_node_id req)) sv of
            Inl e \<Rightarrow> (Inl e, sv)
          | Inr manager \<Rightarrow>
              (case mint meth manager sv of
                 (Inl e, sv1) \<Rightarrow> (Inl e, sv1)
               | (Inr resp, sv1) \<Rightarrow>
                   (case get_node node_id (sv_ledger sv1) of
                      Inl e \<Rightarrow> (Inl (Escaped (Store_failed e)), sv1)
                    | Inr r \<Rightarrow>
                        (case dispatch_create_start (dr_stamp d) (dr_frame_id d) manager r meth (os_secret resp) sv1 of
                           (cl, sv2) \<Rightarrow> (Inr (resp, cl), sv2)))))"

definition onboard_resume :: "onboard_response \<Rightarrow> call \<Rightarrow> service \<Rightarrow> onboard_response \<times> service" where
  "onboard_resume resp cl sv = (case dispatch_create_resume cl sv of
     (launched, sv1) \<Rightarrow> (if launched then resp\<lparr>os_launched := True\<rparr> else resp, sv1))"

end
