(* ===== verification/Service_Dispatch.thy ===== *)
theory Service_Dispatch
  imports Service_Admin
begin

text \<open>
  The session half of service.py: node selection, dispatch, input, deletion, the split-config
  commands, host commands, uploads, the terminal console and tool runs. As in \<open>Service_Admin\<close>,
  a handler that waits is a \<open>_start\<close> and a \<open>_resume\<close>.
\<close>

subsection \<open>Selecting a node\<close>

definition node_capability_satisfies_spec :: "'f connection \<Rightarrow> session_spec \<Rightarrow> rpc_message option" where
  "node_capability_satisfies_spec c spec =
     (let driver = lower (strip (sp_driver spec)) in
      if driver = ''docker''
      then (if (case c_capabilities c of None \<Rightarrow> True | Some k \<Rightarrow> \<not> caps_docker k)
            then Some (Text ''node does not offer the docker driver'') else None)
      else if driver \<in> {[], ''local'', ''process''}
      then (let provider = strip (sp_provider spec) in
            if provider = [] then None
            else case c_capabilities c of
              None \<Rightarrow> Some (Text ''node advertised no capabilities'')
            | Some k \<Rightarrow>
                if list_ex (\<lambda>p. lower (strip p) = lower provider) (caps_providers k) then None
                else Some (Text (''provider '' @ [CHR 0x22] @ provider @ [CHR 0x22]
                       @ '' is not installed on the node'')))
      else Some (Text (''unsupported driver '' @ [CHR 0x22] @ driver @ [CHR 0x22])))"

text \<open>\<open>None\<close> is the verdict \<open>("", True)\<close>, \<open>Some reason\<close> is \<open>(reason, False)\<close>.\<close>

definition node_mode_satisfies_spec :: "'f connection \<Rightarrow> session_spec \<Rightarrow> rpc_message option" where
  "node_mode_satisfies_spec c spec =
     (let mode = strip (sp_mode spec); provider = lower (strip (sp_provider spec)) in
      if mode = [] then None
      else case c_capabilities c of
        None \<Rightarrow> Some (Text ''node advertised no capabilities'')
      | Some k \<Rightarrow>
          (case find (\<lambda>e. lower (strip (ec_provider e)) = provider) (caps_editors k) of
             None \<Rightarrow> Some (Text (''node did not report editor capabilities for provider ''
                       @ [CHR 0x22] @ provider @ [CHR 0x22]))
           | Some e \<Rightarrow> if mode \<in> set (ec_modes e) then None
                       else Some (Mode_unsupported provider mode (ec_modes e))))"

text \<open>The two settings a session is assumed to consume.\<close>

record session_cost =
  sc_cpu :: rat
  sc_memory :: int

definition node_satisfies_spec ::
  "session_cost \<Rightarrow> node_record \<Rightarrow> 'f connection \<Rightarrow> session_spec \<Rightarrow> rpc_message option" where
  "node_satisfies_spec cost r c spec =
     (case node_capability_satisfies_spec c spec of
        Some reason \<Rightarrow> Some reason
      | None \<Rightarrow> (case node_mode_satisfies_spec c spec of
          Some reason \<Rightarrow> Some reason
        | None \<Rightarrow>
            let active = int (length (active_sessions c));
                max_sessions = (case cap_max_sessions (n_capacity r) of None \<Rightarrow> 0 | Some n \<Rightarrow> n);
                cpu_total = (case cap_cpu_total (n_capacity r) of None \<Rightarrow> 0 | Some q \<Rightarrow> q);
                memory_total = (case cap_memory_total (n_capacity r) of None \<Rightarrow> 0 | Some n \<Rightarrow> n)
            in if 0 < max_sessions \<and> max_sessions \<le> active
               then Some (Text (''node session capacity reached ('' @ str_of_int active @ ''/''
                      @ str_of_int max_sessions @ '')''))
               else if 0 < cpu_total \<and> 0 < sc_cpu cost \<and> cpu_total < of_int (active + 1) * sc_cpu cost
               then Some (Text ''node CPU capacity reached'')
               else if 0 < memory_total \<and> 0 < sc_memory cost
                       \<and> memory_total < (active + 1) * sc_memory cost
               then Some (Text ''node memory capacity reached'')
               else None))"

text \<open>The test the automatic selection applies to a registered node id.\<close>

definition eligible :: "session_cost \<Rightarrow> microseconds \<Rightarrow> session_spec \<Rightarrow> service \<Rightarrow> string \<Rightarrow> nat option" where
  "eligible cost now spec sv node_id = (case find_node node_id sv of
     None \<Rightarrow> None
   | Some r \<Rightarrow>
       if n_status r \<noteq> NODE_STATUS_APPROVED then None
       else case sv_lookup node_id sv of
         None \<Rightarrow> None
       | Some i \<Rightarrow>
           if \<not> connection_live now (conn_at i sv) then None
           else if node_satisfies_spec cost r (conn_at i sv) spec \<noteq> None then None
           else Some i)"

fun first_eligible ::
  "session_cost \<Rightarrow> microseconds \<Rightarrow> session_spec \<Rightarrow> service \<Rightarrow> string list \<Rightarrow> (string \<times> nat) option" where
  "first_eligible cost now spec sv [] = None"
| "first_eligible cost now spec sv (n # ns) = (case eligible cost now spec sv n of
     Some i \<Rightarrow> Some (n, i)
   | None \<Rightarrow> first_eligible cost now spec sv ns)"

definition select_node ::
  "session_cost \<Rightarrow> microseconds \<Rightarrow> string \<Rightarrow> session_spec \<Rightarrow> service \<Rightarrow> (string \<times> nat) rpc" where
  "select_node cost now explicit spec sv =
     (if explicit \<noteq> []
      then (case get_node_if_exists explicit (sv_ledger sv) of
              Inl e \<Rightarrow> Inl (Escaped (Store_failed e))
            | Inr None \<Rightarrow> fail_rpc NOT_FOUND (''node '' @ explicit @ '' not found'')
            | Inr (Some r) \<Rightarrow>
                if n_status r \<noteq> NODE_STATUS_APPROVED
                then fail_rpc FAILED_PRECONDITION (''node '' @ explicit @ '' is not approved (status ''
                       @ n_status r @ '')'')
                else case sv_lookup explicit sv of
                  None \<Rightarrow> fail_rpc UNAVAILABLE (''node '' @ explicit @ '' is offline'')
                | Some i \<Rightarrow>
                    if \<not> connection_live now (conn_at i sv)
                    then fail_rpc UNAVAILABLE (''node '' @ explicit @ '' heartbeat stale'')
                    else case node_satisfies_spec cost r (conn_at i sv) spec of
                      Some reason \<Rightarrow> Inl (Rpc_error FAILED_PRECONDITION (Cannot_run explicit reason))
                    | None \<Rightarrow> Inr (explicit, i))
      else case first_eligible cost now spec sv (registry_list (sv_registry sv)) of
        Some p \<Rightarrow> Inr p
      | None \<Rightarrow> fail_rpc UNAVAILABLE
          ''no approved, connected node satisfies the session requirements'')"

subsection \<open>Dispatching a session\<close>

record dispatch_response =
  dp_session_id :: string
  dp_node_id :: string
  dp_accepted :: bool
  dp_error :: string

definition session_binding_of :: "session_spec \<Rightarrow> string \<Rightarrow> string \<Rightarrow> string \<Rightarrow> session_binding" where
  "session_binding_of spec session_id node_id status =
     (fresh_session_row 0 session_id)\<lparr>s_node_id := node_id, s_project_id := strip (sp_project_id spec),
        s_task_id := strip (sp_task_id spec), s_editor_id := strip (sp_editor_id spec),
        s_editor_session_id := strip (sp_editor_session_id spec), s_provider := strip (sp_provider spec),
        s_model := strip (sp_model spec), s_mode := strip (sp_mode spec), s_status := status\<rparr>"

text \<open>\<open>fresh_id\<close> is the uuid drawn when the spec names no session.\<close>

definition dispatch_session_start ::
  "session_cost \<Rightarrow> microseconds \<Rightarrow> string \<Rightarrow> string \<Rightarrow> string \<Rightarrow> session_spec option \<Rightarrow> string \<Rightarrow> service
   \<Rightarrow> (call \<times> string \<times> session_spec) rpc \<times> service" where
  "dispatch_session_start cost now stamp frame_id fresh_id req_session req_node_id sv =
     (case req_session of
        None \<Rightarrow> (fail_rpc INVALID_ARGUMENT ''dispatch session: session spec is required'', sv)
      | Some spec0 \<Rightarrow>
          let sid = strip (sp_session_id spec0);
              spec = (if sid = [] then spec0\<lparr>sp_session_id := ''sess-'' @ fresh_id\<rparr> else spec0)
          in case select_node cost now (strip req_node_id) spec sv of
               Inl e \<Rightarrow> (Inl e, sv)
             | Inr (node_id, i) \<Rightarrow>
                 (case begin_ack i frame_id stamp (P_create_session spec) sv of
                    (Inl e, sv1) \<Rightarrow> (fail_rpc UNAVAILABLE (''dispatch session to node '' @ node_id
                                      @ '': '' @ e), sv1)
                  | (Inr cl, sv1) \<Rightarrow> (Inr (cl, node_id, spec), sv1)))"

definition bind_dispatched ::
  "microseconds \<Rightarrow> session_spec \<Rightarrow> string \<Rightarrow> service \<Rightarrow> dispatch_response rpc \<times> service" where
  "bind_dispatched now spec node_id sv =
     (let session_id = strip (sp_session_id spec);
          status = (if sp_defer_start spec then ''provisioned'' else ''running'')
      in case bind_session_to_node now (session_binding_of spec session_id node_id status)
                id id id (sv_ledger sv) of
           (Some e, db) \<Rightarrow> (Inl (Escaped (Store_failed e)), sv\<lparr>sv_ledger := db\<rparr>)
         | (None, db) \<Rightarrow>
             (Inr \<lparr>dp_session_id = session_id, dp_node_id = node_id, dp_accepted = True, dp_error = []\<rparr>,
              sv\<lparr>sv_ledger := db\<rparr>))"

definition dispatch_session_resume ::
  "microseconds \<Rightarrow> call \<Rightarrow> string \<Rightarrow> session_spec \<Rightarrow> service \<Rightarrow> dispatch_response rpc \<times> service" where
  "dispatch_session_resume now cl node_id spec sv =
     (let session_id = strip (sp_session_id spec) in
      case end_ack cl sv of
        (Timed_out, sv1) \<Rightarrow> (fail_rpc DEADLINE_EXCEEDED (''dispatch session '' @ session_id @ '': node ''
                              @ node_id @ '' did not ack in time''), sv1)
      | (Lost e, sv1) \<Rightarrow> (fail_rpc UNAVAILABLE (''node '' @ node_id @ '' disconnected during dispatch''), sv1)
      | (Got ack, sv1) \<Rightarrow>
          if ack_ok ack then bind_dispatched now spec node_id sv1
          else let msg = (if strip (ack_error ack) \<noteq> [] then ack_error ack else ''node rejected the session'')
               in if contains_sub ''already exists'' (lower msg)
                  then bind_dispatched now spec node_id sv1
                  else (Inr \<lparr>dp_session_id = session_id, dp_node_id = node_id, dp_accepted = False,
                             dp_error = msg\<rparr>, sv1))"

end
