(* ===== verification/Service_Commands.thy ===== *)
theory Service_Commands
  imports Service_Dispatch
begin

text \<open>
  The calls service.py makes on a session or a host once a node is chosen: deleting a session,
  input, the split-config commands, host commands, chunked uploads, the terminal console and
  tool runs.
\<close>

subsection \<open>Sessions\<close>

text \<open>\<open>Inr None\<close>: the node is offline, nothing is sent.\<close>

definition delete_node_session_start ::
  "string \<Rightarrow> string \<Rightarrow> string \<Rightarrow> service \<Rightarrow> call option rpc \<times> service" where
  "delete_node_session_start stamp frame_id session_id0 sv = (let session_id = strip session_id0 in
     if session_id = [] then (fail_rpc INVALID_ARGUMENT ''delete node session: session_id is required'', sv)
     else case get_session_node session_id (sv_ledger sv) of
       Inl e \<Rightarrow> (Inl (Escaped (Store_failed e)), sv)
     | Inr None \<Rightarrow> (fail_rpc NOT_FOUND (''session '' @ session_id @ '' is not placed on any node''), sv)
     | Inr (Some b) \<Rightarrow> (case sv_lookup (s_node_id b) sv of
         None \<Rightarrow> (Inr None, sv)
       | Some i \<Rightarrow> (case begin_ack i frame_id stamp (P_delete_session session_id) sv of
           (Inl e, sv1) \<Rightarrow> (Inr None, sv1)
         | (Inr cl, sv1) \<Rightarrow> (Inr (Some cl), sv1))))"

text \<open>Whatever the node answers, the binding goes; the result is \<open>deleted\<close>.\<close>

definition delete_node_session_resume ::
  "call option \<Rightarrow> string \<Rightarrow> service \<Rightarrow> bool rpc \<times> service" where
  "delete_node_session_resume waiting session_id sv =
     (let (deleted, sv1) = (case waiting of
            None \<Rightarrow> (False, sv)
          | Some cl \<Rightarrow> (case end_ack cl sv of
              (Got ack, s) \<Rightarrow> (ack_ok ack, s) | (_, s) \<Rightarrow> (False, s)))
      in case unbind_session session_id (sv_ledger sv1) of
           Inl e \<Rightarrow> (Inl (Escaped (Store_failed e)), sv1)
         | Inr db \<Rightarrow> (Inr deleted, sv1\<lparr>sv_ledger := db\<rparr>))"

text \<open>The connection a bound session runs on; \<open>who\<close> prefixes the message for a blank id.\<close>

definition session_conn :: "string \<Rightarrow> string \<Rightarrow> service \<Rightarrow> (string \<times> nat) rpc" where
  "session_conn who session_id sv =
     (if session_id = [] then fail_rpc INVALID_ARGUMENT (who @ ''session_id is required'')
      else case get_session_node session_id (sv_ledger sv) of
        Inl e \<Rightarrow> Inl (Escaped (Store_failed e))
      | Inr None \<Rightarrow> fail_rpc NOT_FOUND (''session '' @ session_id @ '' is not placed on any node'')
      | Inr (Some b) \<Rightarrow> (case sv_lookup (s_node_id b) sv of
          None \<Rightarrow> fail_rpc UNAVAILABLE (''node '' @ s_node_id b @ '' for session '' @ session_id @ '' is offline'')
        | Some i \<Rightarrow> Inr (s_node_id b, i)))"

definition resolve_follow :: "string \<Rightarrow> service \<Rightarrow> (nat \<times> string) rpc" where
  "resolve_follow session_id0 sv = (let session_id = strip session_id0 in
     case session_conn ''follow node session: '' session_id sv of
       Inl e \<Rightarrow> Inl e | Inr (n, i) \<Rightarrow> Inr (i, session_id))"

text \<open>The request has the fields of the frame it becomes; the response is (accepted, error).\<close>

definition send_session_input ::
  "string \<Rightarrow> string \<Rightarrow> session_input \<Rightarrow> service \<Rightarrow> (bool \<times> string) rpc \<times> service" where
  "send_session_input stamp frame_id req sv =
     (let session_id = strip (si_session_id req);
          kind = or_str (strip (si_kind req)) ''human_message''
      in case session_conn ''send session input: '' session_id sv of
           Inl e \<Rightarrow> (Inl e, sv)
         | Inr (node_id, i) \<Rightarrow>
             let input = req\<lparr>si_session_id := session_id, si_kind := kind,
                   si_client_message_id := strip (si_client_message_id req),
                   si_delivery_attempt := max (si_delivery_attempt req) 0\<rparr>
             in case send_only i (new_frame frame_id stamp (P_session_input input)) sv of
                  Inl e \<Rightarrow> (Inr (False, e), sv)
                | Inr sv1 \<Rightarrow> (Inr (True, []), sv1))"

subsection \<open>Split configuration\<close>

record config_ack =
  ca_ok :: bool
  ca_error :: string
  ca_applied_revision :: int
  ca_effective_revision :: int
  ca_restart_required :: bool

definition config_ack_from_command_ack :: "command_ack \<Rightarrow> config_ack" where
  "config_ack_from_command_ack a =
     \<lparr>ca_ok = ack_ok a, ca_error = ack_error a, ca_applied_revision = ack_applied_revision a,
      ca_effective_revision = ack_effective_revision a, ca_restart_required = ack_restart_required a\<rparr>"

text \<open>The frame carries the session id as the request gave it, the lookup uses the stripped one.\<close>

definition dispatch_config_start ::
  "string \<Rightarrow> string \<Rightarrow> string \<Rightarrow> config_command \<Rightarrow> service \<Rightarrow> (call \<times> string) rpc \<times> service" where
  "dispatch_config_start stamp frame_id req_session_id cmd sv =
     (case session_conn [] (strip req_session_id) sv of
        Inl e \<Rightarrow> (Inl e, sv)
      | Inr (node_id, i) \<Rightarrow>
          (case begin_ack i frame_id stamp (P_session_config req_session_id cmd) sv of
             (Inl e, sv1) \<Rightarrow> (fail_rpc UNAVAILABLE (''dispatch config to node '' @ node_id @ '': '' @ e), sv1)
           | (Inr cl, sv1) \<Rightarrow> (Inr (cl, node_id), sv1)))"

definition dispatch_config_resume ::
  "microseconds \<Rightarrow> call \<Rightarrow> string \<Rightarrow> string \<Rightarrow> string \<Rightarrow> service \<Rightarrow> config_ack rpc \<times> service" where
  "dispatch_config_resume now cl node_id session_id mutate_mode sv = (case end_ack cl sv of
     (Timed_out, sv1) \<Rightarrow> (fail_rpc DEADLINE_EXCEEDED
        (''session '' @ session_id @ '': node did not ack config in time''), sv1)
   | (Lost e, sv1) \<Rightarrow> (fail_rpc UNAVAILABLE (''node '' @ node_id @ '' disconnected during config''), sv1)
   | (Got ack, sv1) \<Rightarrow>
       let db = (if ack_ok ack
                 then (case update_session_config_snapshot now
                         ((fresh_session_row 0 session_id)\<lparr>s_mode := mutate_mode,
                            s_applied_revision := ack_applied_revision ack,
                            s_effective_revision := ack_effective_revision ack\<rparr>) (sv_ledger sv1) of
                         Inl _ \<Rightarrow> sv_ledger sv1 | Inr db' \<Rightarrow> db')
                 else sv_ledger sv1)
       in (Inr (config_ack_from_command_ack ack), sv1\<lparr>sv_ledger := db\<rparr>))"

text \<open>\<open>revision\<close> is a reading of \<open>time_ns\<close>.\<close>

definition configure_session_llm ::
  "string \<Rightarrow> string \<Rightarrow> int \<Rightarrow> string \<Rightarrow> string option \<Rightarrow> service \<Rightarrow> (call \<times> string) rpc \<times> service" where
  "configure_session_llm stamp frame_id revision sid llm sv =
     dispatch_config_start stamp frame_id sid (Configure_llm revision llm) sv"

definition apply_session_mcps ::
  "string \<Rightarrow> string \<Rightarrow> int \<Rightarrow> string \<Rightarrow> string list \<Rightarrow> service \<Rightarrow> (call \<times> string) rpc \<times> service" where
  "apply_session_mcps stamp frame_id revision sid mcps sv =
     dispatch_config_start stamp frame_id sid (Apply_mcps revision mcps) sv"

definition apply_session_skills ::
  "string \<Rightarrow> string \<Rightarrow> int \<Rightarrow> string \<Rightarrow> skill_spec list \<Rightarrow> service \<Rightarrow> (call \<times> string) rpc \<times> service" where
  "apply_session_skills stamp frame_id revision sid skills sv =
     dispatch_config_start stamp frame_id sid (Apply_skills revision skills) sv"

definition apply_session_plugins ::
  "string \<Rightarrow> string \<Rightarrow> int \<Rightarrow> string \<Rightarrow> plugin_spec list \<Rightarrow> service \<Rightarrow> (call \<times> string) rpc \<times> service" where
  "apply_session_plugins stamp frame_id revision sid plugins sv =
     dispatch_config_start stamp frame_id sid (Apply_plugins revision plugins) sv"

definition configure_session_mode ::
  "string \<Rightarrow> string \<Rightarrow> int \<Rightarrow> string \<Rightarrow> string \<Rightarrow> service \<Rightarrow> (call \<times> string) rpc \<times> service" where
  "configure_session_mode stamp frame_id revision sid mode sv =
     dispatch_config_start stamp frame_id sid (Configure_mode revision mode) sv"

definition start_session_runtime ::
  "string \<Rightarrow> string \<Rightarrow> string \<Rightarrow> service \<Rightarrow> (call \<times> string) rpc \<times> service" where
  "start_session_runtime stamp frame_id sid sv = dispatch_config_start stamp frame_id sid Start_runtime sv"

definition restart_session_runtime ::
  "string \<Rightarrow> string \<Rightarrow> string \<Rightarrow> bool \<Rightarrow> service \<Rightarrow> (call \<times> string) rpc \<times> service" where
  "restart_session_runtime stamp frame_id sid fresh sv =
     dispatch_config_start stamp frame_id sid (Restart_runtime fresh) sv"

definition collect_session_artifacts ::
  "string \<Rightarrow> string \<Rightarrow> string \<Rightarrow> string \<Rightarrow> service \<Rightarrow> (call \<times> string) rpc \<times> service" where
  "collect_session_artifacts stamp frame_id sid path sv =
     dispatch_config_start stamp frame_id sid (Collect_artifacts path) sv"

subsection \<open>Host commands\<close>

text \<open>exists, then approved, then online: the guards the host-level calls share.\<close>

definition approved_conn :: "string \<Rightarrow> service \<Rightarrow> (node_record \<times> nat) rpc" where
  "approved_conn node_id sv = (case get_node_if_exists node_id (sv_ledger sv) of
     Inl e \<Rightarrow> Inl (Escaped (Store_failed e))
   | Inr None \<Rightarrow> fail_rpc NOT_FOUND (''node '' @ node_id @ '' not found'')
   | Inr (Some r) \<Rightarrow>
       if n_status r \<noteq> NODE_STATUS_APPROVED
       then fail_rpc PERMISSION_DENIED (''node '' @ node_id @ '' is not approved'')
       else case sv_lookup node_id sv of
         None \<Rightarrow> fail_rpc UNAVAILABLE (''node '' @ node_id @ '' is offline'')
       | Some i \<Rightarrow> if c_closed (conn_at i sv)
                   then fail_rpc UNAVAILABLE (''node '' @ node_id @ '' is offline'')
                   else Inr (r, i))"

definition HOST_EXEC_DEFAULT_TIMEOUT_MS :: int where "HOST_EXEC_DEFAULT_TIMEOUT_MS = 2 * 60 * 1000"
definition HOST_EXEC_MAX_TIMEOUT_MS :: int where "HOST_EXEC_MAX_TIMEOUT_MS = 10 * 60 * 1000"
definition HOST_EXEC_ACK_SLACK :: int where "HOST_EXEC_ACK_SLACK = 30"

text \<open>The wait, in microseconds.\<close>

definition host_exec_wait :: "int \<Rightarrow> microseconds" where
  "host_exec_wait timeout_ms =
     (let asked = max timeout_ms 0;
          requested = (if asked = 0 then HOST_EXEC_DEFAULT_TIMEOUT_MS else asked);
          requested_ms = min requested HOST_EXEC_MAX_TIMEOUT_MS
      in requested_ms * 1000 + seconds HOST_EXEC_ACK_SLACK)"

definition begin_host_exec :: "nat \<Rightarrow> string \<Rightarrow> frame \<Rightarrow> service \<Rightarrow> (string + call) \<times> service" where
  "begin_host_exec i request_id fr sv =
     begin_on i request_id (begin_call await_host_exec cancel_host_exec request_id fr) sv"

text \<open>The request has the fields of the frame; its \<open>request_id\<close> is replaced by a fresh uuid.\<close>

definition host_exec_start ::
  "string \<Rightarrow> string \<Rightarrow> string \<Rightarrow> string \<Rightarrow> host_exec_request \<Rightarrow> service
   \<Rightarrow> (call \<times> microseconds) rpc \<times> service" where
  "host_exec_start stamp frame_id request_id node_id0 req sv =
     (let node_id = strip node_id0; command = strip (hq_command req) in
      if node_id = [] then (fail_rpc INVALID_ARGUMENT ''host exec: node_id is required'', sv)
      else if command = [] then (fail_rpc INVALID_ARGUMENT ''host exec: command is required'', sv)
      else case approved_conn node_id sv of
        Inl e \<Rightarrow> (Inl e, sv)
      | Inr (r, i) \<Rightarrow>
          if dget (n_capabilities r) ''host_exec'' \<noteq> Some ''true''
          then (fail_rpc FAILED_PRECONDITION (''node '' @ node_id @ '' does not support host exec''), sv)
          else case begin_host_exec i request_id (new_frame frame_id stamp (P_host_exec
                  \<lparr>hq_request_id = request_id, hq_command = command, hq_cwd = strip (hq_cwd req),
                   hq_timeout_ms = max (hq_timeout_ms req) 0,
                   hq_max_output_bytes = max (hq_max_output_bytes req) 0\<rparr>)) sv of
            (Inl e, sv1) \<Rightarrow> (fail_rpc UNAVAILABLE (''dispatch host command to node '' @ node_id @ '': '' @ e), sv1)
          | (Inr cl, sv1) \<Rightarrow> (Inr (cl, host_exec_wait (hq_timeout_ms req)), sv1))"

definition host_exec_resume :: "call \<Rightarrow> string \<Rightarrow> service \<Rightarrow> host_exec_result rpc \<times> service" where
  "host_exec_resume cl node_id sv = (case end_on c_host_execs cancel_host_exec cl sv of
     (Timed_out, sv1) \<Rightarrow> (fail_rpc DEADLINE_EXCEEDED
        (''node '' @ node_id @ '' did not return host command in time''), sv1)
   | (Lost e, sv1) \<Rightarrow> (fail_rpc UNAVAILABLE (''node '' @ node_id @ '' disconnected during host command''), sv1)
   | (Got res, sv1) \<Rightarrow> (Inr res, sv1))"

subsection \<open>Uploads\<close>

definition MAX_UPLOAD_CHUNK_BYTES :: nat where "MAX_UPLOAD_CHUNK_BYTES = 1024 * 1024"
definition MAX_UPLOAD_TOTAL_BYTES :: int where "MAX_UPLOAD_TOTAL_BYTES = 10 * 1024 * 1024"

definition begin_upload :: "nat \<Rightarrow> string \<Rightarrow> frame \<Rightarrow> service \<Rightarrow> (string + call) \<times> service" where
  "begin_upload i upload_id fr sv =
     begin_on i upload_id (begin_call await_file_upload cancel_file_upload upload_id fr) sv"

definition host_file_upload_start ::
  "string \<Rightarrow> string \<Rightarrow> string \<Rightarrow> file_upload_request \<Rightarrow> service \<Rightarrow> call rpc \<times> service" where
  "host_file_upload_start stamp frame_id node_id0 req sv =
     (let node_id = strip node_id0; upload_id = strip (uq_upload_id req); path = strip (uq_path req) in
      if node_id = [] then (fail_rpc INVALID_ARGUMENT ''host file upload: node_id is required'', sv)
      else if upload_id = [] then (fail_rpc INVALID_ARGUMENT ''host file upload: upload_id is required'', sv)
      else if path = [] then (fail_rpc INVALID_ARGUMENT ''host file upload: path is required'', sv)
      else if MAX_UPLOAD_CHUNK_BYTES < length (uq_data req)
      then (fail_rpc INVALID_ARGUMENT (''host file upload: chunk exceeds ''
              @ str_of_nat MAX_UPLOAD_CHUNK_BYTES @ '' bytes''), sv)
      else if MAX_UPLOAD_TOTAL_BYTES < uq_total_size req
      then (fail_rpc INVALID_ARGUMENT (''host file upload: total size exceeds ''
              @ str_of_int MAX_UPLOAD_TOTAL_BYTES @ '' bytes''), sv)
      else case approved_conn node_id sv of
        Inl e \<Rightarrow> (Inl e, sv)
      | Inr (r, i) \<Rightarrow>
          if dget (n_capabilities r) ''file_upload'' \<noteq> Some ''true''
          then (fail_rpc FAILED_PRECONDITION (''node '' @ node_id @ '' does not support file upload''), sv)
          else case begin_upload i upload_id (new_frame frame_id stamp (P_file_upload
                  (req\<lparr>uq_upload_id := upload_id, uq_path := path, uq_offset := max (uq_offset req) 0,
                       uq_total_size := max (uq_total_size req) 0, uq_sha256 := strip (uq_sha256 req)\<rparr>))) sv of
            (Inl e, sv1) \<Rightarrow> (fail_rpc UNAVAILABLE (''dispatch file chunk to node '' @ node_id @ '': '' @ e), sv1)
          | (Inr cl, sv1) \<Rightarrow> (Inr cl, sv1))"

definition host_file_upload_resume ::
  "call \<Rightarrow> string \<Rightarrow> string \<Rightarrow> service \<Rightarrow> file_upload_result rpc \<times> service" where
  "host_file_upload_resume cl node_id path sv = (case end_on c_file_uploads cancel_file_upload cl sv of
     (Timed_out, sv1) \<Rightarrow> (fail_rpc DEADLINE_EXCEEDED
        (''node '' @ node_id @ '' did not ack the file chunk in time''), sv1)
   | (Lost e, sv1) \<Rightarrow> (fail_rpc UNAVAILABLE (''node '' @ node_id @ '' disconnected during file upload''), sv1)
   | (Got res, sv1) \<Rightarrow> (Inr (res\<lparr>fu_path := or_str (fu_path res) path\<rparr>), sv1))"

subsection \<open>The terminal console\<close>

definition begin_terminal_list :: "nat \<Rightarrow> string \<Rightarrow> frame \<Rightarrow> service \<Rightarrow> (string + call) \<times> service" where
  "begin_terminal_list i request_id fr sv =
     begin_on i request_id (begin_call await_terminal_list cancel_terminal_list request_id fr) sv"

definition query_terminals_start ::
  "string \<Rightarrow> string \<Rightarrow> string \<Rightarrow> string \<Rightarrow> service \<Rightarrow> call rpc \<times> service" where
  "query_terminals_start stamp frame_id request_id node_id0 sv = (let node_id = strip node_id0 in
     if node_id = [] then (fail_rpc INVALID_ARGUMENT ''node_id is required'', sv)
     else case approved_conn node_id sv of
       Inl e \<Rightarrow> (Inl e, sv)
     | Inr (r, i) \<Rightarrow>
         (case begin_terminal_list i request_id (new_frame frame_id stamp (P_terminal_list request_id)) sv of
            (Inl e, sv1) \<Rightarrow> (fail_rpc UNAVAILABLE (''dispatch terminal list to node '' @ node_id @ '': '' @ e), sv1)
          | (Inr cl, sv1) \<Rightarrow> (Inr cl, sv1)))"

definition query_terminals_resume :: "call \<Rightarrow> string \<Rightarrow> service \<Rightarrow> terminal_list_result rpc \<times> service" where
  "query_terminals_resume cl node_id sv = (case end_on c_terminal_lists cancel_terminal_list cl sv of
     (Timed_out, sv1) \<Rightarrow> (fail_rpc DEADLINE_EXCEEDED
        (''node '' @ node_id @ '' did not return terminal list in time''), sv1)
   | (Lost e, sv1) \<Rightarrow> (fail_rpc UNAVAILABLE (''node '' @ node_id @ '' disconnected during terminal list''), sv1)
   | (Got res, sv1) \<Rightarrow> (Inr res, sv1))"

definition interrupt_terminal ::
  "string \<Rightarrow> string \<Rightarrow> string \<Rightarrow> string \<Rightarrow> service \<Rightarrow> unit rpc \<times> service" where
  "interrupt_terminal stamp frame_id node_id0 terminal_id0 sv =
     (let node_id = strip node_id0; terminal_id = strip terminal_id0 in
      if node_id = [] then (fail_rpc INVALID_ARGUMENT ''node_id is required'', sv)
      else if terminal_id = [] then (fail_rpc INVALID_ARGUMENT ''terminal_id is required'', sv)
      else case approved_conn node_id sv of
        Inl e \<Rightarrow> (Inl e, sv)
      | Inr (r, i) \<Rightarrow>
          (case send_only i (new_frame frame_id stamp (P_terminal_interrupt terminal_id)) sv of
             Inl e \<Rightarrow> (fail_rpc UNAVAILABLE (''dispatch interrupt to node '' @ node_id @ '': '' @ e), sv)
           | Inr sv1 \<Rightarrow> (Inr (), sv1)))"

subsection \<open>Tool runs\<close>

definition start_tool_run ::
  "string \<Rightarrow> string \<Rightarrow> tool_run_request \<Rightarrow> service \<Rightarrow> unit rpc \<times> service" where
  "start_tool_run stamp frame_id req sv =
     (let node_id = strip (tq_node_id req); run_id = strip (tq_run_id req);
          binary_path = strip (tq_binary_path req) in
      if node_id = [] \<or> run_id = [] \<or> binary_path = []
      then (fail_rpc INVALID_ARGUMENT ''node_id, run_id, binary_path are required'', sv)
      else case approved_conn node_id sv of
        Inl e \<Rightarrow> (Inl e, sv)
      | Inr (r, i) \<Rightarrow>
          (case send_only i (new_frame frame_id stamp (P_tool_run_request
                  (req\<lparr>tq_run_id := run_id, tq_binary_path := binary_path, tq_node_id := node_id,
                       tq_revision := max (tq_revision req) 0\<rparr>))) sv of
             Inl e \<Rightarrow> (fail_rpc UNAVAILABLE (''dispatch tool run to node '' @ node_id @ '': '' @ e),
                       put_conn i (close_tool_run run_id (conn_at i sv)) sv)
           | Inr sv1 \<Rightarrow> (Inr (), sv1)))"

text \<open>Unlike the other host calls this one does not ask for approval.\<close>

definition stop_tool_run ::
  "string \<Rightarrow> string \<Rightarrow> string \<Rightarrow> string \<Rightarrow> int \<Rightarrow> service \<Rightarrow> unit rpc \<times> service" where
  "stop_tool_run stamp frame_id node_id0 run_id0 grace_ms sv =
     (let node_id = strip node_id0; run_id = strip run_id0 in
      if node_id = [] \<or> run_id = [] then (fail_rpc INVALID_ARGUMENT ''node_id and run_id are required'', sv)
      else case find_node node_id sv of
        None \<Rightarrow> (fail_rpc NOT_FOUND (''node '' @ node_id @ '' not found''), sv)
      | Some r \<Rightarrow>
          let offline = (fail_rpc UNAVAILABLE (''node '' @ node_id @ '' is offline''), sv) in
          (case sv_lookup node_id sv of
             None \<Rightarrow> offline
           | Some i \<Rightarrow>
               if c_closed (conn_at i sv) then offline
               else case send_only i (new_frame frame_id stamp (P_tool_run_stop run_id grace_ms node_id)) sv of
                 Inl e \<Rightarrow> (fail_rpc UNAVAILABLE (''dispatch tool stop to node '' @ node_id @ '': '' @ e), sv)
               | Inr sv1 \<Rightarrow> (Inr (), sv1)))"

text \<open>The queue's connection and index; the arguments are used as given.\<close>

definition open_tool_run_rpc :: "string \<Rightarrow> string \<Rightarrow> service \<Rightarrow> (nat \<times> nat) rpc \<times> service" where
  "open_tool_run_rpc node_id run_id sv =
     (let offline = (fail_rpc UNAVAILABLE (''node '' @ node_id @ '' is offline''), sv) in
      case sv_lookup node_id sv of
        None \<Rightarrow> offline
      | Some i \<Rightarrow>
          if c_closed (conn_at i sv) then offline
          else let (q, c) = open_tool_run run_id (conn_at i sv) in (Inr (i, q), put_conn i c sv))"

definition close_tool_run_rpc :: "string \<Rightarrow> string \<Rightarrow> service \<Rightarrow> service" where
  "close_tool_run_rpc node_id run_id sv = (case sv_lookup node_id sv of
     None \<Rightarrow> sv | Some i \<Rightarrow> put_conn i (close_tool_run run_id (conn_at i sv)) sv)"

end
