(* ===== verification/Service_Hosts.thy ===== *)
theory Service_Hosts
  imports Service_Commands
begin

text \<open>
  The maintenance half of service.py: editor installs, label refresh, host tools, shared and
  system environments. A dict argument is a decoded JSON object; \<open>render\<close> is the text Python
  gives to floats and containers. A record read before a wait is used after it, so a \<open>_resume\<close>
  takes it as an argument.
\<close>

subsection \<open>Guards and answers\<close>

text \<open>exists, then not passive, then online; \<open>why\<close> ends the message for a passive node.\<close>

definition client_conn :: "string \<Rightarrow> string \<Rightarrow> service \<Rightarrow> (node_record \<times> nat) rpc" where
  "client_conn why node_id sv = (case get_node_if_exists node_id (sv_ledger sv) of
     Inl e \<Rightarrow> Inl (Escaped (Store_failed e))
   | Inr None \<Rightarrow> fail_rpc NOT_FOUND (''node '' @ node_id @ '' not found'')
   | Inr (Some r) \<Rightarrow>
       if is_passive_manager r
       then fail_rpc FAILED_PRECONDITION (''node '' @ node_id @ '' is a grouping container with no '' @ why)
       else case sv_lookup node_id sv of
         None \<Rightarrow> fail_rpc FAILED_PRECONDITION (''node '' @ node_id @ '' is offline'')
       | Some i \<Rightarrow> Inr (r, i))"

definition send_failed :: "string \<Rightarrow> string \<Rightarrow> 'a rpc" where
  "send_failed node_id e = fail_rpc UNAVAILABLE (''send to node '' @ node_id @ '' failed: '' @ e)"

text \<open>
  The common answer: a timeout is DEADLINE_EXCEEDED, a negative ack INTERNAL; nothing catches the
  ConnectionError of a lost connection.
\<close>

definition ack_or_error :: "string \<Rightarrow> string \<Rightarrow> call \<Rightarrow> service \<Rightarrow> command_ack rpc \<times> service" where
  "ack_or_error late failed cl sv = (case end_ack cl sv of
     (Timed_out, sv1) \<Rightarrow> (fail_rpc DEADLINE_EXCEEDED late, sv1)
   | (Lost e, sv1) \<Rightarrow> (Inl (Escaped (Connection_lost e)), sv1)
   | (Got ack, sv1) \<Rightarrow>
       if ack_ok ack then (Inr ack, sv1)
       else (fail_rpc INTERNAL (failed @ '' failed: '' @ ack_failure ack), sv1))"

definition dict_text :: "(json \<Rightarrow> string) \<Rightarrow> (string \<times> json) list \<Rightarrow> string \<Rightarrow> string" where
  "dict_text render d k = py_str render (or_json (obj_get d k) (J_str []))"

text \<open>\<open>record.capabilities = labels; try: upsert_node(record)\<close>, failures only logged.\<close>

definition store_labels :: "microseconds \<Rightarrow> node_record \<Rightarrow> (string, string) dict \<Rightarrow> service \<Rightarrow> service" where
  "store_labels now r labels sv = (case upsert_node now (r\<lparr>n_capabilities := labels\<rparr>) (sv_ledger sv) of
     Inl _ \<Rightarrow> sv | Inr (_, db) \<Rightarrow> sv\<lparr>sv_ledger := db\<rparr>)"

subsection \<open>Editors\<close>

definition SUPPORTED_EDITORS :: "string list" where
  "SUPPORTED_EDITORS = [''claude'', ''codex'', ''gemini'', ''opencode'']"

definition SUPPORTED_MANAGED_TOOLS :: "string list" where
  "SUPPORTED_MANAGED_TOOLS = SUPPORTED_EDITORS @ [''ocr'']"

definition EDITOR_ACK_TIMEOUT :: int where "EDITOR_ACK_TIMEOUT = 600"

definition stored_providers :: "(string, string) dict \<Rightarrow> string list" where
  "stored_providers labels =
     filter (\<lambda>p. p \<noteq> []) (map strip (split_on (CHR '','') (dget_or labels ''providers'' [])))"

definition editor_labels :: "string \<Rightarrow> string \<Rightarrow> (string, string) dict \<Rightarrow> (string, string) dict" where
  "editor_labels editor version caps =
     (let key = (if editor = ''ocr'' then ''ocr_version'' else ''editor_version_'' @ editor);
          labels = dset key version caps
      in if editor \<noteq> ''ocr'' \<and> editor \<notin> set (stored_providers labels)
         then dset ''providers'' (join_with '','' (stored_providers labels @ [editor])) labels
         else labels)"

definition store_editor_version :: "microseconds \<Rightarrow> string \<Rightarrow> string \<Rightarrow> string \<Rightarrow> service \<Rightarrow> service" where
  "store_editor_version now node_id editor version sv = (case find_node node_id sv of
     None \<Rightarrow> sv
   | Some r \<Rightarrow> store_labels now r (editor_labels editor version (n_capabilities r)) sv)"

definition manage_editor_start ::
  "string \<Rightarrow> string \<Rightarrow> string \<Rightarrow> string \<Rightarrow> string \<Rightarrow> service \<Rightarrow> call rpc \<times> service" where
  "manage_editor_start stamp frame_id node_id0 editor action sv =
     (let node_id = strip node_id0; name = lower (strip editor); verb = lower (strip action) in
      if node_id = [] then (fail_rpc INVALID_ARGUMENT ''node_id is required'', sv)
      else if name \<notin> set SUPPORTED_MANAGED_TOOLS
      then (Inl (Rpc_error INVALID_ARGUMENT (Unsupported_tool editor)), sv)
      else if verb \<notin> {''install'', ''upgrade''}
      then (fail_rpc INVALID_ARGUMENT ''action must be install or upgrade'', sv)
      else case client_conn ''client; nothing to install on'' node_id sv of
        Inl e \<Rightarrow> (Inl e, sv)
      | Inr (r, i) \<Rightarrow>
          (case begin_ack i frame_id stamp (P_manage_editor name (verb = ''upgrade'')) sv of
             (Inl e, sv1) \<Rightarrow> (send_failed node_id e, sv1)
           | (Inr cl, sv1) \<Rightarrow> (Inr cl, sv1)))"

definition manage_editor_resume ::
  "microseconds \<Rightarrow> call \<Rightarrow> string \<Rightarrow> string \<Rightarrow> string \<Rightarrow> service \<Rightarrow> string rpc \<times> service" where
  "manage_editor_resume now cl node_id name verb sv =
     (case ack_or_error (''node '' @ node_id @ '' did not finish '' @ verb @ '' of '' @ name @ '' within ''
              @ str_of_int EDITOR_ACK_TIMEOUT @ ''s; it may still be running'')
             (verb @ '' '' @ name @ '' on '' @ node_id) cl sv of
        (Inl e, sv1) \<Rightarrow> (Inl e, sv1)
      | (Inr ack, sv1) \<Rightarrow>
          let version = strip (ack_editor_version ack)
          in (Inr version, store_editor_version now node_id name version sv1))"

subsection \<open>Label refresh\<close>

text \<open>The dash in the timeout message is U+2014 in the source.\<close>

definition REFRESH_LABELS_ACK_TIMEOUT :: int where "REFRESH_LABELS_ACK_TIMEOUT = 45"

definition refresh_labels_start ::
  "string \<Rightarrow> string \<Rightarrow> string \<Rightarrow> service \<Rightarrow> (call \<times> node_record) rpc \<times> service" where
  "refresh_labels_start stamp frame_id node_id0 sv = (let node_id = strip node_id0 in
     if node_id = [] then (fail_rpc INVALID_ARGUMENT ''node_id is required'', sv)
     else case find_node node_id sv of
       None \<Rightarrow> (fail_rpc NOT_FOUND (''node '' @ node_id @ '' not found''), sv)
     | Some r \<Rightarrow> (case sv_lookup node_id sv of
         None \<Rightarrow> (fail_rpc FAILED_PRECONDITION (''node '' @ node_id @ '' is offline''), sv)
       | Some i \<Rightarrow> (case begin_ack i frame_id stamp P_refresh_labels sv of
           (Inl e, sv1) \<Rightarrow> (send_failed node_id e, sv1)
         | (Inr cl, sv1) \<Rightarrow> (Inr (cl, r), sv1))))"

text \<open>\<open>d.update(e)\<close>.\<close>

definition dict_update :: "(string, string) dict \<Rightarrow> (string, string) dict \<Rightarrow> (string, string) dict" where
  "dict_update d e = fold (\<lambda>(k, v). dset k v) e d"

definition refresh_labels_resume ::
  "(editor_capability list \<Rightarrow> string) \<Rightarrow> microseconds \<Rightarrow> call \<Rightarrow> string \<Rightarrow> node_record \<Rightarrow> service
   \<Rightarrow> (string, string) dict rpc \<times> service" where
  "refresh_labels_resume editors_json now cl node_id r sv =
     (case ack_or_error (''node '' @ node_id @ '' did not answer the label refresh within ''
              @ str_of_int REFRESH_LABELS_ACK_TIMEOUT @ ''s; the node may be an older ''
              @ ''build that predates the refresh_labels frame - upgrade the node'')
             (''refresh labels on '' @ node_id) cl sv of
        (Inl e, sv1) \<Rightarrow> (Inl e, sv1)
      | (Inr ack, sv1) \<Rightarrow> (case ack_refreshed_capabilities ack of
          None \<Rightarrow> (fail_rpc INTERNAL (''node '' @ node_id @ '' acked the refresh without capabilities''), sv1)
        | Some caps \<Rightarrow>
            let merged = dict_update (n_capabilities r) (capability_labels editors_json (Some caps));
                merged' = (if n_role r \<noteq> [] then dset ''role'' (n_role r) merged else merged)
            in (Inr merged', store_labels now r merged' sv1)))"

subsection \<open>Host tools\<close>

definition ARCHIVE_INSTALL_ACK_TIMEOUT :: int where "ARCHIVE_INSTALL_ACK_TIMEOUT = 900"

definition archive_of :: "(json \<Rightarrow> string) \<Rightarrow> (string \<times> json) list \<Rightarrow> archive_target" where
  "archive_of render t =
     \<lparr>tg_target_version = strip (dict_text render t ''target_version''),
      tg_download_url = strip (dict_text render t ''download_url''),
      tg_sha256 = strip (dict_text render t ''sha256''),
      tg_proxy_mode = dict_text render t ''proxy_mode'', tg_proxy_url = dict_text render t ''proxy_url'',
      tg_proxy_url_prefix = dict_text render t ''proxy_url_prefix''\<rparr>"

definition install_host_tool_start ::
  "(json \<Rightarrow> string) \<Rightarrow> string \<Rightarrow> string \<Rightarrow> string \<Rightarrow> string \<Rightarrow> (string \<times> json) list \<Rightarrow> service
   \<Rightarrow> call rpc \<times> service" where
  "install_host_tool_start render stamp frame_id node_id0 tool0 target sv =
     (let node_id = strip node_id0; tool = lower (strip tool0) in
      if node_id = [] then (fail_rpc INVALID_ARGUMENT ''node_id is required'', sv)
      else if tool \<notin> {''nodejs'', ''xcode''}
      then (Inl (Rpc_error INVALID_ARGUMENT (Unsupported_tool tool)), sv)
      else case client_conn ''client; nothing to install on'' node_id sv of
        Inl e \<Rightarrow> (Inl e, sv)
      | Inr (r, i) \<Rightarrow>
          let tg = archive_of render target in
          if tool = ''nodejs'' \<and> tg_download_url tg = []
          then (fail_rpc INVALID_ARGUMENT ''target.download_url is required'', sv)
          else case begin_ack i frame_id stamp (P_install_host_tool tool tg) sv of
            (Inl e, sv1) \<Rightarrow> (send_failed node_id e, sv1)
          | (Inr cl, sv1) \<Rightarrow> (Inr cl, sv1))"

definition tool_labels ::
  "string \<Rightarrow> string \<Rightarrow> string \<Rightarrow> (string, string) dict \<Rightarrow> (string, string) dict" where
  "tool_labels node_version npm_version xcodebuild_version caps =
     (let l1 = (if node_version \<noteq> [] then dset ''node_version'' node_version caps else caps);
          l2 = (if npm_version \<noteq> [] then dset ''npm_version'' npm_version l1 else l1)
      in if xcodebuild_version \<noteq> [] then dset ''xcodebuild_version'' xcodebuild_version l2 else l2)"

definition store_host_tool_versions ::
  "microseconds \<Rightarrow> string \<Rightarrow> string \<Rightarrow> string \<Rightarrow> string \<Rightarrow> service \<Rightarrow> service" where
  "store_host_tool_versions now node_id node_version npm_version xcodebuild_version sv =
     (case find_node node_id sv of
        None \<Rightarrow> sv
      | Some r \<Rightarrow> store_labels now r
          (tool_labels node_version npm_version xcodebuild_version (n_capabilities r)) sv)"

definition install_host_tool_resume ::
  "microseconds \<Rightarrow> call \<Rightarrow> string \<Rightarrow> service \<Rightarrow> (string \<times> string \<times> string) rpc \<times> service" where
  "install_host_tool_resume now cl node_id sv = (case end_ack cl sv of
     (Timed_out, sv1) \<Rightarrow> (fail_rpc DEADLINE_EXCEEDED (''host tool install ack timed out after ''
        @ str_of_int ARCHIVE_INSTALL_ACK_TIMEOUT @ ''s; the download may still be running''), sv1)
   | (Lost e, sv1) \<Rightarrow> (Inl (Escaped (Connection_lost e)), sv1)
   | (Got ack, sv1) \<Rightarrow>
       if \<not> ack_ok ack then (fail_rpc INTERNAL (or_str (ack_error ack) ''host tool install failed''), sv1)
       else let nv = strip (ack_node_version ack); pv = strip (ack_npm_version ack);
                xv = strip (ack_xcodebuild_version ack)
            in (Inr (nv, pv, xv),
                if nv \<noteq> [] \<or> pv \<noteq> [] \<or> xv \<noteq> []
                then store_host_tool_versions now node_id nv pv xv sv1 else sv1))"

subsection \<open>Shared environments\<close>

definition require_online_execution :: "string \<Rightarrow> service \<Rightarrow> nat rpc" where
  "require_online_execution node_id0 sv = (let node_id = strip node_id0 in
     if node_id = [] then fail_rpc INVALID_ARGUMENT ''node_id is required''
     else map_sum id snd (client_conn ''client; no host to place an environment on'' node_id sv))"

definition ENVIRONMENT_ACK_TIMEOUT :: int where "ENVIRONMENT_ACK_TIMEOUT = 30"

definition git_spec_of :: "(json \<Rightarrow> string) \<Rightarrow> json \<Rightarrow> git_spec" where
  "git_spec_of render git = (case git of
     J_obj d \<Rightarrow>
       (let f = (\<lambda>k. strip (dict_text render d k))
        in \<lparr>gs_url = f ''url'', gs_branch = f ''branch'', gs_commit = f ''commit'',
            gs_new_branch = f ''new_branch'', gs_username = f ''username'', gs_password = f ''password'',
            gs_token = f ''token'', gs_create_branch = truthy (obj_get d ''create_branch'')\<rparr>)
   | _ \<Rightarrow> \<lparr>gs_url = [], gs_branch = [], gs_commit = [], gs_new_branch = [], gs_username = [],
           gs_password = [], gs_token = [], gs_create_branch = False\<rparr>)"

text \<open>The second component of the result is the ack window in seconds.\<close>

definition manage_environment_start ::
  "(json \<Rightarrow> string) \<Rightarrow> string \<Rightarrow> string \<Rightarrow> string \<Rightarrow> string \<Rightarrow> string \<Rightarrow> json \<Rightarrow> string \<Rightarrow> service
   \<Rightarrow> (call \<times> int) rpc \<times> service" where
  "manage_environment_start render stamp frame_id node_id env_id0 action git target_path sv =
     (let env_id = strip env_id0; verb = lower (strip action) in
      if env_id = [] then (fail_rpc INVALID_ARGUMENT ''env_id is required'', sv)
      else if verb \<notin> {''create'', ''remove''}
      then (fail_rpc INVALID_ARGUMENT ''action must be create or remove'', sv)
      else case require_online_execution node_id sv of
        Inl e \<Rightarrow> (Inl e, sv)
      | Inr i \<Rightarrow>
          let spec = git_spec_of render git;
              window = (if gs_url spec \<noteq> [] \<and> verb = ''create''
                        then ARCHIVE_INSTALL_ACK_TIMEOUT else ENVIRONMENT_ACK_TIMEOUT)
          in case begin_ack i frame_id stamp
                    (P_manage_environment env_id (verb = ''remove'') spec (strip target_path)) sv of
               (Inl e, sv1) \<Rightarrow> (send_failed node_id e, sv1)
             | (Inr cl, sv1) \<Rightarrow> (Inr (cl, window), sv1))"

definition manage_environment_resume ::
  "call \<Rightarrow> string \<Rightarrow> string \<Rightarrow> string \<Rightarrow> service \<Rightarrow> unit rpc \<times> service" where
  "manage_environment_resume cl node_id env_id verb sv =
     (case ack_or_error (''node '' @ node_id @ '' did not finish '' @ verb @ '' of environment '' @ env_id
              @ '' in time'') (verb @ '' environment '' @ env_id @ '' on '' @ node_id) cl sv of
        (Inl e, sv1) \<Rightarrow> (Inl e, sv1) | (Inr _, sv1) \<Rightarrow> (Inr (), sv1))"

definition skill_spec_from_dict :: "(json \<Rightarrow> string) \<Rightarrow> (string \<times> json) list \<Rightarrow> skill_spec" where
  "skill_spec_from_dict render d = (let f = dict_text render d in
     \<lparr>sk_name = f ''name'', sk_source = f ''source'', sk_url = f ''url'', sk_path = f ''path'',
      sk_ref = f ''ref'', sk_token = f ''token''\<rparr>)"

definition plugin_spec_from_dict :: "(json \<Rightarrow> string) \<Rightarrow> (string \<times> json) list \<Rightarrow> plugin_spec" where
  "plugin_spec_from_dict render d = (let f = dict_text render d in
     \<lparr>pl_name = f ''name'', pl_url = f ''url'', pl_version = f ''version''\<rparr>)"

text \<open>The send-and-hand-back shape of the environment frames.\<close>

definition environment_call ::
  "string \<Rightarrow> string \<Rightarrow> string \<Rightarrow> payload \<Rightarrow> service \<Rightarrow> call rpc \<times> service" where
  "environment_call stamp frame_id node_id p sv = (case require_online_execution node_id sv of
     Inl e \<Rightarrow> (Inl e, sv)
   | Inr i \<Rightarrow> (case begin_ack i frame_id stamp p sv of
       (Inl e, sv1) \<Rightarrow> (send_failed node_id e, sv1)
     | (Inr cl, sv1) \<Rightarrow> (Inr cl, sv1)))"

definition sync_environment_start ::
  "(json \<Rightarrow> string) \<Rightarrow> string \<Rightarrow> string \<Rightarrow> string \<Rightarrow> string \<Rightarrow> (string \<times> json) list list
   \<Rightarrow> (string \<times> json) list list \<Rightarrow> service \<Rightarrow> call rpc \<times> service" where
  "sync_environment_start render stamp frame_id node_id env_id0 skills plugins sv =
     (let env_id = strip env_id0 in
      if env_id = [] then (fail_rpc INVALID_ARGUMENT ''env_id is required'', sv)
      else environment_call stamp frame_id node_id (P_sync_environment env_id
             (map (skill_spec_from_dict render) skills) (map (plugin_spec_from_dict render) plugins)) sv)"

definition sync_environment_resume :: "call \<Rightarrow> string \<Rightarrow> string \<Rightarrow> service \<Rightarrow> unit rpc \<times> service" where
  "sync_environment_resume cl node_id env_id sv =
     (case ack_or_error (''node '' @ node_id @ '' did not finish syncing environment '' @ env_id @ '' in time'')
             (''sync environment '' @ env_id @ '' on '' @ node_id) cl sv of
        (Inl e, sv1) \<Rightarrow> (Inl e, sv1) | (Inr _, sv1) \<Rightarrow> (Inr (), sv1))"

definition inspect_environment_start ::
  "string \<Rightarrow> string \<Rightarrow> string \<Rightarrow> string \<Rightarrow> service \<Rightarrow> call rpc \<times> service" where
  "inspect_environment_start stamp frame_id node_id env_id0 sv = (let env_id = strip env_id0 in
     if env_id = [] then (fail_rpc INVALID_ARGUMENT ''env_id is required'', sv)
     else environment_call stamp frame_id node_id (P_inspect_environment env_id) sv)"

definition inspect_environment_resume ::
  "call \<Rightarrow> string \<Rightarrow> string \<Rightarrow> service \<Rightarrow> environment_entry list rpc \<times> service" where
  "inspect_environment_resume cl node_id env_id sv =
     (case ack_or_error (''node '' @ node_id @ '' did not report environment '' @ env_id
              @ '' inventory in time'') (''inspect environment '' @ env_id @ '' on '' @ node_id) cl sv of
        (Inl e, sv1) \<Rightarrow> (Inl e, sv1) | (Inr ack, sv1) \<Rightarrow> (Inr (ack_environment_inventory ack), sv1))"

subsection \<open>The operator's own environment\<close>

definition inspect_system_env_start ::
  "string \<Rightarrow> string \<Rightarrow> string \<Rightarrow> string \<Rightarrow> service \<Rightarrow> call rpc \<times> service" where
  "inspect_system_env_start stamp frame_id node_id provider sv =
     environment_call stamp frame_id node_id (P_inspect_system_env (strip provider)) sv"

definition inspect_system_env_resume ::
  "call \<Rightarrow> string \<Rightarrow> service \<Rightarrow> system_env_entry list rpc \<times> service" where
  "inspect_system_env_resume cl node_id sv =
     (case ack_or_error (''node '' @ node_id @ '' did not report system environment inventory in time'')
             (''inspect system env on '' @ node_id) cl sv of
        (Inl e, sv1) \<Rightarrow> (Inl e, sv1) | (Inr ack, sv1) \<Rightarrow> (Inr (ack_system_env_inventory ack), sv1))"

definition sync_system_env_start ::
  "(json \<Rightarrow> string) \<Rightarrow> string \<Rightarrow> string \<Rightarrow> string \<Rightarrow> (string \<times> json) list list \<Rightarrow> (string \<times> json) list list
   \<Rightarrow> bool \<Rightarrow> json list \<Rightarrow> service \<Rightarrow> call rpc \<times> service" where
  "sync_system_env_start render stamp frame_id node_id skills plugins overwrite remove sv =
     environment_call stamp frame_id node_id (P_sync_system_env (map (skill_spec_from_dict render) skills)
       (map (plugin_spec_from_dict render) plugins) (map (py_str render) remove) overwrite) sv"

definition sync_system_env_resume ::
  "call \<Rightarrow> string \<Rightarrow> service \<Rightarrow> system_env_entry list rpc \<times> service" where
  "sync_system_env_resume cl node_id sv =
     (case ack_or_error (''node '' @ node_id @ '' did not ack system environment sync in time'')
             (''sync system env on '' @ node_id) cl sv of
        (Inl e, sv1) \<Rightarrow> (Inl e, sv1) | (Inr ack, sv1) \<Rightarrow> (Inr (ack_system_env_inventory ack), sv1))"

definition archive_resource_start ::
  "string \<Rightarrow> string \<Rightarrow> string \<Rightarrow> string \<Rightarrow> string \<Rightarrow> string \<Rightarrow> string \<Rightarrow> service \<Rightarrow> call rpc \<times> service" where
  "archive_resource_start stamp frame_id node_id kind name upload_url upload_token sv =
     environment_call stamp frame_id node_id (P_archive_system_env_resource (strip kind) (strip name)
       (strip upload_url) (strip upload_token)) sv"

definition archive_resource_resume :: "call \<Rightarrow> string \<Rightarrow> service \<Rightarrow> unit rpc \<times> service" where
  "archive_resource_resume cl node_id sv =
     (case ack_or_error (''node '' @ node_id @ '' did not ack system environment archive in time'')
             (''archive system env on '' @ node_id) cl sv of
        (Inl e, sv1) \<Rightarrow> (Inl e, sv1) | (Inr _, sv1) \<Rightarrow> (Inr (), sv1))"

end
