(* ===== verification/Service_Jobs.thy ===== *)
theory Service_Jobs
  imports Service_Hosts
begin

text \<open>
  Jobs of service.py: iOS device management and WDA jobs, node builds, host-tool installs, and
  the two upgrade calls. A job start initialises its polling snapshot before it sends the frame.
\<close>

subsection \<open>WDA job requests\<close>

definition wda_action_of :: "string \<Rightarrow> wda_action option" where
  "wda_action_of action = (let a = lower (strip action) in
     if a = ''prepare'' then Some WDA_PREPARE else if a = ''renew'' then Some WDA_RENEW
     else if a = ''reinstall'' then Some WDA_REINSTALL
     else if a = ''install_signed'' then Some WDA_INSTALL_SIGNED else None)"

text \<open>
  \<open>base64.b64decode(raw, validate=True)\<close>: alphabet characters, then padding that is neither
  leading nor followed by data; \<open>quad\<close> counts the characters of the current quantum.
\<close>

fun b64_strict :: "nat \<Rightarrow> nat \<Rightarrow> bool \<Rightarrow> string \<Rightarrow> bool" where
  "b64_strict quad pads started [] = True"
| "b64_strict quad pads started (c # cs) =
     (if c = CHR ''=''
      then if 2 \<le> quad \<and> 4 \<le> quad + Suc pads then cs = []
           else b64_strict quad (if 2 \<le> quad then Suc pads else pads) True cs
      else index_in b64_alphabet c \<noteq> None \<and> \<not> started \<and> b64_strict (Suc quad mod 4) 0 False cs)"

datatype build_failure = Bad_value rpc_message | Bad_type | No_attribute

definition b64decode_field :: "string \<Rightarrow> string \<Rightarrow> build_failure + bytes" where
  "b64decode_field field label = (let raw = strip field in
     if raw = [] then Inl (Bad_value (Field_empty label))
     else if hd raw = CHR ''='' \<or> \<not> b64_strict 0 0 False raw then Inl (Bad_value (Field_not_base64 label))
     else case standard_b64decode raw of
       Inl _ \<Rightarrow> Inl (Bad_value (Field_not_base64 label)) | Inr bs \<Rightarrow> Inr bs)"

definition no_signing :: signing_material where
  "no_signing = \<lparr>sg_mode = SIGNING_MODE_UNSPECIFIED, sg_asc_key_id = [], sg_asc_issuer_id = [],
     sg_asc_private_key = [], sg_certificate_p12 = [], sg_p12_password = [], sg_provisioning_profile = []\<rparr>"

text \<open>A truthy \<open>secret_data\<close> that is not an object has no \<open>get\<close>.\<close>

definition fill_wda_signing ::
  "(json \<Rightarrow> string) \<Rightarrow> (string \<times> json) list \<Rightarrow> build_failure + signing_material" where
  "fill_wda_signing render profile =
     (let kind = lower (strip (dict_text render profile ''kind''));
          secret = (case or_json (obj_get profile ''secret_data'') (J_obj []) of J_obj d \<Rightarrow> Some d | _ \<Rightarrow> None);
          text = (\<lambda>d k. dict_text render d k)
      in if kind = ''asc''
         then (case secret of
                 None \<Rightarrow> Inl No_attribute
               | Some d \<Rightarrow>
                   let p8 = strip (text d ''p8_key'') in
                   if p8 = [] then Inl (Bad_value Asc_without_p8_key)
                   else Inr (no_signing\<lparr>sg_mode := SIGNING_MODE_APP_STORE_CONNECT,
                          sg_asc_key_id := text d ''key_id'', sg_asc_issuer_id := text d ''issuer_id'',
                          sg_asc_private_key := p8\<rparr>))
         else if kind = ''p12''
         then (case secret of
                 None \<Rightarrow> Inl No_attribute
               | Some d \<Rightarrow>
                   (case b64decode_field (text d ''p12_base64'') ''p12_base64'' of
                      Inl e \<Rightarrow> Inl e
                    | Inr p12 \<Rightarrow>
                        (case b64decode_field (text d ''mobileprovision_base64'') ''mobileprovision_base64'' of
                           Inl e \<Rightarrow> Inl e
                         | Inr prof \<Rightarrow> Inr (no_signing\<lparr>sg_mode := SIGNING_MODE_MANUAL_P12,
                             sg_certificate_p12 := p12, sg_p12_password := text d ''p12_password'',
                             sg_provisioning_profile := prof\<rparr>))))
         else if kind = ''presigned'' then Inr (no_signing\<lparr>sg_mode := SIGNING_MODE_PRESIGNED\<rparr>)
         else Inl (Bad_value (Unknown_signing_kind kind)))"

record wda_args =
  ja_job_id :: string
  ja_udid :: string
  ja_device_id :: string
  ja_action :: string
  ja_artifact :: "(string \<times> json) list"
  ja_signing_profile :: "(string \<times> json) list"
  ja_wda_bundle_id :: string
  ja_xctest_config_name :: string

text \<open>
  \<open>int(...)\<close> of a list or an object is a TypeError, of a bad string a ValueError; the field is an
  int64 and setting it out of range is a ValueError.
\<close>

definition size_bytes_of :: "json \<Rightarrow> build_failure + int" where
  "size_bytes_of v = (case or_json v (J_int 0) of
     J_list _ \<Rightarrow> Inl Bad_type | J_obj _ \<Rightarrow> Inl Bad_type
   | w \<Rightarrow> (case py_int w of None \<Rightarrow> Inl (Bad_value (Text ''invalid literal for int()'')) 
      | Some n \<Rightarrow> if - (2 ^ 63) \<le> n \<and> n < 2 ^ 63 then Inr n
                  else Inl (Bad_value (Text ''value out of range''))))"

definition build_wda_job_request ::
  "(json \<Rightarrow> string) \<Rightarrow> wda_args \<Rightarrow> build_failure + wda_job_request" where
  "build_wda_job_request render a = (case wda_action_of (ja_action a) of
     None \<Rightarrow> Inl (Bad_value (Unknown_wda_action (ja_action a)))
   | Some act \<Rightarrow>
       let art = ja_artifact a;
           bare = \<lparr>wa_artifact_id = [], wa_sha256 = [], wa_url = [], wa_size_bytes = 0, wa_version = [],
                   wa_target_bundle_id = ja_wda_bundle_id a,
                   wa_xctest_config_name = ja_xctest_config_name a\<rparr>;
           artifact = (if art = [] then Inr bare
             else case size_bytes_of (obj_get art ''size_bytes'') of
               Inl e \<Rightarrow> Inl e
             | Inr n \<Rightarrow> Inr (bare\<lparr>wa_artifact_id := dict_text render art ''id'',
                 wa_sha256 := dict_text render art ''sha256'', wa_url := dict_text render art ''download_url'',
                 wa_size_bytes := n, wa_version := dict_text render art ''version''\<rparr>))
       in case artifact of
            Inl e \<Rightarrow> Inl e
          | Inr wa \<Rightarrow>
              (case (if ja_signing_profile a = [] then Inr None
                     else map_sum id Some (fill_wda_signing render (ja_signing_profile a))) of
                 Inl e \<Rightarrow> Inl e
               | Inr sg \<Rightarrow> Inr \<lparr>wj_job_id = ja_job_id a, wj_udid = ja_udid a, wj_device_id = ja_device_id a,
                                wj_action = act, wj_artifact = wa, wj_signing = sg\<rparr>))"

subsection \<open>iOS devices\<close>

definition require_online_ios_host :: "string \<Rightarrow> service \<Rightarrow> nat rpc" where
  "require_online_ios_host node_id0 sv = (let node_id = strip node_id0 in
     if node_id = [] then fail_rpc INVALID_ARGUMENT ''node_id is required''
     else case find_node node_id sv of
       None \<Rightarrow> fail_rpc NOT_FOUND (''node '' @ node_id @ '' not found'')
     | Some r \<Rightarrow> (case sv_lookup node_id sv of
         None \<Rightarrow> fail_rpc FAILED_PRECONDITION (''node '' @ node_id @ '' is offline'')
       | Some i \<Rightarrow>
           if lower (strip (n_role r)) \<in> {''management'', ''passive_management''}
           then fail_rpc FAILED_PRECONDITION (''node '' @ node_id
                  @ '' is a management node and cannot serve iOS device frames'')
           else Inr i))"

definition ios_discover ::
  "string \<Rightarrow> string \<Rightarrow> string \<Rightarrow> string \<Rightarrow> service \<Rightarrow> string rpc \<times> service" where
  "ios_discover stamp frame_id request_id node_id sv = (case require_online_ios_host node_id sv of
     Inl e \<Rightarrow> (Inl e, sv)
   | Inr i \<Rightarrow> (case send_only i (new_frame frame_id stamp (P_ios_discover request_id)) sv of
       Inl e \<Rightarrow> (fail_rpc UNAVAILABLE (''send discover to node '' @ node_id @ '' failed: '' @ e), sv)
     | Inr sv1 \<Rightarrow> (Inr request_id, sv1)))"

text \<open>The shape of claim, release and configure: \<open>what\<close> names the operation in the messages.\<close>

definition ios_send ::
  "string \<Rightarrow> string \<Rightarrow> string \<Rightarrow> string \<Rightarrow> nat \<Rightarrow> payload \<Rightarrow> service \<Rightarrow> call rpc \<times> service" where
  "ios_send what stamp frame_id node_id i p sv = (case begin_ack i frame_id stamp p sv of
     (Inl e, sv1) \<Rightarrow> (fail_rpc UNAVAILABLE (''send '' @ what @ '' to node '' @ node_id @ '' failed: '' @ e), sv1)
   | (Inr cl, sv1) \<Rightarrow> (Inr cl, sv1))"

definition ios_answer ::
  "string \<Rightarrow> call \<Rightarrow> string \<Rightarrow> string \<Rightarrow> service \<Rightarrow> unit rpc \<times> service" where
  "ios_answer what cl node_id udid sv = (case end_ack cl sv of
     (Timed_out, sv1) \<Rightarrow> (fail_rpc DEADLINE_EXCEEDED (''node '' @ node_id @ '' did not ack '' @ what
        @ '' for '' @ udid @ '' in time''), sv1)
   | (Lost e, sv1) \<Rightarrow> (fail_rpc UNAVAILABLE (''node '' @ node_id @ '' disconnected during '' @ what), sv1)
   | (Got ack, sv1) \<Rightarrow>
       if ack_ok ack then (Inr (), sv1)
       else (fail_rpc INTERNAL (what @ '' '' @ udid @ '' on '' @ node_id @ '' failed: '' @ ack_failure ack), sv1))"

definition ios_claim_device_start ::
  "string \<Rightarrow> string \<Rightarrow> string \<Rightarrow> string \<Rightarrow> string \<Rightarrow> string \<Rightarrow> service \<Rightarrow> call rpc \<times> service" where
  "ios_claim_device_start stamp frame_id node_id udid0 device_label pairing_code sv =
     (case require_online_ios_host node_id sv of
        Inl e \<Rightarrow> (Inl e, sv)
      | Inr i \<Rightarrow>
          let udid = strip udid0 in
          if udid = [] then (fail_rpc INVALID_ARGUMENT ''udid is required'', sv)
          else if pairing_code = [] then (fail_rpc INVALID_ARGUMENT ''pairing_code is required'', sv)
          else ios_send ''claim'' stamp frame_id node_id i
                 (P_ios_claim_device frame_id udid (strip device_label) pairing_code (sv_gateway_origin sv)) sv)"

definition ios_release_device_start ::
  "string \<Rightarrow> string \<Rightarrow> string \<Rightarrow> string \<Rightarrow> string \<Rightarrow> bool \<Rightarrow> service \<Rightarrow> call rpc \<times> service" where
  "ios_release_device_start stamp frame_id node_id device_id udid0 delete_credential sv =
     (case require_online_ios_host node_id sv of
        Inl e \<Rightarrow> (Inl e, sv)
      | Inr i \<Rightarrow>
          let udid = strip udid0 in
          if udid = [] then (fail_rpc INVALID_ARGUMENT ''udid is required'', sv)
          else ios_send ''release'' stamp frame_id node_id i
                 (P_ios_release_device frame_id (strip device_id) udid delete_credential) sv)"

definition ios_configure_device_start ::
  "string \<Rightarrow> string \<Rightarrow> string \<Rightarrow> device_config \<Rightarrow> service \<Rightarrow> call rpc \<times> service" where
  "ios_configure_device_start stamp frame_id node_id d sv =
     (case require_online_ios_host node_id sv of
        Inl e \<Rightarrow> (Inl e, sv)
      | Inr i \<Rightarrow>
          let udid = strip (dc_udid d); days = max (dc_renew_before_days d) 0 in
          if udid = [] then (fail_rpc INVALID_ARGUMENT ''udid is required'', sv)
          else ios_send ''configure'' stamp frame_id node_id i (P_ios_configure_device frame_id
                 \<lparr>dc_device_id = strip (dc_device_id d), dc_udid = udid,
                  dc_config_revision = max (dc_config_revision d) 0, dc_transport = strip (dc_transport d),
                  dc_wda_bundle_id = strip (dc_wda_bundle_id d),
                  dc_xctest_config_name = strip (dc_xctest_config_name d),
                  dc_auto_prepare = dc_auto_prepare d,
                  dc_renew_before_days = (if days = 0 then 14 else days)\<rparr>) sv)"

definition ios_claim_device_resume :: "call \<Rightarrow> string \<Rightarrow> string \<Rightarrow> service \<Rightarrow> unit rpc \<times> service" where
  "ios_claim_device_resume cl node_id udid sv = ios_answer ''claim'' cl node_id udid sv"

definition ios_release_device_resume :: "call \<Rightarrow> string \<Rightarrow> string \<Rightarrow> service \<Rightarrow> unit rpc \<times> service" where
  "ios_release_device_resume cl node_id udid sv = ios_answer ''release'' cl node_id udid sv"

definition ios_configure_device_resume :: "call \<Rightarrow> string \<Rightarrow> string \<Rightarrow> service \<Rightarrow> unit rpc \<times> service" where
  "ios_configure_device_resume cl node_id udid sv = ios_answer ''configure'' cl node_id udid sv"

definition wda_state_names :: "string list" where
  "wda_state_names = map (\<lambda>s. ''IOS_WDA_STATE_'' @ s) [''UNSPECIFIED'', ''MISSING'', ''PREPARING'', ''READY'',
     ''RENEWAL_DUE'', ''EXPIRED'', ''FAILED'', ''INSTALLED'']"

definition wda_state_from_proto :: "int \<Rightarrow> string" where
  "wda_state_from_proto s = (if 0 \<le> s \<and> nat s < length wda_state_names
     then wda_state_names ! nat s else ''IOS_WDA_STATE_UNSPECIFIED'')"

definition connection_type_from_proto :: "int \<Rightarrow> string" where
  "connection_type_from_proto t = (if t = 1 then ''IOS_CONNECTION_TYPE_USB''
     else if t = 2 then ''IOS_CONNECTION_TYPE_NETWORK'' else ''IOS_CONNECTION_TYPE_UNSPECIFIED'')"

text \<open>A listed device: the report's record with the two enums named.\<close>

definition get_ios_devices ::
  "string \<Rightarrow> service \<Rightarrow> ((ios_device \<times> string \<times> string) list \<times> ios_devices_report option) rpc" where
  "get_ios_devices node_id sv = (case require_online_ios_host node_id sv of
     Inl e \<Rightarrow> Inl e
   | Inr i \<Rightarrow> (case c_ios_inventory (conn_at i sv) of
       None \<Rightarrow> Inr ([], None)
     | Some rep \<Rightarrow> Inr (map (\<lambda>d. (d, connection_type_from_proto (id_connection_type d),
                                  wda_state_from_proto (id_wda_state d))) (io_devices rep), Some rep)))"

subsection \<open>Jobs\<close>

text \<open>
  The common end of the job starts: any failure but a timeout is INTERNAL, and a negative ack is
  reported through \<open>ack.error_message\<close>, a field NodeCommandAck does not have.
\<close>

definition job_answer :: "string \<Rightarrow> string \<Rightarrow> call \<Rightarrow> service \<Rightarrow> unit rpc \<times> service" where
  "job_answer who what cl sv = (case end_ack cl sv of
     (Timed_out, sv1) \<Rightarrow> (fail_rpc DEADLINE_EXCEEDED (who @ '' timed out ('' @ what @ '' may still start)''), sv1)
   | (Lost e, sv1) \<Rightarrow> (fail_rpc INTERNAL (who @ '' failed: '' @ e), sv1)
   | (Got ack, sv1) \<Rightarrow>
       if ack_ok ack then (Inr (), sv1) else (Inl (Escaped (Attribute_error ''error_message'')), sv1))"

text \<open>Snapshot, waiter and frame, in that order; \<open>init\<close> is the snapshot's initialisation.\<close>

definition job_send ::
  "string \<Rightarrow> string \<Rightarrow> string \<Rightarrow> nat \<Rightarrow> (frame connection \<Rightarrow> frame connection) \<Rightarrow> payload \<Rightarrow> service
   \<Rightarrow> call rpc \<times> service" where
  "job_send who stamp frame_id i init p sv =
     (case begin_ack i frame_id stamp p (put_conn i (init (conn_at i sv)) sv) of
        (Inl e, sv1) \<Rightarrow> (fail_rpc INTERNAL (who @ '' failed: '' @ e), sv1)
      | (Inr cl, sv1) \<Rightarrow> (Inr cl, sv1))"

definition ios_start_wda_job_start ::
  "(json \<Rightarrow> string) \<Rightarrow> string \<Rightarrow> string \<Rightarrow> string \<Rightarrow> wda_args \<Rightarrow> service \<Rightarrow> call rpc \<times> service" where
  "ios_start_wda_job_start render stamp frame_id node_id a sv = (case build_wda_job_request render a of
     Inl (Bad_value m) \<Rightarrow> (Inl (Rpc_error INVALID_ARGUMENT m), sv)
   | Inl Bad_type \<Rightarrow> (Inl (Escaped Type_error), sv)
   | Inl No_attribute \<Rightarrow> (Inl (Escaped (Attribute_error ''get'')), sv)
   | Inr req \<Rightarrow> (case require_online_ios_host node_id sv of
       Inl e \<Rightarrow> (Inl e, sv)
     | Inr i \<Rightarrow> job_send (''ios_start_wda_job on '' @ node_id) stamp frame_id i
         (init_ios_job_snapshot stamp (ja_job_id a) (ja_device_id a) (ja_udid a) (ja_action a))
         (P_ios_wda_job req) sv))"

definition ios_start_wda_job_resume :: "call \<Rightarrow> string \<Rightarrow> service \<Rightarrow> unit rpc \<times> service" where
  "ios_start_wda_job_resume cl node_id sv = job_answer (''ios_start_wda_job on '' @ node_id) ''job'' cl sv"

definition ios_cancel_wda_job :: "string \<Rightarrow> string \<Rightarrow> string \<Rightarrow> string \<Rightarrow> service \<Rightarrow> unit rpc \<times> service" where
  "ios_cancel_wda_job stamp frame_id node_id job_id sv = (case require_online_ios_host node_id sv of
     Inl e \<Rightarrow> (Inl e, sv)
   | Inr i \<Rightarrow> (case send_only i (new_frame frame_id stamp (P_ios_job_cancel job_id)) sv of
       Inl e \<Rightarrow> (fail_rpc INTERNAL (''ios_cancel_wda_job on '' @ node_id @ '' failed: '' @ e), sv)
     | Inr sv1 \<Rightarrow> (Inr (), sv1)))"

definition get_ios_wda_job_status :: "string \<Rightarrow> string \<Rightarrow> service \<Rightarrow> ios_snapshot rpc" where
  "get_ios_wda_job_status node_id job_id sv = (case require_online_ios_host node_id sv of
     Inl e \<Rightarrow> Inl e
   | Inr i \<Rightarrow> (case get_ios_job_snapshot job_id (conn_at i sv) of
       None \<Rightarrow> fail_rpc NOT_FOUND (''job '' @ job_id @ '' not found or already expired'')
     | Some s \<Rightarrow> Inr s))"

definition runner_action_of :: "string \<Rightarrow> runner_action option" where
  "runner_action_of a = (if a = ''start'' then Some RUNNER_START else if a = ''stop'' then Some RUNNER_STOP
     else if a = ''restart'' then Some RUNNER_RESTART else None)"

definition ios_runner_control_start ::
  "string \<Rightarrow> string \<Rightarrow> string \<Rightarrow> string \<Rightarrow> string \<Rightarrow> string \<Rightarrow> service \<Rightarrow> call rpc \<times> service" where
  "ios_runner_control_start stamp frame_id node_id device_id udid0 action0 sv =
     (case require_online_ios_host node_id sv of
        Inl e \<Rightarrow> (Inl e, sv)
      | Inr i \<Rightarrow>
          let udid = strip udid0; action = lower (strip action0) in
          (case runner_action_of action of
             None \<Rightarrow> (Inl (Rpc_error INVALID_ARGUMENT (Unknown_runner_action action)), sv)
           | Some act \<Rightarrow>
               if udid = [] then (fail_rpc INVALID_ARGUMENT ''udid is required'', sv)
               else case begin_ack i frame_id stamp
                      (P_ios_runner_control frame_id (strip device_id) udid act) sv of
                 (Inl e, sv1) \<Rightarrow> (fail_rpc UNAVAILABLE (''ios_runner_control on '' @ node_id @ '' failed: '' @ e), sv1)
               | (Inr cl, sv1) \<Rightarrow> (Inr cl, sv1)))"

text \<open>Here \<open>getattr(ack, "error_message", "")\<close> always falls back to the default text.\<close>

definition ios_runner_control_resume ::
  "call \<Rightarrow> string \<Rightarrow> string \<Rightarrow> string \<Rightarrow> service \<Rightarrow> unit rpc \<times> service" where
  "ios_runner_control_resume cl node_id udid action sv = (case end_ack cl sv of
     (Timed_out, sv1) \<Rightarrow> (fail_rpc DEADLINE_EXCEEDED (''ios_runner_control '' @ action @ '' on '' @ node_id
        @ '' for '' @ udid @ '' timed out''), sv1)
   | (Lost e, sv1) \<Rightarrow> (fail_rpc UNAVAILABLE (''ios_runner_control on '' @ node_id @ '' failed: '' @ e), sv1)
   | (Got ack, sv1) \<Rightarrow>
       if ack_ok ack then (Inr (), sv1)
       else (fail_rpc INTERNAL (''ios_runner_control '' @ action @ '' on '' @ node_id @ '' for '' @ udid
               @ '' failed: node rejected runner control''), sv1))"

end
