(* ===== verification/Binaries.thy ===== *)
theory Binaries
  imports Service_Nodes
begin

text \<open>
  binaries.py and scripts.py: the files a node downloads (release binaries, checksums, docker
  artifacts) and the install scripts, with their name whitelists. The file system is a value: a
  directory is its modification time and its entries. Symbolic links and unreadable files are not
  modelled, so \<open>resolve()\<close> of a whitelisted base name is that entry of the directory.
\<close>

subsection \<open>Splitting text\<close>

text \<open>\<open>s.split()\<close>: the maximal runs of non-space characters.\<close>

fun words_from :: "string \<Rightarrow> string \<Rightarrow> string list" where
  "words_from cur [] = (if cur = [] then [] else [cur])"
| "words_from cur (c # cs) =
     (if is_space c then (if cur = [] then words_from [] cs else cur # words_from [] cs)
      else words_from (cur @ [c]) cs)"

text \<open>\<open>s.splitlines()\<close> on the code points below 256.\<close>

definition is_line_break :: "char \<Rightarrow> bool" where
  "is_line_break c = (code_of c \<in> {10, 11, 12, 13, 28, 29, 30, 133})"

fun splitlines_from :: "string \<Rightarrow> string \<Rightarrow> string list" where
  "splitlines_from cur [] = (if cur = [] then [] else [cur])"
| "splitlines_from cur [c] = (if is_line_break c then [cur] else [cur @ [c]])"
| "splitlines_from cur (c # d # cs) =
     (if is_line_break c
      then cur # (if code_of c = 13 \<and> code_of d = 10 then splitlines_from [] cs
                  else splitlines_from [] (d # cs))
      else splitlines_from (cur @ [c]) (d # cs))"

text \<open>\<open>s.replace(old, new)\<close> with a nonempty \<open>old\<close>.\<close>

function str_replace :: "'a list \<Rightarrow> 'a list \<Rightarrow> 'a list \<Rightarrow> 'a list" where
  "str_replace old new s =
     (if s = [] \<or> old = [] then s
      else if prefix old s then new @ str_replace old new (drop (length old) s)
      else hd s # str_replace old new (tl s))"
  by pat_completeness auto
termination
  by (relation "measure (\<lambda>(old, new, s). length s)") auto

declare str_replace.simps [simp del]

subsection \<open>The whitelist of file names\<close>

definition OS_NAMES :: "string list" where "OS_NAMES = [''linux'', ''darwin'', ''windows'']"
definition ARCH_NAMES :: "string list" where "ARCH_NAMES = [''amd64'', ''arm64'']"
definition NODE_BASES :: "string list" where
  "NODE_BASES = [''node-execution'', ''agent-compose-node-management'', ''node-ios'']"

definition platform_names :: "string \<Rightarrow> string list \<Rightarrow> string list" where
  "platform_names base sfxs =
     concat (map (\<lambda>os. concat (map (\<lambda>arch. map (\<lambda>sfx. base @ ''-'' @ os @ ''-'' @ arch @ sfx) sfxs)
       ARCH_NAMES)) OS_NAMES)"

text \<open>The language of \<open>_NODE_BIN_NAME_RE\<close>; \<open>$\<close> also matches before a final newline.\<close>

definition node_bin_names :: "string list" where
  "node_bin_names =
     concat (map (\<lambda>b. platform_names b [[], ''.exe'']) NODE_BASES)
     @ platform_names ''agent-compose-runtime'' [''.tar.gz'']
     @ [''checksums-sha256.txt'', ''runtime-checksums-sha256.txt'', ''runtime-VERSION'']"

definition node_bin_name_re :: "string \<Rightarrow> bool" where
  "node_bin_name_re name = (name \<in> set node_bin_names
     \<or> (name \<noteq> [] \<and> last name = CHR 0x0A \<and> butlast name \<in> set node_bin_names))"

text \<open>\<open>_parse_platform\<close>.\<close>

definition parse_platform :: "string \<Rightarrow> string \<times> string" where
  "parse_platform name =
     (let bare = (if name \<noteq> [] \<and> last name = CHR 0x0A then butlast name else name);
          hits = filter (\<lambda>(os, arch). list_ex (\<lambda>b. bare = b @ ''-'' @ os @ ''-'' @ arch
                    \<or> bare = b @ ''-'' @ os @ ''-'' @ arch @ ''.exe'') NODE_BASES)
                   (concat (map (\<lambda>os. map (\<lambda>arch. (os, arch)) ARCH_NAMES) OS_NAMES))
      in case hits of [] \<Rightarrow> ([], []) | p # _ \<Rightarrow> p)"

definition binary_name_for :: "string \<Rightarrow> string \<Rightarrow> string \<Rightarrow> string + string" where
  "binary_name_for role os_name arch =
     (let r = normalize_node_role role;
          base = (if r = NODE_ROLE_IOS_HOST then ''node-ios''
                  else if r \<in> {NODE_ROLE_MANAGEMENT, NODE_ROLE_PASSIVE_MANAGEMENT}
                  then ''agent-compose-node-management'' else ''node-execution'');
          name = base @ ''-'' @ os_name @ ''-'' @ arch @ (if os_name = ''windows'' then ''.exe'' else [])
      in if node_bin_name_re name then Inr name
         else Inl (''unsupported node platform: '' @ os_name @ ''/'' @ arch))"

definition runtime_binary_name :: "string \<Rightarrow> string \<Rightarrow> string + string" where
  "runtime_binary_name os_name arch =
     (let name = ''agent-compose-runtime-'' @ os_name @ ''-'' @ arch @ ''.tar.gz''
      in if node_bin_name_re name then Inr name
         else Inl (''unsupported runtime platform: '' @ os_name @ ''/'' @ arch))"

subsection \<open>The release directory\<close>

datatype fs_entry = Fs_file string | Fs_dir int "(string \<times> fs_entry) list"

definition has_binary :: "(string \<times> fs_entry) list \<Rightarrow> bool" where
  "has_binary es = list_ex (\<lambda>(n, e). (case e of Fs_file _ \<Rightarrow> node_bin_name_re n | _ \<Rightarrow> False)) es"

text \<open>\<open>max\<close> by (mtime, name): the first of the largest.\<close>

fun str_less :: "string \<Rightarrow> string \<Rightarrow> bool" where
  "str_less [] b = (b \<noteq> [])"
| "str_less (x # xs) [] = False"
| "str_less (x # xs) (y # ys) =
     (if code_of x = code_of y then str_less xs ys else code_of x < code_of y)"

definition newer :: "string \<times> int \<Rightarrow> string \<times> int \<Rightarrow> bool" where
  "newer a b = (snd b < snd a \<or> (snd a = snd b \<and> str_less (fst b) (fst a)))"

fun newest_version :: "(string \<times> fs_entry) list \<Rightarrow> (string \<times> int \<times> (string \<times> fs_entry) list) option
   \<Rightarrow> (string \<times> int \<times> (string \<times> fs_entry) list) option" where
  "newest_version [] best = best"
| "newest_version ((n, e) # es) best = (case e of
     Fs_file _ \<Rightarrow> newest_version es best
   | Fs_dir t cs \<Rightarrow>
       if \<not> has_binary cs then newest_version es best
       else newest_version es (case best of
              None \<Rightarrow> Some (n, t, cs)
            | Some (bn, bt, bcs) \<Rightarrow> if newer (n, t) (bn, bt) then Some (n, t, cs) else best))"

text \<open>The result is the directory's name and its entries.\<close>

definition resolve_candidate_root ::
  "string \<Rightarrow> fs_entry option \<Rightarrow> (string \<times> (string \<times> fs_entry) list) option" where
  "resolve_candidate_root name place = (case place of
     Some (Fs_dir t es) \<Rightarrow>
       if has_binary es then Some (name, es)
       else map_option (\<lambda>(n, t, cs). (n, cs)) (newest_version es None)
   | _ \<Rightarrow> None)"

text \<open>\<open>configured\<close> is the setting with what it points at; \<open>candidates\<close> the built-in places.\<close>

fun first_root :: "(string \<times> fs_entry option) list \<Rightarrow> (string \<times> (string \<times> fs_entry) list) option" where
  "first_root [] = None"
| "first_root ((n, r) # cs) = (case resolve_candidate_root n r of None \<Rightarrow> first_root cs | Some x \<Rightarrow> Some x)"

definition resolve_node_bin_dir ::
  "string \<Rightarrow> string \<times> fs_entry option \<Rightarrow> (string \<times> fs_entry option) list
   \<Rightarrow> (string \<times> (string \<times> fs_entry) list) option" where
  "resolve_node_bin_dir setting configured candidates =
     (if strip setting \<noteq> [] then resolve_candidate_root (fst configured) (snd configured)
      else first_root candidates)"

type_synonym bin_dir = "(string \<times> (string \<times> fs_entry) list) option"

definition read_file :: "string \<Rightarrow> bin_dir \<Rightarrow> string option" where
  "read_file name d = (case d of
     None \<Rightarrow> None
   | Some (_, es) \<Rightarrow> (case map_of es name of Some (Fs_file text) \<Rightarrow> Some text | _ \<Rightarrow> None))"

definition resolve_node_binary :: "string \<Rightarrow> bin_dir \<Rightarrow> (string \<times> string) option" where
  "resolve_node_binary name d =
     (if name = [] \<or> \<not> node_bin_name_re name then None
      else map_option (\<lambda>text. (name, text)) (read_file name d))"

text \<open>Name, size, os, arch and url, in the order of the names.\<close>

fun insert_by_name :: "string \<times> fs_entry \<Rightarrow> (string \<times> fs_entry) list \<Rightarrow> (string \<times> fs_entry) list" where
  "insert_by_name x [] = [x]"
| "insert_by_name x (y # ys) = (if str_less (fst y) (fst x) then y # insert_by_name x ys else x # y # ys)"

definition list_node_binaries :: "bin_dir \<Rightarrow> (string \<times> nat \<times> string \<times> string \<times> string) list" where
  "list_node_binaries d = (case d of
     None \<Rightarrow> []
   | Some (_, es) \<Rightarrow>
       concat (map (\<lambda>(n, e). case e of
           Fs_file text \<Rightarrow> if node_bin_name_re n
             then [(n, length text, fst (parse_platform n), snd (parse_platform n),
                    ''/api/v1/public/nodes/binaries/'' @ n)] else []
         | _ \<Rightarrow> []) (foldr insert_by_name es [])))"

definition latest_node_version :: "bin_dir \<Rightarrow> string" where
  "latest_node_version d = (case d of
     None \<Rightarrow> []
   | Some (name, _) \<Rightarrow> (case read_file ''VERSION'' d of
       Some text \<Rightarrow> strip text
     | None \<Rightarrow> if name \<noteq> [] \<and> name \<noteq> ''dist'' then name else []))"

definition latest_runtime_version :: "bin_dir \<Rightarrow> string" where
  "latest_runtime_version d = (case read_file ''runtime-VERSION'' d of Some text \<Rightarrow> strip text | None \<Rightarrow> [])"

fun manifest_entry :: "string \<Rightarrow> string list \<Rightarrow> string option" where
  "manifest_entry name [] = None"
| "manifest_entry name (line # lines) =
     (let parts = words_from [] line
      in if 2 \<le> length parts \<and> lstrip_char (CHR ''*'') (last parts) = name then Some (hd parts)
         else manifest_entry name lines)"

text \<open>\<open>sha256_hex\<close> digests the file's contents.\<close>

definition checksum_for :: "(string \<Rightarrow> string) \<Rightarrow> string \<Rightarrow> string \<Rightarrow> bin_dir \<Rightarrow> string" where
  "checksum_for sha256_hex name manifest d =
     (if d = None \<or> name = [] then []
      else case (case read_file manifest d of
                   None \<Rightarrow> None | Some text \<Rightarrow> manifest_entry name (splitlines_from [] text)) of
        Some digest \<Rightarrow> strip digest
      | None \<Rightarrow> (case resolve_node_binary name d of None \<Rightarrow> [] | Some (_, text) \<Rightarrow> sha256_hex text))"

definition node_binary_sha256 :: "(string \<Rightarrow> string) \<Rightarrow> string \<Rightarrow> bin_dir \<Rightarrow> string" where
  "node_binary_sha256 sha256_hex name d = checksum_for sha256_hex name ''checksums-sha256.txt'' d"

definition runtime_binary_sha256 :: "(string \<Rightarrow> string) \<Rightarrow> string \<Rightarrow> bin_dir \<Rightarrow> string" where
  "runtime_binary_sha256 sha256_hex name d = checksum_for sha256_hex name ''runtime-checksums-sha256.txt'' d"

subsection \<open>The public routes\<close>

datatype http_reply = Http_ok string string | Http_error nat string

definition DOCKER_FILES :: "string list" where "DOCKER_FILES = [''Dockerfile'', ''entrypoint.sh'']"

definition resolve_docker_artifact :: "string \<Rightarrow> (string \<times> fs_entry) list \<Rightarrow> (string \<times> string) option" where
  "resolve_docker_artifact file docker_dir = (let name = strip file in
     if name \<notin> set DOCKER_FILES then None
     else case map_of docker_dir name of Some (Fs_file text) \<Rightarrow> Some (name, text) | _ \<Rightarrow> None)"

definition download_node_binary :: "string \<Rightarrow> bin_dir \<Rightarrow> http_reply" where
  "download_node_binary name d = (case resolve_node_binary name d of
     None \<Rightarrow> Http_error 404 (''node binary not found'' @ [CHR 0x0A])
   | Some (n, text) \<Rightarrow> Http_ok n text)"

definition crlf :: string where "crlf = [CHR 0x0D, CHR 0x0A]"

definition download_node_docker_file :: "string \<Rightarrow> (string \<times> fs_entry) list \<Rightarrow> http_reply" where
  "download_node_docker_file file docker_dir = (case resolve_docker_artifact file docker_dir of
     None \<Rightarrow> Http_error 404 (''node docker artifact not found'' @ [CHR 0x0A])
   | Some (n, text) \<Rightarrow> Http_ok n (str_replace crlf [CHR 0x0A] text))"

subsection \<open>Install scripts\<close>

definition METHOD_TEMPLATES :: "(string, string) dict" where
  "METHOD_TEMPLATES =
     [(''standalone'', ''install-standalone.sh.tmpl''), (''systemd'', ''install-systemd.sh.tmpl''),
      (''docker'', ''install-docker.sh.tmpl''), (''docker-compose'', ''install-docker-compose.sh.tmpl'')]"

definition role_label :: "string \<Rightarrow> string" where
  "role_label role = (if is_manager_role role then ''management'' else ''execution'')"

definition role_binary_name :: "string \<Rightarrow> string" where
  "role_binary_name role =
     (if is_manager_role role then ''agent-compose-node-management'' else ''node-execution'')"

text \<open>\<open>read_template\<close> reads a template file; the result is the rendered script or the error text.\<close>

definition render_script ::
  "(string \<Rightarrow> string) \<Rightarrow> string \<Rightarrow> string \<Rightarrow> string \<Rightarrow> string \<Rightarrow> string \<Rightarrow> string + string" where
  "render_script read_template meth0 role0 server_url url agent_image =
     (let meth = or_str (normalize_startup_method meth0) ''standalone'' in
      case dget METHOD_TEMPLATES meth of
        None \<Rightarrow> Inl (''no install script for startup method '' @ meth)
      | Some tmpl \<Rightarrow>
          let role = normalize_node_role role0 in
          Inr (fold (\<lambda>(token, value) raw. str_replace token value raw)
            [(''{{.Role}}'', role), (''{{.RoleLabel}}'', role_label role),
             (''{{.BinaryName}}'', role_binary_name role), (''{{.ServerURL}}'', server_url),
             (''{{.ScriptURL}}'', url), (''{{.AgentImage}}'', agent_image)]
            (read_template tmpl)))"

text \<open>\<open>scripts.script_filename\<close>.\<close>

definition install_script_name :: "string \<Rightarrow> string \<Rightarrow> string" where
  "install_script_name role meth =
     ''install-'' @ normalize_node_role role @ ''-''
     @ or_str (normalize_startup_method meth) ''standalone'' @ ''.sh''"

definition parse_script_filename :: "string \<Rightarrow> (string \<times> string) option" where
  "parse_script_filename name0 = (let name = strip name0 in
     if \<not> prefix ''install-'' name \<or> \<not> suffix ''.sh'' name then None
     else let middle = take (length name - 8 - 3) (drop 8 name)
          in case find_sub ''-'' middle of
               None \<Rightarrow> None
             | Some dash \<Rightarrow>
                 let meth = normalize_startup_method (drop (Suc dash) middle)
                 in if meth = [] then None else Some (normalize_node_role (take dash middle), meth))"

text \<open>The route; its error text quotes the name with \<open>repr\<close>, here it is the name itself.\<close>

definition install_script :: "(string \<Rightarrow> string) \<Rightarrow> string \<Rightarrow> service \<Rightarrow> http_reply" where
  "install_script read_template name sv = (case parse_script_filename name of
     None \<Rightarrow> Http_error 404 (''unknown install script '' @ name)
   | Some (role, meth) \<Rightarrow>
       (case render_script read_template meth role (sv_server_url sv) (script_url role meth sv) (sv_agent_image sv) of
          Inl e \<Rightarrow> Http_error 404 e
        | Inr body \<Rightarrow> Http_ok ''application/x-sh'' body))"

end
