(* ===== verification/Service_Upgrades.thy ===== *)
theory Service_Upgrades
  imports Service_Jobs Binaries
begin

text \<open>
  The remaining jobs of service.py: node builds, host-tool installs, and the runtime, node and
  unified upgrades with their polling snapshots.
\<close>

subsection \<open>Builds\<close>

definition start_node_build_start ::
  "string \<Rightarrow> string \<Rightarrow> string \<Rightarrow> build_request \<Rightarrow> service \<Rightarrow> call rpc \<times> service" where
  "start_node_build_start stamp frame_id node_id0 req sv = (let node_id = strip node_id0 in
     if node_id = [] then (fail_rpc INVALID_ARGUMENT ''node_id is required'', sv)
     else case client_conn ''client; nothing to build on'' node_id sv of
       Inl e \<Rightarrow> (Inl e, sv)
     | Inr (r, i) \<Rightarrow> job_send (''start_node_build on '' @ node_id) stamp frame_id i
         (init_build_snapshot stamp (bq_build_id req) (bq_recipe_kind req) node_id) (P_node_build req) sv)"

definition start_node_build_resume :: "call \<Rightarrow> string \<Rightarrow> service \<Rightarrow> unit rpc \<times> service" where
  "start_node_build_resume cl node_id sv = job_answer (''start_node_build on '' @ node_id) ''build'' cl sv"

text \<open>The polling calls look the connection up without reading the ledger.\<close>

definition online_conn :: "string \<Rightarrow> service \<Rightarrow> nat rpc" where
  "online_conn node_id0 sv = (let node_id = strip node_id0 in
     if node_id = [] then fail_rpc INVALID_ARGUMENT ''node_id is required''
     else case sv_lookup node_id sv of
       None \<Rightarrow> fail_rpc FAILED_PRECONDITION (''node '' @ node_id @ '' is offline'')
     | Some i \<Rightarrow> Inr i)"

definition get_node_build_status :: "string \<Rightarrow> string \<Rightarrow> service \<Rightarrow> build_snapshot rpc" where
  "get_node_build_status node_id build_id sv = (case online_conn node_id sv of
     Inl e \<Rightarrow> Inl e
   | Inr i \<Rightarrow> (case get_build_snapshot build_id (conn_at i sv) of
       None \<Rightarrow> fail_rpc NOT_FOUND (''build '' @ build_id @ '' not found or already expired'')
     | Some s \<Rightarrow> Inr s))"

definition cancel_job :: "string \<Rightarrow> string \<Rightarrow> string \<Rightarrow> string \<Rightarrow> payload \<Rightarrow> service \<Rightarrow> unit rpc \<times> service" where
  "cancel_job who stamp frame_id node_id p sv = (case online_conn node_id sv of
     Inl e \<Rightarrow> (Inl e, sv)
   | Inr i \<Rightarrow> (case send_only i (new_frame frame_id stamp p) sv of
       Inl e \<Rightarrow> (fail_rpc INTERNAL (who @ '' on '' @ strip node_id @ '' failed: '' @ e), sv)
     | Inr sv1 \<Rightarrow> (Inr (), sv1)))"

definition cancel_node_build :: "string \<Rightarrow> string \<Rightarrow> string \<Rightarrow> string \<Rightarrow> service \<Rightarrow> unit rpc \<times> service" where
  "cancel_node_build stamp frame_id node_id build_id sv =
     cancel_job ''cancel_node_build'' stamp frame_id node_id (P_node_build_cancel build_id) sv"

subsection \<open>Host-tool jobs\<close>

definition start_host_tool_job_start ::
  "string \<Rightarrow> string \<Rightarrow> string \<Rightarrow> host_tool_request \<Rightarrow> service \<Rightarrow> call rpc \<times> service" where
  "start_host_tool_job_start stamp frame_id node_id0 req sv =
     (let node_id = strip node_id0; tool = lower (strip (tj_tool req)) in
      if node_id = [] then (fail_rpc INVALID_ARGUMENT ''node_id is required'', sv)
      else if tool \<noteq> ''xcode'' then (Inl (Rpc_error INVALID_ARGUMENT (Unsupported_tool tool)), sv)
      else case find_node node_id sv of
        None \<Rightarrow> (fail_rpc NOT_FOUND (''node '' @ node_id @ '' not found''), sv)
      | Some r \<Rightarrow>
          if is_passive_manager r
          then (fail_rpc FAILED_PRECONDITION (''node '' @ node_id
                  @ '' is a grouping container with no client; nothing to install on''), sv)
          else if lower (dget_or (n_capabilities r) ''os'' []) \<noteq> ''darwin''
          then (fail_rpc FAILED_PRECONDITION (''node '' @ node_id
                  @ '' is not a macOS host; Xcode installs need darwin''), sv)
          else case sv_lookup node_id sv of
            None \<Rightarrow> (fail_rpc FAILED_PRECONDITION (''node '' @ node_id @ '' is offline''), sv)
          | Some i \<Rightarrow> job_send (''start_host_tool_job on '' @ node_id) stamp frame_id i
              (init_host_tool_snapshot stamp (tj_job_id req) tool node_id (tg_target_version (tj_target req)))
              (P_host_tool_job (req\<lparr>tj_tool := tool\<rparr>)) sv)"

definition start_host_tool_job_resume :: "call \<Rightarrow> string \<Rightarrow> service \<Rightarrow> unit rpc \<times> service" where
  "start_host_tool_job_resume cl node_id sv =
     job_answer (''start_host_tool_job on '' @ node_id) ''job'' cl sv"

definition get_host_tool_job_status :: "string \<Rightarrow> string \<Rightarrow> service \<Rightarrow> host_tool_snapshot rpc" where
  "get_host_tool_job_status node_id job_id sv = (case online_conn node_id sv of
     Inl e \<Rightarrow> Inl e
   | Inr i \<Rightarrow> (case get_host_tool_snapshot job_id (conn_at i sv) of
       None \<Rightarrow> fail_rpc NOT_FOUND (''host-tool job '' @ job_id @ '' not found or already expired'')
     | Some s \<Rightarrow> Inr s))"

definition cancel_host_tool_job :: "string \<Rightarrow> string \<Rightarrow> string \<Rightarrow> string \<Rightarrow> service \<Rightarrow> unit rpc \<times> service" where
  "cancel_host_tool_job stamp frame_id node_id job_id sv =
     cancel_job ''cancel_host_tool_job'' stamp frame_id node_id (P_host_tool_job_cancel job_id) sv"

subsection \<open>Upgrades\<close>

definition SELF_UPGRADE_ACK_TIMEOUT :: int where "SELF_UPGRADE_ACK_TIMEOUT = 60"

definition with_tracker :: "(tracker \<Rightarrow> tracker) \<Rightarrow> service \<Rightarrow> service" where
  "with_tracker f sv = sv\<lparr>sv_tracker := f (sv_tracker sv)\<rparr>"

text \<open>Snapshot, waiter and frame of an upgrade step; a failed send fails the snapshot.\<close>

definition upgrade_send ::
  "string \<Rightarrow> string \<Rightarrow> string \<Rightarrow> string \<Rightarrow> nat \<Rightarrow> string \<Rightarrow> payload \<Rightarrow> service \<Rightarrow> call rpc \<times> service" where
  "upgrade_send kind stamp frame_id node_id i version p sv =
     (case begin_ack i frame_id stamp p (with_tracker (init_upgrade stamp node_id kind version frame_id) sv) of
        (Inl e, sv1) \<Rightarrow> (send_failed node_id e,
           with_tracker (finalize_from_ack stamp node_id kind False (''send to node failed: '' @ e)) sv1)
      | (Inr cl, sv1) \<Rightarrow> (Inr cl, sv1))"

definition platform_known :: "node_record \<Rightarrow> bool" where
  "platform_known r = (strip (dget_or (n_capabilities r) ''os'' []) \<noteq> []
     \<and> strip (dget_or (n_capabilities r) ''arch'' []) \<noteq> [])"

text \<open>The result also names the resolved target.\<close>

definition runtime_upgrade_start ::
  "(json \<Rightarrow> string) \<Rightarrow> string \<Rightarrow> string \<Rightarrow> string \<Rightarrow> (string \<times> json) list \<Rightarrow> service
   \<Rightarrow> (call \<times> archive_target) rpc \<times> service" where
  "runtime_upgrade_start render stamp frame_id node_id0 target sv = (let node_id = strip node_id0 in
     if node_id = [] then (fail_rpc INVALID_ARGUMENT ''node_id is required'', sv)
     else case client_conn ''runtime to upgrade'' node_id sv of
       Inl e \<Rightarrow> (Inl e, sv)
     | Inr (r, i) \<Rightarrow>
         let tg = archive_of render target in
         if \<not> platform_known r
         then (fail_rpc FAILED_PRECONDITION (''node '' @ node_id
                 @ '' has not reported its os/arch yet; cannot pick a runtime archive''), sv)
         else if target = []
         then (fail_rpc INVALID_ARGUMENT (''target is required: the caller must supply the runtime archive ''
                 @ ''(download_url / sha256 / proxy fields)''), sv)
         else if tg_download_url tg = []
         then (fail_rpc INVALID_ARGUMENT ''target.download_url is required'', sv)
         else (case upgrade_send ''runtime'' stamp frame_id node_id i (tg_target_version tg)
                      (P_runtime_upgrade tg) sv of
                 (Inl e, sv1) \<Rightarrow> (Inl e, sv1) | (Inr cl, sv1) \<Rightarrow> (Inr (cl, tg), sv1)))"

text \<open>The last write of the version label does not swallow a store error.\<close>

definition store_runtime_version ::
  "microseconds \<Rightarrow> string \<Rightarrow> string \<Rightarrow> service \<Rightarrow> unit rpc \<times> service" where
  "store_runtime_version now node_id version sv = (case find_node node_id sv of
     None \<Rightarrow> (Inr (), sv)
   | Some r \<Rightarrow>
       if version = [] then (Inr (), sv)
       else case upsert_node now
              (r\<lparr>n_capabilities := dset ''runtime_version'' version (n_capabilities r)\<rparr>) (sv_ledger sv) of
         Inl e \<Rightarrow> (Inl (Escaped (Store_failed e)), sv)
       | Inr (_, db) \<Rightarrow> (Inr (), sv\<lparr>sv_ledger := db\<rparr>))"

definition runtime_upgrade_resume ::
  "microseconds \<Rightarrow> string \<Rightarrow> call \<Rightarrow> string \<Rightarrow> archive_target \<Rightarrow> service \<Rightarrow> archive_target rpc \<times> service" where
  "runtime_upgrade_resume now stamp cl node_id tg sv = (case end_ack cl sv of
     (Timed_out, sv1) \<Rightarrow>
       (fail_rpc DEADLINE_EXCEEDED (''runtime upgrade ack timed out after ''
          @ str_of_int ARCHIVE_INSTALL_ACK_TIMEOUT @ ''s; the node may still be downloading the archive''),
        with_tracker (note_ack_timeout stamp node_id ''runtime'' (Msg_ack_timeout ARCHIVE_INSTALL_ACK_TIMEOUT)) sv1)
   | (Lost e, sv1) \<Rightarrow>
       (fail_rpc UNAVAILABLE (''runtime upgrade: node connection dropped mid-upgrade: '' @ e),
        with_tracker (note_ack_timeout stamp node_id ''runtime'' Msg_connection_lost) sv1)
   | (Got ack, sv1) \<Rightarrow>
       if \<not> ack_ok ack
       then (fail_rpc INTERNAL (or_str (ack_error ack) ''runtime upgrade failed''),
             with_tracker (finalize_from_ack stamp node_id ''runtime'' False (ack_error ack)) sv1)
       else (case store_runtime_version now node_id (tg_target_version tg)
                    (with_tracker (finalize_from_ack stamp node_id ''runtime'' True []) sv1) of
               (Inl e, sv2) \<Rightarrow> (Inl e, sv2) | (Inr _, sv2) \<Rightarrow> (Inr tg, sv2)))"

text \<open>
  Without a target the node is pointed at this server's own mirror: \<open>d\<close> is the release directory,
  \<open>sha256_hex\<close> the digest of a file.
\<close>

definition self_upgrade_target ::
  "(json \<Rightarrow> string) \<Rightarrow> (string \<Rightarrow> string) \<Rightarrow> bin_dir \<Rightarrow> node_record \<Rightarrow> (string \<times> json) list \<Rightarrow> service
   \<Rightarrow> archive_target rpc" where
  "self_upgrade_target render sha256_hex d r target sv =
     (if target \<noteq> []
      then (let tg = archive_of render target in
            if tg_download_url tg = [] then fail_rpc INVALID_ARGUMENT ''target.download_url is required''
            else Inr tg)
      else case binary_name_for (n_role r) (strip (dget_or (n_capabilities r) ''os'' []))
                  (strip (dget_or (n_capabilities r) ''arch'' [])) of
        Inl e \<Rightarrow> fail_rpc FAILED_PRECONDITION e
      | Inr name \<Rightarrow>
          if sv_server_url sv = []
          then fail_rpc FAILED_PRECONDITION
                 ''server_url is not configured; cannot build a download URL for the node''
          else Inr \<lparr>tg_target_version = latest_node_version d,
                    tg_download_url = sv_server_url sv @ ''/api/v1/public/nodes/binaries/'' @ name,
                    tg_sha256 = node_binary_sha256 sha256_hex name d,
                    tg_proxy_mode = [], tg_proxy_url = [], tg_proxy_url_prefix = []\<rparr>)"

definition self_upgrade_start ::
  "(json \<Rightarrow> string) \<Rightarrow> (string \<Rightarrow> string) \<Rightarrow> bin_dir \<Rightarrow> string \<Rightarrow> string \<Rightarrow> string \<Rightarrow> (string \<times> json) list
   \<Rightarrow> service \<Rightarrow> (call \<times> archive_target) rpc \<times> service" where
  "self_upgrade_start render sha256_hex d stamp frame_id node_id0 target sv = (let node_id = strip node_id0 in
     if node_id = [] then (fail_rpc INVALID_ARGUMENT ''node_id is required'', sv)
     else case client_conn ''client to upgrade'' node_id sv of
       Inl e \<Rightarrow> (Inl e, sv)
     | Inr (r, i) \<Rightarrow>
         if \<not> platform_known r
         then (fail_rpc FAILED_PRECONDITION (''node '' @ node_id
                 @ '' has not reported its os/arch yet; cannot pick a binary''), sv)
         else (case self_upgrade_target render sha256_hex d r target sv of
                 Inl e \<Rightarrow> (Inl e, sv)
               | Inr tg \<Rightarrow>
                   (case upgrade_send ''node'' stamp frame_id node_id i (tg_target_version tg)
                           (P_self_upgrade tg) sv of
                      (Inl e, sv1) \<Rightarrow> (Inl e, sv1) | (Inr cl, sv1) \<Rightarrow> (Inr (cl, tg), sv1))))"

definition self_upgrade_resume ::
  "string \<Rightarrow> call \<Rightarrow> string \<Rightarrow> archive_target \<Rightarrow> service \<Rightarrow> archive_target rpc \<times> service" where
  "self_upgrade_resume stamp cl node_id tg sv = (case end_ack cl sv of
     (Timed_out, sv1) \<Rightarrow>
       (fail_rpc DEADLINE_EXCEEDED (''node '' @ node_id @ '' did not accept the upgrade within ''
          @ str_of_int SELF_UPGRADE_ACK_TIMEOUT @ ''s''),
        with_tracker (note_ack_timeout stamp node_id ''node'' (Msg_ack_timeout SELF_UPGRADE_ACK_TIMEOUT)) sv1)
   | (Lost e, sv1) \<Rightarrow>
       (fail_rpc UNAVAILABLE (''self-upgrade on '' @ node_id @ '': node connection dropped: '' @ e),
        with_tracker (note_ack_timeout stamp node_id ''node'' Msg_connection_lost) sv1)
   | (Got ack, sv1) \<Rightarrow>
       if \<not> ack_ok ack
       then (fail_rpc INTERNAL (''self-upgrade on '' @ node_id @ '' failed: '' @ ack_failure ack),
             with_tracker (finalize_from_ack stamp node_id ''node'' False (ack_failure ack)) sv1)
       else (Inr tg, with_tracker (finalize_from_ack stamp node_id ''node'' True []) sv1))"

text \<open>
  \<open>upgrade_node\<close>: the runtime step, then the node step. \<open>None\<close> is an argument that is \<open>None\<close>, an
  empty object is falsy too and skips its step. The plan is what the call is going to run.
\<close>

definition upgrade_plan ::
  "string \<Rightarrow> (string \<times> json) list option \<Rightarrow> (string \<times> json) list option
   \<Rightarrow> ((string \<times> json) list option \<times> (string \<times> json) list option) rpc" where
  "upgrade_plan node_id0 runtime_target node_target =
     (if strip node_id0 = [] then fail_rpc INVALID_ARGUMENT ''node_id is required''
      else if runtime_target = None \<and> node_target = None
      then fail_rpc INVALID_ARGUMENT ''upgrade requires at least one of runtime_target / node_target''
      else let truthy_target = (\<lambda>t. case t of Some [] \<Rightarrow> None | _ \<Rightarrow> t)
           in Inr (truthy_target runtime_target, truthy_target node_target))"

text \<open>
  The stages of one \<open>upgrade_node\<close> request. A step that fails ends it; the node step starts only
  when the runtime step was skipped or has succeeded.
\<close>

datatype upgrade_stage =
    Runtime_pending call archive_target
  | Node_pending "archive_target option" call archive_target
  | Upgrade_done "archive_target option" "archive_target option"
  | Upgrade_failed rpc_error

definition node_stage ::
  "(json \<Rightarrow> string) \<Rightarrow> (string \<Rightarrow> string) \<Rightarrow> bin_dir \<Rightarrow> string \<Rightarrow> string \<Rightarrow> string \<Rightarrow> archive_target option
   \<Rightarrow> (string \<times> json) list option \<Rightarrow> service \<Rightarrow> upgrade_stage \<times> service" where
  "node_stage render sha256_hex d stamp frame_id node_id runtime_result node_target sv =
     (case node_target of
        None \<Rightarrow> (Upgrade_done runtime_result None, sv)
      | Some t \<Rightarrow> (case self_upgrade_start render sha256_hex d stamp frame_id node_id t sv of
          (Inl e, sv1) \<Rightarrow> (Upgrade_failed e, sv1)
        | (Inr (cl, tg), sv1) \<Rightarrow> (Node_pending runtime_result cl tg, sv1)))"

definition upgrade_node_start ::
  "(json \<Rightarrow> string) \<Rightarrow> (string \<Rightarrow> string) \<Rightarrow> bin_dir \<Rightarrow> string \<Rightarrow> string \<Rightarrow> string
   \<Rightarrow> (string \<times> json) list option \<Rightarrow> (string \<times> json) list option \<Rightarrow> service \<Rightarrow> upgrade_stage \<times> service" where
  "upgrade_node_start render sha256_hex d stamp frame_id node_id runtime_target node_target sv =
     (case upgrade_plan node_id runtime_target node_target of
        Inl e \<Rightarrow> (Upgrade_failed e, sv)
      | Inr (None, nt) \<Rightarrow> node_stage render sha256_hex d stamp frame_id (strip node_id) None nt sv
      | Inr (Some t, nt) \<Rightarrow> (case runtime_upgrade_start render stamp frame_id (strip node_id) t sv of
          (Inl e, sv1) \<Rightarrow> (Upgrade_failed e, sv1)
        | (Inr (cl, tg), sv1) \<Rightarrow> (Runtime_pending cl tg, sv1)))"

definition upgrade_node_resume ::
  "(json \<Rightarrow> string) \<Rightarrow> (string \<Rightarrow> string) \<Rightarrow> bin_dir \<Rightarrow> microseconds \<Rightarrow> string \<Rightarrow> string \<Rightarrow> string
   \<Rightarrow> (string \<times> json) list option \<Rightarrow> upgrade_stage \<Rightarrow> service \<Rightarrow> upgrade_stage \<times> service" where
  "upgrade_node_resume render sha256_hex d now stamp frame_id node_id node_target st sv = (case st of
     Runtime_pending cl tg \<Rightarrow>
       (case runtime_upgrade_resume now stamp cl node_id tg sv of
          (Inl e, sv1) \<Rightarrow> (Upgrade_failed e, sv1)
        | (Inr res, sv1) \<Rightarrow> node_stage render sha256_hex d stamp frame_id node_id (Some res) node_target sv1)
   | Node_pending runtime_result cl tg \<Rightarrow>
       (case self_upgrade_resume stamp cl node_id tg sv of
          (Inl e, sv1) \<Rightarrow> (Upgrade_failed e, sv1)
        | (Inr res, sv1) \<Rightarrow> (Upgrade_done runtime_result (Some res), sv1))
   | _ \<Rightarrow> (st, sv))"

definition get_node_upgrade_status :: "string \<Rightarrow> service \<Rightarrow> upgrade_job rpc" where
  "get_node_upgrade_status node_id0 sv = (let node_id = strip node_id0 in
     if node_id = [] then fail_rpc INVALID_ARGUMENT ''node_id is required''
     else case get_upgrade node_id (sv_tracker sv) of
       None \<Rightarrow> fail_rpc NOT_FOUND (''no upgrade progress for node '' @ node_id)
     | Some j \<Rightarrow> Inr j)"

end
