(* ===== verification/Task_Status.thy ===== *)
theory Task_Status
  imports Json_Values
begin

text \<open>
  The task rows the control plane writes over the shared pool (mc_tasks, mc_task_events,
  mc_task_status_history and their neighbours), and the writers of task_status_history.py and
  task_message_status.py. One SQL statement is one step: an UPDATE finds its rows and changes them
  in the same snapshot. The writers never raise; a statement that fails leaves the tables as they
  are. \<open>loads\<close> is \<open>json.loads\<close> (\<open>None\<close> an exception), \<open>render\<close> the text of floats and containers.
\<close>

subsection \<open>Tables\<close>

text \<open>The reasons task_finalize.py words in Chinese are constructors.\<close>

datatype failure_text =
    Runtime_unusable
  | Crashed int string
  | Raw_error string
  | Exited_silently int

datatype reason_text = Reason string | Reason_failure failure_text

text \<open>The labels of task_stage.py, worded in Chinese there; \<open>Named_stage\<close> is the fallback to the name.\<close>

datatype stage_label =
    Preparing_workspace | Cloning_code | Syncing_resources | Checking_runtime | Starting_runtime
  | Running | Preparing | Named_stage string

record stage_entry =
  sn_stage :: string
  sn_label :: stage_label
  sn_ok :: bool
  sn_detail :: string
  sn_error :: string

datatype config_value = Cfg_json json | Cfg_dispatch_error failure_text | Cfg_stage stage_entry

record task_row =
  t_id :: string
  t_node_session_id :: "string option"
  t_deleted :: bool
  t_status :: string
  t_completed_at :: "microseconds option"
  t_updated_at :: microseconds
  t_config_snapshot :: "(string, config_value) dict"
  t_mcp_user_id :: "int option"
  t_api_key_id :: "int option"
  t_user_id :: "string option"
  t_title :: string
  t_provider_thread_id :: "string option"
  t_runtime_stage :: string
  t_runtime_stage_detail :: string
  t_runtime_stage_ok :: bool

text \<open>Rows of mc_task_events: user messages, stages and conversation items share the table.\<close>

datatype event_payload = Payload_item json | Payload_stage stage_entry

record event_row =
  e_task_id :: string
  e_seq :: int
  e_kind :: string
  e_event_type :: string
  e_logical_event_id :: string
  e_payload :: "event_payload option"
  e_client_message_id :: "string option"
  e_delivery_attempt :: int
  e_delivery_status :: string
  e_failure_reason :: "string option"
  e_received_at :: "microseconds option"
  e_started_at :: "microseconds option"
  e_completed_at :: "microseconds option"

record history_row =
  h_task_id :: string
  h_field :: string
  h_from :: string
  h_to :: string
  h_reason :: "reason_text option"
  h_message_id :: "string option"
  h_delivery_attempt :: "int option"

record outbox_row =
  ob_owner :: string
  ob_task_id :: string
  ob_label :: string
  ob_status :: string
  ob_severity :: string
  ob_reason :: "failure_text option"

text \<open>A row of the ClickHouse table \<open>task_messages\<close>.\<close>

record message_row =
  mr_id :: string
  mr_task_id :: string
  mr_logical_event_id :: string
  mr_seq :: int
  mr_item_type :: string
  mr_item_json :: json
  mr_agent_id :: string
  mr_subagent_id :: string
  mr_event_kind :: string
  mr_tool_name :: string
  mr_phase :: string
  mr_status :: string
  mr_created_at :: string
  mr_version :: int

text \<open>A row of \<open>mcp_services\<close>: the columns the offline reconciliation reads or writes.\<close>

datatype install_step = Step_host_offline | Step_other string

record mcp_service_row =
  ms_id :: int
  ms_deploy_scope :: string
  ms_host_node_id :: string
  ms_host_port :: "int option"
  ms_host_pid :: "int option"
  ms_host_status :: string
  ms_install_state :: string
  ms_install_step :: install_step
  ms_install_error :: string

text \<open>\<open>db_up\<close>: the pool exists; \<open>db_clickhouse\<close>: the ClickHouse client is connected.\<close>

record task_db =
  db_up :: bool
  db_tasks :: "task_row list"
  db_events :: "event_row list"
  db_history :: "history_row list"
  db_users_enabled :: "(int, bool) dict"
  db_keys_disabled :: "(int, bool) dict"
  db_outbox :: "outbox_row list"
  db_clickhouse :: bool
  db_messages :: "message_row list"
  db_next_seq :: int
  db_mcp_services :: "mcp_service_row list"

subsection \<open>The history trail\<close>

definition record_status_transition ::
  "string \<Rightarrow> string \<Rightarrow> string \<Rightarrow> string \<Rightarrow> reason_text option \<Rightarrow> string option \<Rightarrow> int option \<Rightarrow> task_db \<Rightarrow> task_db" where
  "record_status_transition task_id fld to_val frm reason message_id attempt db =
     db\<lparr>db_history := db_history db @
        [\<lparr>h_task_id = task_id, h_field = take 32 fld, h_from = take 64 frm, h_to = take 64 to_val,
          h_reason = (case reason of Some (Reason []) \<Rightarrow> None | r \<Rightarrow> r),
          h_message_id = (case message_id of Some [] \<Rightarrow> None | m \<Rightarrow> m),
          h_delivery_attempt = attempt\<rparr>]\<rparr>"

subsection \<open>The delivery state machine\<close>

definition TRANSITIONS :: "(string, string list) dict" where
  "TRANSITIONS =
     [(''pending'', [''dispatching'', ''failed'', ''cancelled'']),
      (''dispatching'', [''received'', ''failed'']),
      (''received'', [''running'', ''completed'', ''failed'', ''cancelled'']),
      (''running'', [''completed'', ''failed'', ''cancelled'']),
      (''failed'', [''pending'', ''completed'']),
      (''cancelled'', [''pending''])]"

definition from_states :: "string \<Rightarrow> string list" where
  "from_states to_status = map fst (filter (\<lambda>p. to_status \<in> set (snd p)) TRANSITIONS)"

definition get_text :: "(json \<Rightarrow> string) \<Rightarrow> (string \<times> json) list \<Rightarrow> string \<Rightarrow> string \<Rightarrow> string" where
  "get_text render payload k1 k2 =
     strip (py_str render (or_json (or_json (obj_get payload k1) (obj_get payload k2)) (J_str [])))"

definition resolve_target :: "(json \<Rightarrow> string) \<Rightarrow> string \<Rightarrow> (string \<times> json) list \<Rightarrow> string option" where
  "resolve_target render event_type payload =
     (let status = strip (py_str render (or_json (obj_get payload ''status'') (J_str []))) in
      if event_type = ''input_status''
      then (if status \<in> {''received'', ''failed'', ''cancelled''} then Some status else None)
      else if event_type = ''agent_turn_started'' then Some ''running''
      else if event_type = ''agent_turn_completed''
      then Some (if status = ''cancelled'' then ''cancelled''
                 else if status = ''failed'' then ''failed'' else ''completed'')
      else None)"

text \<open>\<open>json.loads(payload_json) if payload_json else {}\<close>, kept only when it is an object.\<close>

definition load_object :: "(string \<Rightarrow> json option) \<Rightarrow> string \<Rightarrow> (string \<times> json) list option" where
  "load_object loads payload_json =
     (if payload_json = [] then Some []
      else case loads payload_json of Some (J_obj d) \<Rightarrow> Some d | _ \<Rightarrow> None)"

definition error_reason_from_payload ::
  "(string \<Rightarrow> json option) \<Rightarrow> (json \<Rightarrow> string) \<Rightarrow> string \<Rightarrow> string" where
  "error_reason_from_payload loads render payload_json = (case load_object loads payload_json of
     None \<Rightarrow> []
   | Some payload \<Rightarrow>
       let first = (\<lambda>d ks. py_str render (fold (\<lambda>k v. or_json v (obj_get d k)) ks J_null));
           pick = (\<lambda>d ks. if list_ex (\<lambda>k. truthy (obj_get d k)) ks then first d ks else []);
           text = (case obj_get payload ''item'' of J_obj item \<Rightarrow> pick item [''text'', ''message''] | _ \<Rightarrow> [])
       in take 200 (strip (if text \<noteq> [] then text else pick payload [''message'', ''error'', ''detail''])))"

definition error_message_id_from_payload ::
  "(string \<Rightarrow> json option) \<Rightarrow> (json \<Rightarrow> string) \<Rightarrow> string \<Rightarrow> string" where
  "error_message_id_from_payload loads render payload_json = (case load_object loads payload_json of
     None \<Rightarrow> [] | Some payload \<Rightarrow> get_text render payload ''message_id'' ''messageId'')"

text \<open>
  \<open>(SELECT id FROM mc_tasks WHERE node_session_id=$1)\<close> as a scalar: no row is NULL (\<open>Some None\<close>),
  two rows are an error of the statement (\<open>None\<close>).
\<close>

definition session_task :: "string \<Rightarrow> task_db \<Rightarrow> string option option" where
  "session_task sid db = (case filter (\<lambda>t. t_node_session_id t = Some sid) (db_tasks db) of
     [] \<Rightarrow> Some None | [t] \<Rightarrow> Some (Some (t_id t)) | _ \<Rightarrow> None)"

text \<open>\<open>UPDATE mc_task_events ... WHERE sel RETURNING\<close>: the rows as they were, and the new table.\<close>

definition update_events ::
  "(event_row \<Rightarrow> bool) \<Rightarrow> (event_row \<Rightarrow> event_row) \<Rightarrow> task_db \<Rightarrow> event_row list \<times> task_db" where
  "update_events sel f db =
     (filter sel (db_events db), db\<lparr>db_events := map (\<lambda>e. if sel e then f e else e) (db_events db)\<rparr>)"

definition coalesce_reason :: "string \<Rightarrow> event_row \<Rightarrow> event_row" where
  "coalesce_reason reason e =
     (if reason = [] then e else e\<lparr>e_failure_reason := Some reason\<rparr>)"

definition stamp_status :: "microseconds \<Rightarrow> string \<Rightarrow> event_row \<Rightarrow> event_row" where
  "stamp_status now st e =
     (let e1 = e\<lparr>e_delivery_status := st\<rparr> in
      if st = ''received'' then e1\<lparr>e_received_at := Some now\<rparr>
      else if st = ''running'' then e1\<lparr>e_started_at := Some now\<rparr>
      else if st \<in> {''completed'', ''cancelled''} then e1\<lparr>e_completed_at := Some now\<rparr>
      else e1)"

definition message_selected :: "string \<Rightarrow> string \<Rightarrow> int \<Rightarrow> string list \<Rightarrow> event_row \<Rightarrow> bool" where
  "message_selected tid message_id attempt states e =
     (e_task_id e = tid \<and> e_client_message_id e = Some message_id \<and> e_delivery_attempt e = attempt
      \<and> e_delivery_status e \<in> set states)"

definition record_message_status ::
  "(string \<Rightarrow> json option) \<Rightarrow> (json \<Rightarrow> string) \<Rightarrow> microseconds \<Rightarrow> string \<Rightarrow> string \<Rightarrow> string
   \<Rightarrow> task_db \<Rightarrow> task_db" where
  "record_message_status loads render now session_id0 event_type payload_json db =
     (let sid = strip session_id0 in
      if sid = [] then db
      else case load_object loads payload_json of
        None \<Rightarrow> db
      | Some payload \<Rightarrow>
          let message_id = get_text render payload ''message_id'' ''messageId'' in
          if message_id = [] then db
          else case resolve_target render event_type payload of
            None \<Rightarrow> db
          | Some st \<Rightarrow>
              (case py_int (or_json (or_json (obj_get payload ''delivery_attempt'')
                                             (obj_get payload ''deliveryAttempt'')) (J_int 1)) of
                 None \<Rightarrow> db
               | Some n \<Rightarrow>
                   let attempt = (if n = 0 then 1 else n) in
                   if \<not> db_up db \<or> from_states st = [] then db
                   else case session_task sid db of
                     Some (Some tid) \<Rightarrow>
                       let why = (if st = ''failed''
                                  then py_str render (or_json (obj_get payload ''error'') (J_str [])) else []);
                           (hits, db1) = update_events (message_selected tid message_id attempt (from_states st))
                              (\<lambda>e. coalesce_reason why (stamp_status now st e)) db
                       in (case hits of
                             [] \<Rightarrow> db
                           | e # _ \<Rightarrow> record_status_transition tid ''delivery_status'' st (e_delivery_status e)
                               (Some (Reason (if why = [] then ''runtime event '' @ event_type else why)))
                               (Some message_id) (Some attempt) db1)
                   | _ \<Rightarrow> db))"

definition IN_FLIGHT :: "string list" where
  "IN_FLIGHT = [''pending'', ''dispatching'', ''received'', ''running'']"

definition fail_row :: "string \<Rightarrow> event_row \<Rightarrow> event_row" where
  "fail_row reason e = coalesce_reason reason (e\<lparr>e_delivery_status := ''failed''\<rparr>)"

text \<open>With a message id one row and its exact previous state, without one every row in flight.\<close>

definition fail_inflight_messages :: "string \<Rightarrow> string \<Rightarrow> string option \<Rightarrow> task_db \<Rightarrow> task_db" where
  "fail_inflight_messages session_id0 reason client_message_id db =
     (let sid = strip session_id0 in
      if sid = [] \<or> \<not> db_up db then db
      else case session_task sid db of
        Some (Some tid) \<Rightarrow>
          (case client_message_id of
             Some (c # cs) \<Rightarrow>
               let (hits, db1) = update_events (\<lambda>e. e_task_id e = tid \<and> e_client_message_id e = Some (c # cs)
                      \<and> e_delivery_status e \<in> set IN_FLIGHT) (fail_row reason) db
               in (case hits of
                     [] \<Rightarrow> db
                   | e # _ \<Rightarrow> record_status_transition tid ''delivery_status'' ''failed'' (e_delivery_status e)
                       (Some (Reason (or_str reason ''runtime error frame''))) (e_client_message_id e)
                       (Some (e_delivery_attempt e)) db1)
           | _ \<Rightarrow>
               let (hits, db1) = update_events (\<lambda>e. e_task_id e = tid \<and> e_delivery_status e \<in> set IN_FLIGHT)
                      (fail_row reason) db
               in fold (\<lambda>e. record_status_transition tid ''delivery_status'' ''failed'' []
                      (Some (Reason (or_str reason ''runtime error frame (session-wide)'')))
                      (e_client_message_id e) (Some (e_delivery_attempt e))) hits db1)
      | _ \<Rightarrow> db)"

subsection \<open>The provider thread binding\<close>

definition thread_free :: "string \<Rightarrow> string \<Rightarrow> task_db \<Rightarrow> bool" where
  "thread_free sid thread db = (\<not> list_ex (\<lambda>o'. t_provider_thread_id o' = Some thread
     \<and> t_node_session_id o' \<noteq> Some sid) (db_tasks db))"

definition sync_task_provider_thread ::
  "(string \<Rightarrow> json option) \<Rightarrow> (json \<Rightarrow> string) \<Rightarrow> microseconds \<Rightarrow> string \<Rightarrow> string \<Rightarrow> task_db \<Rightarrow> task_db" where
  "sync_task_provider_thread loads render now session_id0 payload_json db =
     (let sid = strip session_id0 in
      if sid = [] then db
      else case load_object loads payload_json of
        None \<Rightarrow> db
      | Some payload \<Rightarrow>
          let thread = get_text render payload ''threadId'' ''thread_id'' in
          if thread = [] \<or> \<not> db_up db \<or> \<not> thread_free sid thread db then db
          else db\<lparr>db_tasks := map (\<lambda>t. if t_node_session_id t = Some sid \<and> \<not> t_deleted t
                 \<and> t_provider_thread_id t \<noteq> Some thread
               then t\<lparr>t_provider_thread_id := Some thread, t_updated_at := now\<rparr> else t) (db_tasks db)\<rparr>)"

end
