(* ===== verification/Task_Trail.thy ===== *)
theory Task_Trail
  imports Task_Status
begin

text \<open>
  What a node's frames leave behind in the task tables: the terminal state of a task
  (task_finalize.py), its preparation stages (task_stage.py), its conversation items
  (task_event_log.py with the ClickHouse rows of task_message_store.py), and the hosted services
  of a node that went away (node_hosted_reconcile.py). The writers never raise. \<open>dumps\<close> is
  \<open>json.dumps\<close>, \<open>accepts\<close> tells whether ClickHouse takes an inserted row.
\<close>

subsection \<open>Terminal state\<close>

definition RUNTIME_MARKERS :: "string list" where
  "RUNTIME_MARKERS =
     [''agent-compose-runtime not found'', ''agent runtime is not usable'', ''node agent runtime'',
      ''err_module_not_found'', ''cannot find package'', ''cannot find module'', ''node.js is missing'']"

definition failure_reason :: "string \<Rightarrow> int \<Rightarrow> string \<Rightarrow> failure_text" where
  "failure_reason error exit_code stderr_tail =
     (let text = strip error; tail = strip stderr_tail; lowered = lower (text @ [CHR 0x0A] @ tail) in
      if list_ex (\<lambda>m. contains_sub m lowered) RUNTIME_MARKERS then Runtime_unusable
      else if tail \<noteq> [] then Crashed exit_code (lastn 800 tail)
      else if text \<noteq> [] then Raw_error (take 800 text)
      else Exited_silently exit_code)"

definition notify_task_ended ::
  "string option \<Rightarrow> string \<Rightarrow> string \<Rightarrow> string \<Rightarrow> failure_text option \<Rightarrow> task_db \<Rightarrow> task_db" where
  "notify_task_ended user_id task_id title status reason db = (case user_id of
     None \<Rightarrow> db
   | Some [] \<Rightarrow> db
   | Some u \<Rightarrow>
       if \<not> db_up db then db
       else db\<lparr>db_outbox := db_outbox db @
         [\<lparr>ob_owner = u, ob_task_id = task_id, ob_label = or_str (strip title) task_id,
           ob_status = status, ob_severity = (if status = ''finished'' then ''info'' else ''warn''),
           ob_reason = reason\<rparr>]\<rparr>)"

definition TERMINAL_STATUSES :: "string list" where
  "TERMINAL_STATUSES = [''finished'', ''error'']"

text \<open>The condition of the UPDATE, its assignment, and the teardown of the two grants.\<close>

definition finalizable :: "string \<Rightarrow> task_row \<Rightarrow> bool" where
  "finalizable sid t = (t_node_session_id t = Some sid \<and> \<not> t_deleted t
     \<and> t_status t \<notin> set TERMINAL_STATUSES)"

definition finalize_row :: "microseconds \<Rightarrow> string \<Rightarrow> failure_text option \<Rightarrow> task_row \<Rightarrow> task_row" where
  "finalize_row now st reason t =
     (let t1 = t\<lparr>t_status := st, t_completed_at := Some now, t_updated_at := now\<rparr>
      in case reason of None \<Rightarrow> t1
         | Some r \<Rightarrow> t1\<lparr>t_config_snapshot :=
             dset ''dispatch_error'' (Cfg_dispatch_error r) (t_config_snapshot t)\<rparr>)"

definition set_flag :: "int option \<Rightarrow> bool \<Rightarrow> (int, bool) dict \<Rightarrow> (int, bool) dict" where
  "set_flag key v d = (case key of
     None \<Rightarrow> d | Some k \<Rightarrow> if k = 0 then d else map (\<lambda>(i, b). (i, if i = k then v else b)) d)"

definition finalize_task_for_session ::
  "microseconds \<Rightarrow> string \<Rightarrow> bool \<Rightarrow> int \<Rightarrow> string \<Rightarrow> string \<Rightarrow> task_db \<Rightarrow> task_db" where
  "finalize_task_for_session now session_id0 success exit_code error stderr_tail db =
     (let sid = strip session_id0 in
      if sid = [] \<or> \<not> db_up db then db
      else
        let st = (if success \<and> exit_code = 0 then ''finished'' else ''error'');
            reason = (if st = ''finished'' then None else Some (failure_reason error exit_code stderr_tail))
        in case filter (finalizable sid) (db_tasks db) of
             [] \<Rightarrow> db
           | t # _ \<Rightarrow>
               let db1 = db\<lparr>db_tasks := map (\<lambda>x. if finalizable sid x then finalize_row now st reason x else x)
                             (db_tasks db)\<rparr>;
                   db2 = record_status_transition (t_id t) ''status'' st (t_status t)
                     (Some (case reason of Some r \<Rightarrow> Reason_failure r
                            | None \<Rightarrow> Reason (''node result success (exit='' @ str_of_int exit_code @ '')'')))
                     None None db1;
                   db3 = db2\<lparr>db_users_enabled := set_flag (t_mcp_user_id t) False (db_users_enabled db2),
                             db_keys_disabled := set_flag (t_api_key_id t) True (db_keys_disabled db2)\<rparr>
               in notify_task_ended (t_user_id t) (t_id t) (t_title t) st reason db3)"

subsection \<open>Preparation stages\<close>

definition STAGE_LABELS :: "(string, stage_label) dict" where
  "STAGE_LABELS =
     [(''SESSION_STAGE_WORKSPACE_PREPARE'', Preparing_workspace),
      (''SESSION_STAGE_GIT_CLONE'', Cloning_code),
      (''SESSION_STAGE_RESOURCE_SYNC'', Syncing_resources),
      (''SESSION_STAGE_RUNTIME_PREFLIGHT'', Checking_runtime),
      (''SESSION_STAGE_RUNTIME_START'', Starting_runtime),
      (''SESSION_STAGE_RUNNING'', Running)]"

definition stage_label_of :: "string \<Rightarrow> stage_label" where
  "stage_label_of stage_name = (case dget STAGE_LABELS stage_name of
     Some l \<Rightarrow> l | None \<Rightarrow> if stage_name = [] then Preparing else Named_stage stage_name)"

definition stage_key :: "string \<Rightarrow> string" where
  "stage_key stage_name =
     (let name = strip stage_name;
          bare = (if prefix ''SESSION_STAGE_'' name then drop (length ''SESSION_STAGE_'') name else name)
      in take 32 (lower bare))"

definition bound_task :: "string \<Rightarrow> task_row \<Rightarrow> bool" where
  "bound_task sid t = ((t_node_session_id t = Some sid \<or> t_id t = sid) \<and> \<not> t_deleted t)"

definition stage_row ::
  "microseconds \<Rightarrow> string \<Rightarrow> string \<Rightarrow> bool \<Rightarrow> stage_entry \<Rightarrow> task_row \<Rightarrow> task_row" where
  "stage_row now stage_name note ok entry t =
     t\<lparr>t_runtime_stage := stage_key stage_name, t_runtime_stage_detail := take 2000 note,
       t_runtime_stage_ok := ok,
       t_config_snapshot := dset ''runtime_stage'' (Cfg_stage entry) (t_config_snapshot t),
       t_updated_at := now\<rparr>"

definition plain_event :: "string \<Rightarrow> int \<Rightarrow> string \<Rightarrow> string \<Rightarrow> event_row" where
  "plain_event task_id seq kind event_type =
     \<lparr>e_task_id = task_id, e_seq = seq, e_kind = kind, e_event_type = take 64 event_type,
      e_logical_event_id = [], e_payload = None, e_client_message_id = None, e_delivery_attempt = 1,
      e_delivery_status = [], e_failure_reason = None, e_received_at = None, e_started_at = None,
      e_completed_at = None\<rparr>"

text \<open>\<open>nextval\<close> of the shared sequence followed by the insert.\<close>

definition append_event :: "(int \<Rightarrow> event_row) \<Rightarrow> task_db \<Rightarrow> task_db" where
  "append_event mk db =
     db\<lparr>db_events := db_events db @ [mk (db_next_seq db)], db_next_seq := db_next_seq db + 1\<rparr>"

definition record_session_stage ::
  "microseconds \<Rightarrow> string \<Rightarrow> string \<Rightarrow> bool \<Rightarrow> string \<Rightarrow> string \<Rightarrow> task_db \<Rightarrow> task_db" where
  "record_session_stage now session_id0 stage_name ok detail error db =
     (let sid = strip session_id0 in
      if sid = [] \<or> \<not> db_up db then db
      else
        let entry = \<lparr>sn_stage = stage_name, sn_label = stage_label_of stage_name, sn_ok = ok,
                     sn_detail = take 500 detail, sn_error = take 800 error\<rparr>
        in case filter (bound_task sid) (db_tasks db) of
             [] \<Rightarrow> db
           | t # _ \<Rightarrow>
               append_event (\<lambda>seq. (plain_event (t_id t) seq ''stage'' stage_name)
                   \<lparr>e_payload := Some (Payload_stage entry)\<rparr>)
                 (db\<lparr>db_tasks := map (\<lambda>x. if bound_task sid x
                       then stage_row now stage_name (or_str error detail) ok entry x else x) (db_tasks db)\<rparr>))"

subsection \<open>Conversation items\<close>

definition REPLAYABLE_ITEM_TYPES :: "string list" where
  "REPLAYABLE_ITEM_TYPES =
     [''user_input'', ''agent_message'', ''reasoning'', ''tool_call'', ''command_execution'',
      ''mcp_tool_call'', ''file_change'', ''web_search'', ''error'']"

definition item_of :: "json \<Rightarrow> (string \<times> json) list option" where
  "item_of payload = (case payload of
     J_obj d \<Rightarrow> (case obj_get d ''item'' of
         J_obj item \<Rightarrow> Some item
       | _ \<Rightarrow> (case obj_get d ''event'' of
             J_obj ev \<Rightarrow> (case obj_get ev ''item'' of J_obj item \<Rightarrow> Some item | _ \<Rightarrow> None)
           | _ \<Rightarrow> None))
   | _ \<Rightarrow> None)"

text \<open>\<open>str(d.get(k) or '').strip()\<close>.\<close>

definition field_text :: "(json \<Rightarrow> string) \<Rightarrow> (string \<times> json) list \<Rightarrow> string \<Rightarrow> string" where
  "field_text render d k = strip (py_str render (or_json (obj_get d k) (J_str [])))"

definition synthesize_error_item ::
  "(json \<Rightarrow> string) \<Rightarrow> json \<Rightarrow> string \<Rightarrow> (string \<times> json) list option" where
  "synthesize_error_item render payload event_type = (case payload of
     J_obj d \<Rightarrow>
       if lower event_type \<noteq> ''error''
          \<and> lower (py_str render (or_json (obj_get d ''type'') (J_str []))) \<noteq> ''error'' then None
       else
         let err = (case obj_get d ''error'' of J_obj e \<Rightarrow> e | _ \<Rightarrow> []);
             text = or_str (or_str (field_text render d ''message'') (field_text render err ''message''))
                      (field_text render d ''detail'')
         in if text = [] then None
            else
              let message_id = get_text render d ''message_id'' ''messageId'';
                  code = or_json (obj_get d ''code'') (obj_get err ''code'')
              in Some ([(''type'', J_str ''error''), (''text'', J_str text)]
                   @ (if message_id \<noteq> [] then [(''id'', J_str (''error:'' @ message_id))] else [])
                   @ (if code \<noteq> J_null then [(''code'', code)] else []))
   | _ \<Rightarrow> None)"

text \<open>The envelope \<open>_envelope_json\<close> and \<open>build_row\<close> serialise.\<close>

definition envelope_of ::
  "(string \<times> json) list \<Rightarrow> string \<Rightarrow> int \<Rightarrow> string \<Rightarrow> string \<Rightarrow> string \<Rightarrow> string \<Rightarrow> string \<Rightarrow> string \<Rightarrow> json" where
  "envelope_of item agent_id runtime_seq logical_id event_kind tool_name subagent_id ph status =
     J_obj ([(''item'', J_obj item), (''agent_id'', J_str agent_id), (''runtime_seq'', J_int runtime_seq)]
       @ map (\<lambda>(k, v). (k, J_str v)) (filter (\<lambda>(k, v). v \<noteq> [])
           [(''logical_event_id'', logical_id), (''event_kind'', event_kind), (''tool_name'', tool_name),
            (''subagent_id'', subagent_id), (''phase'', ph), (''status'', status)]))"

definition build_row ::
  "string \<Rightarrow> string \<Rightarrow> string \<Rightarrow> int \<Rightarrow> string \<Rightarrow> (string \<times> json) list \<Rightarrow> string \<Rightarrow> string \<Rightarrow> string \<Rightarrow> string
   \<Rightarrow> string \<Rightarrow> string \<Rightarrow> string \<Rightarrow> message_row" where
  "build_row row_id task_id logical_id seq item_type item agent_id subagent_id event_kind tool_name ph
     status created_at =
     \<lparr>mr_id = row_id, mr_task_id = task_id, mr_logical_event_id = logical_id, mr_seq = seq,
      mr_item_type = take 64 item_type,
      mr_item_json = envelope_of item agent_id seq logical_id event_kind tool_name subagent_id ph status,
      mr_agent_id = agent_id, mr_subagent_id = subagent_id, mr_event_kind = event_kind,
      mr_tool_name = tool_name, mr_phase = ph, mr_status = status, mr_created_at = created_at,
      mr_version = seq\<rparr>"

definition insert_task_message :: "(message_row \<Rightarrow> bool) \<Rightarrow> message_row \<Rightarrow> task_db \<Rightarrow> bool \<times> task_db" where
  "insert_task_message accepts row db =
     (if db_clickhouse db \<and> accepts row then (True, db\<lparr>db_messages := db_messages db @ [row]\<rparr>)
      else (False, db))"

definition MAX_ITEM_CHARS :: nat where "MAX_ITEM_CHARS = 256 * 1024"

definition persisted_item_of ::
  "(json \<Rightarrow> string) \<Rightarrow> string \<Rightarrow> (string \<times> json) list \<Rightarrow> (string \<times> json) list" where
  "persisted_item_of dumps resolved_type item =
     (let size = length (dumps (J_obj item)) in
      if MAX_ITEM_CHARS < size
      then [(''id'', obj_get item ''id''), (''type'', J_str resolved_type), (''truncated'', J_bool True),
            (''size'', J_int (int size))]
      else item)"

text \<open>The frame a session event arrives in, and what the handler draws for it.\<close>

record event_frame =
  ev_seq :: int
  ev_event_type :: string
  ev_item_type :: string
  ev_agent_id :: string
  ev_payload_json :: string
  ev_logical_event_id :: string
  ev_event_kind :: string
  ev_tool_name :: string
  ev_subagent_id :: string
  ev_phase :: string
  ev_status :: string

record event_draws =
  ed_row_id :: string
  ed_logical_id :: string
  ed_created_at :: string

text \<open>The item of a frame: its own or one made from a bare error frame; \<open>None\<close> stores nothing.\<close>

definition frame_item ::
  "(string \<Rightarrow> json option) \<Rightarrow> (json \<Rightarrow> string) \<Rightarrow> event_frame
   \<Rightarrow> ((string \<times> json) list \<times> (string \<times> json) list \<times> string) option" where
  "frame_item loads render f =
     (case (if ev_payload_json f = [] then Some J_null else loads (ev_payload_json f)) of
        None \<Rightarrow> None
      | Some payload \<Rightarrow>
          (case (case item_of payload of
                   None \<Rightarrow> synthesize_error_item render payload (ev_event_type f) | x \<Rightarrow> x) of
             None \<Rightarrow> None
           | Some item \<Rightarrow>
               let resolved_type = strip (py_str render
                     (or_json (or_json (obj_get item ''type'') (J_str (ev_item_type f))) (J_str [])))
               in if resolved_type \<notin> set REPLAYABLE_ITEM_TYPES then None
                  else Some (case payload of J_obj d \<Rightarrow> d | _ \<Rightarrow> [], item, resolved_type)))"

text \<open>The ClickHouse row of a frame, given its task.\<close>

definition message_of ::
  "(json \<Rightarrow> string) \<Rightarrow> (json \<Rightarrow> string) \<Rightarrow> event_draws \<Rightarrow> event_frame \<Rightarrow> string
   \<Rightarrow> (string \<times> json) list \<times> (string \<times> json) list \<times> string \<Rightarrow> message_row" where
  "message_of dumps render dr f task_id parts = (case parts of (frame_root, item, resolved_type) \<Rightarrow>
     let logical_id = or_str (or_str (or_str (ev_logical_event_id f)
             (field_text render item ''logical_event_id'')) (field_text render item ''id''))
             (ed_logical_id dr);
         subagent = or_str (or_str (or_str (ev_subagent_id f) (field_text render item ''subagent_id''))
             (field_text render frame_root ''subagent_id'')) (ev_agent_id f);
         tool = or_str (or_str (ev_tool_name f) (field_text render item ''tool_name''))
             (field_text render item ''title'');
         ph = or_str (ev_phase f) (field_text render item ''phase'');
         status = or_str (ev_status f) (field_text render item ''status'')
     in build_row (ed_row_id dr) task_id logical_id (ev_seq f) resolved_type
          (persisted_item_of dumps resolved_type item) (ev_agent_id f) subagent (ev_event_kind f) tool ph
          status (ed_created_at dr))"

definition record_session_event ::
  "(string \<Rightarrow> json option) \<Rightarrow> (json \<Rightarrow> string) \<Rightarrow> (json \<Rightarrow> string) \<Rightarrow> (message_row \<Rightarrow> bool) \<Rightarrow> event_draws
   \<Rightarrow> string \<Rightarrow> event_frame \<Rightarrow> task_db \<Rightarrow> task_db" where
  "record_session_event loads dumps render accepts dr session_id0 f db =
     (let sid = strip session_id0 in
      if sid = [] \<or> \<not> db_up db then db
      else case frame_item loads render f of
        None \<Rightarrow> db
      | Some parts \<Rightarrow>
          (case filter (bound_task sid) (db_tasks db) of
             [] \<Rightarrow> db
           | t # _ \<Rightarrow>
               let row = message_of dumps render dr f (t_id t) parts;
                   (stored, db1) = insert_task_message accepts row db
               in append_event (\<lambda>seq. (plain_event (t_id t) (if seq = 0 then 1 else seq)
                      (if stored then ''item_ref'' else ''item'') (mr_item_type row))
                      \<lparr>e_logical_event_id := mr_logical_event_id row,
                       e_payload := (if stored then None else Some (Payload_item (mr_item_json row)))\<rparr>) db1))"

subsection \<open>The ClickHouse address\<close>

text \<open>\<open>str.isdigit\<close> on code points below 256 includes the superscripts, which \<open>int\<close> refuses:
  the result \<open>None\<close> is that ValueError.\<close>

definition all_isdigit :: "string \<Rightarrow> bool" where
  "all_isdigit s = (s \<noteq> [] \<and> list_all (\<lambda>c. is_digit c \<or> code_of c \<in> {178, 179, 185}) s)"

definition rfind_colon :: "string \<Rightarrow> nat option" where
  "rfind_colon s = map_option (\<lambda>i. length s - 1 - i) (find_sub '':'' (rev s))"

definition parse_addr_local :: "string \<Rightarrow> (string \<times> int option) option" where
  "parse_addr_local addr =
     (let text = strip addr;
          port_of = (\<lambda>host p. map_option (\<lambda>n. (host, Some n)) (int_of_str p));
          last_part = (case rfind_colon text of None \<Rightarrow> text | Some i \<Rightarrow> drop (Suc i) text)
      in if text = [] then Some ([], None)
         else if hd text = CHR ''[''
         then (case find_sub '']'' text of
                 None \<Rightarrow> Some (text, None)
               | Some e \<Rightarrow>
                   let host = drop 1 (take e text); rest = drop (Suc e) text
                   in if prefix '':'' rest \<and> all_isdigit (tl rest) then port_of host (tl rest)
                      else Some (host, None))
         else if 1 < count_list text (CHR '':'') \<and> \<not> all_isdigit last_part then Some (text, None)
         else case rfind_colon text of
           None \<Rightarrow> Some (text, None)
         | Some i \<Rightarrow> if all_isdigit last_part then port_of (take i text) last_part else Some (text, None))"

subsection \<open>Hosted services\<close>

definition offline_row :: "string \<Rightarrow> mcp_service_row \<Rightarrow> mcp_service_row" where
  "offline_row node_id s =
     s\<lparr>ms_host_status := ''dead'', ms_install_state := ''error'', ms_install_step := Step_host_offline,
       ms_install_error := take 4000 (''node '' @ node_id @ '' offline'')\<rparr>"

definition hosted_on :: "string \<Rightarrow> mcp_service_row \<Rightarrow> bool" where
  "hosted_on node_id s = (ms_deploy_scope s = ''node_hosted'' \<and> ms_host_node_id s = node_id)"

text \<open>The ids are read first, then each row is updated by its id.\<close>

definition mark_node_hosted_offline :: "string \<Rightarrow> task_db \<Rightarrow> task_db" where
  "mark_node_hosted_offline node_id0 db =
     (let node_id = strip node_id0 in
      if node_id = [] \<or> \<not> db_up db then db
      else fold (\<lambda>i d. d\<lparr>db_mcp_services := map (\<lambda>s. if ms_id s = i then offline_row node_id s else s)
                    (db_mcp_services d)\<rparr>)
             (map ms_id (filter (hosted_on node_id) (db_mcp_services db))) db)"

end
