(* ===== verification/Ip_Address.thy ===== *)
theory Ip_Address
  imports Codecs
begin

text \<open>
  What service.py uses of the standard library's \<open>ipaddress\<close>: \<open>ip_address(text)\<close> with the version
  and the compressed text of the result (CPython 3.11 and 3.12; from 3.13 on an IPv4-mapped address
  prints its last 32 bits as a dotted quad). A refused text is \<open>None\<close>.
\<close>

subsection \<open>IPv4\<close>

definition parse_octet :: "string \<Rightarrow> nat option" where
  "parse_octet s =
     (if s = [] \<or> \<not> list_all is_digit s \<or> 3 < length s \<or> (hd s = CHR ''0'' \<and> length s \<noteq> 1) then None
      else let n = nat_of_digits s in if 255 < n then None else Some n)"

definition parse_ipv4 :: "string \<Rightarrow> nat list option" where
  "parse_ipv4 s = (let octets = split_on (CHR ''.'') s in
     if length octets \<noteq> 4 then None else those (map parse_octet octets))"

definition format_ipv4 :: "nat list \<Rightarrow> string" where
  "format_ipv4 os = join_with ''.'' (map str_of_nat os)"

subsection \<open>IPv6\<close>

definition parse_hextet :: "string \<Rightarrow> nat option" where
  "parse_hextet s =
     (if s = [] \<or> 4 < length s then None
      else map_option (foldl (\<lambda>n d. 16 * n + d) 0) (those (map hex_digit_of s)))"

definition hex_digit_lower :: "nat \<Rightarrow> char" where
  "hex_digit_lower d = (if d < 10 then char_of (48 + d) else char_of (87 + d))"

fun hex_lower :: "nat \<Rightarrow> string" where
  "hex_lower n = (if n < 16 then [hex_digit_lower n] else hex_lower (n div 16) @ [hex_digit_lower (n mod 16)])"

declare hex_lower.simps [simp del]

text \<open>The colon-separated parts, an embedded dotted quad rewritten to two hextets.\<close>

definition ipv6_parts :: "string \<Rightarrow> string list option" where
  "ipv6_parts s = (let parts = split_on (CHR '':'') s in
     if s = [] \<or> length parts < 3 then None
     else let expanded = (if CHR ''.'' \<in> set (last parts)
            then (case parse_ipv4 (last parts) of
                    Some [a, b, c, d] \<Rightarrow>
                      Some (butlast parts @ [hex_lower (256 * a + b), hex_lower (256 * c + d)])
                  | _ \<Rightarrow> None)
            else Some parts)
          in case expanded of None \<Rightarrow> None | Some ps \<Rightarrow> if 9 < length ps then None else Some ps)"

definition ipv6_hextets :: "string list \<Rightarrow> nat list option" where
  "ipv6_hextets ps =
     (case filter (\<lambda>i. ps ! i = []) [1..<length ps - 1] of
        [] \<Rightarrow> if length ps \<noteq> 8 then None else those (map parse_hextet ps)
      | [k] \<Rightarrow>
          let hi = (if hd ps = [] then k - 1 else k);
              lo0 = length ps - k - 1;
              lo = (if last ps = [] then lo0 - 1 else lo0)
          in if (hd ps = [] \<and> hi \<noteq> 0) \<or> (last ps = [] \<and> lo \<noteq> 0) \<or> 8 \<le> hi + lo then None
             else (case (those (map parse_hextet (take hi ps)),
                         those (map parse_hextet (drop (length ps - lo) ps))) of
                     (Some a, Some b) \<Rightarrow> Some (a @ replicate (8 - (hi + lo)) 0 @ b)
                   | _ \<Rightarrow> None)
      | _ \<Rightarrow> None)"

definition parse_ipv6 :: "string \<Rightarrow> nat list option" where
  "parse_ipv6 s = (case ipv6_parts s of None \<Rightarrow> None | Some ps \<Rightarrow> ipv6_hextets ps)"

text \<open>The first longest run of zero hextets: start and length.\<close>

definition zero_run :: "nat list \<Rightarrow> nat \<times> nat" where
  "zero_run hs = fold (\<lambda>i (start, n). let m = length (takeWhile (\<lambda>h. h = 0) (drop i hs))
                                    in if n < m then (i, m) else (start, n)) [0..<length hs] (0, 0)"

definition format_ipv6 :: "nat list \<Rightarrow> string" where
  "format_ipv6 hs = (case zero_run hs of (start, n) \<Rightarrow>
     let texts = map hex_lower hs in
     join_with '':''
       (if n \<le> 1 then texts
        else (if start = 0 then [[]] else []) @ take start texts @ [[]] @ drop (start + n) texts
             @ (if start + n = length hs then [[]] else [])))"

subsection \<open>Either\<close>

text \<open>The version and \<open>compressed\<close>.\<close>

definition ip_address :: "string \<Rightarrow> (nat \<times> string) option" where
  "ip_address s =
     (if CHR ''/'' \<in> set s then None
      else case parse_ipv4 s of
        Some os \<Rightarrow> Some (4, format_ipv4 os)
      | None \<Rightarrow>
          let addr = takeWhile (\<lambda>c. c \<noteq> CHR ''%'') s;
              scope = (if CHR ''%'' \<in> set s then Some (drop (Suc (length addr)) s) else None)
          in if (case scope of None \<Rightarrow> False | Some z \<Rightarrow> z = [] \<or> CHR ''%'' \<in> set z) then None
             else map_option (\<lambda>hs. (6, format_ipv6 hs @ (case scope of None \<Rightarrow> [] | Some z \<Rightarrow> CHR ''%'' # z)))
                    (parse_ipv6 addr))"

definition validated_report_ip :: "string \<Rightarrow> nat \<Rightarrow> string" where
  "validated_report_ip value0 version = (let text = strip value0 in
     if text = [] then []
     else case ip_address text of
       None \<Rightarrow> [] | Some (v, compressed) \<Rightarrow> if v \<noteq> version then [] else compressed)"

end
