(* ===== verification/Service_Upstream.thy ===== *)
theory Service_Upstream
  imports Service_Upgrades Task_Trail Ip_Address Upstream_Reader
begin

text \<open>
  The life of a NodeConnect stream: the handshake of connect_stream.py, the routing of every
  upstream frame (\<open>handle_upstream\<close>), and the end of the stream. The frames of one stream are
  handled one after the other; the awaits of a frame's handler are on the two databases, whose
  statements are steps of their own on state no other step of the handler reads, so a frame is one
  step. The \<open>on_tool_runs\<close> hook is never set in this process.
\<close>

subsection \<open>Upstream frames\<close>

record heartbeat =
  hb_active_session_ids :: "string list"
  hb_active_terminal_ids :: "string list"
  hb_active_tool_runs :: "active_tool_run list"
  hb_public_ip_report :: "public_ip_report option"

record session_stage =
  st_session_id :: string
  st_stage :: int
  st_ok :: bool
  st_detail :: string
  st_error :: string

datatype upstream =
    U_register registration
  | U_heartbeat heartbeat
  | U_session_output session_output
  | U_session_result session_result
  | U_session_stage session_stage
  | U_session_event session_structured
  | U_command_ack command_ack
  | U_host_exec_result host_exec_result
  | U_file_upload_result file_upload_result
  | U_tunnel_response tunnel_response
  | U_terminal terminal_frame
  | U_terminal_list_result terminal_list_result
  | U_tool_run_event tool_run_event
  | U_ios_devices_report ios_devices_report
  | U_ios_job_event ios_job_event
  | U_ios_job_result ios_job_result
  | U_node_build_event build_event
  | U_node_build_result build_result
  | U_host_tool_job_event host_tool_event
  | U_host_tool_job_result host_tool_result
  | U_node_upgrade_event upgrade_event
  | U_error string string
  | U_nothing

text \<open>The service and the shared task tables.\<close>

record world =
  w_service :: service
  w_tasks :: task_db

text \<open>
  What a handler is given: the code outside the sources (JSON, the UTF-8 decoding of a stderr tail,
  ClickHouse), and per frame the clock and the drawn ids.
\<close>

record task_externals =
  tx_loads :: "string \<Rightarrow> json option"
  tx_dumps :: "json \<Rightarrow> string"
  tx_render :: "json \<Rightarrow> string"
  tx_accepts :: "message_row \<Rightarrow> bool"
  tx_decode :: "bytes \<Rightarrow> string"

record frame_draws =
  fd_now :: microseconds
  fd_stamp :: string
  fd_event :: event_draws

definition on_service :: "(service \<Rightarrow> service) \<Rightarrow> world \<Rightarrow> world" where
  "on_service f w = w\<lparr>w_service := f (w_service w)\<rparr>"

definition on_tasks :: "(task_db \<Rightarrow> task_db) \<Rightarrow> world \<Rightarrow> world" where
  "on_tasks f w = w\<lparr>w_tasks := f (w_tasks w)\<rparr>"

definition on_conn :: "nat \<Rightarrow> (frame connection \<Rightarrow> frame connection) \<Rightarrow> world \<Rightarrow> world" where
  "on_conn i f = on_service (\<lambda>sv. put_conn i (f (conn_at i sv)) sv)"

subsection \<open>Handlers that touch more than the connection\<close>

definition beat :: "microseconds \<Rightarrow> string \<Rightarrow> heartbeat \<Rightarrow> service \<Rightarrow> service" where
  "beat now node_id hb sv =
     (let stored = (case hb_public_ip_report hb of
            None \<Rightarrow> touch_node_last_seen now node_id None (sv_ledger sv)
          | Some p \<Rightarrow> patch_node_public_ip_report now node_id
              (p\<lparr>pr_ipv4 := validated_report_ip (pr_ipv4 p) 4, pr_ipv6 := validated_report_ip (pr_ipv6 p) 6,
                 pr_ipv4_resolved_at := strip (pr_ipv4_resolved_at p),
                 pr_ipv6_resolved_at := strip (pr_ipv6_resolved_at p)\<rparr>) (sv_ledger sv))
      in case stored of Inl _ \<Rightarrow> sv | Inr db \<Rightarrow> sv\<lparr>sv_ledger := db\<rparr>)"

definition note_beat :: "microseconds \<Rightarrow> heartbeat \<Rightarrow> frame connection \<Rightarrow> frame connection" where
  "note_beat now hb c = note_active_tool_runs (hb_active_tool_runs hb)
     (note_active_terminal_ids (hb_active_terminal_ids hb)
       (note_heartbeat now (Some (hb_active_session_ids hb)) c))"

definition session_ended ::
  "task_externals \<Rightarrow> frame_draws \<Rightarrow> nat \<Rightarrow> session_result \<Rightarrow> world \<Rightarrow> world" where
  "session_ended tx dr i res w =
     (let w1 = on_conn i (deliver_result (Some res)) w;
          tail = stderr_tail (tx_decode tx) (sr_session_id res) (conn_at i (w_service w1));
          w2 = on_tasks (finalize_task_for_session (fd_now dr) (sr_session_id res) (sr_success res)
                 (sr_exit_code res) (sr_error res) tail) w1
      in on_conn i (forget_stderr (sr_session_id res)) w2)"

text \<open>\<open>SessionStage.Name\<close>, or the number of a stage this build does not know.\<close>

definition stage_name_of :: "int \<Rightarrow> string" where
  "stage_name_of n =
     (if n = 0 then ''SESSION_STAGE_UNSPECIFIED'' else if n = 1 then ''SESSION_STAGE_WORKSPACE_PREPARE''
      else if n = 2 then ''SESSION_STAGE_GIT_CLONE'' else if n = 3 then ''SESSION_STAGE_RUNTIME_PREFLIGHT''
      else if n = 4 then ''SESSION_STAGE_RUNTIME_START'' else if n = 5 then ''SESSION_STAGE_RUNNING''
      else if n = 6 then ''SESSION_STAGE_RESOURCE_SYNC'' else ''SESSION_STAGE_'' @ str_of_int n)"

definition event_frame_of :: "session_structured \<Rightarrow> event_frame" where
  "event_frame_of e =
     \<lparr>ev_seq = ss_seq e, ev_event_type = ss_event_type e, ev_item_type = ss_item_type e,
      ev_agent_id = ss_agent_id e, ev_payload_json = ss_payload_json e,
      ev_logical_event_id = ss_logical_event_id e, ev_event_kind = ss_event_kind e,
      ev_tool_name = ss_tool_name e, ev_subagent_id = ss_subagent_id e, ev_phase = ss_phase e,
      ev_status = ss_status e\<rparr>"

text \<open>What a structured event does to the task tables.\<close>

definition trail_event ::
  "task_externals \<Rightarrow> frame_draws \<Rightarrow> session_structured \<Rightarrow> task_db \<Rightarrow> task_db" where
  "trail_event tx dr e db =
     (let sid = ss_session_id e; payload = ss_payload_json e;
          db1 = record_session_event (tx_loads tx) (tx_dumps tx) (tx_render tx) (tx_accepts tx)
                  (fd_event dr) sid (event_frame_of e) db;
          db2 = (if ss_event_type e \<in> {''input_status'', ''agent_turn_started'', ''agent_turn_completed''}
                 then record_message_status (tx_loads tx) (tx_render tx) (fd_now dr) sid
                        (ss_event_type e) payload db1
                 else db1)
      in if ss_event_type e \<in> {''agent_turn_completed'', ''input_status''}
         then sync_task_provider_thread (tx_loads tx) (tx_render tx) (fd_now dr) sid payload db2
         else if ss_event_type e = ''error'' \<and> ss_subagent_id e = []
         then fail_inflight_messages sid (error_reason_from_payload (tx_loads tx) (tx_render tx) payload)
                (case error_message_id_from_payload (tx_loads tx) (tx_render tx) payload of
                   [] \<Rightarrow> None | m \<Rightarrow> Some m) db2
         else db2)"

definition host_tool_ended :: "frame_draws \<Rightarrow> string \<Rightarrow> host_tool_result \<Rightarrow> service \<Rightarrow> service" where
  "host_tool_ended dr node_id res sv =
     (if hr_ok res \<and> strip (hr_xcodebuild_version res) \<noteq> []
      then store_host_tool_versions (fd_now dr) node_id [] [] (strip (hr_xcodebuild_version res)) sv
      else sv)"

subsection \<open>Routing\<close>

text \<open>The exception of a handler, if one leaves it, and the world.\<close>

definition handle_upstream ::
  "task_externals \<Rightarrow> frame_draws \<Rightarrow> string \<Rightarrow> nat \<Rightarrow> upstream \<Rightarrow> world \<Rightarrow> escaped option \<times> world" where
  "handle_upstream tx dr node_id i fr w = (case fr of
     U_heartbeat hb \<Rightarrow> (None, on_conn i (note_beat (fd_now dr) hb) (on_service (beat (fd_now dr) node_id hb) w))
   | U_session_output out \<Rightarrow> (None, on_conn i (deliver_output (Some out)) w)
   | U_session_result res \<Rightarrow> (None, session_ended tx dr i res w)
   | U_session_stage st \<Rightarrow> (None, on_tasks (record_session_stage (fd_now dr) (st_session_id st)
        (stage_name_of (st_stage st)) (st_ok st) (st_detail st) (st_error st)) w)
   | U_session_event e \<Rightarrow> (None, on_tasks (trail_event tx dr e) (on_conn i (deliver_structured (Some e)) w))
   | U_command_ack a \<Rightarrow> (None, on_conn i (deliver_ack (Some a)) w)
   | U_host_exec_result r \<Rightarrow> (None, on_conn i (deliver_host_exec (Some r)) w)
   | U_file_upload_result r \<Rightarrow> (None, on_conn i (deliver_file_upload (Some r)) w)
   | U_tunnel_response r \<Rightarrow> (None, on_conn i (deliver_tunnel_response (Some r)) w)
   | U_terminal t \<Rightarrow> (None, on_conn i (deliver_terminal_frame (terminal_frame_id t) t) w)
   | U_terminal_list_result r \<Rightarrow> (None, on_conn i (deliver_terminal_list (Some r)) w)
   | U_tool_run_event e \<Rightarrow> (None, on_conn i (deliver_tool_run_event (Some e)) w)
   | U_ios_devices_report r \<Rightarrow> (None, on_conn i (note_ios_inventory r) w)
   | U_ios_job_event e \<Rightarrow>
       (let w1 = on_conn i (deliver_ios_job_event (Some e)) w;
            (c, err) = update_ios_job_snapshot_event (fd_stamp dr) e (conn_at i (w_service w1))
        in (map_option Attribute_error err, on_conn i (\<lambda>_. c) w1))
   | U_ios_job_result r \<Rightarrow> (None, on_conn i (deliver_ios_job_result (fd_stamp dr) (Some r)) w)
   | U_node_build_event e \<Rightarrow>
       (None, on_conn i (\<lambda>c. update_build_snapshot_event (fd_stamp dr) e (deliver_build_event (Some e) c)) w)
   | U_node_build_result r \<Rightarrow> (None, on_conn i (deliver_build_result (fd_stamp dr) (Some r)) w)
   | U_host_tool_job_event e \<Rightarrow> (None, on_conn i
        (\<lambda>c. update_host_tool_snapshot_event (fd_stamp dr) e (deliver_host_tool_event (Some e) c)) w)
   | U_host_tool_job_result r \<Rightarrow> (None, on_service (host_tool_ended dr node_id r)
        (on_conn i (deliver_host_tool_result (fd_stamp dr) (Some r)) w))
   | U_node_upgrade_event e \<Rightarrow> (None, on_service (with_tracker (apply_event (fd_stamp dr) node_id e)) w)
   | U_error code msg \<Rightarrow> (None, on_conn i (note_error code msg) w)
   | _ \<Rightarrow> (None, w))"

text \<open>The body of the upstream loop: a raising frame is logged and skipped.\<close>

definition serve_frame ::
  "task_externals \<Rightarrow> string \<Rightarrow> nat \<Rightarrow> frame_draws \<times> upstream \<Rightarrow> world \<Rightarrow> world" where
  "serve_frame tx node_id i m w = snd (handle_upstream tx (fst m) node_id i (snd m) w)"

definition serve_frames ::
  "task_externals \<Rightarrow> string \<Rightarrow> nat \<Rightarrow> (frame_draws \<times> upstream) list \<Rightarrow> world \<Rightarrow> world" where
  "serve_frames tx node_id i ms w = fold (serve_frame tx node_id i) ms w"

subsection \<open>The handshake\<close>

text \<open>The headers are latin-1 text here; a later header of the same name wins.\<close>

definition header_text :: "(string \<times> string) list \<Rightarrow> string \<Rightarrow> string" where
  "header_text headers name =
     (case map_of (rev (map (\<lambda>(k, v). (lower k, v)) headers)) name of None \<Rightarrow> [] | Some v \<Rightarrow> v)"

definition peer_address_of :: "(string \<times> string) list \<Rightarrow> (string \<times> int option) option \<Rightarrow> string" where
  "peer_address_of headers client =
     (let first = strip (hd (split_on (CHR '','') (header_text headers ''x-forwarded-for'')));
          real_ip = strip (header_text headers ''x-real-ip'')
      in if first \<noteq> [] then first
         else if real_ip \<noteq> [] then real_ip
         else case client of
           None \<Rightarrow> []
         | Some (host0, port) \<Rightarrow>
             let host = strip host0 in
             if host = [] then []
             else (case port of None \<Rightarrow> host
                   | Some p \<Rightarrow> if p = 0 then host else host @ '':'' @ str_of_int p))"

text \<open>Frames the handshake writes itself, before the downstream queue exists.\<close>

datatype greeting =
    Server_hello string string         \<comment> \<open>server time, gateway origin\<close>
  | Registered_as string int bool      \<comment> \<open>node id, status, online\<close>

text \<open>How the handshake ends: the trailer's error, the record and its connection, or not at all
  while the client sends nothing.\<close>

datatype handshake = Stream_refused rpc_error | Stream_live node_record nat | Stream_waiting

definition upstream_kind :: "upstream \<Rightarrow> string" where
  "upstream_kind u = (case u of
     U_register _ \<Rightarrow> ''register'' | U_heartbeat _ \<Rightarrow> ''heartbeat'' | U_session_output _ \<Rightarrow> ''session_output''
   | U_session_result _ \<Rightarrow> ''session_result'' | U_session_stage _ \<Rightarrow> ''session_stage''
   | U_session_event _ \<Rightarrow> ''session_event'' | U_command_ack _ \<Rightarrow> ''command_ack''
   | U_host_exec_result _ \<Rightarrow> ''host_exec_result'' | U_file_upload_result _ \<Rightarrow> ''file_upload_result''
   | U_tunnel_response _ \<Rightarrow> ''tunnel_response''
   | U_terminal t \<Rightarrow> (case t of Term_output _ _ _ _ \<Rightarrow> ''terminal_output'' | _ \<Rightarrow> ''terminal_exit'')
   | U_terminal_list_result _ \<Rightarrow> ''terminal_list_result'' | U_tool_run_event _ \<Rightarrow> ''tool_run_event''
   | U_ios_devices_report _ \<Rightarrow> ''ios_devices_report'' | U_ios_job_event _ \<Rightarrow> ''ios_job_event''
   | U_ios_job_result _ \<Rightarrow> ''ios_job_result'' | U_node_build_event _ \<Rightarrow> ''node_build_event''
   | U_node_build_result _ \<Rightarrow> ''node_build_result'' | U_host_tool_job_event _ \<Rightarrow> ''host_tool_job_event''
   | U_host_tool_job_result _ \<Rightarrow> ''host_tool_job_result'' | U_node_upgrade_event _ \<Rightarrow> ''node_upgrade_event''
   | U_error _ _ \<Rightarrow> ''error'' | U_nothing \<Rightarrow> ''None'')"

text \<open>
  The pushes after the registration: the two configuration frames, the terminals' hook and, for a
  host with iOS devices, a discovery. None of their failures ends the stream.
\<close>

definition push_safely :: "nat \<Rightarrow> frame rpc \<Rightarrow> service \<Rightarrow> service" where
  "push_safely i fr sv = (case fr of Inl _ \<Rightarrow> sv | Inr f \<Rightarrow> push_quietly i f sv)"

definition greet ::
  "externals \<Rightarrow> string \<Rightarrow> string \<Rightarrow> string \<Rightarrow> (string \<Rightarrow> nat \<Rightarrow> service \<Rightarrow> service) \<Rightarrow> node_record \<Rightarrow> nat
   \<Rightarrow> service \<Rightarrow> service" where
  "greet ex stamp frame_id request_id hook r i sv =
     (let sv1 = push_safely i (Inr (public_ip_lookup_config_frame stamp sv)) sv;
          sv2 = push_safely i (node_proxy_config_frame (ex_resolve_proxy ex) stamp (n_id r) sv1) sv1;
          sv3 = hook (n_id r) i sv2
      in if dget (n_capabilities r) ''ios_mgmt'' = Some ''true''
         then snd (ios_discover stamp frame_id request_id (n_id r) sv3) else sv3)"

record connect_draws =
  cd_server_time :: microseconds
  cd_server_stamp :: string
  cd_now :: microseconds
  cd_stamp :: string
  cd_frame_id :: string
  cd_request_id :: string
  cd_gateway_public_url :: string      \<comment> \<open>the setting, not drawn\<close>

text \<open>
  \<open>first\<close> is what the reader gives; \<open>gap1\<close> and \<open>gap2\<close> are what other coroutines do while the
  database answers and while the acknowledgement is written; \<open>show\<close> is \<open>str\<close> of an exception.
\<close>

definition node_connect ::
  "externals \<Rightarrow> (escaped \<Rightarrow> string) \<Rightarrow> connect_draws \<Rightarrow> string \<Rightarrow> upstream read_result \<Rightarrow> string
   \<Rightarrow> (service \<Rightarrow> service) \<Rightarrow> (service \<Rightarrow> service) \<Rightarrow> (string \<Rightarrow> nat \<Rightarrow> service \<Rightarrow> service) \<Rightarrow> service
   \<Rightarrow> greeting list \<times> handshake \<times> service" where
  "node_connect ex show dr parse_error first peer gap1 gap2 hook sv =
     (let hello = Server_hello (cd_server_stamp dr)
             (rstrip_char (CHR ''/'') (strip (cd_gateway_public_url dr)));
          refuse = (\<lambda>code msg. Stream_refused (Rpc_error code (Text msg))) in
      case first of
        Read_error \<Rightarrow> ([hello], refuse INTERNAL parse_error, sv)
      | Read_msg (U_register reg) \<Rightarrow>
          (case authenticate_registration (ex_open_with ex) (ex_editors_json ex) (cd_server_time dr)
                  (cd_now dr) (cd_stamp dr) reg peer gap1 sv of
             (Inl (Escaped e), sv1) \<Rightarrow> ([hello], refuse INTERNAL (show e), sv1)
           | (Inl e, sv1) \<Rightarrow> ([hello], Stream_refused e, sv1)
           | (Inr r, sv1) \<Rightarrow>
               if n_status r = NODE_STATUS_REVOKED
               then ([hello, Registered_as (n_id r) (status_to_proto (n_status r)) False],
                     refuse PERMISSION_DENIED (''node '' @ n_id r @ '' is revoked''), sv1)
               else
                 let sv2 = gap2 sv1;
                     (i, reg1) = register (cd_now dr) (n_id r) (rg_capabilities reg) peer (sv_registry sv2);
                     sv3 = sv2\<lparr>sv_registry := reg1\<rparr>;
                     sv4 = put_conn i (note_heartbeat (cd_now dr) None (conn_at i sv3)) sv3
                 in ([hello, Registered_as (n_id r) (status_to_proto (n_status r)) True],
                     Stream_live r i,
                     greet ex (cd_stamp dr) (cd_frame_id dr) (cd_request_id dr) hook r i sv4))
      | Read_msg u \<Rightarrow> ([hello], refuse INVALID_ARGUMENT
          (''node connect: first frame must be register, got '' @ upstream_kind u), sv)
      | Read_eof \<Rightarrow> ([hello], refuse INVALID_ARGUMENT ''node connect: stream closed before register'', sv)
      | Read_blocked \<Rightarrow> ([hello], Stream_waiting, sv))"

text \<open>Whatever ended the stream, its own connection is unregistered, with the hook of the registry.\<close>

definition stream_end :: "string \<Rightarrow> string \<Rightarrow> nat \<Rightarrow> service \<Rightarrow> service" where
  "stream_end stamp node_id i sv = with_hook stamp (unregister node_id (Some i)) sv"

end
