(* ===== verification/Service_Calls.thy ===== *)
theory Service_Calls
  imports Service_Types
begin

text \<open>
  The contract of the calls that wait for a node: between the two halves of a call anything may
  happen on its connection (\<open>conn_step\<close>), and still the caller is answered by a reply to its own
  id, or by the teardown, or gives up, and in every case its waiter is gone from the table.
\<close>

subsection \<open>What traffic does to a reply table\<close>

inductive reply_move :: "('r \<Rightarrow> string) \<Rightarrow> 'r reply_table \<Rightarrow> 'r reply_table \<Rightarrow> bool"
  for key :: "'r \<Rightarrow> string" where
  rm_none: "reply_move key t t"
| rm_await: "reply_move key t (snd (await_reply k t))"
| rm_cancel: "reply_move key t (cancel_reply k t)"
| rm_deliver: "reply_move key t (deliver_reply (key r) r t)"
| rm_fail: "reply_move key t (fail_replies e t)"

text \<open>The waiter \<open>j\<close> opened under \<open>k\<close>: registered under nothing else, answered at most by a reply
  to \<open>k\<close>, and no longer registered once it is settled.\<close>

definition waiter_sound :: "('r \<Rightarrow> string) \<Rightarrow> string \<Rightarrow> nat \<Rightarrow> 'r reply_table \<Rightarrow> bool" where
  "waiter_sound key k j t \<longleftrightarrow> table_ok t \<and> j < length (objs t)
     \<and> (\<forall>k'. dget (slots t) k' = Some j \<longrightarrow> k' = k)
     \<and> (objs t ! j \<noteq> Pending \<longrightarrow> (\<forall>k'. dget (slots t) k' \<noteq> Some j))
     \<and> (\<forall>r. objs t ! j = Resolved r \<longrightarrow> key r = k)"

lemma waiter_sound_opened:
  assumes "table_ok t"
  shows "waiter_sound key k (fst (await_reply k t)) (snd (await_reply k t))"
  using assms table_ok_open [OF assms, of Pending k] table_ok_lt [OF assms]
  by (fastforce simp: waiter_sound_def await_reply_def tab_open_def)

lemma waiter_sound_await:
  "waiter_sound key k j t \<Longrightarrow> waiter_sound key k j (snd (await_reply k' t))"
  using table_ok_open [of t Pending k'] by (auto simp: waiter_sound_def await_reply_def tab_open_def nth_append)

lemma waiter_sound_cancel: "waiter_sound key k j t \<Longrightarrow> waiter_sound key k j (cancel_reply k' t)"
  using table_ok_pop [of t k'] by (auto simp: waiter_sound_def cancel_reply_def)

lemma waiter_sound_fail: "waiter_sound key k j t \<Longrightarrow> waiter_sound key k j (fail_replies e t)"
  by (auto simp: waiter_sound_def fail_replies_def tab_drain_objs settle_def split: if_splits)

lemma waiter_sound_deliver:
  assumes ok: "waiter_sound key k j t"
  shows "waiter_sound key k j (deliver_reply (key r) r t)"
proof (cases "dget (slots t) (key r)")
  case None
  with ok show ?thesis by (simp add: deliver_reply_def)
next
  case (Some i)
  have t: "table_ok (deliver_reply (key r) r t)" using ok by (auto simp: waiter_sound_def)
  have eq: "slots (deliver_reply (key r) r t) = dpop (key r) (slots t)"
    "objs (deliver_reply (key r) r t) = (objs t)[i := settle (Resolved r) (objs t ! i)]"
    using Some by (simp_all add: deliver_reply_def tab_update_def)
  show ?thesis
  proof (cases "i = j")
    case True
    then have "k = key r" "objs t ! j = Pending" "j < length (objs t)"
      using ok Some by (auto simp: waiter_sound_def)
    moreover have "\<forall>k'. k' \<noteq> key r \<longrightarrow> dget (slots t) k' \<noteq> Some j"
      using ok \<open>k = key r\<close> by (auto simp: waiter_sound_def)
    ultimately show ?thesis
      using t True by (simp add: waiter_sound_def eq)
  next
    case False
    with ok t show ?thesis by (auto simp: waiter_sound_def eq split: if_splits)
  qed
qed

lemma waiter_sound_move: "reply_move key t t' \<Longrightarrow> waiter_sound key k j t \<Longrightarrow> waiter_sound key k j t'"
  by (erule reply_move.cases)
    (auto intro: waiter_sound_await waiter_sound_cancel waiter_sound_fail waiter_sound_deliver)

subsection \<open>The contract of a call\<close>

locale call_interface =
  reply_interface table_of register cancel deliver key shut live
  for table_of :: "frame connection \<Rightarrow> 'r reply_table"
    and register :: "string \<Rightarrow> frame connection \<Rightarrow> nat \<times> frame connection"
    and cancel :: "string \<Rightarrow> frame connection \<Rightarrow> frame connection"
    and deliver :: "'r \<Rightarrow> frame connection \<Rightarrow> frame connection"
    and key :: "'r \<Rightarrow> string"
    and shut :: "frame connection \<Rightarrow> frame connection"
    and live :: "frame connection \<Rightarrow> bool" +
  assumes traffic: "conn_step c c' \<Longrightarrow> reply_move key (table_of c) (table_of c')"
    and sending: "send fr c = Inr c' \<Longrightarrow> table_of c' = table_of c"
    and register_queue: "c_downstream (snd (register k c)) = c_downstream c"
begin

text \<open>The frame of a call that has begun is the last one queued.\<close>

lemma begun_frame:
  assumes "begin_call register cancel k fr c = (Inr j, c1)"
  shows "q_items (c_downstream c1) = q_items (c_downstream c) @ [Some fr]"
proof -
  obtain c' where r: "register k c = (j, c')" "send fr c' = Inr c1"
    using assms by (auto simp: begin_call_def split: prod.splits sum.splits)
  with register_queue [of k c] show ?thesis by (auto simp: send_Inr put_nowait_def split: if_splits)
qed

lemma sound_traffic:
  "conn_step\<^sup>*\<^sup>* c c' \<Longrightarrow> waiter_sound key k j (table_of c) \<Longrightarrow> waiter_sound key k j (table_of c')"
  by (induction rule: rtranclp_induct) (auto dest: traffic intro: waiter_sound_move)

text \<open>A frame that could not be queued leaves no waiter.\<close>

lemma unsent_call:
  assumes "begin_call register cancel k fr c = (Inl e, c1)"
  shows "dget (slots (table_of c1)) k = None"
  using assms by (auto simp: begin_call_def cancel_table cancel_reply_def split: prod.splits sum.splits)

lemma begun_call:
  assumes "begin_call register cancel k fr c = (Inr j, c1)" "table_ok (table_of c)"
  shows "waiter_sound key k j (table_of c1)" "dget (slots (table_of c1)) k = Some j"
    "objs (table_of c1) ! j = Pending"
proof -
  obtain c' where r: "register k c = (j, c')" "send fr c' = Inr c1"
    using assms(1) by (auto simp: begin_call_def split: prod.splits sum.splits)
  have t: "table_of c1 = snd (await_reply k (table_of c))"
    using sending [OF r(2)] register_table [of k c] by (simp add: r(1))
  have j: "j = fst (await_reply k (table_of c))"
    using register_id [of k c] by (simp add: r(1) await_reply_def tab_open_def)
  show "waiter_sound key k j (table_of c1)"
    unfolding t j by (rule waiter_sound_opened [OF assms(2)])
  show "dget (slots (table_of c1)) k = Some j" "objs (table_of c1) ! j = Pending"
    unfolding t j by (simp_all add: await_reply_def tab_open_def)
qed

text \<open>The outcome of a call, whatever happened on the connection while it waited.\<close>

lemma call_outcome:
  assumes "table_ok (table_of c)" "begin_call register cancel k fr c = (Inr j, c1)"
    and "conn_step\<^sup>*\<^sup>* c1 c2" "end_call table_of cancel k j c2 = (w, c3)"
  shows "\<forall>k'. dget (slots (table_of c3)) k' \<noteq> Some j" "w = Got r \<Longrightarrow> key r = k"
proof -
  have s: "waiter_sound key k j (table_of c2)"
    using sound_traffic [OF assms(3)] begun_call(1) [OF assms(2,1)] by blast
  have t: "table_of c3 = table_of c2 \<or> table_of c3 = cancel_reply k (table_of c2)"
    using assms(4) by (auto simp: end_call_def cancel_table split: future.splits)
  show "w = Got r \<Longrightarrow> key r = k"
    using assms(4) s by (auto simp: end_call_def waiter_sound_def split: future.splits)
  show "\<forall>k'. dget (slots (table_of c3)) k' \<noteq> Some j"
  proof (cases "objs (table_of c2) ! j = Pending \<or> objs (table_of c2) ! j = Cancelled")
    case True
    then have "table_of c3 = cancel_reply k (table_of c2)"
      using assms(4) by (auto simp: end_call_def cancel_table)
    with s show ?thesis by (auto simp: waiter_sound_def cancel_reply_def)
  next
    case False
    with s t show ?thesis by (auto simp: waiter_sound_def cancel_reply_def split: if_splits)
  qed
qed

end

subsection \<open>The calls of a connection\<close>

lemmas move_intros = rm_none rm_await rm_cancel rm_deliver rm_fail

lemma ack_traffic: "conn_step c c' \<Longrightarrow> reply_move ack_server_frame_id (c_acks c) (c_acks c')"
  by (erule conn_step.cases;
      clarsimp simp: send_Inr downstream_get_Some conn_defs Let_def split_beta move_intros
        split: option.splits if_splits)

lemma host_exec_traffic: "conn_step c c' \<Longrightarrow> reply_move hx_request_id (c_host_execs c) (c_host_execs c')"
  by (erule conn_step.cases;
      clarsimp simp: send_Inr downstream_get_Some conn_defs Let_def split_beta move_intros
        split: option.splits if_splits)

lemma upload_traffic: "conn_step c c' \<Longrightarrow> reply_move fu_upload_id (c_file_uploads c) (c_file_uploads c')"
  by (erule conn_step.cases;
      clarsimp simp: send_Inr downstream_get_Some conn_defs Let_def split_beta move_intros
        split: option.splits if_splits)

lemma terminal_list_traffic: "conn_step c c' \<Longrightarrow> reply_move tl_request_id (c_terminal_lists c) (c_terminal_lists c')"
  by (erule conn_step.cases;
      clarsimp simp: send_Inr downstream_get_Some conn_defs Let_def split_beta move_intros
        split: option.splits if_splits)

lemma send_keeps_tables:
  assumes "send fr c = Inr c'"
  shows "c_acks c' = c_acks c" "c_host_execs c' = c_host_execs c" "c_file_uploads c' = c_file_uploads c"
    "c_terminal_lists c' = c_terminal_lists c"
  using assms by (auto simp: send_Inr)

lemma queue_kept:
  "c_downstream (snd (await_ack k c)) = c_downstream c"
  "c_downstream (snd (await_host_exec k c)) = c_downstream c"
  "c_downstream (snd (await_file_upload k c)) = c_downstream c"
  "c_downstream (snd (await_terminal_list k c)) = c_downstream c"
  by (simp_all add: await_ack_def await_host_exec_def await_file_upload_def await_terminal_list_def split_beta)

interpretation ack_call: call_interface
  c_acks await_ack cancel_ack "\<lambda>r. deliver_ack (Some r)" ack_server_frame_id close Connection.live
  by unfold_locales (auto simp: queue_kept ack_traffic send_keeps_tables)

interpretation host_exec_call: call_interface
  c_host_execs await_host_exec cancel_host_exec "\<lambda>r. deliver_host_exec (Some r)" hx_request_id close Connection.live
  by unfold_locales (auto simp: queue_kept host_exec_traffic send_keeps_tables)

interpretation upload_call: call_interface
  c_file_uploads await_file_upload cancel_file_upload "\<lambda>r. deliver_file_upload (Some r)" fu_upload_id close Connection.live
  by unfold_locales (auto simp: queue_kept upload_traffic send_keeps_tables)

interpretation terminal_list_call: call_interface
  c_terminal_lists await_terminal_list cancel_terminal_list "\<lambda>r. deliver_terminal_list (Some r)" tl_request_id close Connection.live
  by unfold_locales (auto simp: queue_kept terminal_list_traffic send_keeps_tables)

subsection \<open>Calls through the service\<close>

lemma conn_at_put [simp]:
  "i < length (r_heap (sv_registry sv)) \<Longrightarrow> conn_at i (put_conn i c sv) = c"
  by (simp add: conn_at_def put_conn_def)

lemma conn_at_put_other [simp]: "j \<noteq> i \<Longrightarrow> conn_at j (put_conn i c sv) = conn_at j sv"
  by (simp add: conn_at_def put_conn_def)

lemma put_conn_frame [simp]:
  "sv_ledger (put_conn i c sv) = sv_ledger sv" "sv_replay (put_conn i c sv) = sv_replay sv"
  "sv_tracker (put_conn i c sv) = sv_tracker sv" "sv_master_key (put_conn i c sv) = sv_master_key sv"
  "r_conns (sv_registry (put_conn i c sv)) = r_conns (sv_registry sv)"
  "length (r_heap (sv_registry (put_conn i c sv))) = length (r_heap (sv_registry sv))"
  by (simp_all add: put_conn_def)

lemma begin_on_outcome:
  assumes "begin_on i k f sv = (res, sv1)"
  obtains c where "sv1 = put_conn i c sv" "f (conn_at i sv) = (map_sum id cl_fut res, c)"
    "\<And>cl. res = Inr cl \<Longrightarrow> cl_conn cl = i \<and> cl_key cl = k"
proof -
  obtain a c where b: "f (conn_at i sv) = (a, c)" by fastforce
  with assms have "res = map_sum id (\<lambda>j. \<lparr>cl_conn = i, cl_key = k, cl_fut = j\<rparr>) a" "sv1 = put_conn i c sv"
    by (simp_all add: begin_on_def)
  with b show thesis by (intro that [of c]; cases a) auto
qed

text \<open>Waiting never touches the ledger.\<close>

lemma calls_keep_ledger [simp]:
  "sv_ledger (snd (begin_on i k f sv)) = sv_ledger sv" "sv_ledger (snd (begin_ack i k' stamp p sv)) = sv_ledger sv"
  "sv_ledger (snd (end_on tab cancel cl sv)) = sv_ledger sv" "sv_ledger (snd (end_ack cl sv)) = sv_ledger sv"
  by (simp_all add: begin_on_def begin_ack_def end_on_def end_ack_def split_beta)

text \<open>C3: every call of the service that waits for a node cleans up after itself. If its frame
  cannot be queued nothing stays registered under its id; and once it has been answered, cut off
  or timed out, its future is registered under no id any more, whatever happened on the connection
  in between, and an answer it got carries its own id.\<close>

theorem calls_leave_no_waiter:
  assumes "i < length (r_heap (sv_registry sv))" "tables_ok (conn_at i sv)"
    and "begin_ack i frame_id stamp p sv = (res, sv1)"
    and "conn_step\<^sup>*\<^sup>* (conn_at i sv1) (conn_at i sv2)" "i < length (r_heap (sv_registry sv2))"
  shows "case res of
       Inl e \<Rightarrow> dget (slots (c_acks (conn_at i sv1))) frame_id = None
     | Inr cl \<Rightarrow> (case end_ack cl sv2 of (w, sv3) \<Rightarrow>
         (\<forall>k. dget (slots (c_acks (conn_at i sv3))) k \<noteq> Some (cl_fut cl))
         \<and> (\<forall>a. w = Got a \<longrightarrow> ack_server_frame_id a = frame_id))"
proof -
  obtain c where c: "sv1 = put_conn i c sv"
    "begin_call await_ack cancel_ack frame_id (new_frame frame_id stamp p) (conn_at i sv)
       = (map_sum id cl_fut res, c)"
    "\<And>cl. res = Inr cl \<Longrightarrow> cl_conn cl = i \<and> cl_key cl = frame_id"
    using begin_on_outcome [OF assms(3) [unfolded begin_ack_def]] by blast
  have at: "conn_at i sv1 = c" using assms(1) by (simp add: c(1))
  have ok: "table_ok (c_acks (conn_at i sv))" using assms(2) by (simp add: tables_ok_def)
  show ?thesis
  proof (cases res)
    case (Inl e)
    with ack_call.unsent_call [of frame_id _ _ e c] c(2) show ?thesis by (simp add: at)
  next
    case (Inr cl)
    obtain w c3 where e: "end_call c_acks cancel_ack frame_id (cl_fut cl) (conn_at i sv2) = (w, c3)"
      by (cases "end_call c_acks cancel_ack frame_id (cl_fut cl) (conn_at i sv2)")
    have "begin_call await_ack cancel_ack frame_id (new_frame frame_id stamp p) (conn_at i sv)
        = (Inr (cl_fut cl), c)" using c(2) Inr by simp
    from ack_call.call_outcome [OF ok this assms(4) [unfolded at] e] Inr c(3) e assms(5)
    show ?thesis by (simp add: end_ack_def end_on_def)
  qed
qed

subsection \<open>A sample\<close>

text \<open>One approved execution node, connected, for the concrete instances below.\<close>

definition sample_caps :: capabilities where
  "sample_caps = \<lparr>caps_os = ''linux'', caps_arch = ''amd64'', caps_docker = False,
     caps_providers = [''codex''], caps_labels = [], caps_editors = []\<rparr>"

definition sample_node_row :: node_row where
  "sample_node_row = \<lparr>n_id = ''n1'', n_name = ''n1'', n_status = ''approved'', n_role = ''execution'',
     n_startup_method = ''standalone'', n_manager_node_id = [], n_credential_secret_enc = [],
     n_platform = ''linux/amd64'', n_capabilities = [(''os'', ''linux''), (''arch'', ''amd64'')],
     n_capacity = no_capacity, n_proxy_config_id = [], n_last_proxy_config_id = [],
     n_proxy_revision = 1, n_last_seen_at = Some 0, n_created_at = 0, n_updated_at = 0\<rparr>"

definition sample_service :: service where
  "sample_service = \<lparr>sv_ledger = \<lparr>nodes = [(''n1'', sample_node_row)], sessions = [], lookup_config = None\<rparr>,
     sv_registry = \<lparr>r_heap = [new_connection 0 ''n1'' (Some sample_caps) []], r_conns = [(''n1'', 0)],
       r_on_disconnect = True, r_fired = []\<rparr>,
     sv_replay = new_replay_cache, sv_tracker = [], sv_master_key = replicate 32 0,
     sv_server_url = ''http://s'', sv_gateway_origin = ''http://s'', sv_agent_image = []\<rparr>"

lemma sample_conn [simp]:
  "conn_at 0 sample_service = new_connection 0 ''n1'' (Some sample_caps) []"
  "length (r_heap (sv_registry sample_service)) = Suc 0"
  by (simp_all add: sample_service_def conn_at_def)

lemma sample_begin_ack:
  "begin_ack 0 ''f1'' ''t'' P_refresh_labels sample_service
     = (Inr \<lparr>cl_conn = 0, cl_key = ''f1'', cl_fut = 0\<rparr>, put_conn 0 ((new_connection 0 ''n1'' (Some sample_caps) [])
         \<lparr>c_acks := \<lparr>slots = [(''f1'', 0)], objs = [Pending]\<rparr>,
          c_downstream := \<lparr>q_max = DOWNSTREAM_BUFFER, q_items = [Some (new_frame ''f1'' ''t'' P_refresh_labels)]\<rparr>\<rparr>)
       sample_service)"
  by (simp add: begin_ack_def begin_on_def begin_call_def await_ack_def await_reply_def tab_open_def
      send_def put_nowait_def q_full_def new_connection_def empty_table_def new_queue_def DOWNSTREAM_BUFFER_def)

lemma calls_leave_no_waiter_witness:
  "\<forall>k. dget (slots (c_acks (conn_at 0 (snd (end_ack \<lparr>cl_conn = 0, cl_key = ''f1'', cl_fut = 0\<rparr>
      (put_conn 0 (deliver_ack (Some (sample_ack ''f1'' True)) (conn_at 0
        (snd (begin_ack 0 ''f1'' ''t'' P_refresh_labels sample_service)))) sample_service)))))) k \<noteq> Some 0"
proof -
  let ?c = "conn_at 0 (snd (begin_ack 0 ''f1'' ''t'' P_refresh_labels sample_service))"
  let ?sv2 = "put_conn 0 (deliver_ack (Some (sample_ack ''f1'' True)) ?c) sample_service"
  have step: "conn_step\<^sup>*\<^sup>* ?c (conn_at 0 ?sv2)"
    by (simp add: cs_deliver_ack r_into_rtranclp del: sample_conn(1))
  show ?thesis
    using calls_leave_no_waiter [of 0 sample_service "''f1''" "''t''" P_refresh_labels
        "fst (begin_ack 0 ''f1'' ''t'' P_refresh_labels sample_service)"
        "snd (begin_ack 0 ''f1'' ''t'' P_refresh_labels sample_service)" ?sv2] step
    by (simp add: sample_begin_ack tables_ok_new split_beta)
qed

end
