(* ===== verification/Admission_Safety.thy ===== *)
theory Admission_Safety
  imports Service_Upstream Service_Calls
begin

text \<open>
  Who gets in: what a NodeConnect stream proves before it goes live, what a refusal reveals and
  leaves behind, what a revocation cuts off, and that an onboarded node can use the secret it was
  given. The operations are those of \<open>Service_Nodes\<close>, \<open>Service_Admin\<close> and \<open>Service_Upstream\<close>.
\<close>

named_theorems admission \<open>facts on looking a node up\<close>

subsection \<open>Looking a node up\<close>

lemma find_node_eq [admission]:
  "find_node n sv = (if strip n = [] then None else dget (nodes (sv_ledger sv)) (strip n))"
  by (simp add: find_node_def get_node_if_exists_def Let_def)

lemma find_node_ok:
  assumes "ledger_ok (sv_ledger sv)" "find_node n sv = Some r"
  shows "n_id r = strip n" "strip (n_id r) = n_id r" "n_id r \<noteq> []"
  using assms ledger_ok_get(1) [OF assms(1), of "strip n" r]
  by (auto simp: find_node_eq node_ok_def split: if_splits)

subsection \<open>Authentication\<close>

lemma authenticate_accepts:
  assumes "authenticate open_with t reg sv = (Inr r, sv1)"
  obtains secret where "find_node (strip (rg_node_id reg)) sv = Some r" "n_status r \<noteq> NODE_STATUS_REVOKED"
    "open_credential open_with (n_credential_secret_enc r) sv = Some secret"
    "\<exists>d \<in> {-2..2}. step_matches secret (strip (rg_totp_code reg)) (counter_at t + d)"
    "\<not> claimed (n_id r) (strip (rg_totp_code reg)) t (sv_replay sv)"
    "sv1 = sv\<lparr>sv_replay := snd (claim (n_id r) (strip (rg_totp_code reg)) t (sv_replay sv))\<rparr>"
proof -
  obtain secret rc where s: "find_node (strip (rg_node_id reg)) sv = Some r" "n_status r \<noteq> NODE_STATUS_REVOKED"
    "open_credential open_with (n_credential_secret_enc r) sv = Some secret"
    "validate secret (strip (rg_totp_code reg)) t (Some (sv_replay sv)) (n_id r) = (True, rc)"
    "sv1 = (case rc of None \<Rightarrow> sv | Some rc \<Rightarrow> sv\<lparr>sv_replay := rc\<rparr>)"
    using assms by (auto simp: authenticate_def Let_def fail_rpc_def split: if_splits option.splits prod.splits)
  from validate_accepts [OF s(4)] s show thesis by (intro that [of secret]) simp_all
qed

lemma authenticate_frame:
  "\<exists>rc. snd (authenticate open_with t reg sv) = sv\<lparr>sv_replay := rc\<rparr>"
proof -
  have "\<exists>rc. sv = sv\<lparr>sv_replay := rc\<rparr>" by (intro exI [of _ "sv_replay sv"]) simp
  then show ?thesis
    by (auto simp: authenticate_def Let_def split: option.splits prod.splits if_splits)
qed

text \<open>Re-registering keeps the administrative fields of the row.\<close>

lemma upsert_existing:
  assumes "upsert_node now item db = Inr (r, db')" "dget (nodes db) (strip (n_id item)) = Some old"
  shows "n_id r = n_id old" "n_status r = n_status old" "n_role r = n_role old"
    "dget (nodes db') k = (if k = strip (n_id item) then Some r else dget (nodes db) k)"
  using assms by (auto simp: upsert_node_def get_node_def get_node_if_exists_def Let_def split: if_splits)

lemma upsert_fresh:
  assumes "upsert_node now item db = Inr (r, db')" "dget (nodes db) (strip (n_id item)) = None"
  shows "n_id r = strip (n_id item)" "n_status r = normalize_node_status (n_status item)"
    "n_credential_secret_enc r = n_credential_secret_enc item" "strip (n_id item) \<noteq> []"
    "dget (nodes db') (strip (n_id item)) = Some r"
  using assms by (auto simp: upsert_node_def get_node_def get_node_if_exists_def Let_def split: if_splits)

lemma refreshed_id [simp]: "n_id (refreshed_record ej now r reg peer) = n_id r"
  "n_status (refreshed_record ej now r reg peer) = n_status r"
  by (simp_all add: refreshed_record_def Let_def)

lemma admit_row:
  assumes "admit ej now stamp reg peer r sv = (Inr row, sv')" "ledger_ok (sv_ledger sv)"
    and "strip (n_id r) = n_id r"
  shows "n_id row = n_id r"
    "find_node (n_id r) sv = Some old \<Longrightarrow> n_status row = n_status old \<and> n_role row = n_role old"
proof -
  obtain db where u: "upsert_node now (refreshed_record ej now r reg peer) (sv_ledger sv) = Inr (row, db)"
    using assms(1) by (auto simp: admit_def Let_def split: sum.splits)
  have ne: "n_id r \<noteq> []" using u assms(3) by (auto simp: upsert_node_def)
  show "n_id row = n_id r"
  proof (cases "dget (nodes (sv_ledger sv)) (n_id r)")
    case None
    with upsert_fresh(1) [OF u] assms(3) show ?thesis by simp
  next
    case (Some old)
    with upsert_existing(1) [OF u] find_node_ok(1) [OF assms(2), of "n_id r" old] assms(3) ne
    show ?thesis by (simp add: find_node_eq)
  qed
  show "find_node (n_id r) sv = Some old \<Longrightarrow> n_status row = n_status old \<and> n_role row = n_role old"
    using upsert_existing(2,3) [OF u] assms(3) by (simp add: find_node_eq split: if_splits)
qed

subsection \<open>The handshake\<close>

lemma node_connect_live:
  assumes "node_connect ex show dr perr first peer gap1 gap2 hook sv = (sent, Stream_live r i, sv')"
  obtains reg r0 sv1 sv2 where "first = Read_msg (U_register reg)"
    "authenticate (ex_open_with ex) (cd_server_time dr) reg sv = (Inr r0, sv1)"
    "admit (ex_editors_json ex) (cd_now dr) (cd_stamp dr) reg peer r0 (gap1 sv1) = (Inr r, sv2)"
    "n_status r \<noteq> NODE_STATUS_REVOKED" "i = length (r_heap (sv_registry (gap2 sv2)))"
  using assms
  by (auto simp: node_connect_def Let_def authenticate_registration_def register_def
      split: read_result.splits upstream.splits prod.splits sum.splits rpc_error.splits if_splits)


text \<open>C37: a refusal leaves no trace and tells a prober little. Nothing but the one-time-code cache
  can change; the error is always an RPC error; and for a request that names a node and a code the
  refusal of an unknown node, of a node without a secret and of a wrong or reused code are one and
  the same error. Only a revoked node and a credential the server cannot open answer differently.\<close>

theorem refusals_look_alike:
  assumes "authenticate open_with t reg sv = (Inl e, sv1)"
    and "strip (rg_node_id reg) \<noteq> []" "strip (rg_totp_code reg) \<noteq> []"
  shows "(\<exists>rc. sv1 = sv\<lparr>sv_replay := rc\<rparr>)
     \<and> (case find_node (strip (rg_node_id reg)) sv of
          None \<Rightarrow> e = Rpc_error PERMISSION_DENIED (Text ''node authentication failed'')
        | Some r \<Rightarrow>
            e = (if n_status r = NODE_STATUS_REVOKED
                 then Rpc_error PERMISSION_DENIED (Text (''node '' @ n_id r @ '' is revoked''))
                 else if strip (n_credential_secret_enc r) \<noteq> []
                    \<and> open_credential open_with (n_credential_secret_enc r) sv = None
                 then Rpc_error INTERNAL (Text ''open node credential'')
                 else Rpc_error PERMISSION_DENIED (Text ''node authentication failed'')))"
  using assms authenticate_frame [of open_with t reg sv]
  by (auto simp: authenticate_def Let_def fail_rpc_def split: option.splits prod.splits if_splits)

subsection \<open>Revocation\<close>

lemma sv_disconnect_frame [simp]:
  "sv_ledger (sv_disconnect stamp n sv) = sv_ledger sv"
  "sv_master_key (sv_disconnect stamp n sv) = sv_master_key sv"
  "sv_registry (sv_disconnect stamp n sv) = disconnect n (sv_registry sv)"
proof -
  have h: "sv_ledger (fold (on_node_disconnect stamp) ns s) = sv_ledger s
      \<and> sv_master_key (fold (on_node_disconnect stamp) ns s) = sv_master_key s
      \<and> sv_registry (fold (on_node_disconnect stamp) ns s) = sv_registry s" for ns s
    by (induction ns arbitrary: s) (simp_all add: on_node_disconnect_def)
  show "sv_ledger (sv_disconnect stamp n sv) = sv_ledger sv"
    "sv_master_key (sv_disconnect stamp n sv) = sv_master_key sv"
    "sv_registry (sv_disconnect stamp n sv) = disconnect n (sv_registry sv)"
    by (simp_all add: sv_disconnect_def with_hook_def Let_def h)
qed

lemma disconnect_effect:
  assumes "registry_ok r"
  shows "dget (r_conns (disconnect n r)) n = None"
    "dget (r_conns r) n = Some i \<Longrightarrow> c_closed (r_heap (disconnect n r) ! i)"
  using registry_ok_entry(1) [OF assms, of n]
  by (auto simp: disconnect_def close_at_def split: option.split)

lemma revoked_normal: "normalize_node_status NODE_STATUS_REVOKED = NODE_STATUS_REVOKED"
  by code_simp

lemma revoked_row:
  assumes "set_node_status now n NODE_STATUS_REVOKED db = Inr db'"
  shows "\<exists>r. dget (nodes db') (strip n) = Some r \<and> n_status r = NODE_STATUS_REVOKED" "strip n \<noteq> []"
  using assms
  by (auto simp: set_node_status_def update_existing_def update_node_def revoked_normal Let_def
      split: if_splits option.splits)


subsection \<open>Onboarding\<close>

lemma generated_secret_chars:
  assumes "length buf = SECRET_BYTES" "c \<in> set (generate_secret buf)"
  shows "c \<in> set b32_alphabet"
proof -
  have "5 dvd length buf" using assms(1) by (simp add: SECRET_BYTES_def)
  then have enc: "b32encode buf = concat (map b32_quantum (chunks 5 buf))" by (rule b32encode_chars)
  have "c \<in> set (b32encode buf)"
    using assms(2) set_dropWhileD [of c _ "rev (b32encode buf)"]
    by (simp add: generate_secret_def rstrip_char_def)
  then show ?thesis using b32_quantum_chars by (auto simp: enc)
qed

lemma alphabet_upper: "list_all (\<lambda>c. upper_char c = [c] \<and> \<not> is_space c \<and> code_of c < 128) b32_alphabet"
  by code_simp

lemma secret_as_typed:
  assumes "length buf = SECRET_BYTES"
  shows "decode_secret (generate_secret buf) = Inr buf"
proof (rule decode_generated [OF assms])
  have c: "\<forall>c \<in> set (generate_secret buf). upper_char c = [c] \<and> \<not> is_space c"
    using generated_secret_chars [OF assms] alphabet_upper by (auto simp: list_all_iff)
  then have "filter (\<lambda>c. \<not> is_space c) (generate_secret buf) = generate_secret buf"
    by (simp add: filter_id_conv)
  moreover have "concat (map upper_char s) = s" if "\<forall>c \<in> set s. upper_char c = [c]" for s
    using that by (induction s) auto
  ultimately show "upper (filter (\<lambda>c. \<not> is_space c) (generate_secret buf)) = generate_secret buf"
    using c by (simp add: upper_def)
qed

lemma text_bytes_roundtrip: "bytes_text (text_bytes s) = s"
proof -
  have "char_of (unat (of_nat (code_of c) :: 8 word)) = c" for c
    by (simp add: code_of_def byte_of_nat)
  then show ?thesis by (simp add: bytes_text_def text_bytes_def comp_def)
qed

lemma open_minted:
  assumes "\<And>p. open_with (sv_master_key s) nonce (seal_with (sv_master_key s) nonce p) = Some p"
    and "length nonce = NONCE_SIZE" "length buf = SECRET_BYTES"
  shows "open_credential open_with (seal seal_with (sv_master_key s) nonce (text_bytes (generate_secret buf))) s
    = Some buf"
proof -
  have "unat (of_nat (code_of c) :: 8 word) < 128" if "c \<in> set (generate_secret buf)" for c
    using generated_secret_chars [OF assms(3) that] alphabet_upper by (auto simp: list_all_iff byte_of_nat)
  then have "list_all (\<lambda>b. unat b < 128) (text_bytes (generate_secret buf))"
    by (simp add: list_all_iff text_bytes_def)
  then show ?thesis
    using open_sealed [of open_with "sv_master_key s" nonce seal_with] assms
    by (simp add: open_credential_def text_bytes_roundtrip secret_as_typed)
qed

lemma sealed_text: "length n = NONCE_SIZE \<Longrightarrow> seal sw key n p \<noteq> []" "strip (seal sw key n p) = seal sw key n p"
proof -
  show "seal sw key n p \<noteq> []" if "length n = NONCE_SIZE"
    using that by (cases "n @ sw key n p" rule: b64encode.cases) (auto simp: seal_def NONCE_SIZE_def)
  show "strip (seal sw key n p) = seal sw key n p"
    using b64encode_facts unfolding seal_def by (intro strip_no_space) (auto simp: list_all_iff)
qed

lemma generated_text: "strip (generate k t) = generate k t" "generate k t \<noteq> []"
  using length_generate [of k "nat (counter_at t)"] by (auto simp: generate_def simp del: length_generate)

lemma pending_normal: "normalize_node_status NODE_STATUS_PENDING = NODE_STATUS_PENDING"
  by code_simp

lemma mint_outcome:
  assumes "mint_credentialed_node ex d node_id name role meth manager labels pid sv = (Inr resp, sv')"
    and "find_node node_id sv = None"
  shows "os_secret resp = generate_secret (dr_secret_bytes d)" "os_node_id resp = strip node_id"
    "\<exists>r. find_node node_id sv' = Some r \<and> n_id r = strip node_id \<and> n_status r = NODE_STATUS_PENDING
      \<and> n_credential_secret_enc r = seal (ex_seal_with ex) (sv_master_key sv) (dr_nonce d)
           (text_bytes (generate_secret (dr_secret_bytes d)))"
proof -
  define item where "item = (new_node_record node_id name NODE_STATUS_PENDING role labels)
       \<lparr>n_startup_method := meth, n_manager_node_id := manager,
        n_credential_secret_enc := seal (ex_seal_with ex) (sv_master_key sv) (dr_nonce d)
           (text_bytes (generate_secret (dr_secret_bytes d))), n_proxy_config_id := pid\<rparr>"
  have i: "n_id item = node_id" "n_status item = NODE_STATUS_PENDING"
    by (simp_all add: item_def new_node_record_def)
  obtain r db where u: "upsert_node (dr_now d) item (sv_ledger sv) = Inr (r, db)"
    "sv' = sv\<lparr>sv_ledger := db\<rparr>" "os_node_id resp = n_id r"
    "os_secret resp = generate_secret (dr_secret_bytes d)"
    using assms(1) by (auto simp: mint_credentialed_node_def Let_def item_def split: sum.splits)
  have ne: "strip node_id \<noteq> []" using u(1) i(1) by (auto simp: upsert_node_def)
  then have "dget (nodes (sv_ledger sv)) (strip (n_id item)) = None"
    using assms(2) by (simp add: find_node_eq i)
  note f = upsert_fresh [OF u(1) this, unfolded i pending_normal]
  show "os_secret resp = generate_secret (dr_secret_bytes d)" "os_node_id resp = strip node_id"
    using u f by simp_all
  show "\<exists>r. find_node node_id sv' = Some r \<and> n_id r = strip node_id \<and> n_status r = NODE_STATUS_PENDING
      \<and> n_credential_secret_enc r = seal (ex_seal_with ex) (sv_master_key sv) (dr_nonce d)
           (text_bytes (generate_secret (dr_secret_bytes d)))"
    using f u(2) ne by (simp add: find_node_eq item_def)
qed

lemma dispatch_create_ledger [simp]:
  "sv_ledger (snd (dispatch_create_start stamp k m r meth secret sv)) = sv_ledger sv"
  by (auto simp: dispatch_create_start_def begin_ack_def begin_on_def split_beta
      split: option.splits sum.splits)

lemma onboard_mints:
  assumes "onboard_start ex d req sv = (Inr (resp, cl), sv')" "onboard_role req \<noteq> NODE_ROLE_PASSIVE_MANAGEMENT"
  obtains name meth manager labels pid sv1 where
    "mint_credentialed_node ex d (''node-'' @ dr_node_uuid d) name (onboard_role req) meth manager labels pid sv
       = (Inr resp, sv1)" "sv_ledger sv' = sv_ledger sv1"
proof -
  let ?mint = "\<lambda>meth manager. mint_credentialed_node ex d (''node-'' @ dr_node_uuid d)
      (or_str (strip (oq_node_name req)) (''node-'' @ dr_node_uuid d)) (onboard_role req) meth manager
      (dset ''role'' (onboard_role req) (clean_labels (oq_labels req))) (strip (oq_proxy_config_id req)) sv"
  consider (alone) meth where "?mint meth [] = (Inr resp, sv')"
    | (managed) meth manager r sv1 where "?mint meth manager = (Inr resp, sv1)"
      "dispatch_create_start (dr_stamp d) (dr_frame_id d) manager r meth (os_secret resp) sv1 = (cl, sv')"
    using assms by (auto simp: onboard_start_def Let_def split: sum.splits prod.splits if_splits)
  then show thesis
  proof cases
    case alone
    then show thesis by (rule that) simp
  next
    case managed
    from managed(1) show thesis
      by (rule that) (use dispatch_create_ledger [of "dr_stamp d" "dr_frame_id d" manager r meth
          "os_secret resp" sv1] managed(2) in simp)
  qed
qed

text \<open>C7: an onboarded node can log in with what its operator was shown. Whenever onboarding answers,
  for any role that has a client, the node is in the ledger as pending, the secret in the answer
  decodes, and at any later moment while the row keeps that credential and is not revoked, a
  registration with the one-time code of that secret, by a clock at most a minute off, is accepted
  unless that very code is already claimed. The cipher is any that opens what it sealed.\<close>

theorem onboarded_node_gets_in:
  assumes "onboard_start ex d req sv = (Inr (resp, cl), sv')" "onboard_role req \<noteq> NODE_ROLE_PASSIVE_MANAGEMENT"
    and fresh: "find_node (''node-'' @ dr_node_uuid d) sv = None"
    and draws: "length (dr_secret_bytes d) = SECRET_BYTES" "length (dr_nonce d) = NONCE_SIZE"
    and cipher: "\<And>p. ex_open_with ex (sv_master_key sv) (dr_nonce d)
                     (ex_seal_with ex (sv_master_key sv) (dr_nonce d) p) = Some p"
  shows "\<exists>r0 secret. find_node (os_node_id resp) sv' = Some r0 \<and> n_status r0 = NODE_STATUS_PENDING
     \<and> decode_secret (os_secret resp) = Inr secret
     \<and> (\<forall>s r reg t now. sv_master_key s = sv_master_key sv \<and> find_node (os_node_id resp) s = Some r
          \<and> n_id r = n_id r0 \<and> n_credential_secret_enc r = n_credential_secret_enc r0
          \<and> n_status r \<noteq> NODE_STATUS_REVOKED \<and> rg_node_id reg = os_node_id resp
          \<and> rg_totp_code reg = generate secret t \<and> 0 \<le> now \<and> 0 \<le> t \<and> \<bar>t - now\<bar> \<le> seconds 60
          \<and> \<not> claimed (n_id r) (generate secret t) now (sv_replay s)
          \<longrightarrow> (\<exists>s'. authenticate (ex_open_with ex) now reg s = (Inr r, s')))"
proof -
  let ?secret = "dr_secret_bytes d"
  obtain name meth manager labels pid sv1 where m:
    "mint_credentialed_node ex d (''node-'' @ dr_node_uuid d) name (onboard_role req) meth manager labels pid sv
       = (Inr resp, sv1)" "sv_ledger sv' = sv_ledger sv1"
    by (rule onboard_mints [OF assms(1,2)])
  note o = mint_outcome [OF m(1) fresh]
  from o(3) obtain r0 where f: "find_node (''node-'' @ dr_node_uuid d) sv1 = Some r0"
    "n_status r0 = NODE_STATUS_PENDING" "n_credential_secret_enc r0
       = seal (ex_seal_with ex) (sv_master_key sv) (dr_nonce d) (text_bytes (generate_secret ?secret))"
    by blast
  have found: "find_node (strip n) sv' = find_node n sv1" for n
    by (simp add: find_node_eq m(2))
  then have "find_node (os_node_id resp) sv' = Some r0" using f(1) unfolding o(2) by (simp only:)
  note r0 = this f(2,3)
  have dec: "decode_secret (os_secret resp) = Inr ?secret"
    unfolding o(1) by (rule secret_as_typed [OF draws(1)])
  have login: "\<exists>s'. authenticate (ex_open_with ex) now reg s = (Inr r, s')"
    if h: "sv_master_key s = sv_master_key sv" "find_node (os_node_id resp) s = Some r"
      "n_credential_secret_enc r = n_credential_secret_enc r0"
      "n_status r \<noteq> NODE_STATUS_REVOKED" "rg_node_id reg = os_node_id resp"
      "rg_totp_code reg = generate ?secret t" "0 \<le> now" "0 \<le> t" "\<bar>t - now\<bar> \<le> seconds 60"
      "\<not> claimed (n_id r) (generate ?secret t) now (sv_replay s)" for s r reg t now
  proof -
    have "open_credential (ex_open_with ex) (n_credential_secret_enc r) s = Some ?secret"
      using open_minted [of "ex_open_with ex" s "dr_nonce d" "ex_seal_with ex" ?secret] cipher draws h(1,3) r0(3)
      by simp
    moreover have "os_node_id resp \<noteq> []" "strip (os_node_id resp) = os_node_id resp"
      using h(2) o(2) by (auto simp: find_node_eq split: if_splits)
    ultimately show ?thesis
      using h generated_code_accepted [OF h(7-10)] sealed_text(1) [OF draws(2)] sealed_text(2) r0(3)
      by (simp add: authenticate_def generated_text)
  qed
  show ?thesis
    by (rule exI [of _ r0], rule exI [of _ ?secret]) (use r0 dec login in blast)
qed

subsection \<open>Instances\<close>

definition sample_externals :: externals where
  "sample_externals = \<lparr>ex_seal_with = (\<lambda>k n p. p), ex_open_with = (\<lambda>k n c. Some c),
     ex_resolve_proxy = (\<lambda>_. Inr ([], [], [])), ex_editors_json = (\<lambda>_. []), ex_parse_editors = (\<lambda>_. [])\<rparr>"

definition sample_draws :: draws where
  "sample_draws = \<lparr>dr_now = 0, dr_stamp = ''t'', dr_node_uuid = ''u'', dr_frame_id = ''f'',
     dr_secret_bytes = replicate 20 0, dr_nonce = replicate 12 0\<rparr>"

definition sample_onboard :: onboard_request where
  "sample_onboard = \<lparr>oq_role = 4, oq_startup_method = 0, oq_node_name = ''phones'', oq_labels = [],
     oq_manager_node_id = [], oq_proxy_config_id = []\<rparr>"

lemma sample_role: "onboard_role sample_onboard = NODE_ROLE_IOS_HOST"
  by code_simp

lemma role_names: "NODE_ROLE_IOS_HOST \<noteq> NODE_ROLE_PASSIVE_MANAGEMENT" "NODE_ROLE_IOS_HOST \<noteq> NODE_ROLE_MANAGEMENT"
  by code_simp+

lemma upsert_succeeds: "strip (n_id item) \<noteq> [] \<Longrightarrow> \<exists>r db'. upsert_node now item db = Inr (r, db')"
  by (simp add: upsert_node_def get_node_def get_node_if_exists_def Let_def)

lemma mint_succeeds:
  assumes "strip node_id \<noteq> []"
  shows "\<exists>resp sv'. mint_credentialed_node ex d node_id name role meth manager labels pid sv = (Inr resp, sv')"
proof -
  obtain r db' where "upsert_node (dr_now d) ((new_node_record node_id name NODE_STATUS_PENDING role labels)
      \<lparr>n_startup_method := meth, n_manager_node_id := manager,
       n_credential_secret_enc := seal (ex_seal_with ex) (sv_master_key sv) (dr_nonce d)
         (text_bytes (generate_secret (dr_secret_bytes d))), n_proxy_config_id := pid\<rparr>) (sv_ledger sv) = Inr (r, db')"
    using upsert_succeeds assms by (fastforce simp: new_node_record_def)
  then show ?thesis by (simp add: mint_credentialed_node_def Let_def)
qed

lemma onboard_ios:
  assumes "onboard_role req = NODE_ROLE_IOS_HOST" "strip (oq_proxy_config_id req) = []"
  shows "\<exists>meth name labels. onboard_start ex d req sv =
    (case mint_credentialed_node ex d (''node-'' @ dr_node_uuid d) name NODE_ROLE_IOS_HOST meth [] labels [] sv of
       (Inl e, s) \<Rightarrow> (Inl e, s) | (Inr resp, s) \<Rightarrow> (Inr (resp, None), s))"
  unfolding onboard_start_def Let_def assms using role_names by auto

lemma sample_onboards:
  "\<exists>resp sv'. onboard_start sample_externals sample_draws sample_onboard sample_service = (Inr (resp, None), sv')"
proof -
  have "strip (oq_proxy_config_id sample_onboard) = []" by code_simp
  from onboard_ios [OF sample_role this, of sample_externals sample_draws sample_service]
  obtain meth name labels where o: "onboard_start sample_externals sample_draws sample_onboard sample_service =
    (case mint_credentialed_node sample_externals sample_draws (''node-'' @ dr_node_uuid sample_draws) name
        NODE_ROLE_IOS_HOST meth [] labels [] sample_service of
       (Inl e, s) \<Rightarrow> (Inl e, s) | (Inr resp, s) \<Rightarrow> (Inr (resp, None), s))" by blast
  have "strip (''node-'' @ dr_node_uuid sample_draws) \<noteq> []" by code_simp
  from mint_succeeds [OF this] o show ?thesis by (metis (no_types, lifting) old.prod.case old.sum.simps(6))
qed

lemma onboarded_node_gets_in_witness:
  "\<exists>resp sv' r s'. onboard_start sample_externals sample_draws sample_onboard sample_service = (Inr (resp, None), sv')
     \<and> authenticate (ex_open_with sample_externals) (seconds 1000)
         \<lparr>rg_node_id = os_node_id resp, rg_totp_code = generate (replicate 20 0) (seconds 955),
          rg_node_name = [], rg_capabilities = None\<rparr> (sv'\<lparr>sv_replay := new_replay_cache, sv_master_key := replicate 32 0\<rparr>) = (Inr r, s')"
proof -
  obtain resp sv' where o: "onboard_start sample_externals sample_draws sample_onboard sample_service = (Inr (resp, None), sv')"
    using sample_onboards by blast
  have fresh: "find_node (''node-'' @ dr_node_uuid sample_draws) sample_service = None"
    by code_simp
  have "onboard_role sample_onboard \<noteq> NODE_ROLE_PASSIVE_MANAGEMENT" by code_simp
  from onboarded_node_gets_in [OF o this fresh]
  obtain r0 secret where r0: "find_node (os_node_id resp) sv' = Some r0" "n_status r0 = NODE_STATUS_PENDING"
    "decode_secret (os_secret resp) = Inr secret"
    and login: "\<And>s reg t now. sv_master_key s = sv_master_key sample_service \<Longrightarrow> find_node (os_node_id resp) s = Some r0
      \<Longrightarrow> n_status r0 \<noteq> NODE_STATUS_REVOKED \<Longrightarrow> rg_node_id reg = os_node_id resp
      \<Longrightarrow> rg_totp_code reg = generate secret t \<Longrightarrow> 0 \<le> now \<Longrightarrow> 0 \<le> t \<Longrightarrow> \<bar>t - now\<bar> \<le> seconds 60
      \<Longrightarrow> \<not> claimed (n_id r0) (generate secret t) now (sv_replay s)
      \<Longrightarrow> \<exists>s'. authenticate (ex_open_with sample_externals) now reg s = (Inr r0, s')"
    by (auto simp: sample_draws_def sample_externals_def SECRET_BYTES_def NONCE_SIZE_def)
  have "os_secret resp = generate_secret (replicate 20 0)"
    using onboard_mints [OF o] sample_role mint_outcome(1) fresh
    by (metis (no_types, lifting) sample_draws_def draws.select_convs(5) \<open>onboard_role sample_onboard \<noteq> NODE_ROLE_PASSIVE_MANAGEMENT\<close>)
  then have "secret = replicate 20 0"
    using r0(3) secret_as_typed [of "replicate 20 0"] by (simp add: SECRET_BYTES_def)
  moreover have "NODE_STATUS_PENDING \<noteq> NODE_STATUS_REVOKED" by code_simp
  ultimately have "\<exists>s'. authenticate (ex_open_with sample_externals) (seconds 1000)
      \<lparr>rg_node_id = os_node_id resp, rg_totp_code = generate (replicate 20 0) (seconds 955),
          rg_node_name = [], rg_capabilities = None\<rparr>
      (sv'\<lparr>sv_replay := new_replay_cache, sv_master_key := replicate 32 0\<rparr>) = (Inr r0, s')"
    using login [of "sv'\<lparr>sv_replay := new_replay_cache, sv_master_key := replicate 32 0\<rparr>"
        "\<lparr>rg_node_id = os_node_id resp, rg_totp_code = generate (replicate 20 0) (seconds 955),
          rg_node_name = [], rg_capabilities = None\<rparr>" "seconds 955" "seconds 1000"] r0(1,2)
    by (simp add: find_node_def sample_service_def claimed_def new_replay_cache_def)
  with o show ?thesis by blast
qed

lemma sample_registry_ok: "registry_ok (sv_registry sample_service)"
proof -
  have "sv_registry sample_service = snd (register 0 ''n1'' (Some sample_caps) [] (new_registry True))"
    by (simp add: sample_service_def register_def new_registry_def)
  then show ?thesis by (simp add: registry_ok_register)
qed

lemma sample_n1 [simp]: "strip ''n1'' = ''n1''"
  by code_simp


lemma refusals_look_alike_witness:
  "fst (authenticate (ex_open_with sample_externals) 6
     \<lparr>rg_node_id = ''n2'', rg_totp_code = ''123456'', rg_node_name = [], rg_capabilities = None\<rparr> sample_service)
   = Inl (Rpc_error PERMISSION_DENIED (Text ''node authentication failed''))"
proof -
  let ?reg = "\<lparr>rg_node_id = ''n2'', rg_totp_code = ''123456'', rg_node_name = [], rg_capabilities = None :: capabilities option\<rparr>"
  have str: "strip ''n2'' = ''n2''" "strip ''123456'' = ''123456''" by code_simp+
  have none: "find_node (strip (rg_node_id ?reg)) sample_service = None"
    by (simp add: find_node_eq sample_service_def str)
  then obtain e s1 where a: "authenticate (ex_open_with sample_externals) 6 ?reg sample_service = (Inl e, s1)"
    by (simp add: authenticate_def fail_rpc_def str)
  from refusals_look_alike [OF a] none str a show ?thesis by simp
qed

text \<open>The sample node with a sealed secret of twenty zero bytes.\<close>

definition enrolled_row :: node_row where
  "enrolled_row = sample_node_row\<lparr>n_credential_secret_enc := seal (ex_seal_with sample_externals) (replicate 32 0)
         (replicate 12 0) (text_bytes (generate_secret (replicate 20 0)))\<rparr>"

definition enrolled_service :: service where
  "enrolled_service = sample_service\<lparr>sv_ledger := (sv_ledger sample_service)\<lparr>nodes := [(''n1'', enrolled_row)]\<rparr>\<rparr>"

lemma enrolled_facts: "find_node ''n1'' enrolled_service = Some enrolled_row" "n_id enrolled_row = ''n1''"
  "n_status enrolled_row = ''approved''" "sv_replay enrolled_service = new_replay_cache"
  "sv_master_key enrolled_service = replicate 32 0" "''approved'' \<noteq> NODE_STATUS_REVOKED"
  by (simp_all add: find_node_eq enrolled_service_def enrolled_row_def sample_service_def sample_node_row_def
      NODE_STATUS_REVOKED_def)

definition enrolled_registration :: registration where
  "enrolled_registration = \<lparr>rg_node_id = ''n1'', rg_totp_code = generate (replicate 20 0) (seconds 990),
     rg_node_name = [], rg_capabilities = Some sample_caps\<rparr>"

definition sample_connect :: connect_draws where
  "sample_connect = \<lparr>cd_server_time = seconds 1000, cd_server_stamp = ''t'', cd_now = seconds 1001, cd_stamp = ''t'',
     cd_frame_id = ''f'', cd_request_id = ''q'', cd_gateway_public_url = []\<rparr>"

lemma enrolled_authenticates:
  "\<exists>s. authenticate (ex_open_with sample_externals) (seconds 1000) enrolled_registration enrolled_service
     = (Inr enrolled_row, s) \<and> sv_ledger s = sv_ledger enrolled_service"
proof -
  have c: "n_credential_secret_enc enrolled_row = seal (ex_seal_with sample_externals)
      (sv_master_key enrolled_service) (replicate 12 0) (text_bytes (generate_secret (replicate 20 0)))"
    by (simp add: enrolled_row_def enrolled_facts)
  have cred: "open_credential (ex_open_with sample_externals) (n_credential_secret_enc enrolled_row) enrolled_service
      = Some (replicate 20 0)"
    unfolding c by (rule open_minted) (simp_all add: sample_externals_def NONCE_SIZE_def SECRET_BYTES_def)
  have val: "validate (replicate 20 0) (generate (replicate 20 0) (seconds 990)) (seconds 1000)
      (Some new_replay_cache) ''n1'' = (True, Some (snd (claim ''n1'' (generate (replicate 20 0) (seconds 990))
        (seconds 1000) new_replay_cache)))"
    by (rule generated_code_accepted) (simp_all add: claimed_def new_replay_cache_def)
  have ne: "strip (n_credential_secret_enc enrolled_row) \<noteq> []"
    unfolding c sealed_text(2) by (rule sealed_text(1)) (simp add: NONCE_SIZE_def)
  have reg: "strip (rg_node_id enrolled_registration) = ''n1''"
    "strip (rg_totp_code enrolled_registration) = generate (replicate 20 0) (seconds 990)"
    by (simp_all add: enrolled_registration_def generated_text)
  show ?thesis
    unfolding authenticate_def Let_def reg enrolled_facts option.case
    using ne val by (simp add: enrolled_facts cred generated_text)
qed

lemma enrolled_ledger_ok: "ledger_ok (sv_ledger enrolled_service)"
proof -
  have "node_ok ''n1'' sample_node_row" by code_simp
  then have "node_ok ''n1'' enrolled_row" by (simp add: node_ok_def enrolled_row_def)
  then show ?thesis by (simp add: ledger_ok_def enrolled_service_def sample_service_def)
qed


subsection \<open>What a NodeInfo says\<close>

lemma enum_roundtrips:
  "list_all (\<lambda>s. status_to_proto s \<in> {1, 2, 3} \<and> status_from_proto (status_to_proto s) = s)
     [NODE_STATUS_PENDING, NODE_STATUS_APPROVED, NODE_STATUS_REVOKED]"
  "list_all (\<lambda>r. role_to_proto r \<in> {1, 2, 3, 4} \<and> role_from_proto (role_to_proto r) = r)
     [NODE_ROLE_EXECUTION, NODE_ROLE_MANAGEMENT, NODE_ROLE_PASSIVE_MANAGEMENT, NODE_ROLE_IOS_HOST]"
  "list_all (\<lambda>m. startup_to_proto m \<in> {0, 1, 2, 3, 4} \<and> startup_from_proto (startup_to_proto m) = m)
     ([] # NODE_STARTUP_METHODS)"
  by code_simp+

text \<open>C40: every NodeInfo is well typed and loses nothing. For a node of a well-formed ledger its
  status, role and startup method are members of their enums that decode back to the stored values,
  it names the node it is about, a node is reported connected exactly when a connection of it is
  registered, online only if it is connected or a passive manager, and with sessions only if connected.\<close>

theorem node_info_is_well_typed:
  assumes "ledger_ok (sv_ledger sv)" "find_node n sv = Some r" "info = node_info_of parse_editors now r sv"
  shows "ni_node_id info = strip n \<and> ni_status info \<in> {1, 2, 3} \<and> ni_role info \<in> {1, 2, 3, 4}
     \<and> ni_startup_method info \<in> {0, 1, 2, 3, 4}
     \<and> status_from_proto (ni_status info) = n_status r \<and> role_from_proto (ni_role info) = n_role r
     \<and> startup_from_proto (ni_startup_method info) = n_startup_method r
     \<and> (ni_connected info \<longleftrightarrow> \<not> is_passive_manager r \<and> sv_lookup (n_id r) sv \<noteq> None)
     \<and> (ni_online info \<longrightarrow> ni_connected info \<or> is_passive_manager r)
     \<and> (ni_active_session_ids info \<noteq> [] \<longrightarrow> ni_connected info)"
proof -
  have "node_ok (strip n) r"
    using assms(2) ledger_ok_get(1) [OF assms(1), of "strip n" r] by (auto simp: find_node_eq split: if_splits)
  then have r: "n_id r = strip n" "n_status r \<in> set [NODE_STATUS_PENDING, NODE_STATUS_APPROVED, NODE_STATUS_REVOKED]"
    "n_role r \<in> set [NODE_ROLE_EXECUTION, NODE_ROLE_MANAGEMENT, NODE_ROLE_PASSIVE_MANAGEMENT, NODE_ROLE_IOS_HOST]"
    "n_startup_method r \<in> set ([] # NODE_STARTUP_METHODS)"
    by (auto simp: node_ok_def)
  have enums: "ni_node_id info = n_id r" "ni_status info = status_to_proto (n_status r)"
    "ni_role info = role_to_proto (n_role r)" "ni_startup_method info = startup_to_proto (n_startup_method r)"
    and live: "ni_connected info \<longleftrightarrow> \<not> is_passive_manager r \<and> sv_lookup (n_id r) sv \<noteq> None"
    "ni_online info \<longrightarrow> ni_connected info \<or> is_passive_manager r"
    "ni_active_session_ids info \<noteq> [] \<longrightarrow> ni_connected info"
    unfolding assms(3) by (simp_all add: node_info_of_def Let_def split: option.split)
  have "status_to_proto (n_status r) \<in> {1, 2, 3} \<and> status_from_proto (status_to_proto (n_status r)) = n_status r"
    using enum_roundtrips(1) r(2) unfolding list_all_iff by blast
  moreover have "role_to_proto (n_role r) \<in> {1, 2, 3, 4} \<and> role_from_proto (role_to_proto (n_role r)) = n_role r"
    using enum_roundtrips(2) r(3) unfolding list_all_iff by blast
  moreover have "startup_to_proto (n_startup_method r) \<in> {0, 1, 2, 3, 4}
      \<and> startup_from_proto (startup_to_proto (n_startup_method r)) = n_startup_method r"
    using enum_roundtrips(3) r(4) unfolding list_all_iff by blast
  ultimately show ?thesis using r(1) enums live by simp
qed

lemma node_info_is_well_typed_witness:
  "status_from_proto (ni_status (node_info_of (\<lambda>_. []) 0 enrolled_row enrolled_service)) = ''approved''"
  using node_info_is_well_typed [OF enrolled_ledger_ok enrolled_facts(1) refl, of "\<lambda>_. []" 0] enrolled_facts(3)
  by simp

end
