(* ===== verification/Service_Safety.thy ===== *)
theory Service_Safety
  imports Service_Upgrades Service_Calls
begin

text \<open>
  Where a session may run and when its placement is recorded, what a host command is allowed to
  take, and how the job handlers answer a node that says no.
\<close>

subsection \<open>Selecting a node\<close>

text \<open>What the selection promises of a node: approved, connected with a fresh heartbeat, able to run
  the session, and with room for one more.\<close>

definition has_room :: "session_cost \<Rightarrow> capacity \<Rightarrow> int \<Rightarrow> bool" where
  "has_room cost cap active \<longleftrightarrow>
     (case cap_max_sessions cap of Some m \<Rightarrow> 0 < m \<longrightarrow> active + 1 \<le> m | None \<Rightarrow> True)
   \<and> (case cap_cpu_total cap of
        Some q \<Rightarrow> 0 < q \<and> 0 < sc_cpu cost \<longrightarrow> of_int (active + 1) * sc_cpu cost \<le> q | None \<Rightarrow> True)
   \<and> (case cap_memory_total cap of
        Some m \<Rightarrow> 0 < m \<and> 0 < sc_memory cost \<longrightarrow> (active + 1) * sc_memory cost \<le> m | None \<Rightarrow> True)"

definition runnable ::
  "session_cost \<Rightarrow> microseconds \<Rightarrow> session_spec \<Rightarrow> service \<Rightarrow> string \<Rightarrow> nat \<Rightarrow> bool" where
  "runnable cost now spec sv n i \<longleftrightarrow> sv_lookup n sv = Some i \<and> connection_live now (conn_at i sv)
     \<and> node_capability_satisfies_spec (conn_at i sv) spec = None
     \<and> node_mode_satisfies_spec (conn_at i sv) spec = None
     \<and> (\<exists>r. find_node n sv = Some r \<and> n_status r = NODE_STATUS_APPROVED
          \<and> has_room cost (n_capacity r) (int (length (active_sessions (conn_at i sv)))))"

lemma satisfies_iff:
  "node_satisfies_spec cost r c spec = None \<longleftrightarrow>
     node_capability_satisfies_spec c spec = None \<and> node_mode_satisfies_spec c spec = None
     \<and> has_room cost (n_capacity r) (int (length (active_sessions c)))"
proof (cases "node_capability_satisfies_spec c spec = None \<and> node_mode_satisfies_spec c spec = None")
  case True
  then show ?thesis
    unfolding node_satisfies_spec_def has_room_def Let_def
    by (cases "cap_max_sessions (n_capacity r)"; cases "cap_cpu_total (n_capacity r)";
        cases "cap_memory_total (n_capacity r)") (simp_all add: not_less not_le add1_zle_eq)
next
  case False
  then show ?thesis by (auto simp: node_satisfies_spec_def split: option.split)
qed

lemma eligible_iff: "eligible cost now spec sv n = Some i \<longleftrightarrow> runnable cost now spec sv n i"
  by (auto simp: eligible_def runnable_def satisfies_iff Let_def split: option.splits)

lemma first_eligible_iff:
  "first_eligible cost now spec sv ns = Some (n, i) \<longleftrightarrow>
     (\<exists>pre post. ns = pre @ n # post \<and> runnable cost now spec sv n i \<and> (\<forall>m \<in> set pre. \<forall>j. \<not> runnable cost now spec sv m j))"
proof (induction ns)
  case (Cons m ns)
  show ?case
  proof (cases "eligible cost now spec sv m")
    case None
    then have no: "\<not> runnable cost now spec sv m j" for j using eligible_iff [of cost now spec sv m j] by simp
    have "(\<exists>pre post. m # ns = pre @ n # post \<and> runnable cost now spec sv n i
            \<and> (\<forall>m \<in> set pre. \<forall>j. \<not> runnable cost now spec sv m j)) \<longleftrightarrow>
        (\<exists>pre post. ns = pre @ n # post \<and> runnable cost now spec sv n i
            \<and> (\<forall>m \<in> set pre. \<forall>j. \<not> runnable cost now spec sv m j))" (is "?l \<longleftrightarrow> ?r")
    proof
      assume ?l
      then obtain pre post where p: "m # ns = pre @ n # post" "runnable cost now spec sv n i"
        "\<forall>m \<in> set pre. \<forall>j. \<not> runnable cost now spec sv m j" by blast
      with no obtain pre' where "pre = m # pre'" by (cases pre) auto
      with p show ?r by auto
    next
      assume ?r
      then obtain pre post where "ns = pre @ n # post" "runnable cost now spec sv n i"
        "\<forall>m \<in> set pre. \<forall>j. \<not> runnable cost now spec sv m j" by blast
      with no show ?l by (intro exI [of _ "m # pre"] exI [of _ post]) auto
    qed
    with None Cons show ?thesis by simp
  next
    case (Some j)
    then have r: "runnable cost now spec sv m j" by (simp add: eligible_iff)
    then have u: "runnable cost now spec sv m i \<Longrightarrow> i = j" by (simp add: runnable_def)
    show ?thesis
    proof
      assume "first_eligible cost now spec sv (m # ns) = Some (n, i)"
      with Some r show "\<exists>pre post. m # ns = pre @ n # post \<and> runnable cost now spec sv n i
          \<and> (\<forall>m \<in> set pre. \<forall>j. \<not> runnable cost now spec sv m j)"
        by (intro exI [of _ "[]"] exI [of _ ns]) auto
    next
      assume "\<exists>pre post. m # ns = pre @ n # post \<and> runnable cost now spec sv n i
          \<and> (\<forall>m \<in> set pre. \<forall>j. \<not> runnable cost now spec sv m j)"
      then obtain pre post where p: "m # ns = pre @ n # post" "runnable cost now spec sv n i"
        "\<forall>m \<in> set pre. \<forall>j. \<not> runnable cost now spec sv m j" by blast
      with r have "pre = []" by (cases pre) auto
      with p u Some show "first_eligible cost now spec sv (m # ns) = Some (n, i)" by simp
    qed
  qed
qed simp

text \<open>C5: the scheduler is exactly first fit over the runnable nodes. An explicit node is taken if and
  only if it is runnable; otherwise the first runnable node in registration order is, and the
  request fails only if there is none. Capacity counts the sessions the node last reported.\<close>

theorem selection_is_first_fit:
  "(select_node cost now explicit spec sv = Inr (n, i)) \<longleftrightarrow>
     (if explicit \<noteq> [] then n = explicit \<and> runnable cost now spec sv n i
      else \<exists>pre post. registry_list (sv_registry sv) = pre @ n # post \<and> runnable cost now spec sv n i
         \<and> (\<forall>m \<in> set pre. \<forall>j. \<not> runnable cost now spec sv m j))"
proof (cases "explicit = []")
  case True
  then have "select_node cost now explicit spec sv = Inr (n, i)
      \<longleftrightarrow> first_eligible cost now spec sv (registry_list (sv_registry sv)) = Some (n, i)"
    by (auto simp: select_node_def fail_rpc_def split: option.splits)
  with True show ?thesis by (simp add: first_eligible_iff)
next
  case False
  have "select_node cost now explicit spec sv = Inr (n, i)
      \<longleftrightarrow> n = explicit \<and> eligible cost now spec sv explicit = Some i"
    using False by (auto simp: select_node_def eligible_def find_node_def fail_rpc_def
        split: sum.splits option.splits)
  then show ?thesis using False eligible_iff [of cost now spec sv explicit i] by auto
qed

lemma selection_is_first_fit_witness:
  "select_node \<lparr>sc_cpu = 1, sc_memory = 0\<rparr> (seconds 10) []
     \<lparr>sp_session_id = ''s'', sp_project_id = [], sp_task_id = [], sp_editor_id = [], sp_editor_session_id = [],
      sp_provider = ''codex'', sp_model = [], sp_mode = [], sp_driver = [], sp_defer_start = False\<rparr> sample_service
   = Inr (''n1'', 0)"
proof -
  have str: "strip ''n1'' = ''n1''" "strip ''codex'' = ''codex''" "''approved'' = NODE_STATUS_APPROVED" "lower [] = []"
    by code_simp+
  show ?thesis
    unfolding selection_is_first_fit
    by (auto simp: runnable_def registry_list_def sample_service_def sv_lookup_def lookup_def conn_at_def
        connection_live_def snapshot_def new_connection_def node_capability_satisfies_spec_def
        node_mode_satisfies_spec_def find_node_def get_node_if_exists_def sample_caps_def str
        sample_node_row_def no_capacity_def has_room_def NODE_HEARTBEAT_TIMEOUT_def active_sessions_def Let_def
        intro!: exI [of _ "[]"])
qed

subsection \<open>Placing a session\<close>

lemma bind_quiet:
  assumes "strip (s_session_id b) = k" "k \<noteq> []" "strip (s_node_id b) \<noteq> []"
  shows "bind_session_to_node now b id id id db = (None, db\<lparr>sessions := dset k
     (bind_row now b (case dget (sessions db) k of Some row \<Rightarrow> row | None \<Rightarrow> fresh_session_row now k)) (sessions db)\<rparr>)"
  using assms by (simp add: bind_session_to_node_def bind_attempt_def Let_def split: option.split)

lemma binding_fields:
  "strip (s_session_id (session_binding_of spec sid n st)) = strip sid"
  "s_node_id (bind_row now (session_binding_of spec sid n st) row) = strip n"
  "strip (s_node_id (session_binding_of spec sid n st)) = strip n"
  "strip st \<noteq> [] \<Longrightarrow> s_status (bind_row now (session_binding_of spec sid n st) row) = strip st"
  by (simp_all add: session_binding_of_def fresh_session_row_def bind_row_def or_str_def)

lemma statuses_stripped: "strip ''provisioned'' = ''provisioned''" "strip ''running'' = ''running''"
  by code_simp+

lemma bind_dispatched_effect:
  assumes "strip (sp_session_id spec) = sid" "sid \<noteq> []" "strip n \<noteq> []"
  obtains row where "bind_dispatched now spec n sv =
      (Inr \<lparr>dp_session_id = sid, dp_node_id = n, dp_accepted = True, dp_error = []\<rparr>,
       sv\<lparr>sv_ledger := (sv_ledger sv)\<lparr>sessions := dset sid row (sessions (sv_ledger sv))\<rparr>\<rparr>)"
    "s_node_id row = strip n" "s_status row = (if sp_defer_start spec then ''provisioned'' else ''running'')"
proof -
  let ?st = "if sp_defer_start spec then ''provisioned'' else ''running''"
  let ?b = "session_binding_of spec sid n ?st"
  have st: "strip ?st = ?st" "?st \<noteq> []" by (simp_all add: statuses_stripped)
  have sid: "strip sid = sid" using assms(1) by auto
  have b: "strip (s_session_id ?b) = sid" "strip (s_node_id ?b) \<noteq> []"
    by (simp_all only: binding_fields sid assms(3) not_False_eq_True)
  show thesis
    by (rule that [of "bind_row now ?b (case dget (sessions (sv_ledger sv)) sid of Some row \<Rightarrow> row
          | None \<Rightarrow> fresh_session_row now sid)"])
      (use st bind_quiet [OF b(1) assms(2) b(2), of now "sv_ledger sv"] in
        \<open>simp_all only: bind_dispatched_def Let_def assms(1) prod.case option.case binding_fields not_False_eq_True\<close>)
qed

text \<open>C15: a placement is recorded exactly when the node has the session. The dispatch answers that
  the session was accepted if the node said so, or said it already had it; then the ledger binds
  that session to that node with the matching status and is otherwise as it was. Every other
  outcome, an explicit rejection, a timeout or a lost connection, leaves the ledger alone.\<close>

theorem dispatch_records_placement:
  assumes "strip (sp_session_id spec) = sid" "sid \<noteq> []" "strip n = n" "n \<noteq> []"
    and "end_ack cl sv = (w, sv1)"
  shows "case dispatch_session_resume now cl n spec sv of (res, sv') \<Rightarrow>
     if \<exists>ack. w = Got ack \<and> (ack_ok ack
          \<or> strip (ack_error ack) \<noteq> [] \<and> contains_sub ''already exists'' (lower (ack_error ack)))
     then res = Inr \<lparr>dp_session_id = sid, dp_node_id = n, dp_accepted = True, dp_error = []\<rparr>
        \<and> (\<exists>row. get_session_node sid (sv_ledger sv') = Inr (Some row) \<and> s_node_id row = n
             \<and> s_status row = (if sp_defer_start spec then ''provisioned'' else ''running''))
        \<and> nodes (sv_ledger sv') = nodes (sv_ledger sv)
        \<and> (\<forall>k. k \<noteq> sid \<longrightarrow> dget (sessions (sv_ledger sv')) k = dget (sessions (sv_ledger sv)) k)
     else sv_ledger sv' = sv_ledger sv \<and> (\<forall>resp. res = Inr resp \<longrightarrow> \<not> dp_accepted resp)"
proof -
  have led: "sv_ledger sv1 = sv_ledger sv" using calls_keep_ledger(4) [of cl sv] by (simp add: assms(5))
  have no: "\<not> contains_sub ''already exists'' (lower ''node rejected the session'')" by code_simp
  have ne: "strip n \<noteq> []" using assms(3,4) by simp
  have sid: "strip sid = sid" using assms(1) by auto
  obtain row where b: "bind_dispatched now spec n sv1 =
      (Inr \<lparr>dp_session_id = sid, dp_node_id = n, dp_accepted = True, dp_error = []\<rparr>,
       sv1\<lparr>sv_ledger := (sv_ledger sv1)\<lparr>sessions := dset sid row (sessions (sv_ledger sv1))\<rparr>\<rparr>)"
    "s_node_id row = strip n" "s_status row = (if sp_defer_start spec then ''provisioned'' else ''running'')"
    by (rule bind_dispatched_effect [OF assms(1,2) ne])
  show ?thesis
    using b led sid assms(2,3) no
    by (cases w) (auto simp: dispatch_session_resume_def assms(1,5) Let_def fail_rpc_def get_session_node_def)
qed

definition sample_spec :: session_spec where
  "sample_spec = \<lparr>sp_session_id = ''s1'', sp_project_id = [], sp_task_id = [], sp_editor_id = [],
     sp_editor_session_id = [], sp_provider = ''codex'', sp_model = [], sp_mode = [], sp_driver = [],
     sp_defer_start = True\<rparr>"

definition answered_service :: service where
  "answered_service = put_conn 0 ((new_connection 0 ''n1'' (Some sample_caps) [])
     \<lparr>c_acks := \<lparr>slots = [], objs = [Resolved (sample_ack ''f1'' True)]\<rparr>\<rparr>) sample_service"

lemma dispatch_records_placement_witness:
  "\<exists>row. get_session_node ''s1'' (sv_ledger (snd (dispatch_session_resume 7
      \<lparr>cl_conn = 0, cl_key = ''f1'', cl_fut = 0\<rparr> ''n1'' sample_spec answered_service))) = Inr (Some row)
    \<and> s_node_id row = ''n1'' \<and> s_status row = ''provisioned''"
proof -
  let ?cl = "\<lparr>cl_conn = 0, cl_key = ''f1'', cl_fut = 0\<rparr>"
  have str: "strip (sp_session_id sample_spec) = ''s1''" "strip ''n1'' = ''n1''" by code_simp+
  have d: "sp_defer_start sample_spec" by (simp add: sample_spec_def)
  have "fst (end_ack ?cl answered_service) = Got (sample_ack ''f1'' True)"
    by (simp add: end_ack_def end_on_def end_call_def answered_service_def)
  then obtain sv1 where e: "end_ack ?cl answered_service = (Got (sample_ack ''f1'' True), sv1)"
    by (metis prod.collapse)
  have "ack_ok (sample_ack ''f1'' True)" by (simp add: sample_ack_def)
  with dispatch_records_placement [OF str(1) _ str(2) _ e, of 7] d show ?thesis
    by (auto simp: split_beta)
qed

subsection \<open>Host commands\<close>

text \<open>The node's own limit on a command, in microseconds: two minutes by default, ten at most.\<close>

definition node_budget :: "int \<Rightarrow> microseconds" where
  "node_budget timeout_ms = (if timeout_ms = 0 then seconds 120 else min (timeout_ms * 1000) (seconds 600))"

lemma approved_conn_guards:
  assumes "approved_conn n sv = Inr (r, i)"
  shows "find_node n sv = Some r" "n_status r = NODE_STATUS_APPROVED" "sv_lookup n sv = Some i"
    "\<not> c_closed (conn_at i sv)"
  using assms by (auto simp: approved_conn_def find_node_def fail_rpc_def split: sum.splits option.splits if_splits)

lemma host_exec_begun:
  assumes "host_exec_start stamp fid rid node req sv = (Inr (cl, wait), sv1)"
  obtains r i c where "approved_conn (strip node) sv = Inr (r, i)"
    "dget (n_capabilities r) ''host_exec'' = Some ''true''" "strip (hq_command req) \<noteq> []"
    "sv1 = put_conn i c sv" "wait = host_exec_wait (hq_timeout_ms req)" "cl_conn cl = i"
    "begin_call await_host_exec cancel_host_exec rid (new_frame fid stamp (P_host_exec
       \<lparr>hq_request_id = rid, hq_command = strip (hq_command req), hq_cwd = strip (hq_cwd req),
        hq_timeout_ms = max (hq_timeout_ms req) 0, hq_max_output_bytes = max (hq_max_output_bytes req) 0\<rparr>))
       (conn_at i sv) = (Inr (cl_fut cl), c)"
proof -
  let ?fr = "new_frame fid stamp (P_host_exec
       \<lparr>hq_request_id = rid, hq_command = strip (hq_command req), hq_cwd = strip (hq_cwd req),
        hq_timeout_ms = max (hq_timeout_ms req) 0, hq_max_output_bytes = max (hq_max_output_bytes req) 0\<rparr>)"
  obtain r i where g: "approved_conn (strip node) sv = Inr (r, i)"
    "dget (n_capabilities r) ''host_exec'' = Some ''true''" "strip (hq_command req) \<noteq> []"
    "begin_host_exec i rid ?fr sv = (Inr cl, sv1)" "wait = host_exec_wait (hq_timeout_ms req)"
    using assms by (auto simp: host_exec_start_def Let_def fail_rpc_def split: if_splits sum.splits prod.splits)
  from g(4) have "begin_on i rid (begin_call await_host_exec cancel_host_exec rid ?fr) sv = (Inr cl, sv1)"
    by (simp only: begin_host_exec_def)
  then show thesis
  proof (rule begin_on_outcome)
    fix c
    assume c: "sv1 = put_conn i c sv" "begin_call await_host_exec cancel_host_exec rid ?fr (conn_at i sv)
        = (map_sum id cl_fut (Inr cl), c)" "\<And>cl'. Inr cl = Inr cl' \<Longrightarrow> cl_conn cl' = i \<and> cl_key cl' = rid"
    from c(3) [OF refl] have i: "cl_conn cl = i" by simp
    from c(2) have b: "begin_call await_host_exec cancel_host_exec rid ?fr (conn_at i sv) = (Inr (cl_fut cl), c)"
      by (simp only: map_sum.simps)
    show thesis by (rule that [OF g(1-3) c(1) g(5) i b])
  qed
qed

lemma host_exec_wait_bounds:
  "host_exec_wait t = node_budget (max t 0) + seconds 30"
  "seconds 30 \<le> host_exec_wait t" "host_exec_wait t \<le> seconds 630"
proof -
  show eq: "host_exec_wait t = node_budget (max t 0) + seconds 30"
    by (cases "t \<le> 0") (auto simp: host_exec_wait_def node_budget_def Let_def HOST_EXEC_DEFAULT_TIMEOUT_MS_def
        HOST_EXEC_MAX_TIMEOUT_MS_def HOST_EXEC_ACK_SLACK_def min_def max_def)
  show "seconds 30 \<le> host_exec_wait t" "host_exec_wait t \<le> seconds 630"
    unfolding eq by (auto simp: node_budget_def min_def max_def)
qed

text \<open>C36: a host command is bounded and never abandoned early. A command is only sent to an approved,
  connected node that offers host commands; what is queued for the node is that command under a
  fresh id, with no negative limits; and the server waits the node's whole budget for the requested
  timeout plus 30 seconds, so at least half a minute and at most ten and a half.\<close>

theorem host_exec_outlasts_the_node:
  assumes "host_exec_start stamp fid rid node req sv = (Inr (cl, wait), sv1)"
    and "\<And>i. sv_lookup (strip node) sv = Some i \<Longrightarrow> i < length (r_heap (sv_registry sv))"
  shows "\<exists>r i hq. find_node (strip node) sv = Some r \<and> n_status r = NODE_STATUS_APPROVED
     \<and> dget (n_capabilities r) ''host_exec'' = Some ''true'' \<and> sv_lookup (strip node) sv = Some i
     \<and> q_items (c_downstream (conn_at i sv1)) = q_items (c_downstream (conn_at i sv))
         @ [Some (new_frame fid stamp (P_host_exec hq))]
     \<and> hq_request_id hq = rid \<and> hq_command hq \<noteq> [] \<and> 0 \<le> hq_timeout_ms hq \<and> 0 \<le> hq_max_output_bytes hq
     \<and> wait = node_budget (hq_timeout_ms hq) + seconds 30 \<and> seconds 30 \<le> wait \<and> wait \<le> seconds 630"
proof -
  obtain r i c where h: "approved_conn (strip node) sv = Inr (r, i)"
    "dget (n_capabilities r) ''host_exec'' = Some ''true''" "strip (hq_command req) \<noteq> []"
    "sv1 = put_conn i c sv" "wait = host_exec_wait (hq_timeout_ms req)"
    and b: "begin_call await_host_exec cancel_host_exec rid (new_frame fid stamp (P_host_exec
       \<lparr>hq_request_id = rid, hq_command = strip (hq_command req), hq_cwd = strip (hq_cwd req),
        hq_timeout_ms = max (hq_timeout_ms req) 0, hq_max_output_bytes = max (hq_max_output_bytes req) 0\<rparr>))
       (conn_at i sv) = (Inr (cl_fut cl), c)"
    by (rule host_exec_begun [OF assms(1)])
  note g = approved_conn_guards [OF h(1)]
  have "conn_at i sv1 = c" using assms(2) [OF g(3)] by (simp add: h(4))
  with g h(2,3,5) host_exec_call.begun_frame [OF b] host_exec_wait_bounds [of "hq_timeout_ms req"]
  show ?thesis by auto
qed

lemma host_exec_outlasts_the_node_witness:
  "\<exists>cl wait sv1. host_exec_start ''t'' ''f'' ''r'' ''n1''
      \<lparr>hq_request_id = [], hq_command = ''ls'', hq_cwd = [], hq_timeout_ms = 3600000, hq_max_output_bytes = 0\<rparr>
      (sample_service\<lparr>sv_ledger := (sv_ledger sample_service)\<lparr>nodes :=
         [(''n1'', sample_node_row\<lparr>n_capabilities := [(''host_exec'', ''true'')]\<rparr>)]\<rparr>\<rparr>) = (Inr (cl, wait), sv1)
    \<and> wait = seconds 630"
proof -
  let ?sv = "sample_service\<lparr>sv_ledger := (sv_ledger sample_service)\<lparr>nodes :=
         [(''n1'', sample_node_row\<lparr>n_capabilities := [(''host_exec'', ''true'')]\<rparr>)]\<rparr>\<rparr>"
  let ?req = "\<lparr>hq_request_id = [], hq_command = ''ls'', hq_cwd = [], hq_timeout_ms = 3600000, hq_max_output_bytes = 0\<rparr>"
  have str: "strip ''n1'' = ''n1''" "strip ''ls'' = ''ls''" "NODE_STATUS_APPROVED = ''approved''" by code_simp+
  have run: "\<exists>cl wait sv1. host_exec_start ''t'' ''f'' ''r'' ''n1'' ?req ?sv = (Inr (cl, wait), sv1)"
    by (simp add: host_exec_start_def str approved_conn_def get_node_if_exists_def sample_node_row_def
        sample_service_def sv_lookup_def lookup_def conn_at_def new_connection_def begin_host_exec_def
        begin_on_def begin_call_def await_host_exec_def await_reply_def tab_open_def send_def put_nowait_def
        q_full_def empty_table_def new_queue_def DOWNSTREAM_BUFFER_def Let_def)
  then obtain cl wait sv1 where r: "host_exec_start ''t'' ''f'' ''r'' ''n1'' ?req ?sv = (Inr (cl, wait), sv1)" by blast
  have "wait = host_exec_wait 3600000" by (rule host_exec_begun [OF r]) simp
  also have "\<dots> = seconds 630" by code_simp
  finally show ?thesis
    using host_exec_outlasts_the_node [OF r] r
    by (auto simp: str sv_lookup_def lookup_def sample_service_def)
qed

end
