(* ===== verification/Task_Safety.thy ===== *)
theory Task_Safety
  imports Task_Trail "HOL-Library.Multiset"
begin

text \<open>
  What holds of the task tables however the control plane's writers interleave: message delivery
  follows its state machine and every change is logged, a task ends once, and a conversation item is
  stored in exactly one of the two databases.
\<close>

subsection \<open>Writers\<close>

text \<open>One step is one call of one writer; what \<open>json.loads\<close> and the clock return is any value.\<close>

inductive task_write :: "task_db \<Rightarrow> task_db \<Rightarrow> bool" where
  delivery: "task_write db (record_message_status loads render now sid event_type payload_json db)"
| failure: "task_write db (fail_inflight_messages sid reason client_message_id db)"
| thread: "task_write db (sync_task_provider_thread loads render now sid payload_json db)"
| result: "task_write db (finalize_task_for_session now sid success exit_code error stderr_tail db)"
| stage: "task_write db (record_session_stage now sid stage_name ok detail error db)"
| item: "task_write db (record_session_event loads dumps render accepts draws sid f db)"
| node_lost: "task_write db (mark_node_hosted_offline node_id db)"

subsection \<open>Edges of the delivery state machine\<close>

definition delivery_edge :: "string \<Rightarrow> string \<Rightarrow> bool" where
  "delivery_edge a b = (\<exists>ts. (a, ts) \<in> set TRANSITIONS \<and> b \<in> set ts)"

text \<open>What never changes about an event, and the history row that logs its status.\<close>

definition event_key :: "event_row \<Rightarrow> string \<times> int \<times> string \<times> string \<times> string \<times> event_payload option
   \<times> string option \<times> int" where
  "event_key e = (e_task_id e, e_seq e, e_kind e, e_event_type e, e_logical_event_id e, e_payload e,
     e_client_message_id e, e_delivery_attempt e)"

definition logs_status :: "event_row \<Rightarrow> history_row \<Rightarrow> bool" where
  "logs_status e h = (h_task_id h = e_task_id e \<and> h_field h = ''delivery_status''
     \<and> h_to h = e_delivery_status e
     \<and> h_message_id h = (case e_client_message_id e of Some [] \<Rightarrow> None | m \<Rightarrow> m))"

definition message_moved :: "history_row list \<Rightarrow> event_row \<Rightarrow> event_row \<Rightarrow> bool" where
  "message_moved hs e e' = (event_key e' = event_key e
     \<and> delivery_edge\<^sup>*\<^sup>* (e_delivery_status e) (e_delivery_status e')
     \<and> (e_delivery_status e' \<noteq> e_delivery_status e \<longrightarrow> list_ex (logs_status e') hs))"

text \<open>The trail only grows, and each event already there moved along the edges.\<close>

definition trail_extends :: "task_db \<Rightarrow> task_db \<Rightarrow> bool" where
  "trail_extends db db' = (\<exists>hs evs new. db_history db' = db_history db @ hs \<and> db_events db' = evs @ new
     \<and> list_all2 (message_moved hs) (db_events db) evs)"

lemma from_states_edge: "a \<in> set (from_states b) \<Longrightarrow> delivery_edge a b"
  by (auto simp: from_states_def delivery_edge_def)

lemma status_fits: assumes "from_states st \<noteq> []" shows "take 64 st = st"
proof -
  have "list_all (\<lambda>st. length st \<le> 64) (concat (map snd TRANSITIONS))" by code_simp
  moreover have "st \<in> set (concat (map snd TRANSITIONS))"
    using assms by (auto simp: from_states_def filter_empty_conv)
  ultimately show ?thesis by (auto simp only: list_all_iff take_all)
qed

lemma in_flight_edge: assumes "s \<in> set IN_FLIGHT" shows "delivery_edge s ''failed''"
proof -
  have "list_all (\<lambda>s. list_ex (\<lambda>(a, ts). a = s \<and> ''failed'' \<in> set ts) TRANSITIONS) IN_FLIGHT" by code_simp
  with assms have "list_ex (\<lambda>(a, ts). a = s \<and> ''failed'' \<in> set ts) TRANSITIONS" by (simp only: list_all_iff)
  then show ?thesis unfolding list_ex_iff delivery_edge_def by blast
qed

lemma completed_absorbing:
  assumes "delivery_edge\<^sup>*\<^sup>* ''completed'' s" shows "s = ''completed''"
proof -
  have "''completed'' \<notin> set (map fst TRANSITIONS)" by code_simp
  then have "\<not> delivery_edge ''completed'' y" for y by (force simp: delivery_edge_def)
  then show ?thesis using assms by (metis converse_rtranclpE)
qed

subsection \<open>Extending the trail\<close>

lemma message_moved_refl [simp]: "message_moved hs e e"
  by (simp add: message_moved_def)

lemma message_moved_trans:
  assumes "message_moved hs e e'" "message_moved hs' e' e''"
  shows "message_moved (hs @ hs') e e''"
proof -
  have "delivery_edge\<^sup>*\<^sup>* (e_delivery_status e) (e_delivery_status e'')" "event_key e'' = event_key e"
    using assms by (auto simp: message_moved_def)
  moreover have "logs_status e' = logs_status e''" if "e_delivery_status e'' = e_delivery_status e'"
    using assms(2) that by (auto simp: message_moved_def event_key_def logs_status_def fun_eq_iff)
  then have "e_delivery_status e'' \<noteq> e_delivery_status e \<longrightarrow> list_ex (logs_status e'') (hs @ hs')"
    using assms by (cases "e_delivery_status e'' = e_delivery_status e'") (auto simp: message_moved_def)
  ultimately show ?thesis by (simp add: message_moved_def)
qed

lemma trail_extends_same:
  "db_history db' = db_history db \<Longrightarrow> db_events db' = db_events db \<Longrightarrow> trail_extends db db'"
  unfolding trail_extends_def by (intro exI [of _ "[]"] exI [of _ "db_events db"]) (simp add: list_all2_same)

lemma trail_extends_grow:
  "db_history db' = db_history db @ hs \<Longrightarrow> db_events db' = db_events db @ new \<Longrightarrow> trail_extends db db'"
  unfolding trail_extends_def
  by (intro exI [of _ hs] exI [of _ "db_events db"] exI [of _ new]) (simp add: list_all2_same)

lemma trail_extends_update:
  assumes "db_history db' = db_history db @ hs"
    and "db_events db' = map (\<lambda>e. if sel e then f e else e) (db_events db)"
    and "\<And>e. sel e \<Longrightarrow> event_key (f e) = event_key e"
    and "\<And>e. sel e \<Longrightarrow> delivery_edge (e_delivery_status e) (e_delivery_status (f e))"
    and "\<And>e. e \<in> set (db_events db) \<Longrightarrow> sel e \<Longrightarrow> list_ex (logs_status (f e)) hs"
  shows "trail_extends db db'"
proof -
  have "message_moved hs e (if sel e then f e else e)" if "e \<in> set (db_events db)" for e
    using assms(3-5) [of e] that by (auto simp: message_moved_def)
  then have "list_all2 (message_moved hs) (db_events db) (db_events db')"
    by (auto simp: assms(2) list_all2_conv_all_nth)
  with assms(1) show ?thesis unfolding trail_extends_def by (metis append_Nil2)
qed

lemma trail_extends_trans:
  assumes "trail_extends db1 db2" "trail_extends db2 db3" shows "trail_extends db1 db3"
proof -
  from assms obtain hs evs new hs' evs' new' where
    1: "db_history db2 = db_history db1 @ hs" "db_events db2 = evs @ new"
      "list_all2 (message_moved hs) (db_events db1) evs" and
    2: "db_history db3 = db_history db2 @ hs'" "db_events db3 = evs' @ new'"
      "list_all2 (message_moved hs') (db_events db2) evs'"
    unfolding trail_extends_def by blast
  have len: "length (db_events db1) = length evs" "length evs + length new = length evs'"
    using 1(2,3) 2(3) by (auto dest: list_all2_lengthD)
  have "list_all2 (message_moved (hs @ hs')) (db_events db1) (take (length evs) evs')"
    unfolding list_all2_conv_all_nth
  proof (intro conjI allI impI)
    show "length (db_events db1) = length (take (length evs) evs')" using len by simp
    fix i assume i: "i < length (db_events db1)"
    with 1(3) have "message_moved hs (db_events db1 ! i) (evs ! i)" by (simp add: list_all2_conv_all_nth)
    moreover have "message_moved hs' (evs ! i) (evs' ! i)"
      using list_all2_nthD [OF 2(3), of i] i len by (simp add: 1(2) nth_append)
    ultimately show "message_moved (hs @ hs') (db_events db1 ! i) (take (length evs) evs' ! i)"
      using i len by (simp add: message_moved_trans)
  qed
  then show ?thesis
    unfolding trail_extends_def using 1(1) 2(1,2)
    by (intro exI [of _ "hs @ hs'"] exI [of _ "take (length evs) evs'"] exI [of _ "drop (length evs) evs' @ new'"]) simp
qed

lemma transition_logged:
  "db_history (record_status_transition task_id ''delivery_status'' to_val frm reason message_id attempt db) =
     db_history db @ [\<lparr>h_task_id = task_id, h_field = ''delivery_status'', h_from = take 64 frm,
        h_to = take 64 to_val, h_reason = (case reason of Some (Reason []) \<Rightarrow> None | r \<Rightarrow> r),
        h_message_id = (case message_id of Some [] \<Rightarrow> None | m \<Rightarrow> m), h_delivery_attempt = attempt\<rparr>]"
  "db_events (record_status_transition task_id fld to_val frm reason message_id attempt db) = db_events db"
  by (simp_all add: record_status_transition_def)

subsection \<open>Each writer extends the trail\<close>

lemma stamped_row [simp]:
  "event_key (coalesce_reason why (stamp_status now st e)) = event_key e"
  "e_delivery_status (coalesce_reason why (stamp_status now st e)) = st"
  "e_task_id (coalesce_reason why (stamp_status now st e)) = e_task_id e"
  "e_client_message_id (coalesce_reason why (stamp_status now st e)) = e_client_message_id e"
  by (simp_all add: coalesce_reason_def stamp_status_def event_key_def Let_def)

lemma failed_row [simp]:
  "event_key (fail_row why e) = event_key e" "e_delivery_status (fail_row why e) = ''failed''"
  "e_task_id (fail_row why e) = e_task_id e" "e_client_message_id (fail_row why e) = e_client_message_id e"
  by (simp_all add: fail_row_def coalesce_reason_def event_key_def)

lemma update_events_facts:
  assumes "update_events sel f db = (hits, db1)"
  shows "hits = filter sel (db_events db)" "db_history db1 = db_history db"
    "db_events db1 = map (\<lambda>e. if sel e then f e else e) (db_events db)"
  using assms by (auto simp: update_events_def)

text \<open>One update of selected messages with one history row for all of them.\<close>

lemma update_logged_once:
  assumes "update_events sel f db = (hits, db1)"
    and "\<And>e. sel e \<Longrightarrow> event_key (f e) = event_key e \<and> e_delivery_status (f e) = st
           \<and> delivery_edge (e_delivery_status e) st \<and> e_task_id e = tid \<and> e_client_message_id e = Some (m # ms)"
    and "take 64 st = st"
  shows "trail_extends db (record_status_transition tid ''delivery_status'' st frm reason (Some (m # ms)) attempt db1)"
proof (rule trail_extends_update [where sel = sel and f = f])
  note u = update_events_facts [OF assms(1)]
  show "db_history (record_status_transition tid ''delivery_status'' st frm reason (Some (m # ms)) attempt db1) =
      db_history db @ [\<lparr>h_task_id = tid, h_field = ''delivery_status'', h_from = take 64 frm, h_to = st,
        h_reason = (case reason of Some (Reason []) \<Rightarrow> None | r \<Rightarrow> r), h_message_id = Some (m # ms),
        h_delivery_attempt = attempt\<rparr>]"
    by (simp add: transition_logged u(2) assms(3))
  show "db_events (record_status_transition tid ''delivery_status'' st frm reason (Some (m # ms)) attempt db1) =
      map (\<lambda>e. if sel e then f e else e) (db_events db)"
    by (simp add: transition_logged u(3))
qed (use assms(2) in \<open>auto simp: logs_status_def event_key_def\<close>)

lemma message_step_extends:
  assumes "from_states st \<noteq> []" "m \<noteq> []"
    and "update_events (message_selected tid m attempt (from_states st))
           (\<lambda>e. coalesce_reason why (stamp_status now st e)) db = (hits, db1)"
  shows "trail_extends db (record_status_transition tid ''delivery_status'' st frm reason (Some m) a db1)"
proof -
  obtain c cs where m: "m = c # cs" using assms(2) by (cases m) auto
  show ?thesis
    unfolding m by (rule update_logged_once [OF assms(3) [unfolded m] _ status_fits [OF assms(1)]])
      (auto simp: message_selected_def from_states_edge)
qed

text \<open>A writer extends the trail when each of its branches does.\<close>

lemma let_pair: "Let p (case_prod f) = case_prod f p"
  by simp

lemma extends_let: "(\<And>y. trail_extends db (f y)) \<Longrightarrow> trail_extends db (Let x f)"
  by simp

lemma extends_if:
  "(c \<Longrightarrow> trail_extends db a) \<Longrightarrow> (\<not> c \<Longrightarrow> trail_extends db b) \<Longrightarrow> trail_extends db (if c then a else b)"
  by simp

lemma extends_option:
  "trail_extends db a \<Longrightarrow> (\<And>x. trail_extends db (f x)) \<Longrightarrow>
     trail_extends db (case opt of None \<Rightarrow> a | Some x \<Rightarrow> f x)"
  by (simp split: option.split)

lemma extends_pair:
  "(\<And>x y. p = (x, y) \<Longrightarrow> trail_extends db (f x y)) \<Longrightarrow> trail_extends db (case p of (x, y) \<Rightarrow> f x y)"
  by (simp split: prod.split)

lemma extends_list:
  "trail_extends db a \<Longrightarrow> (\<And>y ys. xs = y # ys \<Longrightarrow> trail_extends db (f y ys)) \<Longrightarrow>
     trail_extends db (case xs of [] \<Rightarrow> a | y # ys \<Rightarrow> f y ys)"
  by (simp split: list.split)

lemma message_status_extends:
  "trail_extends db (record_message_status loads render now sid0 event_type payload_json db)"
  unfolding record_message_status_def let_pair
  by (intro extends_let extends_if extends_option extends_pair extends_list)
    ((rule message_step_extends trail_extends_same; (assumption | simp))+)

definition failure_log :: "string \<Rightarrow> string \<Rightarrow> event_row \<Rightarrow> history_row" where
  "failure_log tid reason e = \<lparr>h_task_id = tid, h_field = ''delivery_status'', h_from = [],
     h_to = ''failed'', h_reason = Some (Reason (or_str reason ''runtime error frame (session-wide)'')),
     h_message_id = (case e_client_message_id e of Some [] \<Rightarrow> None | m \<Rightarrow> m),
     h_delivery_attempt = Some (e_delivery_attempt e)\<rparr>"

lemma failures_logged:
  "db_history (fold (\<lambda>e. record_status_transition tid ''delivery_status'' ''failed'' []
      (Some (Reason (or_str reason ''runtime error frame (session-wide)'')))
      (e_client_message_id e) (Some (e_delivery_attempt e))) hits db)
     = db_history db @ map (failure_log tid reason) hits"
  "db_events (fold (\<lambda>e. record_status_transition tid ''delivery_status'' ''failed'' []
      (Some (Reason (or_str reason ''runtime error frame (session-wide)'')))
      (e_client_message_id e) (Some (e_delivery_attempt e))) hits db) = db_events db"
  by (induction hits arbitrary: db)
    (auto simp: transition_logged failure_log_def or_str_def split: option.splits list.splits)

lemma fail_all_extends:
  assumes "update_events (\<lambda>e. e_task_id e = tid \<and> e_delivery_status e \<in> set IN_FLIGHT) (fail_row reason) db
     = (hits, db1)"
  shows "trail_extends db (fold (\<lambda>e. record_status_transition tid ''delivery_status'' ''failed'' []
      (Some (Reason (or_str reason ''runtime error frame (session-wide)'')))
      (e_client_message_id e) (Some (e_delivery_attempt e))) hits db1)"
proof (rule trail_extends_update [where f = "fail_row reason"
      and sel = "\<lambda>e. e_task_id e = tid \<and> e_delivery_status e \<in> set IN_FLIGHT"])
  note u = update_events_facts [OF assms]
  show "list_ex (logs_status (fail_row reason e)) (map (failure_log tid reason) hits)"
    if "e \<in> set (db_events db)" "e_task_id e = tid \<and> e_delivery_status e \<in> set IN_FLIGHT" for e
    using that by (auto simp: list_ex_iff u(1) logs_status_def failure_log_def)
qed (simp_all add: failures_logged update_events_facts [OF assms] in_flight_edge)

lemma fail_one_extends:
  assumes "update_events (\<lambda>e. e_task_id e = tid \<and> e_client_message_id e = Some (c # cs)
      \<and> e_delivery_status e \<in> set IN_FLIGHT) (fail_row reason) db = (e # es, db1)"
  shows "trail_extends db (record_status_transition tid ''delivery_status'' ''failed'' frm why
      (e_client_message_id e) a db1)"
proof -
  have "e \<in> set (filter (\<lambda>e. e_task_id e = tid \<and> e_client_message_id e = Some (c # cs)
      \<and> e_delivery_status e \<in> set IN_FLIGHT) (db_events db))"
    using update_events_facts(1) [OF assms] by (metis list.set_intros(1))
  then have "e_client_message_id e = Some (c # cs)" by simp
  then show ?thesis
    by (simp only:) (rule update_logged_once [OF assms], auto simp: in_flight_edge)
qed

lemma fail_inflight_extends: "trail_extends db (fail_inflight_messages sid0 reason cmid db)"
  unfolding fail_inflight_messages_def Let_def
  by (auto split: option.splits list.splits prod.splits simp: trail_extends_same
      intro: fail_one_extends fail_all_extends)

lemma service_updates:
  "db_history (fold (\<lambda>i d. d\<lparr>db_mcp_services := g i d\<rparr>) is db) = db_history db"
  "db_events (fold (\<lambda>i d. d\<lparr>db_mcp_services := g i d\<rparr>) is db) = db_events db"
  by (induction "is" arbitrary: db) auto

lemma other_writers_extend:
  "trail_extends db (sync_task_provider_thread loads render now sid pj db)"
  "trail_extends db (mark_node_hosted_offline node_id db)"
  "trail_extends db (finalize_task_for_session now sid success exit_code error stderr_tail db)"
proof -
  show "trail_extends db (sync_task_provider_thread loads render now sid pj db)"
    by (rule trail_extends_same) (auto simp: sync_task_provider_thread_def Let_def split: option.splits)
  show "trail_extends db (mark_node_hosted_offline node_id db)"
    by (rule trail_extends_same) (simp_all add: mark_node_hosted_offline_def Let_def service_updates)
  have "db_events (finalize_task_for_session now sid success exit_code error stderr_tail db) = db_events db"
    "\<exists>hs. db_history (finalize_task_for_session now sid success exit_code error stderr_tail db) = db_history db @ hs"
    by (auto simp: finalize_task_for_session_def Let_def notify_task_ended_def record_status_transition_def
        split: list.splits option.splits)
  then show "trail_extends db (finalize_task_for_session now sid success exit_code error stderr_tail db)"
    using trail_extends_grow [where new = "[]"] by (metis append_Nil2)
qed

lemma appending_writers_extend:
  "trail_extends db (record_session_stage now sid stage_name ok detail error db)"
  "trail_extends db (record_session_event loads dumps render accepts draws sid f db)"
proof -
  have "\<exists>new. db_history (record_session_stage now sid stage_name ok detail error db) = db_history db
      \<and> db_events (record_session_stage now sid stage_name ok detail error db) = db_events db @ new"
    by (auto simp: record_session_stage_def Let_def append_event_def split: list.splits)
  then show "trail_extends db (record_session_stage now sid stage_name ok detail error db)"
    using trail_extends_grow [where hs = "[]"] by (metis append_Nil2)
  have "\<exists>new. db_history (record_session_event loads dumps render accepts draws sid f db) = db_history db
      \<and> db_events (record_session_event loads dumps render accepts draws sid f db) = db_events db @ new"
    by (auto simp: record_session_event_def Let_def append_event_def insert_task_message_def
        split: option.splits list.splits prod.splits)
  then show "trail_extends db (record_session_event loads dumps render accepts draws sid f db)"
    using trail_extends_grow [where hs = "[]"] by (metis append_Nil2)
qed

lemma task_write_extends: "task_write db db' \<Longrightarrow> trail_extends db db'"
  by (induction rule: task_write.induct)
    (rule message_status_extends fail_inflight_extends other_writers_extend appending_writers_extend)+

lemma task_writes_extend: "task_write\<^sup>*\<^sup>* db db' \<Longrightarrow> trail_extends db db'"
  by (induction rule: rtranclp_induct)
    (simp add: trail_extends_same, blast intro: trail_extends_trans task_write_extends)


definition sample_task :: task_row where
  "sample_task = \<lparr>t_id = ''t1'', t_node_session_id = Some ''s1'', t_deleted = False, t_status = ''processing'',
     t_completed_at = None, t_updated_at = 0, t_config_snapshot = [], t_mcp_user_id = Some 4,
     t_api_key_id = Some 9, t_user_id = Some ''u1'', t_title = ''demo'', t_provider_thread_id = None,
     t_runtime_stage = [], t_runtime_stage_detail = [], t_runtime_stage_ok = True\<rparr>"

definition sample_message :: event_row where
  "sample_message = (plain_event ''t1'' 1 ''user'' ''user_input'')
     \<lparr>e_client_message_id := Some ''m1'', e_delivery_status := ''received''\<rparr>"

definition sample_db :: task_db where
  "sample_db = \<lparr>db_up = True, db_tasks = [sample_task], db_events = [sample_message], db_history = [],
     db_users_enabled = [(4, True)], db_keys_disabled = [(9, False)], db_outbox = [], db_clickhouse = True,
     db_messages = [], db_next_seq = 2, db_mcp_services = []\<rparr>"


subsection \<open>A task ends once\<close>

lemma terminal_row_kept:
  assumes "st \<in> set TERMINAL_STATUSES"
  shows "\<not> finalizable sid (finalize_row now st reason t)"
  using assms by (simp add: finalizable_def finalize_row_def Let_def split: option.splits)

lemma finalized_has_none_left:
  assumes "st \<in> set TERMINAL_STATUSES"
  shows "filter (finalizable sid) (map (\<lambda>x. if finalizable sid x then finalize_row now st reason x else x) ts) = []"
  using terminal_row_kept [OF assms] by (auto simp: filter_empty_conv)

lemma notify_keeps [simp]:
  "db_tasks (notify_task_ended u tid title st reason db) = db_tasks db"
  "db_up (notify_task_ended u tid title st reason db) = db_up db"
  "db_tasks (record_status_transition tid fld st frm why mid attempt db) = db_tasks db"
  "db_up (record_status_transition tid fld st frm why mid attempt db) = db_up db"
  by (simp_all add: notify_task_ended_def record_status_transition_def split: option.split list.split)

lemma finalize_up [simp]:
  "db_up (finalize_task_for_session now sid0 success exit_code error tail db) = db_up db"
  by (simp add: finalize_task_for_session_def Let_def split: list.split)

lemma finalize_rows:
  assumes "\<not> (strip sid = [] \<or> \<not> db_up db)"
  obtains st reason where "st \<in> set TERMINAL_STATUSES"
    "db_tasks (finalize_task_for_session now sid success exit_code error tail db)
       = map (\<lambda>x. if finalizable (strip sid) x then finalize_row now st reason x else x) (db_tasks db)"
proof -
  define st where "st = (if success \<and> exit_code = 0 then ''finished'' else ''error'')"
  define reason where "reason = (if st = ''finished'' then None else Some (failure_reason error exit_code tail))"
  have "st \<in> set TERMINAL_STATUSES" by (simp add: TERMINAL_STATUSES_def st_def)
  moreover have "db_tasks (finalize_task_for_session now sid success exit_code error tail db)
       = map (\<lambda>x. if finalizable (strip sid) x then finalize_row now st reason x else x) (db_tasks db)"
  proof (cases "filter (finalizable (strip sid)) (db_tasks db)")
    case Nil
    then have "map (\<lambda>x. if finalizable (strip sid) x then finalize_row now st reason x else x) (db_tasks db) = db_tasks db"
      by (auto simp: filter_empty_conv intro: map_idI)
    with Nil assms show ?thesis by (simp add: finalize_task_for_session_def Let_def)
  next
    case (Cons t ts)
    with assms show ?thesis
      by (simp add: finalize_task_for_session_def Let_def flip: st_def reason_def)
  qed
  ultimately show thesis by (rule that)
qed

lemma finalize_again:
  "finalize_task_for_session now' sid success' exit_code' error' tail'
     (finalize_task_for_session now sid success exit_code error tail db)
   = finalize_task_for_session now sid success exit_code error tail db"
proof (cases "strip sid = [] \<or> \<not> db_up db")
  case True
  then show ?thesis by (auto simp: finalize_task_for_session_def Let_def)
next
  case False
  have "filter (finalizable (strip sid))
      (db_tasks (finalize_task_for_session now sid success exit_code error tail db)) = []"
    by (rule finalize_rows [OF False, of now success exit_code error tail]) (simp only: finalized_has_none_left)
  then show ?thesis by (subst finalize_task_for_session_def) (simp add: Let_def)
qed

lemma notified_once:
  "db_outbox d = ns \<Longrightarrow>
     \<exists>ms. db_outbox (notify_task_ended u tid title st reason d) = ns @ ms \<and> length ms \<le> Suc 0"
  by (auto simp: notify_task_ended_def split: option.split list.split)

text \<open>C27: a task ends once. Replaying a session's results, in any number and with whatever later
  outcomes, times and texts, is the same as the first of them alone; that one writes at most one
  notification.\<close>

theorem first_result_decides:
  "fold (\<lambda>(now, success, exit_code, error, tail). finalize_task_for_session now sid success exit_code error tail)
     ((now, success, exit_code, error, tail) # results) db
   = finalize_task_for_session now sid success exit_code error tail db
   \<and> (\<exists>ns. db_outbox (finalize_task_for_session now sid success exit_code error tail db) = db_outbox db @ ns
        \<and> length ns \<le> 1)"
proof
  show "fold (\<lambda>(now, success, exit_code, error, tail). finalize_task_for_session now sid success exit_code error tail)
     ((now, success, exit_code, error, tail) # results) db
   = finalize_task_for_session now sid success exit_code error tail db"
    by (induction results) (auto simp: finalize_again)
  show "\<exists>ns. db_outbox (finalize_task_for_session now sid success exit_code error tail db) = db_outbox db @ ns
        \<and> length ns \<le> 1"
    by (auto simp: finalize_task_for_session_def Let_def record_status_transition_def split: list.split
        intro!: notified_once)
qed

subsection \<open>Where the conversation is\<close>

text \<open>The contents stored for a task, in ClickHouse or inline in the trail.\<close>

definition payload_item :: "event_row \<Rightarrow> json list" where
  "payload_item e = (case e_payload e of Some (Payload_item j) \<Rightarrow> [j] | _ \<Rightarrow> [])"

definition conversation :: "string \<Rightarrow> task_db \<Rightarrow> json multiset" where
  "conversation tid db =
     mset (map mr_item_json (filter (\<lambda>m. mr_task_id m = tid) (db_messages db)))
     + mset (concat (map payload_item (filter (\<lambda>e. e_task_id e = tid) (db_events db))))"

definition item_pointers :: "string \<Rightarrow> task_db \<Rightarrow> nat" where
  "item_pointers tid db = length (filter (\<lambda>e. e_task_id e = tid \<and> e_kind e \<in> {''item'', ''item_ref''}) (db_events db))"

text \<open>What a frame says, if it says anything that is kept: its task and its content.\<close>

definition said ::
  "(string \<Rightarrow> json option) \<Rightarrow> (json \<Rightarrow> string) \<Rightarrow> (json \<Rightarrow> string) \<Rightarrow> event_draws \<Rightarrow> string \<Rightarrow> event_frame
   \<Rightarrow> task_db \<Rightarrow> (string \<times> json) option" where
  "said loads dumps render draws sid f db =
     (if strip sid = [] \<or> \<not> db_up db then None
      else case (frame_item loads render f, find (bound_task (strip sid)) (db_tasks db)) of
        (Some parts, Some t) \<Rightarrow> Some (t_id t, mr_item_json (message_of dumps render draws f (t_id t) parts))
      | _ \<Rightarrow> None)"

lemma find_filter: "find P xs = (case filter P xs of [] \<Rightarrow> None | x # _ \<Rightarrow> Some x)"
  by (induction xs) auto

lemma message_of_task [simp]: "mr_task_id (message_of dumps render dr f tid parts) = tid"
  by (simp add: message_of_def build_row_def Let_def split: prod.split)

text \<open>C22: a conversation item is kept exactly once. Recording a frame adds exactly what the frame says
  to its task's conversation, and one event pointing at it, whether ClickHouse is connected, refuses
  the row or is away; frames that say nothing, and other tasks, change nothing.\<close>

theorem conversation_item_kept_once:
  "conversation tid (record_session_event loads dumps render accepts draws sid f db)
     = conversation tid db + (case said loads dumps render draws sid f db of
         Some (t, content) \<Rightarrow> if t = tid then {#content#} else {#} | None \<Rightarrow> {#})
   \<and> item_pointers tid (record_session_event loads dumps render accepts draws sid f db)
     = item_pointers tid db + (case said loads dumps render draws sid f db of
         Some (t, _) \<Rightarrow> if t = tid then 1 else 0 | None \<Rightarrow> 0)"
proof (cases "said loads dumps render draws sid f db")
  case None
  then have "record_session_event loads dumps render accepts draws sid f db = db"
    by (auto simp: said_def record_session_event_def Let_def find_filter split: if_splits option.splits list.splits)
  with None show ?thesis by simp
next
  case (Some p)
  then obtain parts t ts where s: "strip sid \<noteq> []" "db_up db" "frame_item loads render f = Some parts"
    "filter (bound_task (strip sid)) (db_tasks db) = t # ts"
    and p: "p = (t_id t, mr_item_json (message_of dumps render draws f (t_id t) parts))"
    by (auto simp: said_def find_filter split: if_splits option.splits list.splits)
  show ?thesis
    unfolding Some p
    by (auto simp: record_session_event_def Let_def s insert_task_message_def append_event_def
        conversation_def item_pointers_def plain_event_def payload_item_def)
qed

end
