(* ===== verification/Stream_Safety.thy ===== *)
theory Stream_Safety
  imports Service_Upstream Service_Calls Task_Safety Store_Safety
begin

text \<open>
  What the frames of one stream can touch. Every handler of \<open>handle_upstream\<close> is confined to the
  connection the frame arrived on, the node's own row, the node's own upgrade entry and the task
  tables, and to the task tables only through the writers of Task_Safety.
\<close>

subsection \<open>Confinement\<close>

text \<open>The columns of a node's row that decide what the node may do.\<close>

definition admission_of :: "node_row \<Rightarrow> string \<times> string \<times> string \<times> string \<times> string \<times> capacity \<times> string" where
  "admission_of r = (n_id r, n_status r, n_role r, n_manager_node_id r, n_credential_secret_enc r,
     n_capacity r, n_proxy_config_id r)"

definition ledger_confined :: "string \<Rightarrow> ledger \<Rightarrow> ledger \<Rightarrow> bool" where
  "ledger_confined n db db' = (ledger_ok db' \<and> sessions db' = sessions db \<and> lookup_config db' = lookup_config db
     \<and> (\<forall>k. map_option admission_of (dget (nodes db') k) = map_option admission_of (dget (nodes db) k)
            \<and> (k \<noteq> n \<longrightarrow> dget (nodes db') k = dget (nodes db) k)))"

definition registry_confined :: "nat \<Rightarrow> frame registry \<Rightarrow> frame registry \<Rightarrow> bool" where
  "registry_confined i r r' = (r_conns r' = r_conns r \<and> r_on_disconnect r' = r_on_disconnect r
     \<and> r_fired r' = r_fired r \<and> length (r_heap r') = length (r_heap r)
     \<and> (\<forall>j. j \<noteq> i \<longrightarrow> r_heap r' ! j = r_heap r ! j))"

definition service_confined :: "string \<Rightarrow> nat \<Rightarrow> service \<Rightarrow> service \<Rightarrow> bool" where
  "service_confined n i sv sv' = (ledger_confined n (sv_ledger sv) (sv_ledger sv')
     \<and> registry_confined i (sv_registry sv) (sv_registry sv') \<and> sv_replay sv' = sv_replay sv
     \<and> (\<forall>m. m \<noteq> n \<longrightarrow> dget (sv_tracker sv') m = dget (sv_tracker sv) m)
     \<and> sv_master_key sv' = sv_master_key sv \<and> sv_server_url sv' = sv_server_url sv
     \<and> sv_gateway_origin sv' = sv_gateway_origin sv \<and> sv_agent_image sv' = sv_agent_image sv)"

definition world_confined :: "string \<Rightarrow> nat \<Rightarrow> world \<Rightarrow> world \<Rightarrow> bool" where
  "world_confined n i w w' = (service_confined n i (w_service w) (w_service w')
     \<and> task_write\<^sup>*\<^sup>* (w_tasks w) (w_tasks w'))"

lemma ledger_confined_refl: "ledger_ok db \<Longrightarrow> ledger_confined n db db"
  by (simp add: ledger_confined_def)

lemma service_confined_refl: "ledger_ok (sv_ledger sv) \<Longrightarrow> service_confined n i sv sv"
  by (simp add: service_confined_def ledger_confined_refl registry_confined_def)

lemma service_confined_trans:
  "service_confined n i a b \<Longrightarrow> service_confined n i b c \<Longrightarrow> service_confined n i a c"
  by (auto simp: service_confined_def ledger_confined_def registry_confined_def)

lemma world_confined_trans:
  "world_confined n i a b \<Longrightarrow> world_confined n i b c \<Longrightarrow> world_confined n i a c"
  by (auto simp: world_confined_def intro: service_confined_trans)

lemma world_confined_ok: "world_confined n i w w' \<Longrightarrow> ledger_ok (sv_ledger (w_service w'))"
  by (simp add: world_confined_def service_confined_def ledger_confined_def)

subsection \<open>The three kinds of effect\<close>

lemma on_conn_confined:
  "ledger_ok (sv_ledger (w_service w)) \<Longrightarrow> world_confined n i w (on_conn i f w)"
  by (simp add: world_confined_def on_conn_def on_service_def put_conn_def service_confined_def
      ledger_confined_refl registry_confined_def)

lemma on_tasks_confined:
  "ledger_ok (sv_ledger (w_service w)) \<Longrightarrow> task_write\<^sup>*\<^sup>* (w_tasks w) (f (w_tasks w)) \<Longrightarrow>
     world_confined n i w (on_tasks f w)"
  by (simp add: world_confined_def on_tasks_def service_confined_refl)

lemma on_service_confined:
  "service_confined n i (w_service w) (f (w_service w)) \<Longrightarrow> world_confined n i w (on_service f w)"
  by (simp add: world_confined_def on_service_def)

lemma update_confined:
  assumes "ledger_ok db" "ledger_ok (snd (update_node n f db))" "\<And>r. admission_of (f r) = admission_of r"
  shows "ledger_confined n db (snd (update_node n f db))"
  using assms by (auto simp: ledger_confined_def update_node_def split: option.split)

lemma ledger_effect:
  "ledger_ok (sv_ledger sv) \<Longrightarrow> ledger_confined n (sv_ledger sv) db \<Longrightarrow> service_confined n i sv (sv\<lparr>sv_ledger := db\<rparr>)"
  by (simp add: service_confined_def registry_confined_def)

subsection \<open>The handlers\<close>

lemma touch_confined:
  assumes "touch_node_last_seen now n seen db = Inr db'" "strip n = n" "ledger_ok db"
  shows "ledger_confined n db db'"
proof -
  have ok: "ledger_ok db'" using ledger_ok_step [OF ls_touch [OF assms(1)] assms(3)] .
  show ?thesis
    using assms ok update_confined [OF assms(3)]
    by (auto simp: touch_node_last_seen_def Let_def admission_of_def split: if_splits)
qed

lemma report_confined:
  assumes "patch_node_public_ip_report now n p db = Inr db'" "strip n = n" "ledger_ok db"
  shows "ledger_confined n db db'"
proof -
  have ok: "ledger_ok db'" using ledger_ok_step [OF ls_report [OF assms(1)] assms(3)] .
  show ?thesis
    using assms ok update_confined [OF assms(3)]
    by (auto simp: patch_node_public_ip_report_def Let_def admission_of_def split: option.splits)
qed

lemma beat_confined:
  assumes "strip n = n" "ledger_ok (sv_ledger sv)"
  shows "service_confined n i sv (beat now n hb sv)"
proof -
  let ?p = "\<lambda>p. p\<lparr>pr_ipv4 := validated_report_ip (pr_ipv4 p) 4, pr_ipv6 := validated_report_ip (pr_ipv6 p) 6,
                 pr_ipv4_resolved_at := strip (pr_ipv4_resolved_at p),
                 pr_ipv6_resolved_at := strip (pr_ipv6_resolved_at p)\<rparr>"
  define stored where "stored = (case hb_public_ip_report hb of
      None \<Rightarrow> touch_node_last_seen now n None (sv_ledger sv)
    | Some p \<Rightarrow> patch_node_public_ip_report now n (?p p) (sv_ledger sv))"
  have b: "beat now n hb sv = (case stored of Inl _ \<Rightarrow> sv | Inr db \<Rightarrow> sv\<lparr>sv_ledger := db\<rparr>)"
    by (simp only: beat_def stored_def Let_def)
  show ?thesis
  proof (cases stored)
    case (Inl e)
    with assms(2) show ?thesis by (simp add: b service_confined_refl)
  next
    case (Inr db)
    then have "ledger_confined n (sv_ledger sv) db"
      using touch_confined [OF _ assms] report_confined [OF _ assms]
      by (auto simp only: stored_def split: option.splits)
    with Inr assms(2) show ?thesis by (simp add: b ledger_effect)
  qed
qed

lemma upsert_confined:
  assumes "upsert_node now (r\<lparr>n_capabilities := labels\<rparr>) db = Inr (row, db')" "dget (nodes db) n = Some r"
    and "strip n = n" "ledger_ok db"
  shows "ledger_confined n db db'"
proof -
  have id: "n_id r = n" "n \<noteq> []" using ledger_ok_get(1) [OF assms(4,2)] by (auto simp: node_ok_def)
  have ok: "ledger_ok db'" using ledger_ok_step [OF ls_upsert [OF assms(1)] assms(4)] .
  obtain row2 where row2: "db' = db\<lparr>nodes := dset n row2 (nodes db)\<rparr>" "admission_of row2 = admission_of r"
    using assms(1) id
    by (auto simp: upsert_node_def assms(2,3) get_node_def get_node_if_exists_def Let_def admission_of_def
        or_str_def)
  with ok assms(2) show ?thesis by (simp add: ledger_confined_def)
qed

lemma host_tool_ended_confined:
  assumes "strip n = n" "ledger_ok (sv_ledger sv)"
  shows "service_confined n i sv (host_tool_ended dr n res sv)"
proof -
  have "service_confined n i sv (store_labels now r labels sv)" if "find_node n sv = Some r" for now r labels
  proof -
    have r: "dget (nodes (sv_ledger sv)) n = Some r"
      using that assms(1) by (auto simp: find_node_def get_node_if_exists_def Let_def split: if_splits)
    show ?thesis
      using upsert_confined [OF _ r assms] service_confined_refl [OF assms(2)] assms(2)
      by (auto simp: store_labels_def intro: ledger_effect split: sum.split prod.split)
  qed
  with service_confined_refl [OF assms(2)] show ?thesis
    by (auto simp: host_tool_ended_def store_host_tool_versions_def split: option.split)
qed

lemma apply_event_other: "m \<noteq> n \<Longrightarrow> dget (apply_event now n e t) m = dget t m"
proof -
  have keep: "m \<noteq> n \<Longrightarrow> dget (store_snapshot n k s t) m = dget t m" for k s
    by (simp add: store_snapshot_def split: option.split)
  assume "m \<noteq> n"
  then show ?thesis by (simp add: apply_event_def keep Let_def split: option.split)
qed

lemma tracker_confined:
  "ledger_ok (sv_ledger sv) \<Longrightarrow> service_confined n i sv (with_tracker (apply_event now n e) sv)"
  by (simp add: with_tracker_def service_confined_def registry_confined_def ledger_confined_refl apply_event_other)

lemma trail_event_writes: "task_write\<^sup>*\<^sup>* db (trail_event tx dr e db)"
proof -
  define sid where "sid = ss_session_id e"
  define pl where "pl = ss_payload_json e"
  define db1 where "db1 = record_session_event (tx_loads tx) (tx_dumps tx) (tx_render tx) (tx_accepts tx)
      (fd_event dr) sid (event_frame_of e) db"
  define db2 where "db2 = (if ss_event_type e \<in> {''input_status'', ''agent_turn_started'', ''agent_turn_completed''}
      then record_message_status (tx_loads tx) (tx_render tx) (fd_now dr) sid (ss_event_type e) pl db1 else db1)"
  have 1: "task_write db db1" unfolding db1_def by (rule item)
  have 2: "db2 = db1 \<or> task_write db1 db2" unfolding db2_def by (simp add: task_write.delivery)
  have "trail_event tx dr e db = db2 \<or> task_write db2 (trail_event tx dr e db)"
    unfolding trail_event_def Let_def sid_def [symmetric] pl_def [symmetric] db1_def [symmetric] db2_def [symmetric]
    by (simp add: task_write.thread task_write.failure)
  with 1 2 show ?thesis by (auto intro: rtranclp.rtrancl_into_rtrancl)
qed

subsection \<open>Every frame\<close>

lemma beat_frame_confined:
  assumes "strip n = n" "ledger_ok (sv_ledger (w_service w))"
  shows "world_confined n i w (on_conn i f (on_service (beat now n hb) w))"
proof -
  have 1: "world_confined n i w (on_service (beat now n hb) w)"
    by (rule on_service_confined) (rule beat_confined [OF assms])
  show ?thesis by (rule world_confined_trans [OF 1 on_conn_confined [OF world_confined_ok [OF 1]]])
qed

lemma session_ended_confined:
  assumes "ledger_ok (sv_ledger (w_service w))"
  shows "world_confined n i w (session_ended tx dr i res w)"
proof -
  define w1 where "w1 = on_conn i (deliver_result (Some res)) w"
  define w2 where "w2 = on_tasks (finalize_task_for_session (fd_now dr) (sr_session_id res) (sr_success res)
     (sr_exit_code res) (sr_error res) (stderr_tail (tx_decode tx) (sr_session_id res) (conn_at i (w_service w1)))) w1"
  have 1: "world_confined n i w w1" unfolding w1_def by (rule on_conn_confined [OF assms])
  have "world_confined n i w1 w2"
    unfolding w2_def by (rule on_tasks_confined [OF world_confined_ok [OF 1]]) (rule r_into_rtranclp, rule result)
  then have 2: "world_confined n i w w2" by (rule world_confined_trans [OF 1])
  have "session_ended tx dr i res w = on_conn i (forget_stderr (sr_session_id res)) w2"
    by (simp only: session_ended_def Let_def w1_def w2_def)
  then show ?thesis by (simp only: world_confined_trans [OF 2 on_conn_confined [OF world_confined_ok [OF 2]]])
qed

lemma event_confined:
  assumes "ledger_ok (sv_ledger (w_service w))"
  shows "world_confined n i w (on_tasks (trail_event tx dr e) (on_conn i f w))"
proof -
  have 1: "world_confined n i w (on_conn i f w)" by (rule on_conn_confined [OF assms])
  show ?thesis
    by (rule world_confined_trans [OF 1], rule on_tasks_confined [OF world_confined_ok [OF 1]],
        rule trail_event_writes)
qed

lemma stage_confined:
  assumes "ledger_ok (sv_ledger (w_service w))"
  shows "world_confined n i w (on_tasks (record_session_stage now sid st ok d e) w)"
  by (rule on_tasks_confined [OF assms]) (rule r_into_rtranclp, rule stage)

lemma two_conn_steps_confined:
  assumes "ledger_ok (sv_ledger (w_service w))"
  shows "world_confined n i w (on_conn i g (on_conn i f w))"
proof -
  have 1: "world_confined n i w (on_conn i f w)" by (rule on_conn_confined [OF assms])
  show ?thesis by (rule world_confined_trans [OF 1 on_conn_confined [OF world_confined_ok [OF 1]]])
qed

lemma tool_result_confined:
  assumes "strip n = n" "ledger_ok (sv_ledger (w_service w))"
  shows "world_confined n i w (on_service (host_tool_ended dr n r) (on_conn i f w))"
proof -
  have 1: "world_confined n i w (on_conn i f w)" by (rule on_conn_confined [OF assms(2)])
  show ?thesis
    by (rule world_confined_trans [OF 1], rule on_service_confined,
        rule host_tool_ended_confined [OF assms(1) world_confined_ok [OF 1]])
qed

lemma upgrade_event_confined:
  assumes "ledger_ok (sv_ledger (w_service w))"
  shows "world_confined n i w (on_service (with_tracker (apply_event now n e)) w)"
  by (rule on_service_confined) (rule tracker_confined [OF assms])

lemma world_confined_refl: "ledger_ok (sv_ledger (w_service w)) \<Longrightarrow> world_confined n i w w"
  by (simp add: world_confined_def service_confined_refl)

lemma handle_upstream_confined:
  assumes "strip n = n" "ledger_ok (sv_ledger (w_service w))"
  shows "world_confined n i w (snd (handle_upstream tx dr n i fr w))"
  using beat_frame_confined [OF assms] on_conn_confined [OF assms(2)] session_ended_confined [OF assms(2)]
    event_confined [OF assms(2)] stage_confined [OF assms(2)] two_conn_steps_confined [OF assms(2)]
    tool_result_confined [OF assms] upgrade_event_confined [OF assms(2)]
    world_confined_refl [OF assms(2)]
  by (cases fr) (simp_all add: handle_upstream_def Let_def split_beta)

lemma serve_frames_confined:
  assumes "strip n = n" "ledger_ok (sv_ledger (w_service w))"
  shows "world_confined n i w (serve_frames tx n i ms w)"
  using assms(2)
proof (induction ms arbitrary: w)
  case Nil
  then show ?case by (simp add: serve_frames_def world_confined_refl)
next
  case (Cons m ms)
  have 1: "world_confined n i w (serve_frame tx n i m w)"
    unfolding serve_frame_def by (rule handle_upstream_confined [OF assms(1) Cons.prems])
  show ?case
    using world_confined_trans [OF 1 Cons.IH [OF world_confined_ok [OF 1]]] by (simp add: serve_frames_def)
qed

text \<open>C4: a node's frames stay within its own connection. Whatever frames a node sends on a stream,
  in whatever order, no other connection changes and none is registered, replaced or reported lost;
  no login is consumed and no server setting changes; in the ledger no other node's row, no session
  binding and no administrative column of its own row changes; no other node's upgrade changes; and
  the task tables change only by the writers of the delivery, result and conversation properties.\<close>

theorem frames_stay_in_their_connection:
  assumes "strip n = n" "ledger_ok (sv_ledger (w_service w))"
    and "sv = w_service w" "sv' = w_service (serve_frames tx n i ms w)"
  shows "(\<forall>j. j \<noteq> i \<longrightarrow> conn_at j sv' = conn_at j sv)
     \<and> r_conns (sv_registry sv') = r_conns (sv_registry sv) \<and> r_fired (sv_registry sv') = r_fired (sv_registry sv)
     \<and> length (r_heap (sv_registry sv')) = length (r_heap (sv_registry sv))
     \<and> sv_replay sv' = sv_replay sv \<and> sv_master_key sv' = sv_master_key sv
     \<and> sv_server_url sv' = sv_server_url sv \<and> sv_agent_image sv' = sv_agent_image sv
     \<and> (\<forall>k. map_option admission_of (dget (nodes (sv_ledger sv')) k)
              = map_option admission_of (dget (nodes (sv_ledger sv)) k))
     \<and> (\<forall>k. k \<noteq> n \<longrightarrow> dget (nodes (sv_ledger sv')) k = dget (nodes (sv_ledger sv)) k
              \<and> dget (sv_tracker sv') k = dget (sv_tracker sv) k)
     \<and> sessions (sv_ledger sv') = sessions (sv_ledger sv)
     \<and> task_write\<^sup>*\<^sup>* (w_tasks w) (w_tasks (serve_frames tx n i ms w))"
  using serve_frames_confined [OF assms(1,2), of i tx ms] assms(3,4)
  by (simp add: world_confined_def service_confined_def ledger_confined_def registry_confined_def conn_at_def)

definition sample_world :: world where
  "sample_world = \<lparr>w_service = sample_service\<lparr>sv_ledger := empty_ledger\<rparr>, w_tasks = sample_db\<rparr>"

lemma frames_stay_in_their_connection_witness:
  "conn_at 0 (w_service (serve_frames (\<lparr>tx_loads = \<lambda>_. None, tx_dumps = \<lambda>_. [], tx_render = \<lambda>_. [],
       tx_accepts = \<lambda>_. True, tx_decode = \<lambda>_. []\<rparr>) ''n2'' 1
     [(\<lparr>fd_now = 5, fd_stamp = [], fd_event = \<lparr>ed_row_id = [], ed_logical_id = [], ed_created_at = []\<rparr>\<rparr>,
       U_error ''internal'' ''boom'')] sample_world)) = conn_at 0 sample_service"
proof -
  have n2: "strip ''n2'' = ''n2''" by code_simp
  have ok: "ledger_ok (sv_ledger (w_service sample_world))" by (simp add: sample_world_def)
  have "conn_at 0 (w_service (serve_frames tx ''n2'' 1 ms sample_world)) = conn_at 0 (w_service sample_world)" for tx ms
    using frames_stay_in_their_connection [OF n2 ok refl refl, where i = 1 and tx = tx and ms = ms] by simp
  then show ?thesis by (simp add: sample_world_def conn_at_def)
qed

end
