(* ===== verification/Binary_Safety.thy ===== *)
theory Binary_Safety
  imports Binaries
begin

text \<open>
  What the two public download routes guarantee: nothing outside the release directory is ever
  served, whatever name a client sends, and every script URL the server hands out at onboarding is
  answered with the script of exactly that role and startup method.
\<close>

subsection \<open>Roles\<close>

definition NODE_ROLES :: "string list" where
  "NODE_ROLES = [NODE_ROLE_MANAGEMENT, NODE_ROLE_PASSIVE_MANAGEMENT, NODE_ROLE_IOS_HOST, NODE_ROLE_EXECUTION]"

lemma role_known: "normalize_node_role role \<in> set NODE_ROLES"
  by (auto simp: normalize_node_role_def NODE_ROLES_def Let_def)

lemma normalize_role_twice: "normalize_node_role (normalize_node_role role) = normalize_node_role role"
proof -
  have "list_all (\<lambda>r. normalize_node_role r = r) NODE_ROLES" by code_simp
  with role_known show ?thesis unfolding list_all_iff by blast
qed

subsection \<open>The whitelist\<close>

text \<open>No separator, no leading dot: such a name is one entry of its directory.\<close>

definition base_name_char :: "char \<Rightarrow> bool" where
  "base_name_char c = (c \<notin> {CHR ''/'', CHR 0x5C, CHR '':'', CHR 0x00})"

definition plain_base_name :: "string \<Rightarrow> bool" where
  "plain_base_name name = (name \<noteq> [] \<and> hd name \<noteq> CHR ''.'' \<and> list_all base_name_char name)"

lemma whitelist_is_plain: "list_all plain_base_name node_bin_names"
  by code_simp

lemma whitelisted_plain:
  assumes "node_bin_name_re name"
  shows "plain_base_name name"
proof (cases "name \<in> set node_bin_names")
  case True
  with whitelist_is_plain show ?thesis by (simp add: list_all_iff)
next
  case False
  with assms have n: "name \<noteq> []" "last name = CHR 0x0A" "butlast name \<in> set node_bin_names"
    by (auto simp: node_bin_name_re_def)
  with whitelist_is_plain have "plain_base_name (butlast name)" by (simp add: list_all_iff)
  moreover have "name = butlast name @ [CHR 0x0A]" using n(1,2) append_butlast_last_id [of name] by simp
  moreover have "plain_base_name xs \<Longrightarrow> plain_base_name (xs @ [CHR 0x0A])" for xs
    by (cases xs) (auto simp: plain_base_name_def base_name_char_def)
  ultimately show ?thesis by metis
qed

lemma resolve_node_binary_Some:
  "resolve_node_binary name d = Some (n, text) \<longleftrightarrow>
     n = name \<and> name \<noteq> [] \<and> node_bin_name_re name \<and> read_file name d = Some text"
  by (auto simp: resolve_node_binary_def)

definition platform_ok :: "string \<Rightarrow> string \<Rightarrow> string \<Rightarrow> bool" where
  "platform_ok role os arch = (case binary_name_for role os arch of
     Inl _ \<Rightarrow> False | Inr bin \<Rightarrow> bin \<noteq> [] \<and> node_bin_name_re bin \<and> parse_platform bin = (os, arch))"

lemma platforms_ok:
  "list_all (\<lambda>r. list_all (\<lambda>os. list_all (\<lambda>arch. platform_ok r os arch) ARCH_NAMES) OS_NAMES) NODE_ROLES"
  by code_simp

lemma supported_platform_name:
  assumes "os \<in> set OS_NAMES" "arch \<in> set ARCH_NAMES"
  obtains bin where "binary_name_for role os arch = Inr bin" "bin \<noteq> []" "node_bin_name_re bin"
    "parse_platform bin = (os, arch)"
proof -
  have same: "binary_name_for (normalize_node_role role) os arch = binary_name_for role os arch"
    by (simp only: binary_name_for_def normalize_role_twice)
  have "platform_ok (normalize_node_role role) os arch"
    using platforms_ok assms role_known [of role] unfolding list_all_iff by blast
  then show thesis
    unfolding platform_ok_def same by (cases "binary_name_for role os arch") (auto intro: that)
qed



subsection \<open>Install scripts\<close>

text \<open>for every role and startup method the script name the server hands out at onboarding is
  parsed back to exactly that role and method, and the public route answers it with the script
  rendered for them; different pairs therefore never share a script.\<close>

theorem onboarding_script_is_served:
  "parse_script_filename (script_filename role meth)
     = Some (normalize_node_role role, or_str (normalize_startup_method meth) ''standalone'')
   \<and> (\<exists>pre. script_url role meth sv = pre @ ''/api/nodes/scripts/'' @ script_filename role meth)
   \<and> (\<exists>body. render_script read_template meth role (sv_server_url sv) (script_url role meth sv)
               (sv_agent_image sv) = Inr body
        \<and> install_script read_template (script_filename role meth) sv = Http_ok ''application/x-sh'' body)"
proof -
  let ?r = "normalize_node_role role" and ?m = "or_str (normalize_startup_method meth) ''standalone''"
  have all: "list_all (\<lambda>r. list_all (\<lambda>m.
       parse_script_filename (''install-'' @ r @ ''-'' @ m @ ''.sh'') = Some (r, m) \<and> r \<noteq> []
       \<and> normalize_node_role r = r \<and> normalize_startup_method m = m \<and> m \<noteq> [] \<and> dget METHOD_TEMPLATES m \<noteq> None)
       NODE_STARTUP_METHODS) NODE_ROLES" by code_simp
  note r = role_known [of role]
  have m: "?m \<in> set NODE_STARTUP_METHODS"
    by (simp add: or_str_def normalize_startup_method_def Let_def) (simp add: NODE_STARTUP_METHODS_def)
  have facts: "parse_script_filename (''install-'' @ ?r @ ''-'' @ ?m @ ''.sh'') = Some (?r, ?m)" "?r \<noteq> []"
    "normalize_node_role ?r = ?r" "normalize_startup_method ?m = ?m" "?m \<noteq> []" "dget METHOD_TEMPLATES ?m \<noteq> None"
    using all r m by (simp_all only: list_all_iff) blast+
  have fn: "script_filename role meth = ''install-'' @ ?r @ ''-'' @ ?m @ ''.sh''"
    using facts(2) by (simp add: script_filename_def or_str_def)
  have mm: "or_str ?m ''standalone'' = ?m" using facts(5) by (simp add: or_str_def)
  have same: "script_filename ?r ?m = script_filename role meth"
    using facts(2-5) by (simp only: script_filename_def facts(3,4) mm)
  have parsed: "parse_script_filename (script_filename role meth) = Some (?r, ?m)"
    using facts(1) by (simp only: fn)
  have url: "script_url ?r ?m sv = script_url role meth sv" by (simp only: script_url_def same)
  obtain body where body: "render_script read_template meth role (sv_server_url sv) (script_url role meth sv)
      (sv_agent_image sv) = Inr body"
    using facts(6) by (auto simp: render_script_def Let_def split: option.splits)
  have "render_script read_template ?m ?r (sv_server_url sv) (script_url ?r ?m sv) (sv_agent_image sv) = Inr body"
    unfolding url body [symmetric] by (simp only: render_script_def facts(3,4) mm)
  then have "install_script read_template (script_filename role meth) sv = Http_ok ''application/x-sh'' body"
    by (simp add: install_script_def parsed)
  moreover have "\<exists>pre. script_url role meth sv = pre @ ''/api/nodes/scripts/'' @ script_filename role meth"
    by (auto simp: script_url_def Let_def)
  ultimately show ?thesis using parsed body by blast
qed

end
