(* ===== verification/Sha256.thy ===== *)
theory Sha256
  imports Digest
begin

text \<open>
  \<open>hashlib.sha256\<close> and \<open>hmac.new(key, msg, sha256)\<close> (FIPS 180-4, RFC 2104), on 32-bit words.
  The padding is the one of SHA-1.
\<close>

unbundle bit_operations_syntax

text \<open>The round constants of FIPS 180-4, in decimal.\<close>

definition sha256_k :: "32 word list" where
  "sha256_k = [
    1116352408, 1899447441, 3049323471, 3921009573, 961987163, 1508970993, 2453635748, 2870763221,
    3624381080, 310598401, 607225278, 1426881987, 1925078388, 2162078206, 2614888103, 3248222580,
    3835390401, 4022224774, 264347078, 604807628, 770255983, 1249150122, 1555081692, 1996064986,
    2554220882, 2821834349, 2952996808, 3210313671, 3336571891, 3584528711, 113926993, 338241895,
    666307205, 773529912, 1294757372, 1396182291, 1695183700, 1986661051, 2177026350, 2456956037,
    2730485921, 2820302411, 3259730800, 3345764771, 3516065817, 3600352804, 4094571909, 275423344,
    430227734, 506948616, 659060556, 883997877, 958139571, 1322822218, 1537002063, 1747873779,
    1955562222, 2024104815, 2227730452, 2361852424, 2428436474, 2756734187, 3204031479, 3329325298]"

definition sha256_small0 :: "32 word \<Rightarrow> 32 word" where
  "sha256_small0 x = word_rotr 7 x XOR word_rotr 18 x XOR drop_bit 3 x"

definition sha256_small1 :: "32 word \<Rightarrow> 32 word" where
  "sha256_small1 x = word_rotr 17 x XOR word_rotr 19 x XOR drop_bit 10 x"

definition sha256_big0 :: "32 word \<Rightarrow> 32 word" where
  "sha256_big0 x = word_rotr 2 x XOR word_rotr 13 x XOR word_rotr 22 x"

definition sha256_big1 :: "32 word \<Rightarrow> 32 word" where
  "sha256_big1 x = word_rotr 6 x XOR word_rotr 11 x XOR word_rotr 25 x"

text \<open>The message schedule, newest word first.\<close>

fun sha256_expand :: "nat \<Rightarrow> 32 word list \<Rightarrow> 32 word list" where
  "sha256_expand 0 ws = ws"
| "sha256_expand (Suc n) ws =
     sha256_expand n
       ((sha256_small1 (ws ! 1) + ws ! 6 + sha256_small0 (ws ! 14) + ws ! 15) # ws)"

text \<open>The working variables a to h.\<close>

type_synonym sha256_state = "32 word list"

fun sha256_round :: "32 word \<times> 32 word \<Rightarrow> sha256_state \<Rightarrow> sha256_state" where
  "sha256_round (k, w) [a, b, c, d, e, f, g, h] =
     (let t1 = h + sha256_big1 e + ((e AND f) XOR (NOT e AND g)) + k + w;
          t2 = sha256_big0 a + ((a AND b) XOR (a AND c) XOR (b AND c))
      in [t1 + t2, a, b, c, d + t1, e, f, g])"
| "sha256_round p s = s"

definition sha256_block :: "bytes \<Rightarrow> sha256_state \<Rightarrow> sha256_state" where
  "sha256_block blk s =
     (let w = rev (sha256_expand 48 (rev (map word_of_bytes (chunks 4 blk))))
      in map2 (+) s (fold sha256_round (zip sha256_k w) s))"

definition sha256_init :: sha256_state where
  "sha256_init = [0x6a09e667, 0xbb67ae85, 0x3c6ef372, 0xa54ff53a, 0x510e527f, 0x9b05688c,
    0x1f83d9ab, 0x5be0cd19]"

definition sha256 :: "bytes \<Rightarrow> bytes" where
  "sha256 m = concat (map bytes_of_word (fold sha256_block (chunks 64 (sha1_pad m)) sha256_init))"

definition hmac_sha256 :: "bytes \<Rightarrow> bytes \<Rightarrow> bytes" where
  "hmac_sha256 key msg =
     (let k0 = (if 64 < length key then sha256 key else key);
          k = k0 @ replicate (64 - length k0) 0
      in sha256 (map (\<lambda>b. b XOR 0x5C) k @ sha256 (map (\<lambda>b. b XOR 0x36) k @ msg)))"

subsection \<open>Lengths\<close>

lemma length_sha256_round: "length s = 8 \<Longrightarrow> length (sha256_round p s) = 8"
  by (cases "(p, s)" rule: sha256_round.cases) (auto simp: Let_def)

lemma length_sha256_rounds: "length s = 8 \<Longrightarrow> length (fold sha256_round ps s) = 8"
  by (induction ps arbitrary: s) (simp_all add: length_sha256_round)

lemma length_sha256_blocks: "length s = 8 \<Longrightarrow> length (fold sha256_block bs s) = 8"
  by (induction bs arbitrary: s) (simp_all add: sha256_block_def Let_def length_sha256_rounds)

lemma length_sha256 [simp]: "length (sha256 m) = 32"
proof -
  have "length (fold sha256_block (chunks 64 (sha1_pad m)) sha256_init) = 8"
    by (rule length_sha256_blocks) (simp add: sha256_init_def)
  then show ?thesis by (simp add: sha256_def length_concat comp_def sum_list_triv)
qed

lemma length_hmac_sha256 [simp]: "length (hmac_sha256 k m) = 32"
  by (simp add: hmac_sha256_def Let_def)

end
