(* ===== verification/Git_Proxy.thy ===== *)
theory Git_Proxy
  imports Node_Store Sha256
begin

text \<open>
  git_proxy.py: the reverse proxy nodes clone and push through. A request carries a token signed
  with the control token; the proxy resolves it to a repository and a git identity and forwards
  the request there with that identity's credential.

  Every SQL statement reads the database on its own, so a request is given the sequence of
  databases its statements see (\<open>dbs i\<close> is the one statement \<open>i\<close> reads) and other clients may write
  between any two of them. A UUID is its 128-bit number. \<open>loads\<close> is \<open>json.loads\<close>, \<open>decode\<close> is
  \<open>bytes.decode('utf-8', 'replace')\<close>, whose replacement character is past the modelled strings, and
  \<open>upstream\<close> is the git host behind the HTTP client.
\<close>

subsection \<open>Constants\<close>

definition TOKEN_DOMAIN :: string where "TOKEN_DOMAIN = ''git-proxy''"
definition SCOPE_MAIN :: string where "SCOPE_MAIN = ''main''"
definition MODE_RO :: string where "MODE_RO = ''ro''"
definition MODE_RW :: string where "MODE_RW = ''rw''"

definition HOP_BY_HOP :: "string list" where
  "HOP_BY_HOP = [''connection'', ''keep-alive'', ''proxy-authenticate'', ''proxy-authorization'',
     ''te'', ''trailers'', ''transfer-encoding'', ''upgrade'']"

definition REQUEST_STRIP :: "string list" where
  "REQUEST_STRIP = HOP_BY_HOP @ [''authorization'', ''host'', ''content-length'']"

definition RESPONSE_STRIP :: "string list" where
  "RESPONSE_STRIP = HOP_BY_HOP @ [''content-length'']"

definition ACTIVE_TASK_STATUSES :: "string list" where
  "ACTIVE_TASK_STATUSES = [''pending'', ''processing'', ''error'']"

text \<open>\<open>_GitProxyError\<close>, and any other exception (which the route answers with a 500).\<close>

datatype git_error = Git_error nat string | Git_internal

type_synonym 'a git = "git_error + 'a"

record git_target =
  gt_repo_url :: string
  gt_username :: "string option"
  gt_access_token :: "string option"
  gt_submodule_paths :: "string list"

subsection \<open>Tokens\<close>

definition git_sign :: "string \<Rightarrow> string \<Rightarrow> string \<Rightarrow> string \<Rightarrow> string" where
  "git_sign control task_id scope mode =
     take 32 (hexlify (hmac_sha256 (utf8_encode control)
       (utf8_encode (TOKEN_DOMAIN @ '':'' @ task_id @ '':'' @ scope @ '':'' @ mode))))"

definition git_split_token :: "string \<Rightarrow> string \<times> string \<times> string \<times> string" where
  "git_split_token token = (case split_on (CHR ''.'') token of
     [task_id, scope, mode, sig] \<Rightarrow> (strip task_id, strip scope, strip mode, strip sig)
   | _ \<Rightarrow> ([], [], [], []))"

text \<open>\<open>s.replace(pat, '')\<close>: the number of characters still to skip, then the rest.\<close>

fun remove_sub :: "string \<Rightarrow> nat \<Rightarrow> string \<Rightarrow> string" where
  "remove_sub pat k [] = []"
| "remove_sub pat (Suc k) (x # xs) = remove_sub pat k xs"
| "remove_sub pat 0 (x # xs) =
     (if prefix pat (x # xs) then remove_sub pat (length pat - 1) xs else x # remove_sub pat 0 xs)"

definition strip_braces :: "string \<Rightarrow> string" where
  "strip_braces s = (let brace = (\<lambda>c. c \<in> {CHR ''{'', CHR ''}''}) in
     rev (dropWhile brace (rev (dropWhile brace s))))"

text \<open>\<open>int(s, 16)\<close>: a sign, an optional 0x, hex digits with single underscores between them.\<close>

fun hex_value :: "bool \<Rightarrow> nat \<Rightarrow> string \<Rightarrow> nat option" where
  "hex_value after_digit acc [] = (if after_digit then Some acc else None)"
| "hex_value after_digit acc (c # cs) = (case hex_digit_of c of
     Some d \<Rightarrow> hex_value True (16 * acc + d) cs
   | None \<Rightarrow> if c = CHR ''_'' \<and> after_digit then hex_value False acc cs else None)"

definition int_base16 :: "string \<Rightarrow> int option" where
  "int_base16 s =
     (let t = strip_int s;
          negative = (take 1 t = ''-'');
          digits = (if take 1 t \<in> {''-'', ''+''} then drop 1 t else t);
          value = (if take 2 digits \<in> {''0x'', ''0X''}
             then let body = drop 2 digits
               in hex_value False 0 (if take 1 body = ''_'' then drop 1 body else body)
             else hex_value False 0 digits)
      in map_option (\<lambda>n. if negative then - int n else int n) value)"

text \<open>\<open>uuid.UUID(s)\<close>; \<open>None\<close> is ValueError.\<close>

definition uuid_of :: "string \<Rightarrow> nat option" where
  "uuid_of s =
     (let bare = strip_braces (remove_sub ''uuid:'' 0 (remove_sub ''urn:'' 0 s));
          hex = filter (\<lambda>c. c \<noteq> CHR ''-'') bare
      in if length hex \<noteq> 32 then None
         else case int_base16 hex of
           None \<Rightarrow> None
         | Some n \<Rightarrow> if 0 \<le> n \<and> n < 2 ^ 128 then Some (nat n) else None)"

definition git_valid_task_id :: "string \<Rightarrow> bool" where
  "git_valid_task_id task_id = (uuid_of task_id \<noteq> None)"

definition git_valid_scope :: "string \<Rightarrow> bool" where
  "git_valid_scope scope = (if scope = SCOPE_MAIN then True else git_valid_task_id scope)"

subsection \<open>Stored path lists\<close>

definition path_items :: "json list \<Rightarrow> string list" where
  "path_items items = filter (\<lambda>p. p \<noteq> [])
     (concat (map (\<lambda>item. case item of J_str s \<Rightarrow> [strip s] | _ \<Rightarrow> []) items))"

text \<open>A JSON column that a driver hands back as text; \<open>None\<close> is a decoding error.\<close>

definition decoded_column :: "(string \<Rightarrow> json option) \<Rightarrow> json \<Rightarrow> json option" where
  "decoded_column loads v = (case v of
     J_str s \<Rightarrow> if s = [] then Some J_null else loads s | _ \<Rightarrow> Some v)"

definition parse_submodule_paths :: "(string \<Rightarrow> json option) \<Rightarrow> json \<Rightarrow> string list" where
  "parse_submodule_paths loads snapshot = (case decoded_column loads snapshot of
     Some (J_obj kvs) \<Rightarrow> (case obj_get kvs ''submodule_paths'' of
        J_list items \<Rightarrow> path_items items | _ \<Rightarrow> [])
   | _ \<Rightarrow> [])"

definition parse_path_list :: "(string \<Rightarrow> json option) \<Rightarrow> json \<Rightarrow> string list" where
  "parse_path_list loads v = (case decoded_column loads v of
     Some (J_list items) \<Rightarrow> path_items items | _ \<Rightarrow> [])"

subsection \<open>Paths and credentials\<close>

definition R_SUFFIXES :: "string list" where
  "R_SUFFIXES = [''git-receive-pack'', ''info/refs'', ''git-upload-pack'']"

fun split_r_tails :: "string \<Rightarrow> string list \<Rightarrow> (string \<times> string) option" where
  "split_r_tails rest [] = None"
| "split_r_tails rest (tail # tails) =
     (if rest = tail then Some ([], tail)
      else if suffix (CHR ''/'' # tail) rest
      then Some (rstrip_char (CHR ''/'') (take (length rest - (length tail + 1)) rest), tail)
      else split_r_tails rest tails)"

definition split_r_path :: "string \<Rightarrow> (string \<times> string) option" where
  "split_r_path sfx = split_r_tails (drop 2 sfx) R_SUFFIXES"

record git_request =
  gq_method :: string
  gq_path :: string
  gq_headers :: "(string \<times> string) list"
  gq_query :: string
  gq_service :: "string option"
  gq_body :: bytes

text \<open>\<open>headers.get\<close> ignores case and returns the first value.\<close>

definition header_get :: "(string \<times> string) list \<Rightarrow> string \<Rightarrow> string option" where
  "header_get hs name = map_of (map (\<lambda>(k, v). (lower k, v)) hs) (lower name)"

definition extract_token :: "(bytes \<Rightarrow> string) \<Rightarrow> git_request \<Rightarrow> string option" where
  "extract_token decode req =
     (let auth = strip (case header_get (gq_headers req) ''authorization'' of None \<Rightarrow> [] | Some v \<Rightarrow> v)
      in if \<not> prefix ''basic '' (lower auth) then None
         else case standard_b64decode (strip (drop 6 auth)) of
           Inl e \<Rightarrow> None
         | Inr raw \<Rightarrow> (let user = strip (takeWhile (\<lambda>c. c \<noteq> CHR '':'') (decode raw))
              in if user = [] then None else Some user))"

definition auth_header :: "string option \<Rightarrow> string option \<Rightarrow> string option" where
  "auth_header username access_token = (case access_token of
     None \<Rightarrow> None
   | Some token \<Rightarrow>
       if token = [] then None
       else let user = strip (case username of None \<Rightarrow> [] | Some u \<Rightarrow> u);
                credential = (if user \<noteq> [] then user @ '':'' @ token else token @ '':'')
         in Some (''Basic '' @ b64encode (utf8_encode credential)))"

definition is_http :: "string \<Rightarrow> bool" where
  "is_http url = (prefix ''https://'' url \<or> prefix ''http://'' url)"

definition upstream_url :: "string \<Rightarrow> string \<Rightarrow> string \<Rightarrow> string git" where
  "upstream_url repo_url sfx query =
     (if \<not> is_http repo_url
      then Inl (Git_error 502 ''git proxy: bound repository is not an http(s) remote'')
      else let url = rstrip_char (CHR ''/'') repo_url @ ''/'' @ sfx
        in Inr (if query \<noteq> [] then url @ ''?'' @ query else url))"

text \<open>
  The path \<open>urlparse\<close> finds in an http or https URL: what follows the network location, up to the
  query or fragment, without the parameters of the last segment.
\<close>

definition url_path :: "string \<Rightarrow> string" where
  "url_path raw =
     (let url = filter (\<lambda>c. code_of c \<notin> {9, 10, 13}) (dropWhile (\<lambda>c. code_of c \<le> 32) raw);
          (scheme, netloc) = url_parts raw;
          rest = drop (length scheme + 3 + length netloc) url;
          path = takeWhile (\<lambda>c. c \<noteq> CHR ''?'' \<and> c \<noteq> CHR ''#'') rest;
          last_segment = rev (takeWhile (\<lambda>c. c \<noteq> CHR ''/'') (rev path));
          before = take (length path - length last_segment) path
      in before @ takeWhile (\<lambda>c. c \<noteq> CHR '';'') last_segment)"

subsection \<open>The control-plane database\<close>

record git_task =
  gk_status :: string
  gk_deleted :: bool
  gk_config_snapshot :: json

record git_binding =
  gb_task :: nat
  gb_repo_url :: "string option"
  gb_identity :: "nat option"
  gb_project :: "nat option"
  gb_created_at :: microseconds

record git_project =
  gp_repo_url :: "string option"
  gp_identity :: "nat option"

record git_identity =
  gi_username :: "string option"
  gi_access_token :: "string option"

record git_environment =
  ge_enabled :: bool
  ge_project :: "nat option"
  ge_submodule_paths :: json

record git_db =
  gd_tasks :: "(nat, git_task) dict"
  gd_bindings :: "git_binding list"
  gd_projects :: "(nat, git_project) dict"
  gd_associations :: "(nat \<times> nat) list"
  gd_identities :: "(nat, git_identity) dict"
  gd_environments :: "(nat, git_environment) dict"

text \<open>\<open>ORDER BY created_at LIMIT 1\<close>.\<close>

definition oldest_binding :: "git_db \<Rightarrow> nat \<Rightarrow> git_binding option" where
  "oldest_binding db task = (case sort_key gb_created_at (filter (\<lambda>b. gb_task b = task) (gd_bindings db)) of
     [] \<Rightarrow> None | b # _ \<Rightarrow> Some b)"

text \<open>The associated repository: statement \<open>i\<close> checks the association, \<open>i + 1\<close> reads the project.\<close>

definition associated_repo ::
  "(nat \<Rightarrow> git_db) \<Rightarrow> nat \<Rightarrow> string \<Rightarrow> nat \<Rightarrow> string \<Rightarrow> string git" where
  "associated_repo dbs i whose project scope = (case uuid_of scope of
     None \<Rightarrow> Inl (Git_error 403 ''git proxy: malformed association scope'')
   | Some target \<Rightarrow>
       if (project, target) \<notin> set (gd_associations (dbs i))
       then Inl (Git_error 403 (''git proxy: project is not associated with this '' @ whose))
       else case dget (gd_projects (dbs (i + 1))) target of
         None \<Rightarrow> Inl (Git_error 404 ''git proxy: associated project has no repository'')
       | Some p \<Rightarrow> (case gp_repo_url p of
           None \<Rightarrow> Inl (Git_error 404 ''git proxy: associated project has no repository'')
         | Some url \<Rightarrow>
             if url = [] then Inl (Git_error 404 ''git proxy: associated project has no repository'')
             else Inr url))"

text \<open>\<open>SELECT username, access_token FROM mc_git_identities\<close>.\<close>

definition identity_credential ::
  "git_db \<Rightarrow> nat option \<Rightarrow> string option \<times> string option" where
  "identity_credential db identity = (case identity of
     None \<Rightarrow> (None, None)
   | Some i \<Rightarrow> (case dget (gd_identities db) i of
       None \<Rightarrow> (None, None) | Some r \<Rightarrow> (gi_username r, gi_access_token r)))"

definition git_target_of ::
  "string \<Rightarrow> string option \<times> string option \<Rightarrow> string list \<Rightarrow> git_target" where
  "git_target_of url cred paths =
     \<lparr>gt_repo_url = url, gt_username = fst cred, gt_access_token = snd cred,
      gt_submodule_paths = paths\<rparr>"

text \<open>The identity of a binding, or else of its project (statement 3).\<close>

definition binding_identity :: "git_db \<Rightarrow> git_binding \<Rightarrow> nat option" where
  "binding_identity db b = (case (gb_identity b, gb_project b) of
     (None, Some p) \<Rightarrow> (case dget (gd_projects db) p of None \<Rightarrow> None | Some r \<Rightarrow> gp_identity r)
   | (i, _) \<Rightarrow> i)"

definition resolve_task ::
  "(string \<Rightarrow> json option) \<Rightarrow> bool \<Rightarrow> (nat \<Rightarrow> git_db) \<Rightarrow> string \<Rightarrow> string \<Rightarrow> git_target git" where
  "resolve_task loads pool_up dbs task_id scope =
     (if \<not> pool_up then Inl (Git_error 503 ''git proxy: control-plane database unavailable'')
      else case uuid_of task_id of
        None \<Rightarrow> Inl Git_internal
      | Some task_uuid \<Rightarrow>
          (case dget (gd_tasks (dbs 1)) task_uuid of
             None \<Rightarrow> Inl (Git_error 403 ''git proxy: task does not exist'')
           | Some t \<Rightarrow>
               if gk_deleted t then Inl (Git_error 403 ''git proxy: task does not exist'')
               else if gk_status t \<notin> set ACTIVE_TASK_STATUSES
               then Inl (Git_error 403
                 (''git proxy: task is no longer active (status='' @ gk_status t @ '')''))
               else
                 let paths = parse_submodule_paths loads (gk_config_snapshot t)
                 in case oldest_binding (dbs 2) task_uuid of
                      None \<Rightarrow> Inl (Git_error 404 ''git proxy: task has no bound repository'')
                    | Some b \<Rightarrow> (case gb_repo_url b of
                        None \<Rightarrow> Inl (Git_error 404 ''git proxy: task has no bound repository'')
                      | Some bound_url \<Rightarrow>
                          if bound_url = [] then Inl (Git_error 404 ''git proxy: task has no bound repository'')
                          else
                            let identity = binding_identity (dbs 3) b;
                                repo = (if scope = SCOPE_MAIN then Inr bound_url
                                  else case gb_project b of
                                    None \<Rightarrow> Inl (Git_error 403
                                      ''git proxy: task has no project for an association scope'')
                                  | Some p \<Rightarrow> associated_repo dbs 4 ''task'' p scope)
                            in case repo of
                                 Inl e \<Rightarrow> Inl e
                               | Inr url \<Rightarrow>
                                   Inr (git_target_of url (identity_credential (dbs 6) identity) paths))))"

definition resolve_environment ::
  "(string \<Rightarrow> json option) \<Rightarrow> bool \<Rightarrow> (nat \<Rightarrow> git_db) \<Rightarrow> nat \<Rightarrow> string \<Rightarrow> git_target git" where
  "resolve_environment loads pool_up dbs env_id scope =
     (if \<not> pool_up then Inl (Git_error 503 ''git proxy: control-plane database unavailable'')
      else case dget (gd_environments (dbs 1)) env_id of
        None \<Rightarrow> Inl (Git_error 403 ''git proxy: environment does not exist'')
      | Some env \<Rightarrow>
          if \<not> ge_enabled env then Inl (Git_error 403 ''git proxy: environment is disabled'')
          else case ge_project env of
            None \<Rightarrow> Inl (Git_error 404 ''git proxy: environment has no bound project'')
          | Some project_id \<Rightarrow>
              (case dget (gd_projects (dbs 2)) project_id of
                 None \<Rightarrow> Inl (Git_error 404 ''git proxy: environment's project has no repository'')
               | Some p \<Rightarrow> (case gp_repo_url p of
                   None \<Rightarrow> Inl (Git_error 404 ''git proxy: environment's project has no repository'')
                 | Some own_url \<Rightarrow>
                     if own_url = []
                     then Inl (Git_error 404 ''git proxy: environment's project has no repository'')
                     else
                       let repo = (if scope = SCOPE_MAIN then Inr own_url
                             else associated_repo dbs 3 ''environment'' project_id scope)
                       in case repo of
                            Inl e \<Rightarrow> Inl e
                          | Inr url \<Rightarrow> Inr (git_target_of url
                              (identity_credential (dbs 5) (gp_identity p))
                              (parse_path_list loads (ge_submodule_paths env))))))"

text \<open>The task table is probed first (statement 0).\<close>

definition git_resolve ::
  "(string \<Rightarrow> json option) \<Rightarrow> bool \<Rightarrow> (nat \<Rightarrow> git_db) \<Rightarrow> string \<Rightarrow> string \<Rightarrow> git_target git" where
  "git_resolve loads pool_up dbs principal_id scope =
     (if \<not> pool_up then Inl (Git_error 503 ''git proxy: control-plane database unavailable'')
      else case uuid_of principal_id of
        None \<Rightarrow> Inl Git_internal
      | Some pid \<Rightarrow>
          if dget (gd_tasks (dbs 0)) pid = None
          then resolve_environment loads pool_up dbs pid scope
          else resolve_task loads pool_up dbs principal_id scope)"

subsection \<open>The route\<close>

record git_forward =
  gf_method :: string
  gf_url :: string
  gf_headers :: "(string \<times> string) list"
  gf_body :: "bytes option"

text \<open>A dict comprehension over header items: a repeated key keeps its last value.\<close>

definition kept_headers :: "string list \<Rightarrow> (string \<times> string) list \<Rightarrow> (string \<times> string) list" where
  "kept_headers dropped hs =
     fold (\<lambda>(k, v) d. if lower k \<in> set dropped then d else dset k v d) hs []"

definition git_forward_of :: "git_request \<Rightarrow> string \<Rightarrow> string option \<Rightarrow> git_forward" where
  "git_forward_of req url auth =
     (let hs = kept_headers REQUEST_STRIP (gq_headers req)
      in \<lparr>gf_method = gq_method req, gf_url = url,
          gf_headers = (case auth of None \<Rightarrow> hs
             | Some a \<Rightarrow> if a = [] then hs else dset ''Authorization'' a hs),
          gf_body = (if gq_method req = ''POST'' then Some (gq_body req) else None)\<rparr>)"

text \<open>The push and service guards of both path forms, on the tail of the path.\<close>

definition service_guard :: "git_request \<Rightarrow> bool \<Rightarrow> string \<Rightarrow> git_error option" where
  "service_guard req writable tail =
     (if prefix ''git-receive-pack'' tail
      then if writable then None
           else Some (Git_error 403 ''git proxy: push is not allowed (read-only token)'')
      else if tail = ''info/refs''
      then let service = strip (case gq_service req of None \<Rightarrow> [] | Some s \<Rightarrow> s)
        in if service = ''git-receive-pack''
           then if writable then None
                else Some (Git_error 403 ''git proxy: push is not allowed (read-only token)'')
           else if service \<noteq> [] \<and> service \<noteq> ''git-upload-pack''
           then Some (Git_error 403 ''git proxy: unsupported git service'')
           else None
      else None)"

text \<open>\<open>r/<repo-path>/<tail>\<close>: the task's own repository, or a declared submodule of it.\<close>

definition route_r_path ::
  "(string \<Rightarrow> json option) \<Rightarrow> bool \<Rightarrow> (nat \<Rightarrow> git_db) \<Rightarrow> git_request \<Rightarrow> string \<Rightarrow> string \<Rightarrow> string \<Rightarrow>
   string \<Rightarrow> git_forward git" where
  "route_r_path loads pool_up dbs req task_id scope mode sfx = (case split_r_path sfx of
     None \<Rightarrow> Inl (Git_error 404 ''git proxy: unsupported git endpoint'')
   | Some (repo_rel, tail) \<Rightarrow>
       if repo_rel = [] then Inl (Git_error 404 ''git proxy: unsupported git endpoint'')
       else if scope \<noteq> SCOPE_MAIN then Inl (Git_error 403 ''git proxy: r/ path is main-scope only'')
       else case git_resolve loads pool_up dbs task_id scope of
         Inl e \<Rightarrow> Inl e
       | Inr target \<Rightarrow>
           let (scheme, netloc) = url_parts (gt_repo_url target)
           in if (CHR ''['' \<in> set netloc) \<noteq> (CHR '']'' \<in> set netloc) then Inl Git_internal
              else if \<not> is_http (gt_repo_url target)
              then Inl (Git_error 502 ''git proxy: bound repository is not an http(s) remote'')
              else
                let parent_path = rstrip_char (CHR ''/'')
                      (lstrip_char (CHR ''/'') (url_path (gt_repo_url target)));
                    is_main_repo = (repo_rel = parent_path)
                in if \<not> is_main_repo \<and> repo_rel \<notin> set (gt_submodule_paths target)
                   then Inl (Git_error 403
                     ''git proxy: path is not the task repository or a declared submodule'')
                   else case service_guard req (mode = MODE_RW \<and> is_main_repo) tail of
                     Some e \<Rightarrow> Inl e
                   | None \<Rightarrow>
                       (case upstream_url (scheme @ ''://'' @ netloc @ ''/'' @ repo_rel) tail (gq_query req) of
                          Inl e \<Rightarrow> Inl e
                        | Inr url \<Rightarrow> Inr (git_forward_of req url
                            (auth_header (gt_username target) (gt_access_token target)))))"

text \<open>The bare form: the endpoint of the repository the token's scope names.\<close>

definition route_bare_path ::
  "(string \<Rightarrow> json option) \<Rightarrow> bool \<Rightarrow> (nat \<Rightarrow> git_db) \<Rightarrow> git_request \<Rightarrow> string \<Rightarrow> string \<Rightarrow> string \<Rightarrow>
   string \<Rightarrow> git_forward git" where
  "route_bare_path loads pool_up dbs req task_id scope mode sfx =
     (if \<not> prefix ''git-receive-pack'' sfx \<and> sfx \<noteq> ''info/refs'' \<and> sfx \<noteq> ''git-upload-pack''
      then Inl (Git_error 404 ''git proxy: unsupported git endpoint'')
      else case service_guard req (mode = MODE_RW) sfx of
        Some e \<Rightarrow> Inl e
      | None \<Rightarrow> (case git_resolve loads pool_up dbs task_id scope of
          Inl e \<Rightarrow> Inl e
        | Inr target \<Rightarrow> (case upstream_url (gt_repo_url target) sfx (gq_query req) of
            Inl e \<Rightarrow> Inl e
          | Inr url \<Rightarrow> Inr (git_forward_of req url
              (auth_header (gt_username target) (gt_access_token target))))))"

text \<open>
  \<open>hmac.compare_digest\<close> on strings raises TypeError when one is not ASCII. \<open>Inr None\<close> asks for
  credentials (401).
\<close>

definition git_route ::
  "(string \<Rightarrow> json option) \<Rightarrow> (bytes \<Rightarrow> string) \<Rightarrow> string \<Rightarrow> bool \<Rightarrow> (nat \<Rightarrow> git_db) \<Rightarrow>
   git_request \<Rightarrow> git_forward option git" where
  "git_route loads decode control pool_up dbs req =
     (if strip control = [] then Inl (Git_error 503 ''git proxy: control token is not configured'')
      else case extract_token decode req of
        None \<Rightarrow> Inr None
      | Some token \<Rightarrow>
          let (task_id, scope, mode, sig) = git_split_token token
          in if \<not> git_valid_task_id task_id \<or> \<not> git_valid_scope scope \<or> sig = []
             then Inl (Git_error 403 ''git proxy: malformed token'')
             else if mode \<notin> {MODE_RO, MODE_RW} then Inl (Git_error 403 ''git proxy: malformed token'')
             else if \<not> list_all (\<lambda>c. code_of c < 128) sig then Inl Git_internal
             else if git_sign control task_id scope mode \<noteq> sig
             then Inl (Git_error 403 ''git proxy: invalid token'')
             else
               let sfx = rstrip_char (CHR ''/'') (lstrip_char (CHR ''/'') (gq_path req))
               in map_sum id Some
                    (if prefix ''r/'' sfx
                     then route_r_path loads pool_up dbs req task_id scope mode sfx
                     else route_bare_path loads pool_up dbs req task_id scope mode sfx))"

datatype upstream_answer =
    Upstream_unreachable string
  | Upstream_raised
  | Upstream_response nat "(string \<times> string) list" "bytes list"

datatype git_reply =
    Git_plain nat string "(string \<times> string) list"
  | Git_stream nat "(string \<times> string) list" "bytes list"

definition git_proxy ::
  "(string \<Rightarrow> json option) \<Rightarrow> (bytes \<Rightarrow> string) \<Rightarrow> (git_forward \<Rightarrow> upstream_answer) \<Rightarrow> string \<Rightarrow> bool \<Rightarrow>
   (nat \<Rightarrow> git_db) \<Rightarrow> git_request \<Rightarrow> git_reply" where
  "git_proxy loads decode upstream control pool_up dbs req =
     (case git_route loads decode control pool_up dbs req of
        Inl (Git_error status message) \<Rightarrow> Git_plain status (message @ [CHR 0x0A]) []
      | Inl Git_internal \<Rightarrow> Git_plain 500 (''git proxy: internal error'' @ [CHR 0x0A]) []
      | Inr None \<Rightarrow> Git_plain 401 (''git proxy: missing credentials'' @ [CHR 0x0A])
          [(''WWW-Authenticate'', ''Basic realm='' @ [CHR 0x22] @ ''git-proxy'' @ [CHR 0x22])]
      | Inr (Some fw) \<Rightarrow> (case upstream fw of
          Upstream_unreachable why \<Rightarrow>
            Git_plain 502 (''git proxy: upstream unreachable: '' @ why @ [CHR 0x0A]) []
        | Upstream_raised \<Rightarrow> Git_plain 500 (''git proxy: internal error'' @ [CHR 0x0A]) []
        | Upstream_response status headers parts \<Rightarrow>
            Git_stream status (kept_headers RESPONSE_STRIP headers) parts))"

end
