(* ===== verification/Git_Safety.thy ===== *)
theory Git_Safety
  imports Git_Proxy Crypto
begin

text \<open>
  What the git proxy promises: a request only leaves for a repository its token's principal is
  entitled to (an inductive specification over the rows of the database), under the signature of
  the control token and with the credential of the bound identity; read-only tokens cannot push;
  and the clone URL of a running task works.
\<close>

subsection \<open>The specification of an entitlement\<close>

text \<open>
  \<open>entitled loads dbs pid scope repo idn paths\<close>: principal \<open>pid\<close> may reach \<open>repo\<close> under
  \<open>scope\<close>, with the git identity \<open>idn\<close> and the declared submodules \<open>paths\<close>. Each row is the one some
  statement of the request saw.
\<close>

definition active_task :: "git_db \<Rightarrow> nat \<Rightarrow> git_task \<Rightarrow> bool" where
  "active_task db pid t = (dget (gd_tasks db) pid = Some t \<and> \<not> gk_deleted t
     \<and> gk_status t \<in> {''pending'', ''processing'', ''error''})"

definition repo_of_project :: "git_db \<Rightarrow> nat \<Rightarrow> string \<Rightarrow> bool" where
  "repo_of_project db p repo =
     (\<exists>r. dget (gd_projects db) p = Some r \<and> gp_repo_url r = Some repo \<and> repo \<noteq> [])"

inductive entitled ::
  "(string \<Rightarrow> json option) \<Rightarrow> (nat \<Rightarrow> git_db) \<Rightarrow> nat \<Rightarrow> string \<Rightarrow> string \<Rightarrow> nat option \<Rightarrow> string list \<Rightarrow> bool"
  for loads :: "string \<Rightarrow> json option" and dbs :: "nat \<Rightarrow> git_db" and pid :: nat where
  task_own: "\<lbrakk>active_task (dbs i) pid t; oldest_binding (dbs j) pid = Some b;
     gb_repo_url b = Some repo; repo \<noteq> [];
     paths = parse_submodule_paths loads (gk_config_snapshot t)\<rbrakk>
   \<Longrightarrow> entitled loads dbs pid ''main'' repo (binding_identity (dbs k) b) paths"
| task_associated: "\<lbrakk>active_task (dbs i) pid t; oldest_binding (dbs j) pid = Some b;
     gb_project b = Some p; uuid_of scope = Some q; (p, q) \<in> set (gd_associations (dbs m));
     repo_of_project (dbs n) q repo;
     paths = parse_submodule_paths loads (gk_config_snapshot t)\<rbrakk>
   \<Longrightarrow> entitled loads dbs pid scope repo (binding_identity (dbs k) b) paths"
| environment_own: "\<lbrakk>dget (gd_environments (dbs i)) pid = Some env; ge_enabled env;
     ge_project env = Some p; dget (gd_projects (dbs j)) p = Some r; gp_repo_url r = Some repo;
     repo \<noteq> []; paths = parse_path_list loads (ge_submodule_paths env)\<rbrakk>
   \<Longrightarrow> entitled loads dbs pid ''main'' repo (gp_identity r) paths"
| environment_associated: "\<lbrakk>dget (gd_environments (dbs i)) pid = Some env; ge_enabled env;
     ge_project env = Some p; dget (gd_projects (dbs j)) p = Some r; uuid_of scope = Some q;
     (p, q) \<in> set (gd_associations (dbs m)); repo_of_project (dbs n) q repo;
     paths = parse_path_list loads (ge_submodule_paths env)\<rbrakk>
   \<Longrightarrow> entitled loads dbs pid scope repo (gp_identity r) paths"

subsection \<open>Resolution implements it\<close>

lemma associated_repo_sound:
  assumes "associated_repo dbs i whose p scope = Inr url"
  obtains q where "uuid_of scope = Some q" "(p, q) \<in> set (gd_associations (dbs i))"
    "repo_of_project (dbs (i + 1)) q url"
  using assms unfolding associated_repo_def repo_of_project_def
  by (auto split: option.splits if_splits)

lemma target_fields [simp]:
  "gt_repo_url (git_target_of url cred paths) = url"
  "gt_username (git_target_of url cred paths) = fst cred"
  "gt_access_token (git_target_of url cred paths) = snd cred"
  "gt_submodule_paths (git_target_of url cred paths) = paths"
  by (simp_all add: git_target_of_def)

definition target_entitled ::
  "(string \<Rightarrow> json option) \<Rightarrow> (nat \<Rightarrow> git_db) \<Rightarrow> nat \<Rightarrow> string \<Rightarrow> git_target \<Rightarrow> bool" where
  "target_entitled loads dbs pid scope target = (\<exists>idn j.
     entitled loads dbs pid scope (gt_repo_url target) idn (gt_submodule_paths target)
     \<and> identity_credential (dbs j) idn = (gt_username target, gt_access_token target))"

lemma resolve_task_entitled:
  assumes "resolve_task loads up dbs task_id scope = Inr target"
  shows "\<exists>pid. uuid_of task_id = Some pid \<and> target_entitled loads dbs pid scope target"
proof -
  from assms obtain pid t b own url where row: "uuid_of task_id = Some pid"
      "active_task (dbs 1) pid t" "oldest_binding (dbs 2) pid = Some b"
      "gb_repo_url b = Some own" "own \<noteq> []"
    and repo: "(if scope = SCOPE_MAIN then Inr own else case gb_project b of
        None \<Rightarrow> Inl (Git_error 403 ''git proxy: task has no project for an association scope'')
      | Some p \<Rightarrow> associated_repo dbs 4 ''task'' p scope) = Inr url"
    and target: "target = git_target_of url
        (identity_credential (dbs 6) (binding_identity (dbs 3) b))
        (parse_submodule_paths loads (gk_config_snapshot t))"
    unfolding resolve_task_def active_task_def ACTIVE_TASK_STATUSES_def
    by (auto simp: Let_def split: if_split_asm option.split_asm sum.split_asm)
  have "entitled loads dbs pid scope url (binding_identity (dbs 3) b)
      (parse_submodule_paths loads (gk_config_snapshot t))"
  proof (cases "scope = SCOPE_MAIN")
    case True
    with repo row show ?thesis
      by (auto simp: SCOPE_MAIN_def intro: task_own)
  next
    case False
    with repo obtain p where p: "gb_project b = Some p" "associated_repo dbs 4 ''task'' p scope = Inr url"
      by (auto split: option.splits)
    from associated_repo_sound [OF p(2)] obtain q where "uuid_of scope = Some q"
      "(p, q) \<in> set (gd_associations (dbs 4))" "repo_of_project (dbs (4 + 1)) q url" .
    with row p show ?thesis by (intro task_associated) auto
  qed
  with row target show ?thesis unfolding target_entitled_def by auto
qed

lemma resolve_environment_entitled:
  assumes "resolve_environment loads up dbs pid scope = Inr target"
  shows "target_entitled loads dbs pid scope target"
proof -
  from assms obtain env p r own url where row: "dget (gd_environments (dbs 1)) pid = Some env"
      "ge_enabled env" "ge_project env = Some p" "dget (gd_projects (dbs 2)) p = Some r"
      "gp_repo_url r = Some own" "own \<noteq> []"
    and repo: "(if scope = SCOPE_MAIN then Inr own
        else associated_repo dbs 3 ''environment'' p scope) = Inr url"
    and target: "target = git_target_of url (identity_credential (dbs 5) (gp_identity r))
        (parse_path_list loads (ge_submodule_paths env))"
    unfolding resolve_environment_def
    by (auto simp: Let_def split: if_split_asm option.split_asm sum.split_asm)
  have "entitled loads dbs pid scope url (gp_identity r)
      (parse_path_list loads (ge_submodule_paths env))"
  proof (cases "scope = SCOPE_MAIN")
    case True
    with repo row show ?thesis
      by (auto simp: SCOPE_MAIN_def intro: environment_own)
  next
    case False
    with repo have "associated_repo dbs 3 ''environment'' p scope = Inr url" by simp
    from associated_repo_sound [OF this] obtain q where "uuid_of scope = Some q"
      "(p, q) \<in> set (gd_associations (dbs 3))" "repo_of_project (dbs (3 + 1)) q url" .
    with row show ?thesis by (intro environment_associated) auto
  qed
  with target show ?thesis unfolding target_entitled_def by auto
qed

lemma resolve_entitled:
  assumes "git_resolve loads up dbs task_id scope = Inr target"
  shows "\<exists>pid. uuid_of task_id = Some pid \<and> target_entitled loads dbs pid scope target"
  using assms unfolding git_resolve_def
  by (auto dest: resolve_task_entitled resolve_environment_entitled
      split: if_split_asm option.split_asm)

subsection \<open>Headers\<close>

lemma kept_headers_fold:
  assumes "(k, v) \<in> set (fold (\<lambda>(k, v) d. if lower k \<in> set dropped then d else dset k v d) hs d)"
  shows "(k, v) \<in> set d \<or> lower k \<notin> set dropped \<and> (k, v) \<in> set hs"
  using assms
proof (induction hs arbitrary: d)
  case (Cons h hs)
  obtain k' v' where h: "h = (k', v')" by (cases h)
  show ?case
    using Cons.prems Cons.IH set_dset_subset [of k' v' d] unfolding h
    by (fastforce split: if_split_asm)
qed simp

lemma kept_headers_sound:
  "(k, v) \<in> set (kept_headers dropped hs) \<Longrightarrow> lower k \<notin> set dropped \<and> (k, v) \<in> set hs"
  using kept_headers_fold [of k v dropped hs "[]"] by (simp add: kept_headers_def)

text \<open>Only the identity's credential travels; the node's token stays behind.\<close>

definition carries_only :: "string option \<Rightarrow> git_forward \<Rightarrow> bool" where
  "carries_only auth fw = (\<forall>(k, v) \<in> set (gf_headers fw). lower k = ''authorization'' \<longrightarrow> Some v = auth)"

lemma forward_carries_only: "carries_only auth (git_forward_of req url auth)"
proof -
  let ?hs = "kept_headers REQUEST_STRIP (gq_headers req)"
  have "lower k \<noteq> ''authorization''" if "(k, v) \<in> set ?hs" for k v
    using kept_headers_sound [OF that] by (auto simp: REQUEST_STRIP_def)
  then show ?thesis
    using set_dset_subset [of "''Authorization''" "the auth" ?hs]
    by (fastforce simp: carries_only_def git_forward_of_def Let_def split: option.split_asm if_split_asm)
qed

lemma forward_fields [simp]:
  "gf_url (git_forward_of req url auth) = url"
  "gf_method (git_forward_of req url auth) = gq_method req"
  by (simp_all add: git_forward_of_def Let_def)

lemma forward_authorization:
  "auth = Some a \<Longrightarrow> a \<noteq> [] \<Longrightarrow> dget (gf_headers (git_forward_of req url auth)) ''Authorization'' = auth"
  by (simp add: git_forward_of_def Let_def)

subsection \<open>Where a request may go\<close>

definition with_query :: "string \<Rightarrow> string \<Rightarrow> string" where
  "with_query url query = (if query \<noteq> [] then url @ ''?'' @ query else url)"

definition asks_push :: "git_request \<Rightarrow> string \<Rightarrow> bool" where
  "asks_push req tail = (prefix ''git-receive-pack'' tail
     \<or> tail = ''info/refs'' \<and> map_option strip (gq_service req) = Some ''git-receive-pack'')"

text \<open>The bare endpoint of \<open>repo\<close>, or the repository or a submodule on its host.\<close>

definition own_path :: "string \<Rightarrow> string" where
  "own_path repo = rstrip_char (CHR ''/'') (lstrip_char (CHR ''/'') (url_path repo))"

definition on_host :: "string \<Rightarrow> string \<Rightarrow> string" where
  "on_host repo path = (case url_parts repo of (scheme, netloc) \<Rightarrow>
     rstrip_char (CHR ''/'') (scheme @ ''://'' @ netloc @ ''/'' @ path))"

definition git_destination ::
  "git_request \<Rightarrow> string \<Rightarrow> string \<Rightarrow> string \<Rightarrow> string list \<Rightarrow> string \<Rightarrow> bool" where
  "git_destination req scope mode repo paths url = (\<exists>base tail.
     url = with_query (base @ ''/'' @ tail) (gq_query req)
     \<and> (tail \<in> {''info/refs'', ''git-upload-pack''} \<or> prefix ''git-receive-pack'' tail)
     \<and> (asks_push req tail \<longrightarrow> mode = MODE_RW)
     \<and> (base = rstrip_char (CHR ''/'') repo
        \<or> scope = ''main'' \<and> base = on_host repo (own_path repo)
        \<or> scope = ''main'' \<and> \<not> asks_push req tail \<and> base \<in> on_host repo ` set paths))"

lemma service_guard_None:
  "service_guard req writable tail = None \<Longrightarrow> asks_push req tail \<Longrightarrow> writable"
  unfolding service_guard_def asks_push_def by (auto simp: Let_def split: if_split_asm)

lemma upstream_url_Inr:
  "upstream_url repo tail query = Inr url \<longleftrightarrow>
     is_http repo \<and> url = with_query (rstrip_char (CHR ''/'') repo @ ''/'' @ tail) query"
  unfolding upstream_url_def with_query_def by (auto simp: Let_def)

lemma split_r_path_tail: "split_r_path sfx = Some (repo, tail) \<Longrightarrow> tail \<in> set R_SUFFIXES"
proof -
  have "split_r_tails rest tails = Some (repo, tail) \<Longrightarrow> tail \<in> set tails" for rest tails
    by (induction rest tails rule: split_r_tails.induct) (auto split: if_split_asm)
  then show "split_r_path sfx = Some (repo, tail) \<Longrightarrow> tail \<in> set R_SUFFIXES"
    by (simp add: split_r_path_def)
qed

definition forward_ok ::
  "(string \<Rightarrow> json option) \<Rightarrow> (nat \<Rightarrow> git_db) \<Rightarrow> git_request \<Rightarrow> string \<Rightarrow> string \<Rightarrow> string \<Rightarrow> git_forward \<Rightarrow> bool" where
  "forward_ok loads dbs req task_id scope mode fw = (\<exists>pid repo idn paths j user access.
     uuid_of task_id = Some pid \<and> entitled loads dbs pid scope repo idn paths
     \<and> identity_credential (dbs j) idn = (user, access)
     \<and> git_destination req scope mode repo paths (gf_url fw)
     \<and> carries_only (auth_header user access) fw)"

lemma forward_okI:
  assumes "git_resolve loads up dbs task_id scope = Inr target"
    and "git_destination req scope mode (gt_repo_url target) (gt_submodule_paths target) url"
  shows "forward_ok loads dbs req task_id scope mode
     (git_forward_of req url (auth_header (gt_username target) (gt_access_token target)))"
proof -
  from resolve_entitled [OF assms(1)] obtain pid idn j where "uuid_of task_id = Some pid"
      "entitled loads dbs pid scope (gt_repo_url target) idn (gt_submodule_paths target)"
      "identity_credential (dbs j) idn = (gt_username target, gt_access_token target)"
    unfolding target_entitled_def by blast
  with assms(2) show ?thesis
    unfolding forward_ok_def using forward_carries_only by fastforce
qed

lemma bare_path_ok:
  assumes "route_bare_path loads up dbs req task_id scope mode sfx = Inr fw"
  shows "forward_ok loads dbs req task_id scope mode fw"
proof -
  from assms obtain target url where tail: "prefix ''git-receive-pack'' sfx \<or> sfx = ''info/refs'' \<or> sfx = ''git-upload-pack''"
    and guard: "service_guard req (mode = MODE_RW) sfx = None"
    and target: "git_resolve loads up dbs task_id scope = Inr target"
    and url: "upstream_url (gt_repo_url target) sfx (gq_query req) = Inr url"
    and fw: "fw = git_forward_of req url (auth_header (gt_username target) (gt_access_token target))"
    unfolding route_bare_path_def by (auto split: if_split_asm option.split_asm sum.split_asm)
  from guard have "asks_push req sfx \<Longrightarrow> mode = MODE_RW" by (rule service_guard_None)
  with tail url have "git_destination req scope mode (gt_repo_url target) (gt_submodule_paths target) url"
    unfolding git_destination_def upstream_url_Inr by blast
  with target show ?thesis unfolding fw by (rule forward_okI)
qed

lemma r_path_ok:
  assumes "route_r_path loads up dbs req task_id scope mode sfx = Inr fw"
  shows "forward_ok loads dbs req task_id scope mode fw"
proof -
  obtain path tail where split: "split_r_path sfx = Some (path, tail)"
    using assms unfolding route_r_path_def by (auto split: option.split_asm)
  from assms split obtain target where scope: "scope = ''main''"
    and target: "git_resolve loads up dbs task_id scope = Inr target"
    unfolding route_r_path_def SCOPE_MAIN_def by (auto split: if_split_asm sum.split_asm)
  obtain scheme netloc where parts: "url_parts (gt_repo_url target) = (scheme, netloc)" by fastforce
  from assms split target parts obtain url where
      own: "path = own_path (gt_repo_url target) \<or> path \<in> set (gt_submodule_paths target)"
    and guard: "service_guard req (mode = MODE_RW \<and> path = own_path (gt_repo_url target)) tail = None"
    and url: "upstream_url (scheme @ ''://'' @ netloc @ ''/'' @ path) tail (gq_query req) = Inr url"
    and fw: "fw = git_forward_of req url (auth_header (gt_username target) (gt_access_token target))"
    unfolding route_r_path_def own_path_def
    by (auto simp: Let_def split: if_split_asm option.split_asm sum.split_asm)
  have push: "asks_push req tail \<Longrightarrow> mode = MODE_RW \<and> path = own_path (gt_repo_url target)"
    using guard by (rule service_guard_None)
  have "tail \<in> {''info/refs'', ''git-upload-pack''} \<or> prefix ''git-receive-pack'' tail"
    using split_r_path_tail [OF split] by (auto simp: R_SUFFIXES_def)
  moreover have "url = with_query (on_host (gt_repo_url target) path @ ''/'' @ tail) (gq_query req)"
    using url by (simp add: upstream_url_Inr on_host_def parts)
  ultimately have "git_destination req scope mode (gt_repo_url target) (gt_submodule_paths target) url"
    unfolding git_destination_def using own push scope by blast
  with target show ?thesis unfolding fw by (rule forward_okI)
qed

lemma route_forwards:
  assumes "git_route loads decode control up dbs req = Inr (Some fw)"
  obtains token task_id scope mode sig where "strip control \<noteq> []" "extract_token decode req = Some token"
    "git_split_token token = (task_id, scope, mode, git_sign control task_id scope mode)"
    "mode \<in> {MODE_RO, MODE_RW}" "forward_ok loads dbs req task_id scope mode fw"
proof -
  from assms obtain token where control: "strip control \<noteq> []"
    and token: "extract_token decode req = Some token"
    unfolding git_route_def by (auto split: if_split_asm option.split_asm)
  obtain task_id scope mode sig where parts: "git_split_token token = (task_id, scope, mode, sig)"
    by (metis prod.collapse)
  from assms control token parts have "mode \<in> {MODE_RO, MODE_RW}"
      "sig = git_sign control task_id scope mode"
      "\<exists>sfx. route_r_path loads up dbs req task_id scope mode sfx = Inr fw
        \<or> route_bare_path loads up dbs req task_id scope mode sfx = Inr fw"
    unfolding git_route_def
    by (auto simp: Let_def map_sum_def split: if_split_asm sum.split_asm)
  with that control token parts show ?thesis using r_path_ok bare_path_ok by metis
qed

subsection \<open>A minted token is accepted\<close>

definition minted_token :: "string \<Rightarrow> string \<Rightarrow> string \<Rightarrow> string \<Rightarrow> string" where
  "minted_token control task_id scope mode =
     task_id @ ''.'' @ scope @ ''.'' @ mode @ ''.'' @ git_sign control task_id scope mode"

definition token_char :: "char \<Rightarrow> bool" where
  "token_char c = (code_of c < 128 \<and> \<not> is_space c \<and> code_of c \<notin> {46, 47, 58})"

lemma split_on_part: "c \<notin> set w \<Longrightarrow> split_on c (w @ c # s) = w # split_on c s"
proof (induction w)
  case Nil
  then show ?case by (cases "split_on c s") auto
next
  case (Cons x w)
  then show ?case by auto
qed

lemma split_on_last: "c \<notin> set w \<Longrightarrow> split_on c w = [w]"
  by (induction w) auto

lemma hex_nibble_char: "d < 16 \<Longrightarrow> token_char (hex_nibble d)"
proof -
  assume "d < 16"
  then have "d = 0 \<or> d = 1 \<or> d = 2 \<or> d = 3 \<or> d = 4 \<or> d = 5 \<or> d = 6 \<or> d = 7 \<or> d = 8 \<or> d = 9
    \<or> d = 10 \<or> d = 11 \<or> d = 12 \<or> d = 13 \<or> d = 14 \<or> d = 15" by presburger
  then show ?thesis
    by (elim disjE) (simp_all add: hex_nibble_def token_char_def code_of_def is_space_def)
qed

lemma hexlify_chars: "list_all token_char (hexlify bs)"
proof -
  have "unat b div 16 < 16" "unat b mod 16 < 16" for b :: "8 word"
    using unat_byte_lt [of b] by linarith+
  then show ?thesis by (induction bs) (simp_all add: hexlify_def hex_nibble_char)
qed

lemma git_sign_chars: "list_all token_char (git_sign control task_id scope mode)"
  using hexlify_chars unfolding git_sign_def list_all_iff by (meson in_set_takeD)

lemma length_git_sign: "length (git_sign control task_id scope mode) = 32"
  by (simp add: git_sign_def)

lemma token_char_strip: "list_all token_char s \<Longrightarrow> strip s = s"
  by (rule strip_no_space) (auto simp: list_all_iff token_char_def)

lemma token_marks: "\<not> token_char (CHR ''.'')" "\<not> token_char (CHR '':'')" "\<not> token_char (CHR ''/'')"
  by code_simp+

lemma dot_free: "list_all token_char s \<Longrightarrow> CHR ''.'' \<notin> set s"
  using token_marks by (auto simp: list_all_iff)

lemma split_minted:
  assumes "list_all token_char task_id" "list_all token_char scope" "list_all token_char mode"
  shows "git_split_token (minted_token control task_id scope mode)
    = (task_id, scope, mode, git_sign control task_id scope mode)"
proof -
  have "split_on (CHR ''.'') (minted_token control task_id scope mode)
      = [task_id, scope, mode, git_sign control task_id scope mode]"
    using assms git_sign_chars [of control task_id scope mode]
    by (simp add: minted_token_def split_on_part split_on_last dot_free)
  then show ?thesis using assms git_sign_chars by (simp add: git_split_token_def token_char_strip)
qed

definition clone_credentials :: "string \<Rightarrow> string" where
  "clone_credentials token = ''Basic '' @ b64encode (utf8_encode (token @ '':''))"

lemma extract_minted:
  assumes "header_get (gq_headers req) ''authorization'' = Some (clone_credentials token)"
    and token: "\<forall>c \<in> set token. code_of c < 128 \<and> \<not> is_space c \<and> c \<noteq> CHR '':''" "token \<noteq> []"
    and decode: "decode (utf8_encode (token @ '':'')) = token @ '':''"
  shows "extract_token decode req = Some token"
proof -
  let ?b = "b64encode (utf8_encode (token @ '':''))"
  have "\<forall>c \<in> set ?b. \<not> is_space c" using b64encode_facts by (auto simp: list_all_iff)
  then have b: "strip ?b = ?b" by (intro strip_no_space) simp
  have ne: "?b \<noteq> []"
    using token(2) by (cases "utf8_encode (token @ '':'')" rule: b64encode.cases) (auto simp: utf8_encode_def utf8_bytes_def Let_def split: if_splits)
  have rs: "rstrip (x @ ?b) = x @ ?b" for x
  proof -
    obtain ys y where y: "?b = ys @ [y]" using ne by (cases ?b rule: rev_cases) auto
    with \<open>\<forall>c \<in> set ?b. \<not> is_space c\<close> have "\<not> is_space y" by simp
    then show ?thesis unfolding y rstrip_def by simp
  qed
  have "lstrip (''Basic '' @ ?b) = ''Basic '' @ ?b"
    by (simp add: lstrip_def is_space_def code_of_def)
  then have auth: "strip (''Basic '' @ ?b) = ''Basic '' @ ?b"
    by (simp only: strip_def rs)
  have "lower ''Basic '' = ''basic ''" by code_simp
  then have low: "prefix ''basic '' (lower (''Basic '' @ ?b))"
    by (simp only: lower_def map_append prefix_def) simp
  have "takeWhile (\<lambda>c. c \<noteq> CHR '':'') (token @ '':'') = token"
    using token(1) by (subst takeWhile_append2) auto
  moreover have "strip token = token" using token(1) by (intro strip_no_space) simp
  ultimately show ?thesis
    using assms(1) auth low b decode token(2)
    by (simp add: extract_token_def clone_credentials_def b64_roundtrip Let_def)
qed

lemma minted_chars:
  assumes "list_all token_char task_id" "list_all token_char scope" "list_all token_char mode"
  shows "\<forall>c \<in> set (minted_token control task_id scope mode).
     code_of c < 128 \<and> \<not> is_space c \<and> c \<noteq> CHR '':''"
proof -
  have dot: "code_of (CHR ''.'') < 128 \<and> \<not> is_space (CHR ''.'') \<and> CHR ''.'' \<noteq> CHR '':''" by code_simp
  have part: "code_of c < 128 \<and> \<not> is_space c \<and> c \<noteq> CHR '':''" if "token_char c" for c
    using that token_marks by (auto simp: token_char_def)
  show ?thesis
    using assms git_sign_chars [of control task_id scope mode] dot part token_marks
    by (auto simp: minted_token_def list_all_iff)
qed

lemma main_chars: "list_all token_char ''main''" "list_all token_char ''ro''" "list_all token_char ''rw''"
  by code_simp+

subsection \<open>Splitting the clone path\<close>

lemma strip_own_path: "own_path repo \<noteq> [] \<Longrightarrow>
   hd (own_path repo) \<noteq> CHR ''/'' \<and> last (own_path repo) \<noteq> CHR ''/''"
proof -
  let ?l = "lstrip_char (CHR ''/'') (url_path repo)"
  assume ne: "own_path repo \<noteq> []"
  have last: "last (own_path repo) \<noteq> CHR ''/''"
    using ne hd_dropWhile [of "\<lambda>x. x = CHR ''/''" "rev ?l"]
    by (simp add: own_path_def rstrip_char_def last_rev)
  have "?l = [] \<or> hd ?l \<noteq> CHR ''/''"
    using hd_dropWhile [of "\<lambda>x. x = CHR ''/''" "url_path repo"] by (auto simp: lstrip_char_def)
  then have "own_path repo = [] \<or> hd (own_path repo) \<noteq> CHR ''/''"
    unfolding own_path_def rstrip_char_def by (rule dropWhile_rev_head)
  with ne last show ?thesis by simp
qed

lemma split_clone_path:
  assumes "tail \<in> {''git-upload-pack'', ''info/refs'', ''git-receive-pack''}" "path \<noteq> []" "last path \<noteq> CHR ''/''"
  shows "split_r_path (''r/'' @ path @ ''/'' @ tail) = Some (path, tail)"
proof -
  have strip: "rstrip_char (CHR ''/'') path = path"
    using assms(2,3) unfolding rstrip_char_def by (cases path rule: rev_cases) auto
  let ?rest = "path @ CHR ''/'' # tail"
  have slash: "CHR ''/'' \<in> set ?rest" by simp
  have no_slash: "CHR ''/'' \<notin> set ''git-receive-pack''" "CHR ''/'' \<notin> set ''git-upload-pack''"
    by simp_all
  have plain: "?rest \<noteq> ''git-receive-pack''" "?rest \<noteq> ''git-upload-pack''"
    using slash no_slash by metis+
  have "9 < length ?rest" using assms(1,2) by (cases path) auto
  then have info: "?rest \<noteq> ''info/refs''" by (auto dest: arg_cong [of _ _ length])
  have cut: "take (length ?rest - (length tail + 1)) ?rest = path" by simp
  have tails: "suffix (CHR ''/'' # t) ?rest \<longleftrightarrow> t = tail" if "t \<in> set R_SUFFIXES" for t
    using that assms(1) unfolding suffix_to_prefix R_SUFFIXES_def by (elim insertE) auto
  have "split_r_tails ?rest R_SUFFIXES = Some (path, tail)"
    using assms(1) plain info tails [unfolded R_SUFFIXES_def] cut strip
    unfolding R_SUFFIXES_def split_r_tails.simps by (elim insertE) (simp_all del: append_eq_Cons_conv)
  then show ?thesis by (simp add: split_r_path_def)
qed

lemma minted_route:
  assumes control: "strip control \<noteq> []" and up: "up"
    and id: "list_all token_char task_id" "uuid_of task_id = Some pid" and mode: "mode \<in> {MODE_RO, MODE_RW}"
    and decode: "\<And>s. \<forall>c \<in> set s. code_of c < 128 \<Longrightarrow> decode (utf8_encode s) = s"
    and auth: "header_get (gq_headers req) ''authorization''
       = Some (clone_credentials (minted_token control task_id ''main'' mode))"
    and task: "dget (gd_tasks (dbs 0)) pid \<noteq> None" "active_task (dbs 1) pid t"
    and bound: "oldest_binding (dbs 2) pid = Some b" "gb_repo_url b = Some repo" "is_http repo"
    and host: "url_parts repo = (scheme, netloc)" "scheme \<in> {''http'', ''https''}"
      "CHR ''['' \<notin> set netloc" "CHR '']'' \<notin> set netloc"
    and path: "own_path repo \<noteq> []" "gq_path req = ''r/'' @ own_path repo @ ''/'' @ tail"
    and tail: "tail \<in> set R_SUFFIXES" "asks_push req tail \<Longrightarrow> mode = MODE_RW"
      "tail = ''info/refs'' \<Longrightarrow> gq_service req \<in> {None, Some ''git-upload-pack'', Some ''git-receive-pack''}"
    and identity: "identity_credential (dbs 6) (binding_identity (dbs 3) b) = (user, Some access)" "access \<noteq> []"
  shows "git_route loads decode control up dbs req = Inr (Some (git_forward_of req
     (with_query (on_host repo (own_path repo) @ ''/'' @ tail) (gq_query req)) (auth_header user (Some access))))"
proof -
  let ?token = "minted_token control task_id ''main'' mode"
  let ?target = "git_target_of repo (user, Some access) (parse_submodule_paths loads (gk_config_snapshot t))"
  have chars: "list_all token_char mode" using mode main_chars by (auto simp: MODE_RO_def MODE_RW_def)
  note plain = minted_chars [OF id(1) main_chars(1) chars, of control]
  have "\<forall>c \<in> set (?token @ '':''). code_of c < 128"
    using plain by (auto simp: code_of_def)
  then have token: "extract_token decode req = Some ?token"
    using auth plain decode by (intro extract_minted) (auto simp: minted_token_def)
  have parts: "git_split_token ?token = (task_id, ''main'', mode, git_sign control task_id ''main'' mode)"
    using id(1) main_chars(1) chars by (rule split_minted)
  have sig: "git_sign control task_id ''main'' mode \<noteq> []"
      "list_all (\<lambda>c. code_of c < 128) (git_sign control task_id ''main'' mode)"
    using length_git_sign [of control task_id "''main''" mode] git_sign_chars [of control task_id "''main''" mode]
    by (auto simp: list_all_iff token_char_def)
  have "repo \<noteq> []" using bound(3) by (auto simp: is_http_def)
  then have target: "git_resolve loads up dbs task_id ''main'' = Inr ?target"
    using up id(2) task bound(1,2) identity(1) unfolding active_task_def
    by (auto simp: git_resolve_def resolve_task_def SCOPE_MAIN_def ACTIVE_TASK_STATUSES_def Let_def)
  have tails: "tail \<in> {''git-upload-pack'', ''info/refs'', ''git-receive-pack''}"
    using tail(1) by (auto simp: R_SUFFIXES_def)
  note own = strip_own_path [OF path(1)]
  have services: "strip ''git-upload-pack'' = ''git-upload-pack''" "strip ''git-receive-pack'' = ''git-receive-pack''"
    by code_simp+
  have guard: "service_guard req (mode = MODE_RW) tail = None"
    using tails tail(2,3) services unfolding service_guard_def asks_push_def
    by (auto simp: Let_def)
  have base: "is_http (scheme @ ''://'' @ netloc @ ''/'' @ own_path repo)"
    using host(2) by (auto simp: is_http_def)
  let ?fw = "git_forward_of req (with_query (on_host repo (own_path repo) @ ''/'' @ tail) (gq_query req))
     (auth_header user (Some access))"
  have split: "split_r_path (''r/'' @ own_path repo @ ''/'' @ tail) = Some (own_path repo, tail)"
    using own by (intro split_clone_path tails path(1)) simp
  have "route_r_path loads up dbs req task_id ''main'' mode (''r/'' @ own_path repo @ ''/'' @ tail) = Inr ?fw"
    unfolding route_r_path_def split own_path_def [symmetric]
    using path(1) target host bound(3) guard base
    by (simp add: SCOPE_MAIN_def own_path_def [symmetric] upstream_url_def on_host_def with_query_def Let_def)
  moreover have "rstrip_char (CHR ''/'') (lstrip_char (CHR ''/'') (gq_path req)) = gq_path req"
    using tails unfolding path(2) by (elim insertE) (simp_all add: lstrip_char_def rstrip_char_def)
  ultimately show ?thesis
    using control token parts sig id mode path(2)
    by (simp add: git_route_def git_valid_task_id_def git_valid_scope_def SCOPE_MAIN_def)
qed

subsection \<open>A concrete clone\<close>

definition ascii_decode :: "bytes \<Rightarrow> string" where
  "ascii_decode bs = map (\<lambda>b. char_of (unat b)) bs"

lemma ascii_decode_encode: "\<forall>c \<in> set s. code_of c < 128 \<Longrightarrow> ascii_decode (utf8_encode s) = s"
proof (induction s)
  case (Cons c s)
  then have "char_of (unat (of_nat (code_of c) :: 8 word)) = c" "utf8_bytes c = [code_of c]"
    by (simp_all add: code_of_def byte_of_nat utf8_bytes_def)
  with Cons show ?case by (simp add: ascii_decode_def utf8_encode_def)
qed (simp add: ascii_decode_def utf8_encode_def)

definition sample_task_id :: string where
  "sample_task_id = ''00000000-0000-0000-0000-000000000007''"

definition sample_git_task :: git_task where
  "sample_git_task = \<lparr>gk_status = ''processing'', gk_deleted = False, gk_config_snapshot = J_null\<rparr>"

definition sample_git_binding :: git_binding where
  "sample_git_binding = \<lparr>gb_task = 7, gb_repo_url = Some ''https://git.example/team/app.git'',
     gb_identity = Some 3, gb_project = None, gb_created_at = 0\<rparr>"

definition sample_git_db :: git_db where
  "sample_git_db = \<lparr>gd_tasks = [(7, sample_git_task)], gd_bindings = [sample_git_binding],
     gd_projects = [], gd_associations = [],
     gd_identities = [(3, \<lparr>gi_username = Some ''bot'', gi_access_token = Some ''pat''\<rparr>)],
     gd_environments = []\<rparr>"

definition sample_clone :: "string \<Rightarrow> git_request" where
  "sample_clone mode = \<lparr>gq_method = ''POST'', gq_path = ''r/team/app.git/git-upload-pack'',
     gq_headers = [(''authorization'',
       clone_credentials (minted_token ''control'' sample_task_id ''main'' mode))],
     gq_query = [], gq_service = None, gq_body = []\<rparr>"

lemma sample_clone_url: "own_path ''https://git.example/team/app.git'' = ''team/app.git''"
  "url_parts ''https://git.example/team/app.git'' = (''https'', ''git.example'')"
  "is_http ''https://git.example/team/app.git''"
  by code_simp+

lemma sample_clone_id: "list_all token_char sample_task_id" "uuid_of sample_task_id = Some 7"
  by code_simp+

lemma sample_clone_rows:
  "dget (gd_tasks sample_git_db) 7 \<noteq> None" "active_task sample_git_db 7 sample_git_task"
  "oldest_binding sample_git_db 7 = Some sample_git_binding"
  "gb_repo_url sample_git_binding = Some ''https://git.example/team/app.git''"
  "identity_credential sample_git_db (binding_identity sample_git_db sample_git_binding)
     = (Some ''bot'', Some ''pat'')"
  by (simp_all add: sample_git_db_def active_task_def sample_git_task_def oldest_binding_def
      sample_git_binding_def identity_credential_def binding_identity_def)

lemma sample_control: "strip ''control'' \<noteq> []"
  by code_simp

lemma sample_tail: "''git-upload-pack'' \<in> set R_SUFFIXES"
  by (simp add: R_SUFFIXES_def)

lemma sample_clone_header: "header_get (gq_headers (sample_clone mode)) ''authorization''
   = Some (clone_credentials (minted_token ''control'' sample_task_id ''main'' mode))"
proof -
  have "lower ''authorization'' = ''authorization''" by code_simp
  then show ?thesis by (simp only: sample_clone_def header_get_def git_request.simps list.map prod.case map_of.simps fun_upd_same fst_conv snd_conv)
qed

lemma sample_clone_path:
  "gq_path (sample_clone mode) = ''r/'' @ own_path ''https://git.example/team/app.git'' @ ''/'' @ ''git-upload-pack''"
  "gq_query (sample_clone mode) = []"
  by (simp_all only: sample_clone_url sample_clone_def git_request.simps append.simps)

lemma sample_no_push: "\<not> asks_push (sample_clone mode) ''git-upload-pack''"
  by (simp add: asks_push_def)

lemma sample_clone_extract:
  assumes "mode \<in> {MODE_RO, MODE_RW}"
  shows "extract_token ascii_decode (sample_clone mode) = Some (minted_token ''control'' sample_task_id ''main'' mode)"
proof -
  have "list_all token_char mode" using assms main_chars by (auto simp: MODE_RO_def MODE_RW_def)
  note plain = minted_chars [OF sample_clone_id(1) main_chars(1) this, of "''control''"]
  then show ?thesis
    by (intro extract_minted sample_clone_header ascii_decode_encode)
      (auto simp: minted_token_def code_of_def)
qed

lemma sample_clone_forwarded:
  assumes "mode \<in> {MODE_RO, MODE_RW}"
  shows "\<exists>fw. git_route loads ascii_decode ''control'' True (\<lambda>i. sample_git_db) (sample_clone mode) = Inr (Some fw)"
proof -
  have "git_route loads ascii_decode ''control'' True (\<lambda>i. sample_git_db) (sample_clone mode)
      = Inr (Some (git_forward_of (sample_clone mode)
        (with_query (on_host ''https://git.example/team/app.git''
           (own_path ''https://git.example/team/app.git'') @ ''/'' @ ''git-upload-pack'')
           (gq_query (sample_clone mode)))
        (auth_header (Some ''bot'') (Some ''pat''))))" for loads
    by (rule minted_route [OF sample_control TrueI sample_clone_id assms ascii_decode_encode
          sample_clone_header sample_clone_rows(1-4) sample_clone_url(3,2) _ _ _ _
          sample_clone_path(1) sample_tail _ _ sample_clone_rows(5)])
      (simp_all add: sample_clone_url(1) sample_no_push)
  then show ?thesis by blast
qed

subsection \<open>Properties\<close>



text \<open>A read-only token never pushes: whatever path, query and headers the node sends, a forwarded
  request asks for the upload-pack endpoint, or for info/refs without the receive-pack service.
\<close>

theorem git_read_only_never_pushes:
  assumes "git_route loads decode control up dbs req = Inr (Some fw)"
    and "extract_token decode req = Some token"
    and "git_split_token token = (task_id, scope, mode, sig)" and "mode \<noteq> MODE_RW"
  shows "\<exists>base tail. gf_url fw = with_query (base @ ''/'' @ tail) (gq_query req)
     \<and> (tail = ''git-upload-pack''
        \<or> tail = ''info/refs'' \<and> map_option strip (gq_service req) \<noteq> Some ''git-receive-pack'')"
proof -
  from assms(1) obtain token' task_id' scope' mode' sig' where "extract_token decode req = Some token'"
    "git_split_token token' = (task_id', scope', mode', git_sign control task_id' scope' mode')"
    "forward_ok loads dbs req task_id' scope' mode' fw"
    by (rule route_forwards)
  with assms(2-4) have "forward_ok loads dbs req task_id' scope' mode' fw" "mode' \<noteq> MODE_RW" by auto
  then show ?thesis unfolding forward_ok_def git_destination_def asks_push_def by blast
qed

lemma git_read_only_never_pushes_witness:
  "\<exists>fw base tail. git_route (\<lambda>s. None) ascii_decode ''control'' True (\<lambda>i. sample_git_db)
       (sample_clone MODE_RO) = Inr (Some fw) \<and> gf_url fw = base @ ''/'' @ tail
     \<and> tail \<in> {''git-upload-pack'', ''info/refs''}"
proof -
  obtain fw where fw: "git_route (\<lambda>s. None) ascii_decode ''control'' True (\<lambda>i. sample_git_db)
      (sample_clone MODE_RO) = Inr (Some fw)"
    using sample_clone_forwarded by blast
  have split: "git_split_token (minted_token ''control'' sample_task_id ''main'' MODE_RO)
      = (sample_task_id, ''main'', MODE_RO, git_sign ''control'' sample_task_id ''main'' MODE_RO)"
    using split_minted sample_clone_id(1) main_chars by (simp add: MODE_RO_def)
  have "extract_token ascii_decode (sample_clone MODE_RO)
      = Some (minted_token ''control'' sample_task_id ''main'' MODE_RO)"
    by (rule sample_clone_extract) simp
  from git_read_only_never_pushes [OF fw this split] fw show ?thesis
    by (fastforce simp: with_query_def sample_clone_def MODE_RO_def MODE_RW_def)
qed

text \<open>C26: The clone URL of a running task works: with the token the control plane mints in the
  user-name slot, a fetch from the task's own repository, and a push when the mode is read-write,
  is forwarded to that repository with the bound identity's credential.
\<close>

theorem git_clone_url_works:
  assumes control: "strip control \<noteq> []" and up: "up"
    and id: "list_all token_char task_id" "uuid_of task_id = Some pid" and mode: "mode \<in> {MODE_RO, MODE_RW}"
    and decode: "\<And>s. \<forall>c \<in> set s. code_of c < 128 \<Longrightarrow> decode (utf8_encode s) = s"
    and auth: "header_get (gq_headers req) ''authorization''
       = Some (clone_credentials (minted_token control task_id ''main'' mode))"
    and task: "dget (gd_tasks (dbs 0)) pid \<noteq> None" "active_task (dbs 1) pid t"
    and bound: "oldest_binding (dbs 2) pid = Some b" "gb_repo_url b = Some repo" "is_http repo"
    and host: "url_parts repo = (scheme, netloc)" "scheme \<in> {''http'', ''https''}"
      "CHR ''['' \<notin> set netloc" "CHR '']'' \<notin> set netloc"
    and path: "own_path repo \<noteq> []" "gq_path req = ''r/'' @ own_path repo @ ''/'' @ tail"
    and tail: "tail \<in> set R_SUFFIXES" "asks_push req tail \<Longrightarrow> mode = MODE_RW"
      "tail = ''info/refs'' \<Longrightarrow> gq_service req \<in> {None, Some ''git-upload-pack'', Some ''git-receive-pack''}"
    and identity: "identity_credential (dbs 6) (binding_identity (dbs 3) b) = (user, Some access)" "access \<noteq> []"
  shows "\<exists>fw. git_route loads decode control up dbs req = Inr (Some fw)
     \<and> gf_url fw = with_query (on_host repo (own_path repo) @ ''/'' @ tail) (gq_query req)
     \<and> gf_method fw = gq_method req
     \<and> dget (gf_headers fw) ''Authorization'' = auth_header user (Some access)"
proof -
  have "auth_header user (Some access) \<noteq> None" "auth_header user (Some access) \<noteq> Some []"
    using identity(2) by (auto simp: auth_header_def Let_def)
  moreover note minted_route [OF control up id mode decode auth task bound host path tail identity]
  ultimately show ?thesis by (auto simp: forward_authorization)
qed

lemma git_clone_url_works_witness:
  "\<exists>fw. git_route (\<lambda>s. None) ascii_decode ''control'' True (\<lambda>i. sample_git_db) (sample_clone MODE_RO)
       = Inr (Some fw)
     \<and> gf_url fw = ''https://git.example/team/app.git/git-upload-pack''
     \<and> dget (gf_headers fw) ''Authorization'' = auth_header (Some ''bot'') (Some ''pat'')"
proof -
  have "on_host ''https://git.example/team/app.git'' ''team/app.git'' = ''https://git.example/team/app.git''"
    by code_simp
  moreover have "\<exists>fw. git_route (\<lambda>s. None) ascii_decode ''control'' True (\<lambda>i. sample_git_db) (sample_clone MODE_RO)
       = Inr (Some fw)
     \<and> gf_url fw = with_query (on_host ''https://git.example/team/app.git''
         (own_path ''https://git.example/team/app.git'') @ ''/'' @ ''git-upload-pack'') (gq_query (sample_clone MODE_RO))
     \<and> gf_method fw = gq_method (sample_clone MODE_RO)
     \<and> dget (gf_headers fw) ''Authorization'' = auth_header (Some ''bot'') (Some ''pat'')"
    by (rule git_clone_url_works [OF sample_control TrueI sample_clone_id _ ascii_decode_encode
          sample_clone_header sample_clone_rows(1-4) sample_clone_url(3,2) _ _ _ _
          sample_clone_path(1) sample_tail _ _ sample_clone_rows(5)])
      (simp_all add: sample_clone_url(1) sample_no_push)
  ultimately show ?thesis
    by (simp only: sample_clone_url(1) with_query_def sample_clone_path(2)) auto
qed

end
