(* ===== verification/Terminal_Commands.thy ===== *)
theory Terminal_Commands
  imports Prelude
begin

text \<open>
  terminal_commands.py: one agent command at a time inside a node terminal a browser watches.
  The command is wrapped so that it prints a private marker and its exit status; the collector
  cuts that line out of the terminal's output, for the browser and for the agent alike.

  Bytes are lists of \<open>char\<close> here. The messages of errors are constructors of \<open>term_message\<close> (the
  texts are Chinese). A running \<open>run_command\<close> suspends at its awaits, so it is cut there into
  \<open>command_begin\<close>, \<open>command_submit\<close>, \<open>command_wake\<close> and \<open>command_end\<close>; output, detaches,
  cancellation and close may run between them.
\<close>

subsection \<open>Constants and errors\<close>

definition DEFAULT_COMMAND_TIMEOUT_MS :: int where "DEFAULT_COMMAND_TIMEOUT_MS = 120000"
definition MAX_COMMAND_TIMEOUT_MS :: int where "MAX_COMMAND_TIMEOUT_MS = 600000"
definition DEFAULT_MAX_OUTPUT_BYTES :: int where "DEFAULT_MAX_OUTPUT_BYTES = 256 * 1024"
definition MAX_OUTPUT_BYTES :: int where "MAX_OUTPUT_BYTES = 2 * 1024 * 1024"

definition ETX :: string where "ETX = [CHR 0x03]"
definition CRLF :: string where "CRLF = [CHR 0x0D, CHR 0x0A]"

definition INTERACTIVE_COMMANDS :: "string list" where
  "INTERACTIVE_COMMANDS = [
    ''vi'', ''vim'', ''nvim'', ''nano'', ''emacs'', ''pico'', ''less'', ''more'', ''man'',
    ''top'', ''htop'', ''btop'', ''watch'', ''tail-f'', ''ssh'', ''telnet'', ''ftp'', ''sftp'',
    ''mysql'', ''psql'', ''redis-cli'', ''mongo'', ''sqlite3'', ''python'', ''python3'',
    ''node'', ''irb'', ''ipython'', ''gdb'', ''lldb'', ''screen'', ''tmux'', ''su'', ''sudo'',
    ''passwd'', ''login'', ''docker-attach'']"

datatype term_message =
    Empty_command
  | Not_one_line
  | Illegal_character
  | Interactive_program string
  | Terminal_is_closed
  | Terminal_closed_meanwhile
  | Terminal_is_busy
  | Send_failed string
  | Interrupted_because string
  | Timed_out_after int
  | Command_canceled
  | No_message

record terminal_error =
  te_code :: string
  te_message :: term_message

definition term_error :: "string \<Rightarrow> term_message \<Rightarrow> terminal_error" where
  "term_error code m = \<lparr>te_code = code, te_message = m\<rparr>"

subsection \<open>Commands\<close>

text \<open>The part after the last \<open>c\<close>: \<open>s.rsplit(c, 1)[-1]\<close>.\<close>

definition after_last :: "char \<Rightarrow> string \<Rightarrow> string" where
  "after_last c s = rev (takeWhile (\<lambda>x. x \<noteq> c) (rev s))"

definition command_separator :: "char \<Rightarrow> bool" where
  "command_separator c = (is_space c \<or> c \<in> {CHR '';'', CHR ''&'', CHR ''|''})"

definition command_head :: "string \<Rightarrow> string" where
  "command_head text =
     (let head = lower (takeWhile (\<lambda>c. \<not> command_separator c) text);
          base = after_last (CHR 0x5C) (after_last (CHR ''/'') head)
      in if suffix ''.exe'' base then take (length base - 4) base else base)"

definition validate_command :: "string \<Rightarrow> terminal_error + string" where
  "validate_command command =
     (let text = strip command in
      if text = [] then Inl (term_error ''invalid_command'' Empty_command)
      else if CHR 0x0A \<in> set text \<or> CHR 0x0D \<in> set text
      then Inl (term_error ''invalid_command'' Not_one_line)
      else if CHR 0x00 \<in> set text then Inl (term_error ''invalid_command'' Illegal_character)
      else if command_head text \<in> set INTERACTIVE_COMMANDS
      then Inl (term_error ''interactive_unsupported'' (Interactive_program (command_head text)))
      else Inr text)"

text \<open>\<open>s.replace(c, t)\<close> for one character.\<close>

definition replace_char :: "char \<Rightarrow> string \<Rightarrow> string \<Rightarrow> string" where
  "replace_char c t s = concat (map (\<lambda>x. if x = c then t else [x]) s)"

definition posix_quote :: "string \<Rightarrow> string" where
  "posix_quote v = [CHR 0x27] @ replace_char (CHR 0x27) [CHR 0x27, CHR 0x5C, CHR 0x27, CHR 0x27] v @ [CHR 0x27]"

definition powershell_quote :: "string \<Rightarrow> string" where
  "powershell_quote v = [CHR 0x27] @ replace_char (CHR 0x27) [CHR 0x27, CHR 0x27] v @ [CHR 0x27]"

definition posix_wrapper :: "string \<Rightarrow> string \<Rightarrow> string \<Rightarrow> string" where
  "posix_wrapper command cwd marker =
     (let pre = (if cwd \<noteq> [] then ''cd '' @ posix_quote cwd @ '' && '' else []);
          crlf = [CHR 0x5C, CHR ''r'', CHR 0x5C, CHR ''n'']
      in ''stty -echo 2>/dev/null; ''
         @ ''('' @ pre @ command @ ''); __agent_status=$?; ''
         @ ''stty echo 2>/dev/null; ''
         @ ''printf '' @ [CHR 0x27] @ crlf @ marker @ ''%d'' @ crlf @ [CHR 0x27] @ '' $__agent_status'')"

definition powershell_wrapper :: "string \<Rightarrow> string \<Rightarrow> string \<Rightarrow> string" where
  "powershell_wrapper command cwd marker =
     (let pre = (if cwd \<noteq> [] then ''Set-Location -LiteralPath '' @ powershell_quote cwd @ ''; '' else [])
      in ''& { '' @ pre @ command @ '' }; ''
         @ ''$__c = if ($LASTEXITCODE -ne $null) { $LASTEXITCODE } elseif ($?) { 0 } else { 1 }; ''
         @ ''Write-Host '' @ [CHR 0x22] @ ''`r`n'' @ marker @ ''$__c'' @ [CHR 0x22])"

definition ascii_letter :: "char \<Rightarrow> bool" where
  "ascii_letter c = (let n = code_of c in (97 \<le> n \<and> n \<le> 122) \<or> (65 \<le> n \<and> n \<le> 90))"

definition upper_letter :: "char \<Rightarrow> char" where
  "upper_letter c = (let n = code_of c in if 97 \<le> n \<and> n \<le> 122 then char_of (n - 32) else c)"

text \<open>The regular expression \<open>/([A-Za-z]):(?:/(.*))?\<close>: a drive letter and the rest of the path.\<close>

fun drive_path :: "string \<Rightarrow> (char \<times> string) option" where
  "drive_path (a # d # b # rest) =
     (if a = CHR ''/'' \<and> ascii_letter d \<and> b = CHR '':''
      then case rest of
        [] \<Rightarrow> Some (d, [])
      | s # tail \<Rightarrow> if s = CHR ''/'' \<and> CHR 0x0A \<notin> set tail then Some (d, tail) else None
      else None)"
| "drive_path _ = None"

definition normalize_cwd_for_shell :: "string \<Rightarrow> string \<Rightarrow> string" where
  "normalize_cwd_for_shell cwd flavor =
     (let v = strip cwd in
      if flavor \<noteq> ''powershell'' \<or> v = [] then v
      else case drive_path v of
        None \<Rightarrow> v
      | Some (d, tail) \<Rightarrow>
          [upper_letter d, CHR '':'', CHR 0x5C] @ replace_char (CHR ''/'') [CHR 0x5C] tail)"

definition build_wrapped_command :: "string \<Rightarrow> string \<Rightarrow> string \<Rightarrow> string \<Rightarrow> string" where
  "build_wrapped_command command cwd marker flavor =
     (let dir = normalize_cwd_for_shell cwd flavor
      in if flavor = ''powershell'' then powershell_wrapper command dir marker
         else posix_wrapper command dir marker)"

subsection \<open>The collector\<close>

text \<open>
  The future a command waits on. \<open>Abandoned\<close> is a cancelled future: \<open>asyncio.wait_for\<close> cancels the
  future it waits on when it times out or is cancelled itself.
\<close>

datatype done_state = Waiting | Finished | Broken terminal_error | Abandoned

record collector =
  co_marker :: string
  co_cap :: int
  co_done :: done_state
  co_chunks :: "string list"
  co_size :: int
  co_truncated :: bool
  co_exit_code :: "int option"
  co_echo :: string
  co_echo_stripped :: bool
  co_pending :: string

definition new_collector :: "string \<Rightarrow> int \<Rightarrow> collector" where
  "new_collector marker cap = \<lparr>co_marker = marker, co_cap = cap, co_done = Waiting, co_chunks = [],
     co_size = 0, co_truncated = False, co_exit_code = None, co_echo = [],
     co_echo_stripped = False, co_pending = []\<rparr>"

text \<open>\<open>\\s\<close> on bytes, and \<open>^(?:\r\n|\n|\r)\<close> removed once.\<close>

definition byte_space :: "char \<Rightarrow> bool" where
  "byte_space c = (let n = code_of c in (9 \<le> n \<and> n \<le> 13) \<or> n = 32)"

fun drop_line_end :: "string \<Rightarrow> string" where
  "drop_line_end [] = []"
| "drop_line_end (c # cs) =
     (if c = CHR 0x0A then cs
      else if c = CHR 0x0D then (case cs of d # ds \<Rightarrow> if d = CHR 0x0A then ds else cs | [] \<Rightarrow> [])
      else c # cs)"

text \<open>
  \<open>re.match(\\s*(-?\\d+))\<close>: the digits with their sign, and what follows. \<open>int\<close> refuses more than
  4300 digits.
\<close>

definition exit_match :: "string \<Rightarrow> (bool \<times> string \<times> string) option" where
  "exit_match tail =
     (let t = dropWhile byte_space tail;
          negative = (take 1 t = ''-'');
          body = (if negative then drop 1 t else t);
          digits = takeWhile is_digit body
      in if digits = [] then None else Some (negative, digits, drop (length digits) body))"

definition exit_value :: "bool \<Rightarrow> string \<Rightarrow> int option" where
  "exit_value negative digits = (if 4300 < length digits then None
     else Some (if negative then - int (nat_of_digits digits) else int (nat_of_digits digits)))"

text \<open>
  The first marker followed by a status, from the start of \<open>xs\<close>; a marker without one is skipped
  whole. Markers are never empty.
\<close>

function find_result_marker :: "string \<Rightarrow> string \<Rightarrow> nat option" where
  "find_result_marker marker xs =
     (if marker = [] then None
      else case find_sub marker xs of
        None \<Rightarrow> None
      | Some i \<Rightarrow>
          let next = i + length marker
          in if exit_match (drop next xs) \<noteq> None then Some i
             else map_option ((+) next) (find_result_marker marker (drop next xs)))"
  by pat_completeness auto
termination
proof (relation "measure (\<lambda>(m, xs). length xs)")
  fix marker xs :: string and i n
  assume "marker \<noteq> []" "find_sub marker xs = Some i" "n = i + length marker"
  then show "((marker, drop n xs), marker, xs) \<in> measure (\<lambda>(m, xs). length xs)"
    using find_sub_Some [of marker xs i] by (cases xs) auto
qed simp

declare find_result_marker.simps [simp del]

definition marker_prefix_len :: "string \<Rightarrow> string \<Rightarrow> nat" where
  "marker_prefix_len marker xs =
     (let limit = min (length xs) (length marker - 1)
      in case filter (\<lambda>n. prefix (lastn n xs) marker) (rev [1 ..< limit + 1]) of
           [] \<Rightarrow> 0 | n # _ \<Rightarrow> n)"

definition rfind_sub :: "string \<Rightarrow> string \<Rightarrow> nat option" where
  "rfind_sub pat s = map_option (\<lambda>i. length s - i - length pat) (find_sub (rev pat) (rev s))"

text \<open>\<open>None\<close>: more bytes are needed to tell whether this is the echo.\<close>

definition strip_echo :: "string \<Rightarrow> string \<Rightarrow> string option" where
  "strip_echo target xs =
     (if target = [] then Some xs
      else if prefix target xs then Some (drop (length target) xs)
      else if prefix xs target then None
      else Some xs)"

definition absorb :: "string \<Rightarrow> collector \<Rightarrow> collector" where
  "absorb xs co =
     (if xs = [] then co
      else let room = co_cap co - co_size co in
        if room \<le> 0 then co\<lparr>co_truncated := True\<rparr>
        else if room < int (length xs)
        then co\<lparr>co_chunks := co_chunks co @ [take (nat room) xs], co_size := co_size co + room,
                co_truncated := True\<rparr>
        else co\<lparr>co_chunks := co_chunks co @ [xs], co_size := co_size co + int (length xs)\<rparr>)"

definition collector_finish :: "string \<Rightarrow> collector \<Rightarrow> string \<times> collector" where
  "collector_finish tail co =
     (let (rest, co1) = (case exit_match tail of
            None \<Rightarrow> ([], co)
          | Some (negative, digits, after) \<Rightarrow>
              (drop_line_end after,
               (case exit_value negative digits of None \<Rightarrow> co | Some v \<Rightarrow> co\<lparr>co_exit_code := Some v\<rparr>)))
      in (rest, if co_done co1 = Waiting then co1\<lparr>co_done := Finished\<rparr> else co1))"

text \<open>What \<open>feed\<close> does once the echo question is settled; \<open>co_pending\<close> is empty here.\<close>

definition feed_output :: "string \<Rightarrow> collector \<Rightarrow> string \<times> collector" where
  "feed_output xs co =
     (let marker = co_marker co in
      case find_result_marker marker xs of
        Some i \<Rightarrow>
          let shown = take i xs;
              (tail, co1) = collector_finish (drop (i + length marker) xs) (absorb shown co)
          in (shown @ tail, co1)
      | None \<Rightarrow>
          let (ys, co1) = (case rfind_sub marker xs of
                Some p \<Rightarrow>
                  if list_all byte_space (drop (p + length marker) xs)
                  then (take p xs, co\<lparr>co_pending := drop p xs\<rparr>) else (xs, co)
              | None \<Rightarrow> (xs, co));
              keep = marker_prefix_len marker ys;
              (zs, co2) = (if keep \<noteq> 0
                then (take (length ys - keep) ys, co1\<lparr>co_pending := drop (length ys - keep) ys\<rparr>)
                else (ys, co1))
          in (zs, absorb zs co2))"

definition collector_feed :: "string \<Rightarrow> collector \<Rightarrow> string \<times> collector" where
  "collector_feed chunk co =
     (if co_done co \<noteq> Waiting then (chunk, co)
      else
        let xs = co_pending co @ chunk; co0 = co\<lparr>co_pending := []\<rparr>
        in if co_echo co \<noteq> [] \<and> \<not> co_echo_stripped co
           then case strip_echo (co_echo co) xs of
               None \<Rightarrow> ([], co0\<lparr>co_pending := xs\<rparr>)
             | Some ys \<Rightarrow> feed_output ys (co0\<lparr>co_echo_stripped := True\<rparr>)
           else feed_output xs co0)"

definition collector_flush :: "collector \<Rightarrow> string \<times> collector" where
  "collector_flush co = (co_pending co, co\<lparr>co_pending := []\<rparr>)"

definition collector_bytes :: "collector \<Rightarrow> string" where
  "collector_bytes co = concat (co_chunks co)"

definition collector_fail :: "terminal_error \<Rightarrow> collector \<Rightarrow> collector" where
  "collector_fail e co = (if co_done co = Waiting then co\<lparr>co_done := Broken e\<rparr> else co)"

subsection \<open>The terminal\<close>

text \<open>
  \<open>at_session\<close> is the identity of the session object input goes to, \<open>at_sink\<close> that of the attached
  browser's notify function; \<open>at_locked\<close> is the lock. An effect is a notification that reached a
  browser, or input handed to a session.
\<close>

datatype ui_event =
    Agent_command_start string string
  | Agent_command_output string
  | Agent_command_end string

datatype term_effect = To_browser nat ui_event | To_session nat string

record terminal =
  at_node :: string
  at_id :: string
  at_session :: nat
  at_flavor :: string
  at_sink :: "nat option"
  at_locked :: bool
  at_collector :: "collector option"
  at_closed :: bool
  at_stale :: "string list"
  at_agent_command :: string
  at_agent_started :: "microseconds option"

definition new_terminal :: "string \<Rightarrow> string \<Rightarrow> nat \<Rightarrow> string \<Rightarrow> terminal" where
  "new_terminal node tid session flavor = \<lparr>at_node = node, at_id = tid, at_session = session,
     at_flavor = flavor, at_sink = None, at_locked = False, at_collector = None, at_closed = False,
     at_stale = [], at_agent_command = [], at_agent_started = None\<rparr>"

definition notify :: "terminal \<Rightarrow> ui_event \<Rightarrow> term_effect list" where
  "notify t e = (case at_sink t of None \<Rightarrow> [] | Some sink \<Rightarrow> [To_browser sink e])"

definition bind_notify :: "nat \<Rightarrow> terminal \<Rightarrow> terminal" where
  "bind_notify sink t = t\<lparr>at_sink := Some sink\<rparr>"

definition unbind_notify :: "nat \<Rightarrow> terminal \<Rightarrow> terminal" where
  "unbind_notify sink t = (if at_sink t = Some sink then t\<lparr>at_sink := None\<rparr> else t)"

definition input_locked :: "terminal \<Rightarrow> bool" where
  "input_locked t = (at_collector t \<noteq> None)"

definition agent_state :: "terminal \<Rightarrow> bool \<times> string \<times> microseconds option" where
  "agent_state t = (at_collector t \<noteq> None, at_agent_command t, at_agent_started t)"

definition strip_stale_markers :: "string \<Rightarrow> terminal \<Rightarrow> string \<times> terminal" where
  "strip_stale_markers chunk t =
     (let (data, remaining) = fold (\<lambda>marker (data, remaining). case find_sub marker data of
            None \<Rightarrow> (data, remaining @ [marker])
          | Some i \<Rightarrow> (case exit_match (drop (i + length marker) data) of
              None \<Rightarrow> (data, remaining @ [marker])
            | Some (_, _, after) \<Rightarrow> (take i data @ drop_line_end after, remaining)))
          (at_stale t) (chunk, [])
      in (data, t\<lparr>at_stale := lastn 8 remaining\<rparr>))"

definition observe_output :: "string \<Rightarrow> terminal \<Rightarrow> string \<times> terminal" where
  "observe_output chunk t = (case at_collector t of
     None \<Rightarrow> strip_stale_markers chunk t
   | Some co \<Rightarrow>
       let (shown, co1) = collector_feed chunk co
       in strip_stale_markers shown (t\<lparr>at_collector := Some co1\<rparr>))"

definition close_terminal_entry :: "terminal \<Rightarrow> terminal" where
  "close_terminal_entry t = t\<lparr>at_closed := True,
     at_collector := map_option (collector_fail (term_error ''terminal_closed'' Terminal_closed_meanwhile))
       (at_collector t)\<rparr>"

definition cancel_command :: "string \<Rightarrow> terminal \<Rightarrow> bool \<times> terminal" where
  "cancel_command reason t = (case at_collector t of
     None \<Rightarrow> (False, t)
   | Some co \<Rightarrow> (True, t\<lparr>at_collector :=
       Some (collector_fail (term_error ''interrupted'' (Interrupted_because reason)) co)\<rparr>))"

subsection \<open>Running a command\<close>

datatype run_end = Returns | Raises terminal_error | Raises_cancelled

record command_run =
  rn_command :: string
  rn_cwd :: string
  rn_marker :: string
  rn_timeout :: int
  rn_started :: microseconds
  rn_status :: string
  rn_error :: term_message
  rn_end :: run_end

text \<open>\<open>min(max(int(v or 0) or default, low), high)\<close>.\<close>

definition clamped :: "int \<Rightarrow> int \<Rightarrow> int \<Rightarrow> int \<Rightarrow> int" where
  "clamped dflt low high v = min (max (if v = 0 then dflt else v) low) high"

text \<open>
  Up to the first notification. \<open>hex\<close> is the hex of a fresh UUID, \<open>wall\<close> and \<open>tick\<close> the clocks.
\<close>

definition command_begin ::
  "string \<Rightarrow> microseconds \<Rightarrow> microseconds \<Rightarrow> string \<Rightarrow> string \<Rightarrow> int \<Rightarrow> int \<Rightarrow> terminal \<Rightarrow>
   terminal_error + command_run \<times> term_effect list \<times> terminal" where
  "command_begin hex wall tick command cwd timeout_ms max_output t = (case validate_command command of
     Inl e \<Rightarrow> Inl e
   | Inr text \<Rightarrow>
       if at_closed t then Inl (term_error ''terminal_closed'' Terminal_is_closed)
       else if at_locked t then Inl (term_error ''busy'' Terminal_is_busy)
       else
         let timeout = clamped DEFAULT_COMMAND_TIMEOUT_MS 1000 MAX_COMMAND_TIMEOUT_MS timeout_ms;
             cap = clamped DEFAULT_MAX_OUTPUT_BYTES 1024 MAX_OUTPUT_BYTES max_output;
             marker = ''__AGENT_CMD_'' @ hex @ ''__'';
             t1 = t\<lparr>at_locked := True, at_collector := Some (new_collector marker cap),
                    at_agent_command := text, at_agent_started := Some wall\<rparr>
         in Inr (\<lparr>rn_command = text, rn_cwd = cwd, rn_marker = marker, rn_timeout = timeout,
                  rn_started = tick, rn_status = ''ok'', rn_error = No_message, rn_end = Returns\<rparr>,
                 notify t1 (Agent_command_start text cwd), t1))"

definition command_show :: "command_run \<Rightarrow> terminal \<Rightarrow> term_effect list" where
  "command_show run t = notify t (Agent_command_output (rn_command run @ CRLF))"

text \<open>The submission; \<open>failure\<close> is the exception of \<open>session.send_input\<close>, if any.\<close>

definition command_submit ::
  "string option \<Rightarrow> command_run \<Rightarrow> terminal \<Rightarrow> command_run \<times> term_effect list \<times> terminal" where
  "command_submit failure run t =
     (let submit = build_wrapped_command (rn_command run) (rn_cwd run) (rn_marker run) (at_flavor t)
            @ [CHR 0x0D];
          t1 = t\<lparr>at_collector := map_option (\<lambda>co. co\<lparr>co_echo := submit\<rparr>) (at_collector t)\<rparr>
      in case failure of
           Some why \<Rightarrow> (run\<lparr>rn_end := Raises (term_error ''terminal_disconnected'' (Send_failed why))\<rparr>, [], t1)
         | None \<Rightarrow> (run, [To_session (at_session t) submit], t1))"

datatype wake = Completed | Timer_expired | Task_cancelled

text \<open>
  The end of the wait. \<open>Completed\<close> happens once the future is done; the timer and a cancellation
  cancel the future, so the grace period of \<open>_interrupt\<close> ends at once.
\<close>

definition abandon :: "collector \<Rightarrow> collector" where
  "abandon co = (if co_done co = Waiting then co\<lparr>co_done := Abandoned\<rparr> else co)"

definition command_wake ::
  "wake \<Rightarrow> command_run \<Rightarrow> terminal \<Rightarrow> command_run \<times> term_effect list \<times> terminal" where
  "command_wake w run t =
     (let t1 = t\<lparr>at_collector := map_option abandon (at_collector t)\<rparr>
      in case w of
           Completed \<Rightarrow>
             (case map_option co_done (at_collector t) of
                Some (Broken e) \<Rightarrow> (run\<lparr>rn_status := ''error'', rn_error := te_message e\<rparr>, [], t)
              | _ \<Rightarrow> (run, [], t))
         | Timer_expired \<Rightarrow>
             (run\<lparr>rn_status := ''timeout'', rn_error := Timed_out_after (rn_timeout run div 1000)\<rparr>,
              [To_session (at_session t1) ETX], t1)
         | Task_cancelled \<Rightarrow>
             (run\<lparr>rn_status := ''canceled'', rn_error := Command_canceled, rn_end := Raises_cancelled\<rparr>,
              [To_session (at_session t1) ETX], t1))"

text \<open>A cancellation at one of the two notifications before the submission.\<close>

definition command_aborted :: "command_run \<Rightarrow> command_run" where
  "command_aborted run = run\<lparr>rn_end := Raises_cancelled\<rparr>"

text \<open>The \<open>finally\<close> block up to its first notification, then the rest with the result.\<close>

definition command_cleanup ::
  "(string \<Rightarrow> string) \<Rightarrow> command_run \<Rightarrow> terminal \<Rightarrow> collector option \<times> term_effect list \<times> terminal" where
  "command_cleanup decode run t =
     (let t1 = t\<lparr>at_collector := None, at_agent_command := [], at_agent_started := None,
            at_stale := (if rn_status run \<in> {''timeout'', ''canceled''}
              then at_stale t @ [rn_marker run] else at_stale t)\<rparr>
      in case at_collector t of
           None \<Rightarrow> (None, [], t1)
         | Some co \<Rightarrow>
             let (held, co1) = collector_flush co
             in (Some co1, (if held \<noteq> [] then notify t1 (Agent_command_output (decode held)) else []), t1))"

record command_result =
  cr_status :: string
  cr_exit_code :: "int option"
  cr_output :: string
  cr_truncated :: bool
  cr_duration_ms :: int
  cr_terminal_id :: string
  cr_cwd :: string
  cr_command :: string
  cr_error :: term_message

definition command_close ::
  "(string \<Rightarrow> string) \<Rightarrow> microseconds \<Rightarrow> command_run \<Rightarrow> collector \<Rightarrow> terminal \<Rightarrow>
   (run_end + command_result) \<times> term_effect list \<times> terminal" where
  "command_close decode tick run co t =
     (let t1 = t\<lparr>at_locked := False\<rparr>
      in (case rn_end run of
            Returns \<Rightarrow> Inr \<lparr>cr_status = rn_status run,
              cr_exit_code = (if rn_status run = ''ok'' then co_exit_code co else None),
              cr_output = decode (collector_bytes co), cr_truncated = co_truncated co,
              cr_duration_ms = (tick - rn_started run) div 1000, cr_terminal_id = at_id t,
              cr_cwd = rn_cwd run, cr_command = rn_command run, cr_error = rn_error run\<rparr>
          | e \<Rightarrow> Inl e,
          notify t (Agent_command_end (rn_status run)), t1))"

subsection \<open>The registry of terminals\<close>

text \<open>\<open>ar_objects\<close> holds every terminal created, \<open>ar_entries\<close> which of them a key leads to.\<close>

record active_terminals =
  ar_objects :: "terminal list"
  ar_entries :: "(string \<times> string, nat) dict"

definition no_terminals :: active_terminals where
  "no_terminals = \<lparr>ar_objects = [], ar_entries = []\<rparr>"

definition on_terminal :: "nat \<Rightarrow> (terminal \<Rightarrow> terminal) \<Rightarrow> active_terminals \<Rightarrow> active_terminals" where
  "on_terminal i f ar = ar\<lparr>ar_objects := (ar_objects ar)[i := f (ar_objects ar ! i)]\<rparr>"

definition register_terminal :: "terminal \<Rightarrow> active_terminals \<Rightarrow> nat \<times> active_terminals" where
  "register_terminal t ar = (length (ar_objects ar),
     ar\<lparr>ar_objects := ar_objects ar @ [t],
        ar_entries := dset (at_node t, at_id t) (length (ar_objects ar)) (ar_entries ar)\<rparr>)"

definition get_or_create_terminal ::
  "string \<Rightarrow> string \<Rightarrow> nat \<Rightarrow> string \<Rightarrow> active_terminals \<Rightarrow> nat \<times> active_terminals" where
  "get_or_create_terminal node tid session flavor ar = (case dget (ar_entries ar) (node, tid) of
     Some i \<Rightarrow> (i, on_terminal i (\<lambda>t. t\<lparr>at_session := session\<rparr>) ar)
   | None \<Rightarrow> register_terminal (new_terminal node tid session flavor) ar)"

definition retire_terminal :: "string \<Rightarrow> string \<Rightarrow> active_terminals \<Rightarrow> active_terminals" where
  "retire_terminal node tid ar = (case dget (ar_entries ar) (node, tid) of
     None \<Rightarrow> ar
   | Some i \<Rightarrow> on_terminal i close_terminal_entry (ar\<lparr>ar_entries := dpop (node, tid) (ar_entries ar)\<rparr>))"

definition get_terminal :: "string \<Rightarrow> string \<Rightarrow> active_terminals \<Rightarrow> nat option" where
  "get_terminal node tid ar = dget (ar_entries ar) (node, tid)"

definition terminals_of_node :: "string \<Rightarrow> active_terminals \<Rightarrow> string list" where
  "terminals_of_node node ar = map snd (filter (\<lambda>k. fst k = node) (dkeys (ar_entries ar)))"

end
