(* ===== verification/Terminal_Safety.thy ===== *)
theory Terminal_Safety
  imports Terminal_Commands
begin

text \<open>
  What an agent command in a shared terminal may rely on: however the terminal's output is cut
  into reads, the browser sees exactly that output without the echoed wrapper and the marker line,
  the agent gets its first bytes up to the cap, and the exit status is read off the marker; and a
  terminal runs one command at a time and always comes back to rest.
\<close>

subsection \<open>Searching\<close>

lemma find_sub_None_iff: "find_sub pat s = None \<longleftrightarrow> (\<forall>j \<le> length s. \<not> prefix pat (drop j s))"
proof (induction s)
  case (Cons x s)
  have "(\<forall>j \<le> length (x # s). \<not> prefix pat (drop j (x # s)))
    \<longleftrightarrow> \<not> prefix pat (x # s) \<and> (\<forall>j \<le> length s. \<not> prefix pat (drop j s))"
    by (auto simp: All_less_Suc2 less_Suc_eq_le [symmetric])
  then show ?case using Cons.IH by auto
qed simp

lemma find_sub_Some_iff:
  "find_sub pat s = Some i \<longleftrightarrow> i \<le> length s \<and> prefix pat (drop i s) \<and> (\<forall>j < i. \<not> prefix pat (drop j s))"
proof (induction s arbitrary: i)
  case (Cons x s)
  then show ?case by (cases i) (auto simp: All_less_Suc2)
qed auto

lemma prefix_drop_append: "prefix pat (drop j xs) \<Longrightarrow> prefix pat (drop j (xs @ ys))"
  by (auto simp: prefix_def)

text \<open>Text without a marker.\<close>

definition free_of :: "string \<Rightarrow> string \<Rightarrow> bool" where
  "free_of marker xs = (find_sub marker xs = None)"

lemma free_of_prefix: "free_of m (xs @ ys) \<Longrightarrow> free_of m xs"
  unfolding free_of_def find_sub_None_iff
  by (metis le_add1 le_trans length_append prefix_drop_append)

lemma free_of_suffix: "free_of m (xs @ ys) \<Longrightarrow> free_of m ys"
proof -
  assume free: "free_of m (xs @ ys)"
  have "\<not> prefix m (drop j ys)" if "j \<le> length ys" for j
    using free [unfolded free_of_def find_sub_None_iff, rule_format, of "length xs + j"] that by simp
  then show ?thesis by (simp add: free_of_def find_sub_None_iff)
qed

lemma free_find_result: "free_of m xs \<Longrightarrow> find_result_marker m xs = None"
  by (subst find_result_marker.simps) (simp add: free_of_def)

lemma free_rev: "free_of m xs \<Longrightarrow> find_sub (rev m) (rev xs) = None"
proof (rule ccontr)
  assume free: "free_of m xs" and "find_sub (rev m) (rev xs) \<noteq> None"
  then obtain i where "find_sub (rev m) (rev xs) = Some i" by auto
  from find_sub_Some [OF this] obtain rest where "rev xs = take i (rev xs) @ rev m @ rest" by auto
  then have "rev (rev xs) = rev (take i (rev xs) @ rev m @ rest)" by (rule arg_cong)
  then have "xs = rev rest @ m @ rev (take i (rev xs))" by simp
  then have "prefix m (drop (length rest) xs)" "length rest \<le> length xs"
    by (metis append_eq_conv_conj length_rev prefixI, metis le_add1 length_append length_rev)
  with free show False by (auto simp: free_of_def find_sub_None_iff)
qed

lemma free_rfind: "free_of m xs \<Longrightarrow> rfind_sub m xs = None"
  by (simp add: rfind_sub_def free_rev)

subsection \<open>The held-back tail\<close>

lemma filter_rev_upt_head:
  assumes "filter P (rev [1 ..< Suc n]) = k # ks"
  shows "P k \<and> 0 < k \<and> k \<le> n \<and> (\<forall>j. P j \<and> 0 < j \<and> j \<le> n \<longrightarrow> j \<le> k)"
  using assms
proof (induction n)
  case (Suc n)
  have upt: "rev [1 ..< Suc (Suc n)] = Suc n # rev [1 ..< Suc n]" by simp
  show ?case
  proof (cases "P (Suc n)")
    case True
    with Suc.prems show ?thesis unfolding upt by auto
  next
    case False
    with Suc.prems have "filter P (rev [1 ..< Suc n]) = k # ks" unfolding upt by simp
    from Suc.IH [OF this] False show ?thesis by (auto simp: le_Suc_eq)
  qed
qed simp

lemma marker_prefix_len_spec:
  fixes m xs
  defines "k \<equiv> marker_prefix_len m xs" and "limit \<equiv> min (length xs) (length m - 1)"
  shows "k \<le> limit" "prefix (lastn k xs) m" "\<And>n. n \<le> limit \<Longrightarrow> prefix (lastn n xs) m \<Longrightarrow> n \<le> k"
proof -
  let ?P = "\<lambda>n. prefix (lastn n xs) m"
  have "k \<le> limit \<and> ?P k \<and> (\<forall>n \<le> limit. ?P n \<longrightarrow> n \<le> k)"
  proof (cases "filter ?P (rev [1 ..< limit + 1])")
    case Nil
    then have "\<not> ?P n" if "n \<in> set (rev [1 ..< limit + 1])" for n
      using that unfolding filter_empty_conv by blast
    then have "n \<notin> set (rev [1 ..< limit + 1])" if "?P n" for n
      using that by blast
    then have "n = 0" if "n \<le> limit" "?P n" for n
      using that by (cases n) force+
    moreover have "k = 0" using Nil by (simp add: k_def limit_def marker_prefix_len_def Let_def)
    ultimately show ?thesis by (auto simp: lastn_def)
  next
    case (Cons n ns)
    from filter_rev_upt_head [of ?P limit n ns] Cons
    have "?P n \<and> 0 < n \<and> n \<le> limit \<and> (\<forall>j. ?P j \<and> 0 < j \<and> j \<le> limit \<longrightarrow> j \<le> n)" by simp
    moreover have "k = n" using Cons by (simp add: k_def limit_def marker_prefix_len_def Let_def)
    ultimately show ?thesis by (metis not_gr_zero zero_le)
  qed
  then show "k \<le> limit" "prefix (lastn k xs) m" "\<And>n. n \<le> limit \<Longrightarrow> prefix (lastn n xs) m \<Longrightarrow> n \<le> k"
    by blast+
qed

subsection \<open>What the agent keeps\<close>

text \<open>The collector has absorbed \<open>shown\<close>.\<close>

definition absorbed :: "string \<Rightarrow> collector \<Rightarrow> bool" where
  "absorbed shown co = (0 \<le> co_cap co
     \<and> collector_bytes co = take (nat (co_cap co)) shown
     \<and> co_size co = int (length (collector_bytes co))
     \<and> (co_truncated co \<longleftrightarrow> co_cap co < int (length shown)))"

lemma absorb_absorbed: "absorbed shown co \<Longrightarrow> absorbed (shown @ xs) (absorb xs co)"
  unfolding absorbed_def absorb_def collector_bytes_def
  by (auto simp: Let_def min_def nat_le_iff nat_diff_distrib split: if_splits)

lemma absorb_other [simp]:
  "co_marker (absorb xs co) = co_marker co" "co_cap (absorb xs co) = co_cap co"
  "co_done (absorb xs co) = co_done co" "co_echo (absorb xs co) = co_echo co"
  "co_echo_stripped (absorb xs co) = co_echo_stripped co" "co_pending (absorb xs co) = co_pending co"
  "co_exit_code (absorb xs co) = co_exit_code co"
  by (simp_all add: absorb_def Let_def)

lemma absorbed_cong:
  "co_cap co' = co_cap co \<Longrightarrow> co_chunks co' = co_chunks co \<Longrightarrow> co_size co' = co_size co \<Longrightarrow>
   co_truncated co' = co_truncated co \<Longrightarrow> absorbed shown co' = absorbed shown co"
  by (simp add: absorbed_def collector_bytes_def)

subsection \<open>Feeding the output in pieces\<close>

text \<open>What the browser has seen after several reads, and the collector then.\<close>

fun collector_feeds :: "string list \<Rightarrow> collector \<Rightarrow> string \<times> collector" where
  "collector_feeds [] co = ([], co)"
| "collector_feeds (c # cs) co =
     (let (shown, co1) = collector_feed c co; (more, co2) = collector_feeds cs co1
      in (shown @ more, co2))"

lemma collector_feeds_snoc:
  "collector_feeds (cs @ [c]) co =
     (let (shown, co1) = collector_feeds cs co; (more, co2) = collector_feed c co1
      in (shown @ more, co2))"
  by (induction cs arbitrary: co) (auto simp: Let_def split: prod.splits)

text \<open>
  Once the echo question is settled and no marker has appeared in \<open>body\<close>: what was shown and
  what is held back make up the output, nothing longer could still become a marker, and the agent
  has what the browser has.
\<close>

definition running :: "string \<Rightarrow> string \<Rightarrow> string \<Rightarrow> collector \<Rightarrow> bool" where
  "running m body shown co = (co_marker co = m \<and> co_done co = Waiting
     \<and> (co_echo co = [] \<or> co_echo_stripped co)
     \<and> shown @ co_pending co = body \<and> length (co_pending co) < length m
     \<and> (\<forall>n \<le> length body. n < length m \<longrightarrow> prefix (lastn n body) m \<longrightarrow> n \<le> length (co_pending co))
     \<and> absorbed shown co \<and> co_exit_code co = None)"

lemma lastn_append_long: "n \<le> length ys \<Longrightarrow> lastn n (xs @ ys) = lastn n ys"
  by (simp add: lastn_def)

lemma lastn_append_short:
  "length ys \<le> n \<Longrightarrow> n \<le> length (xs @ ys) \<Longrightarrow> lastn n (xs @ ys) = lastn (n - length ys) xs @ ys"
  by (simp add: lastn_def)

text \<open>A tail of the output that may begin a marker starts in the held-back part.\<close>

lemma held_back:
  assumes "running m body shown co" and "n \<le> length (body @ c)" "n < length m"
    and "prefix (lastn n (body @ c)) m"
  shows "n \<le> length (co_pending co @ c)"
proof (cases "n \<le> length c")
  case False
  then have "prefix (lastn (n - length c) body) m"
    using assms(2,4) lastn_append_short [of c n body] by (auto dest: append_prefixD)
  moreover have "n - length c \<le> length body" "n - length c < length m" using assms(2,3) by auto
  ultimately have "n - length c \<le> length (co_pending co)"
    using assms(1) by (auto simp: running_def)
  then show ?thesis by simp
qed simp

lemma feed_output_free:
  assumes free: "free_of m xs" and m: "m \<noteq> []" and co: "co_marker co = m" "co_pending co = []"
  shows "feed_output xs co =
    (let k = marker_prefix_len m xs; zs = take (length xs - k) xs
     in (zs, absorb zs (co\<lparr>co_pending := drop (length xs - k) xs\<rparr>)))"
proof -
  have "take (length xs - 0) xs = xs" by simp
  then show ?thesis
    using free_find_result [OF free] free_rfind [OF free] co
    by (cases co) (simp add: feed_output_def Let_def)
qed

lemma feed_running:
  assumes run: "running m body shown co" and free: "free_of m (body @ c)" and m: "m \<noteq> []"
  shows "\<exists>s co'. collector_feed c co = (s, co') \<and> running m (body @ c) (shown @ s) co'
     \<and> co_cap co' = co_cap co"
proof -
  let ?xs = "co_pending co @ c" and ?co = "co\<lparr>co_pending := []\<rparr>"
  have split: "shown @ ?xs = body @ c" using run by (auto simp: running_def)
  have "free_of m ?xs" using free free_of_suffix [of m shown ?xs] split by simp
  define k where "k = marker_prefix_len m ?xs"
  define zs held where "zs = take (length ?xs - k) ?xs" and "held = drop (length ?xs - k) ?xs"
  let ?co' = "absorb zs (?co\<lparr>co_pending := held\<rparr>)"
  have k: "k \<le> length ?xs" "k < length m"
    "\<And>n. n \<le> length ?xs \<Longrightarrow> n < length m \<Longrightarrow> prefix (lastn n ?xs) m \<Longrightarrow> n \<le> k"
    using marker_prefix_len_spec [where m = m and xs = ?xs] m
    by (cases m; auto simp: k_def less_Suc_eq_le)+
  have held: "zs @ held = ?xs" "length held = k"
    unfolding zs_def held_def using k(1) by (simp_all only: append_take_drop_id length_drop diff_diff_cancel)
  have marker: "co_marker co = m" "co_done co = Waiting" "co_echo co = [] \<or> co_echo_stripped co"
    using run by (auto simp: running_def)
  have fed: "collector_feed c co = (zs, ?co')"
    using marker feed_output_free [OF \<open>free_of m ?xs\<close> m, of ?co]
    by (auto simp: collector_feed_def k_def zs_def held_def Let_def)
  have "n \<le> k" if n: "n \<le> length (body @ c)" "n < length m" "prefix (lastn n (body @ c)) m" for n
  proof -
    have "n \<le> length ?xs" using held_back [OF run n] .
    moreover from this have "lastn n (body @ c) = lastn n ?xs"
      unfolding split [symmetric] by (rule lastn_append_long)
    ultimately show ?thesis using k(3) n by simp
  qed
  moreover have "absorbed (shown @ zs) ?co'"
  proof (rule absorb_absorbed)
    show "absorbed shown (?co\<lparr>co_pending := held\<rparr>)"
      using run by (simp add: running_def absorbed_def collector_bytes_def)
  qed
  moreover have "(shown @ zs) @ held = body @ c" using held(1) split by simp
  ultimately have "running m (body @ c) (shown @ zs) ?co'"
    using run k(2) held(2) by (simp add: running_def)
  with fed show ?thesis by simp
qed

subsection \<open>The echo\<close>

text \<open>After the reads \<open>cs\<close>: still undecided about the echo, or running on what follows it.\<close>

definition echo_body :: "string \<Rightarrow> string \<Rightarrow> string" where
  "echo_body echo xs = (if prefix echo xs then drop (length echo) xs else xs)"

definition undecided :: "string \<Rightarrow> string \<Rightarrow> bool" where
  "undecided echo xs = strict_prefix xs echo"

lemma strip_echo_cases:
  "strip_echo echo xs = (if undecided echo xs then None else Some (echo_body echo xs))"
  by (auto simp: strip_echo_def undecided_def echo_body_def strict_prefix_def)

definition collector_ready :: "string \<Rightarrow> int \<Rightarrow> string \<Rightarrow> collector" where
  "collector_ready m cap echo = (new_collector m cap)\<lparr>co_echo := echo\<rparr>"

definition fed_so_far :: "string \<Rightarrow> int \<Rightarrow> string \<Rightarrow> string \<Rightarrow> string \<Rightarrow> collector \<Rightarrow> bool" where
  "fed_so_far m cap echo xs shown co =
     (if undecided echo xs then shown = [] \<and> co = (collector_ready m cap echo)\<lparr>co_pending := xs\<rparr>
      else running m (echo_body echo xs) shown co \<and> co_cap co = cap)"

lemma undecided_prefix: "undecided echo (xs @ ys) \<Longrightarrow> undecided echo xs"
  by (auto simp: undecided_def strict_prefix_def prefix_def)

lemma echo_body_append:
  assumes "\<not> undecided echo xs"
  shows "echo_body echo (xs @ c) = echo_body echo xs @ c"
proof (cases "prefix echo xs")
  case False
  have "\<not> prefix echo (xs @ c)"
  proof
    assume "prefix echo (xs @ c)"
    then have "prefix echo xs \<or> prefix xs echo" by (rule prefix_same_cases) simp
    with False assms show False by (auto simp: undecided_def strict_prefix_def)
  qed
  with False show ?thesis by (simp add: echo_body_def)
qed (auto simp: echo_body_def prefix_def)

lemma running_start:
  assumes "m \<noteq> []" "0 \<le> cap" "co_marker co = m" "co_done co = Waiting"
    "co_echo co = [] \<or> co_echo_stripped co" "co_pending co = []" "co_cap co = cap" "co_chunks co = []"
    "co_size co = 0" "\<not> co_truncated co" "co_exit_code co = None"
  shows "running m [] [] co"
  using assms by (auto simp: running_def absorbed_def collector_bytes_def)

lemma fed_so_far_start:
  "m \<noteq> [] \<Longrightarrow> 0 \<le> cap \<Longrightarrow> fed_so_far m cap echo [] [] (collector_ready m cap echo)"
  by (auto simp: fed_so_far_def collector_ready_def new_collector_def undecided_def echo_body_def
      strict_prefix_def intro!: running_start)

text \<open>The read that settles the echo question behaves like a first read of what follows it.\<close>

lemma feed_decides:
  assumes "undecided echo xs" "\<not> undecided echo (xs @ c)" "0 \<le> cap"
    and "co = (collector_ready m cap echo)\<lparr>co_pending := xs\<rparr>" and m: "m \<noteq> []"
  obtains co' where "running m [] [] co'" "co_cap co' = cap" "co_pending co' = []"
    "collector_feed c co = collector_feed (echo_body echo (xs @ c)) co'"
proof
  let ?co = "(collector_ready m cap echo)\<lparr>co_echo_stripped := True\<rparr>"
  show "running m [] [] ?co"
    using assms by (intro running_start) (simp_all add: collector_ready_def new_collector_def)
  show "co_cap ?co = cap" "co_pending ?co = []"
    by (simp_all add: collector_ready_def new_collector_def)
  have "echo \<noteq> []" using assms(1) by (auto simp: undecided_def)
  then show "collector_feed c co = collector_feed (echo_body echo (xs @ c)) ?co"
    using assms by (simp add: collector_feed_def strip_echo_cases collector_ready_def new_collector_def)
qed

lemma feed_so_far:
  assumes fed: "fed_so_far m cap echo xs shown co" and m: "m \<noteq> []" and cap: "0 \<le> cap"
    and free: "undecided echo (xs @ c) \<or> free_of m (echo_body echo (xs @ c))"
  shows "\<exists>s co'. collector_feed c co = (s, co') \<and> fed_so_far m cap echo (xs @ c) (shown @ s) co'"
proof (cases "undecided echo xs")
  case False
  then have und: "\<not> undecided echo (xs @ c)" using undecided_prefix by blast
  from False fed have run: "running m (echo_body echo xs) shown co" "co_cap co = cap"
    by (simp_all add: fed_so_far_def)
  have "free_of m (echo_body echo xs @ c)" using free und echo_body_append [OF False] by simp
  from feed_running [OF run(1) this m] run(2) und echo_body_append [OF False] show ?thesis
    by (auto simp: fed_so_far_def)
next
  case True
  then have shown: "shown = []" and co: "co = (collector_ready m cap echo)\<lparr>co_pending := xs\<rparr>"
    using fed by (simp_all add: fed_so_far_def)
  show ?thesis
  proof (cases "undecided echo (xs @ c)")
    case True
    then have "echo \<noteq> []" by (auto simp: undecided_def)
    with True shown co show ?thesis
      by (simp add: fed_so_far_def collector_feed_def strip_echo_cases collector_ready_def new_collector_def)
  next
    case False
    from feed_decides [OF True False cap co m] obtain co' where run: "running m [] [] co'" "co_cap co' = cap"
      and feed: "collector_feed c co = collector_feed (echo_body echo (xs @ c)) co'" by metis
    have "free_of m ([] @ echo_body echo (xs @ c))" using free False by simp
    from feed_running [OF run(1) this m] run(2) False shown feed show ?thesis
      by (auto simp: fed_so_far_def)
  qed
qed

lemma feeds_so_far:
  assumes m: "m \<noteq> []" and cap: "0 \<le> cap"
    and free: "undecided echo (concat cs) \<or> free_of m (echo_body echo (concat cs))"
  shows "\<exists>shown co. collector_feeds cs (collector_ready m cap echo) = (shown, co)
     \<and> fed_so_far m cap echo (concat cs) shown co"
  using free
proof (induction cs rule: rev_induct)
  case Nil
  show ?case using fed_so_far_start [OF m cap] by simp
next
  case (snoc c cs)
  have "undecided echo (concat cs) \<or> free_of m (echo_body echo (concat cs))"
  proof (cases "undecided echo (concat cs)")
    case False
    then have "\<not> undecided echo (concat cs @ c)" using undecided_prefix by blast
    with snoc.prems echo_body_append [OF False] have "free_of m (echo_body echo (concat cs) @ c)" by simp
    then show ?thesis by (blast dest: free_of_prefix)
  qed simp
  from snoc.IH [OF this] obtain shown co where
      feeds: "collector_feeds cs (collector_ready m cap echo) = (shown, co)"
      and fed: "fed_so_far m cap echo (concat cs) shown co" by auto
  have "undecided echo (concat cs @ c) \<or> free_of m (echo_body echo (concat cs @ c))"
    using snoc.prems by simp
  from feed_so_far [OF fed m cap this] feeds show ?case
    by (auto simp: collector_feeds_snoc)
qed

subsection \<open>The marker line\<close>

lemma find_result_first:
  "m \<noteq> [] \<Longrightarrow> find_sub m xs = Some i \<Longrightarrow> exit_match (drop (i + length m) xs) \<noteq> None \<Longrightarrow>
   find_result_marker m xs = Some i"
  by (subst find_result_marker.simps) (auto simp: Let_def)

text \<open>The first marker of \<open>pre @ m\<close> is at its end.\<close>

definition first_marker :: "string \<Rightarrow> string \<Rightarrow> bool" where
  "first_marker m pre = (find_sub m (pre @ m) = Some (length pre))"

lemma first_marker_suffix:
  assumes "first_marker m (shown @ pre)"
  shows "find_sub m (pre @ m @ tail) = Some (length pre)"
  unfolding find_sub_Some_iff
proof (intro conjI allI impI notI)
  fix j assume j: "j < length pre" and "prefix m (drop j (pre @ m @ tail))"
  then have "prefix m ((drop j pre @ m) @ tail)" by simp
  then have "prefix m (drop j pre @ m)"
    by (rule prefix_length_prefix) simp_all
  then have "prefix m (drop (length shown + j) ((shown @ pre) @ m))" using j by simp
  moreover have "length shown + j < length (shown @ pre)" using j by simp
  ultimately show False using assms unfolding first_marker_def find_sub_Some_iff by blast
qed simp_all

lemma shown_before_marker:
  assumes run: "running m body shown co" and free: "free_of m body"
    and body: "body @ c = pre @ m @ tail"
  shows "length shown \<le> length pre"
proof (rule ccontr)
  assume "\<not> length shown \<le> length pre"
  then have long: "length pre < length shown" by simp
  have parts: "shown @ co_pending co = body" using run by (simp add: running_def)
  then have le: "length pre < length body" using long by auto
  let ?n = "length body - length pre"
  have "take (length body) (body @ c) = take (length body) (pre @ m @ tail)" using body by simp
  then have "body = pre @ take ?n (m @ tail)" using le by simp
  then have drop: "drop (length pre) body = take ?n (m @ tail)"
    by (metis append_eq_conv_conj)
  show False
  proof (cases "?n < length m")
    case True
    then have "prefix (lastn ?n body) m"
      using drop le by (simp add: lastn_def take_is_prefix)
    then have "?n \<le> length (co_pending co)" using run True by (simp add: running_def)
    with parts long show False by auto
  next
    case False
    then have "prefix m (drop (length pre) body)" using drop by simp
    with free le show False by (auto simp: free_of_def find_sub_None_iff)
  qed
qed

text \<open>The collector has read the status.\<close>

definition completed :: "string \<Rightarrow> int option \<Rightarrow> int \<Rightarrow> collector \<Rightarrow> bool" where
  "completed pre status cap co = (co_done co = Finished \<and> co_exit_code co = status
     \<and> collector_bytes co = take (nat cap) pre \<and> (co_truncated co \<longleftrightarrow> cap < int (length pre))
     \<and> co_pending co = [])"

lemma feed_completes:
  assumes run: "running m body shown co" and free: "free_of m body" and m: "m \<noteq> []"
    and body: "body @ c = pre @ m @ tail" and first: "first_marker m pre"
    and status: "exit_match tail = Some (neg, digits, after)"
  shows "\<exists>s co'. collector_feed c co = (s, co') \<and> shown @ s = pre @ drop_line_end after
     \<and> completed pre (exit_value neg digits) (co_cap co) co'"
proof -
  have split: "shown @ co_pending co @ c = pre @ m @ tail"
    using run body by (auto simp: running_def)
  have "length shown \<le> length pre" using run free body by (rule shown_before_marker)
  with split obtain pre' where pre: "pre = shown @ pre'" and xs: "co_pending co @ c = pre' @ m @ tail"
    by (metis append_eq_append_conv_if append_eq_conv_conj append_take_drop_id same_append_eq append_assoc)
  have "find_sub m (pre' @ m @ tail) = Some (length pre')"
    using first unfolding pre by (rule first_marker_suffix)
  then have found: "find_result_marker m (co_pending co @ c) = Some (length pre')"
    unfolding xs using status m by (intro find_result_first) simp_all
  have state: "co_marker co = m" "co_done co = Waiting" "co_echo co = [] \<or> co_echo_stripped co"
    "absorbed shown co" "co_exit_code co = None"
    using run by (auto simp: running_def)
  let ?co1 = "absorb pre' (co\<lparr>co_pending := []\<rparr>)"
  have "absorbed shown (co\<lparr>co_pending := []\<rparr>)"
    using state(4) by (simp add: absorbed_def collector_bytes_def)
  then have abs: "absorbed pre ?co1" unfolding pre by (rule absorb_absorbed)
  let ?co2 = "(case exit_value neg digits of None \<Rightarrow> ?co1 | Some v \<Rightarrow> ?co1\<lparr>co_exit_code := Some v\<rparr>)
     \<lparr>co_done := Finished\<rparr>"
  have "collector_finish tail ?co1 = (drop_line_end after, ?co2)"
    using status state(2) by (simp add: collector_finish_def split: option.split)
  moreover have "collector_feed c co = feed_output (co_pending co @ c) (co\<lparr>co_pending := []\<rparr>)"
    using state by (auto simp: collector_feed_def Let_def)
  ultimately have "collector_feed c co = (pre' @ drop_line_end after, ?co2)"
    using found state(1) by (simp add: feed_output_def xs)
  moreover have "completed pre (exit_value neg digits) (co_cap co) ?co2"
    using abs state(5) by (auto simp: completed_def absorbed_def collector_bytes_def split: option.split)
  ultimately show ?thesis using pre by simp
qed

lemma feeds_after_end: "co_done co \<noteq> Waiting \<Longrightarrow> collector_feeds cs co = (concat cs, co)"
  by (induction cs) (simp_all add: collector_feed_def)

lemma collector_feeds_append:
  "collector_feeds (cs @ ds) co =
     (let (shown, co1) = collector_feeds cs co; (more, co2) = collector_feeds ds co1
      in (shown @ more, co2))"
  by (induction cs arbitrary: co) (auto simp: Let_def split: prod.splits)

lemma feeds_complete:
  assumes m: "m \<noteq> []" and cap: "0 \<le> cap"
    and before: "undecided echo (concat cs) \<or> free_of m (echo_body echo (concat cs))"
    and body: "\<not> undecided echo (concat cs @ c)" "echo_body echo (concat cs @ c) = pre @ m @ tail"
    and first: "first_marker m pre"
    and status: "exit_match tail = Some (neg, digits, after)"
  shows "\<exists>co. collector_feeds (cs @ c # ds) (collector_ready m cap echo)
       = (pre @ drop_line_end after @ concat ds, co) \<and> completed pre (exit_value neg digits) cap co"
proof -
  from feeds_so_far [OF m cap before] obtain shown co where
      feeds: "collector_feeds cs (collector_ready m cap echo) = (shown, co)"
      and fed: "fed_so_far m cap echo (concat cs) shown co" by auto
  have "\<exists>s co'. collector_feed c co = (s, co') \<and> shown @ s = pre @ drop_line_end after
     \<and> completed pre (exit_value neg digits) cap co'"
  proof (cases "undecided echo (concat cs)")
    case False
    then have run: "running m (echo_body echo (concat cs)) shown co" and cap: "co_cap co = cap"
      using fed by (simp_all add: fed_so_far_def)
    have free: "free_of m (echo_body echo (concat cs))" using before False by simp
    have "echo_body echo (concat cs) @ c = pre @ m @ tail"
      using body(2) echo_body_append [OF False] by simp
    from feed_completes [OF run free m this first status] cap show ?thesis by simp
  next
    case True
    then have shown: "shown = []" and co: "co = (collector_ready m cap echo)\<lparr>co_pending := concat cs\<rparr>"
      using fed by (simp_all add: fed_so_far_def)
    from feed_decides [OF True body(1) cap co m] obtain co' where run: "running m [] [] co'" "co_cap co' = cap"
      and feed: "collector_feed c co = collector_feed (echo_body echo (concat cs @ c)) co'" by metis
    have "free_of m []" using m by (simp add: free_of_def)
    from feed_completes [OF run(1) this m _ first status, of "echo_body echo (concat cs @ c)"] body(2)
    show ?thesis using feed shown run(2) by simp
  qed
  then obtain s co' where c: "collector_feed c co = (s, co')" "shown @ s = pre @ drop_line_end after"
    "completed pre (exit_value neg digits) cap co'" by blast
  moreover have "co_done co' \<noteq> Waiting" using c(3) by (simp add: completed_def)
  ultimately show ?thesis
    using feeds feeds_after_end [of co' ds] by (simp add: collector_feeds_append)
qed

subsection \<open>The life of a terminal\<close>

text \<open>
  Where the coroutine of \<open>run_command\<close> is: not running, between its notifications, waiting for the
  marker, in its \<open>finally\<close> block, or at its last notification.
\<close>

datatype run_phase =
    No_run
  | Announced command_run
  | Submitted command_run
  | Ending command_run
  | Closing command_run collector

inductive terminal_step :: "terminal \<times> run_phase \<Rightarrow> terminal \<times> run_phase \<Rightarrow> bool" where
  starts: "command_begin hex wall tick command cwd timeout cap t = Inr (run, fx, t')
    \<Longrightarrow> terminal_step (t, p) (t', Announced run)"
| submits: "command_submit None run t = (run', fx, t')
    \<Longrightarrow> terminal_step (t, Announced run) (t', Submitted run')"
| submit_fails: "command_submit (Some why) run t = (run', fx, t')
    \<Longrightarrow> terminal_step (t, Announced run) (t', Ending run')"
| aborts: "terminal_step (t, Announced run) (t, Ending (command_aborted run))"
| wakes: "w = Completed \<longrightarrow> map_option co_done (at_collector t) \<noteq> Some Waiting
    \<Longrightarrow> command_wake w run t = (run', fx, t') \<Longrightarrow> terminal_step (t, Submitted run) (t', Ending run')"
| cleans: "command_cleanup decode run t = (Some co, fx, t')
    \<Longrightarrow> terminal_step (t, Ending run) (t', Closing run co)"
| finishes: "command_close decode tick run co t = (result, fx, t')
    \<Longrightarrow> terminal_step (t, Closing run co) (t', No_run)"
| observe: "observe_output chunk t = (shown, t') \<Longrightarrow> terminal_step (t, p) (t', p)"
| attaches: "terminal_step (t, p) (bind_notify sink t, p)"
| detaches: "terminal_step (t, p) (unbind_notify sink t, p)"
| rebinds: "terminal_step (t, p) (t\<lparr>at_session := session\<rparr>, p)"
| closes: "terminal_step (t, p) (close_terminal_entry t, p)"
| cancels: "cancel_command reason t = (b, t') \<Longrightarrow> terminal_step (t, p) (t', p)"

inductive terminal_reachable :: "terminal \<times> run_phase \<Rightarrow> bool" where
  fresh: "terminal_reachable (new_terminal node tid session flavor, No_run)"
| step: "terminal_reachable s \<Longrightarrow> terminal_step s s' \<Longrightarrow> terminal_reachable s'"

text \<open>A collector of run \<open>run\<close> whose copy for the agent is within bounds.\<close>

definition collector_sound :: "command_run \<Rightarrow> collector \<Rightarrow> bool" where
  "collector_sound run co = (co_marker co = rn_marker run
     \<and> 1024 \<le> co_cap co \<and> co_cap co \<le> MAX_OUTPUT_BYTES
     \<and> co_size co = int (length (collector_bytes co)) \<and> co_size co \<le> co_cap co
     \<and> (co_exit_code co \<noteq> None \<longrightarrow> co_done co = Finished))"

definition run_of :: "run_phase \<Rightarrow> command_run option" where
  "run_of p = (case p of Announced r \<Rightarrow> Some r | Submitted r \<Rightarrow> Some r | Ending r \<Rightarrow> Some r | _ \<Rightarrow> None)"

definition terminal_sound :: "terminal \<times> run_phase \<Rightarrow> bool" where
  "terminal_sound s = (case s of (t, p) \<Rightarrow>
     (at_locked t \<longleftrightarrow> p \<noteq> No_run)
     \<and> (case run_of p of
          None \<Rightarrow> at_collector t = None \<and> at_agent_command t = [] \<and> at_agent_started t = None
        | Some run \<Rightarrow> \<exists>co. at_collector t = Some co \<and> collector_sound run co
            \<and> at_agent_command t = rn_command run)
     \<and> (\<forall>run co. p = Closing run co \<longrightarrow> collector_sound run co))"

lemma absorb_sound: "collector_sound run co \<Longrightarrow> collector_sound run (absorb xs co)"
  unfolding collector_sound_def absorb_def collector_bytes_def
  by (auto simp: Let_def min_def split: if_splits)

lemma sound_update [simp]:
  "collector_sound run (co\<lparr>co_pending := x\<rparr>) = collector_sound run co"
  "collector_sound run (co\<lparr>co_echo := x\<rparr>) = collector_sound run co"
  "collector_sound run (co\<lparr>co_echo_stripped := b\<rparr>) = collector_sound run co"
  by (simp_all add: collector_sound_def collector_bytes_def)

lemma finish_sound:
  assumes "collector_sound run co" "co_done co = Waiting" "collector_finish tail co = (rest, co')"
  shows "collector_sound run co'"
  using assms unfolding collector_finish_def collector_sound_def collector_bytes_def
  by (auto simp: Let_def split: option.splits prod.splits)

lemma feed_output_sound:
  assumes "collector_sound run co" "co_done co = Waiting" "feed_output xs co = (shown, co')"
  shows "collector_sound run co'"
proof (cases "find_result_marker (co_marker co) xs")
  case (Some i)
  with assms(3) obtain tail r where "collector_finish tail (absorb (take i xs) co) = (r, co')"
    by (auto simp: feed_output_def Let_def split: prod.splits)
  then show ?thesis using finish_sound [OF absorb_sound [OF assms(1)]] assms(2) by simp
next
  case None
  with assms show ?thesis
    by (auto simp: feed_output_def Let_def intro!: absorb_sound split: option.splits if_splits)
qed

lemma feed_sound:
  assumes "collector_sound run co" "collector_feed chunk co = (shown, co')"
  shows "collector_sound run co'"
proof (cases "co_done co = Waiting")
  case True
  with assms show ?thesis
    unfolding collector_feed_def
    by (auto simp: Let_def split: if_splits option.splits elim!: feed_output_sound [rotated 2])
next
  case False
  with assms show ?thesis by (simp add: collector_feed_def)
qed

lemma stale_other:
  assumes "strip_stale_markers chunk t = (shown, t')"
  shows "\<exists>ms. t' = t\<lparr>at_stale := ms\<rparr>"
  using assms by (auto simp: strip_stale_markers_def split: prod.splits)

lemma fail_sound: "collector_sound run co \<Longrightarrow> collector_sound run (collector_fail e co)"
  by (auto simp: collector_fail_def collector_sound_def collector_bytes_def)

lemma abandon_sound: "collector_sound run co \<Longrightarrow> collector_sound run (abandon co)"
  by (auto simp: abandon_def collector_sound_def collector_bytes_def)

lemma new_collector_sound:
  "1024 \<le> cap \<Longrightarrow> cap \<le> MAX_OUTPUT_BYTES \<Longrightarrow> rn_marker run = m \<Longrightarrow> collector_sound run (new_collector m cap)"
  by (simp add: collector_sound_def new_collector_def collector_bytes_def)

lemma clamped_bounds: "low \<le> high \<Longrightarrow> low \<le> clamped d low high v \<and> clamped d low high v \<le> high"
  by (auto simp: clamped_def)

lemma begin_outcome:
  assumes "command_begin hex wall tick command cwd timeout cap t = Inr (run, fx, t')"
  shows "\<not> at_closed t \<and> \<not> at_locked t \<and> validate_command command = Inr (rn_command run)
     \<and> t' = t\<lparr>at_locked := True,
          at_collector := Some (new_collector (rn_marker run)
            (clamped DEFAULT_MAX_OUTPUT_BYTES 1024 MAX_OUTPUT_BYTES cap)),
          at_agent_command := rn_command run, at_agent_started := Some wall\<rparr>"
  using assms unfolding command_begin_def
  by (auto simp: Let_def split: sum.split_asm if_split_asm)

lemma begun_collector_sound:
  "rn_marker run = m \<Longrightarrow>
   collector_sound run (new_collector m (clamped DEFAULT_MAX_OUTPUT_BYTES 1024 MAX_OUTPUT_BYTES cap))"
  using clamped_bounds [of 1024 MAX_OUTPUT_BYTES DEFAULT_MAX_OUTPUT_BYTES cap]
  by (intro new_collector_sound) (simp_all add: MAX_OUTPUT_BYTES_def)

text \<open>Steps that only touch the session, the sink or the stale markers keep the invariant.\<close>

lemma sound_unchanged:
  assumes "terminal_sound (t, p)" "at_locked t' = at_locked t" "at_collector t' = at_collector t"
    "at_agent_command t' = at_agent_command t" "at_agent_started t' = at_agent_started t"
  shows "terminal_sound (t', p)"
  using assms by (cases "run_of p") (simp_all add: terminal_sound_def)

lemma sound_collector:
  assumes "terminal_sound (t, p)" "t' = t\<lparr>at_collector := map_option f (at_collector t)\<rparr>"
    and "\<And>run co. collector_sound run co \<Longrightarrow> collector_sound run (f co)"
  shows "terminal_sound (t', p)"
  using assms by (auto simp: terminal_sound_def split: option.splits)

lemma sound_wake:
  assumes "terminal_sound (t, Submitted run)" "command_wake w run t = (run', fx, t')"
  shows "terminal_sound (t', Ending run')"
proof -
  have t': "t' = t \<or> t' = t\<lparr>at_collector := map_option abandon (at_collector t)\<rparr>"
    and run': "rn_command run' = rn_command run" "rn_marker run' = rn_marker run"
    using assms(2)
    by (auto simp: command_wake_def Let_def split: wake.splits option.splits done_state.splits)
  from t' have "terminal_sound (t', Submitted run)"
    using assms(1) sound_collector [OF assms(1) refl abandon_sound] by auto
  with run' show ?thesis
    by (auto simp: terminal_sound_def run_of_def collector_sound_def)
qed

lemma terminal_step_sound:
  assumes "terminal_step s s'" "terminal_sound s"
  shows "terminal_sound s'"
  using assms
proof (induction rule: terminal_step.induct)
  case (starts hex wall tick command cwd timeout cap t run fx t' p)
  from begin_outcome [OF starts(1)] show ?case
    by (simp add: terminal_sound_def run_of_def begun_collector_sound)
next
  case (submits run t run' fx t')
  then show ?case
    by (auto simp: command_submit_def Let_def terminal_sound_def run_of_def)
next
  case (submit_fails why run t run' fx t')
  then show ?case
    by (auto simp: command_submit_def Let_def terminal_sound_def run_of_def collector_sound_def
        collector_bytes_def)
next
  case (aborts t run)
  then show ?case
    by (auto simp: command_aborted_def terminal_sound_def run_of_def collector_sound_def)
next
  case (wakes w t run run' fx t')
  then show ?case using sound_wake by blast
next
  case (cleans decode run t co fx t')
  then show ?case
    by (auto simp: command_cleanup_def collector_flush_def Let_def terminal_sound_def run_of_def
        split: option.splits)
next
  case (finishes decode tick run co t result fx t')
  then show ?case
    by (auto simp: command_close_def Let_def terminal_sound_def run_of_def)
next
  case (observe chunk t shown t' p)
  show ?case
  proof (cases "at_collector t")
    case None
    with observe stale_other [of chunk t] show ?thesis
      by (auto simp: observe_output_def intro: sound_unchanged)
  next
    case (Some co)
    obtain s co1 where feed: "collector_feed chunk co = (s, co1)" by fastforce
    with observe Some stale_other [of s "t\<lparr>at_collector := Some co1\<rparr>"]
    obtain ms where t': "t' = t\<lparr>at_collector := Some co1, at_stale := ms\<rparr>"
      by (auto simp: observe_output_def)
    from observe(2) feed_sound [OF _ feed] Some show ?thesis
      unfolding t' by (auto simp: terminal_sound_def split: option.splits)
  qed
next
  case (attaches t p sink)
  then show ?case by (rule sound_unchanged) (simp_all add: bind_notify_def)
next
  case (detaches t p sink)
  then show ?case by (rule sound_unchanged) (simp_all add: unbind_notify_def)
next
  case (rebinds t p session)
  then show ?case by (rule sound_unchanged) simp_all
next
  case (closes t p)
  have "terminal_sound (t\<lparr>at_collector := map_option
      (collector_fail (term_error ''terminal_closed'' Terminal_closed_meanwhile)) (at_collector t)\<rparr>, p)"
    using closes by (rule sound_collector [OF _ refl]) (rule fail_sound)
  then show ?case by (rule sound_unchanged) (simp_all add: close_terminal_entry_def)
next
  case (cancels reason t b t' p)
  have "t' = t\<lparr>at_collector := map_option
      (collector_fail (term_error ''interrupted'' (Interrupted_because reason))) (at_collector t)\<rparr>"
    using cancels(1) by (auto simp: cancel_command_def split: option.splits)
  with cancels(2) show ?case by (rule sound_collector) (rule fail_sound)
qed

lemma reachable_terminal_sound: "terminal_reachable s \<Longrightarrow> terminal_sound s"
proof (induction rule: terminal_reachable.induct)
  case (fresh node tid session flavor)
  show ?case by (simp add: terminal_sound_def new_terminal_def run_of_def)
qed (rule terminal_step_sound)

subsection \<open>Properties\<close>



text \<open>When the read that completes the marker line brings the whole exit status, the command ends
  with that status, the browser has seen everything before the marker line and everything after it,
  and nothing of the line itself, the agent has the first bytes before it, and later output passes
  through. The status is the decimal number after the marker (none past 4300 digits).\<close>

theorem collector_reads_the_status:
  assumes "m \<noteq> []" "0 \<le> cap"
    and "undecided echo (concat cs) \<or> free_of m (echo_body echo (concat cs))"
    and "\<not> undecided echo (concat cs @ c)" "echo_body echo (concat cs @ c) = pre @ m @ tail"
    and "first_marker m pre" "exit_match tail = Some (neg, digits, after)"
  shows "\<exists>co. collector_feeds (cs @ c # ds) (collector_ready m cap echo)
       = (pre @ drop_line_end after @ concat ds, co)
     \<and> co_done co = Finished \<and> co_exit_code co = exit_value neg digits
     \<and> collector_bytes co = take (nat cap) pre \<and> (co_truncated co \<longleftrightarrow> cap < int (length pre))
     \<and> co_pending co = []"
  using feeds_complete [OF assms] unfolding completed_def by blast

lemma collector_reads_the_status_witness:
  "\<exists>co. collector_feeds [''x_'', ''_M127'' @ CRLF @ ''$ ''] (collector_ready ''__M'' 1024 [])
       = (''x$ '', co) \<and> co_exit_code co = Some 127"
proof -
  have "free_of ''__M'' (echo_body [] (concat [''x_'']))" "first_marker ''__M'' ''x''"
    "exit_match (''127'' @ CRLF @ ''$ '') = Some (False, ''127'', CRLF @ ''$ '')"
    "drop_line_end (CRLF @ ''$ '') = ''$ ''" "exit_value False ''127'' = Some 127"
    by code_simp+
  moreover have "\<not> undecided [] (concat [''x_''] @ (''_M127'' @ CRLF @ ''$ ''))" by (simp add: undecided_def)
  moreover have "echo_body [] (concat [''x_''] @ (''_M127'' @ CRLF @ ''$ '')) = ''x'' @ ''__M'' @ (''127'' @ CRLF @ ''$ '')"
    by (simp add: echo_body_def)
  ultimately show ?thesis
    using collector_reads_the_status [of "''__M''" 1024 "[]" "[''x_'']" "''_M127'' @ CRLF @ ''$ ''" "''x''"
        "''127'' @ CRLF @ ''$ ''" False "''127''" "CRLF @ ''$ ''" "[]"] by auto
qed

text \<open>C11: A terminal runs one command at a time. In every state reachable by commands, output,
  attaches, detaches, rebinds, cancellations and closing, in any order: the lock is held exactly
  while a command runs, and input is locked exactly until its cleanup; the terminal names the
  running command; the agent's copy never exceeds its bound; an exit code exists only once the
  marker was read; a second command is refused; and a terminal at rest has nothing left of the last.\<close>

theorem terminal_runs_one_command:
  assumes "terminal_reachable (t, p)"
  shows "(at_locked t \<longleftrightarrow> p \<noteq> No_run) \<and> (input_locked t \<longleftrightarrow> run_of p \<noteq> None)
     \<and> (\<forall>run. run_of p = Some run \<longrightarrow> (\<exists>co. at_collector t = Some co \<and> co_marker co = rn_marker run
          \<and> int (length (collector_bytes co)) \<le> co_cap co \<and> co_cap co \<le> MAX_OUTPUT_BYTES
          \<and> (co_exit_code co \<noteq> None \<longrightarrow> co_done co = Finished) \<and> at_agent_command t = rn_command run))
     \<and> (\<forall>hex wall tick command cwd timeout cap. p \<noteq> No_run \<longrightarrow>
          (\<exists>e. command_begin hex wall tick command cwd timeout cap t = Inl e))
     \<and> (p = No_run \<longrightarrow> agent_state t = (False, [], None))"
proof -
  have sound: "terminal_sound (t, p)" using assms by (rule reachable_terminal_sound)
  then have locked: "at_locked t \<longleftrightarrow> p \<noteq> No_run" by (simp add: terminal_sound_def)
  have "\<exists>e. command_begin hex wall tick command cwd timeout cap t = Inl e"
    if "p \<noteq> No_run" for hex wall tick command cwd timeout cap
    using locked that by (simp add: command_begin_def split: sum.split)
  moreover have "run_of No_run = None" by (simp add: run_of_def)
  ultimately show ?thesis
    using sound locked unfolding terminal_sound_def
    by (cases "run_of p") (auto simp: input_locked_def agent_state_def collector_sound_def)
qed

lemma terminal_runs_one_command_witness:
  "\<exists>t run. terminal_reachable (t, Announced run) \<and> input_locked t \<and> at_agent_command t = ''ls''"
proof -
  let ?t = "new_terminal ''n'' ''t'' 0 ''posix''"
  have "validate_command ''ls'' = Inr ''ls''" by code_simp
  then obtain run fx t where begun: "command_begin ''ab'' 0 0 ''ls'' [] 0 0 ?t = Inr (run, fx, t)"
    by (simp add: command_begin_def new_terminal_def Let_def)
  with \<open>validate_command ''ls'' = Inr ''ls''\<close> have name: "rn_command run = ''ls''"
    using begin_outcome [OF begun] by simp
  have reach: "terminal_reachable (t, Announced run)"
    by (rule step [OF fresh starts [OF begun]])
  from terminal_runs_one_command [OF reach] name have "input_locked t \<and> at_agent_command t = ''ls''"
    by (auto simp: run_of_def)
  with reach show ?thesis by blast
qed

end
