(* ===== verification/Terminal_Bridge.thy ===== *)
theory Terminal_Bridge
  imports Service_Types Terminal_Commands
begin

text \<open>
  terminal_bridge.py: host-shell terminals over the registry's connections, browsers that come and
  go, and the two registries that keep a terminal alive between them. \<open>bridge\<close> is the state these
  share: the node registry, every subscriber queue and every \<open>PersistentTerminal\<close> ever created (an
  object's identity is its index), the two tables, and the agent registry the hooks lead to.

  The registries' lock guards blocks without an await in them, so each block is one definition.
  Frame ids and stamps, and the clocks, are arguments. A session belongs to exactly one terminal and
  is a component of it.
\<close>

subsection \<open>State\<close>

record bridge_session =
  bs_terminal_id :: string
  bs_conn :: nat
  bs_queue :: nat
  bs_closed :: bool
  bs_last_sequence :: int

record persistent =
  pt_workspace :: string
  pt_node :: string
  pt_session :: bridge_session
  pt_owner :: string
  pt_created_at :: microseconds
  pt_last_activity :: microseconds
  pt_detached_since :: "microseconds option"
  pt_replay :: "string list"
  pt_replay_size :: nat
  pt_subscriber :: "nat option"
  pt_closed :: bool
  pt_pump_done :: bool

record bridge =
  br_registry :: "frame registry"
  br_queues :: "string option queue list"
  br_terminals :: "persistent list"
  br_hosts :: "(string \<times> string, nat) dict"
  br_editors :: "(string \<times> string, nat) dict"
  br_agents :: active_terminals

definition REPLAY_LIMIT :: nat where "REPLAY_LIMIT = 256 * 1024"
definition SUBSCRIBER_QUEUE :: nat where "SUBSCRIBER_QUEUE = 256"

definition pt_id :: "persistent \<Rightarrow> string" where
  "pt_id p = bs_terminal_id (pt_session p)"

definition br_conn :: "nat \<Rightarrow> bridge \<Rightarrow> frame connection" where
  "br_conn i br = r_heap (br_registry br) ! i"

definition set_conn :: "nat \<Rightarrow> frame connection \<Rightarrow> bridge \<Rightarrow> bridge" where
  "set_conn i c br = br\<lparr>br_registry := (br_registry br)\<lparr>r_heap := (r_heap (br_registry br))[i := c]\<rparr>\<rparr>"

definition br_terminal :: "nat \<Rightarrow> bridge \<Rightarrow> persistent" where
  "br_terminal i br = br_terminals br ! i"

definition set_terminal :: "nat \<Rightarrow> persistent \<Rightarrow> bridge \<Rightarrow> bridge" where
  "set_terminal i p br = br\<lparr>br_terminals := (br_terminals br)[i := p]\<rparr>"

definition set_queue :: "nat \<Rightarrow> string option queue \<Rightarrow> bridge \<Rightarrow> bridge" where
  "set_queue q x br = br\<lparr>br_queues := (br_queues br)[q := x]\<rparr>"

text \<open>\<open>put_nowait\<close> with \<open>QueueFull\<close> suppressed, on a subscriber's queue.\<close>

definition offer :: "nat \<Rightarrow> string option \<Rightarrow> bridge \<Rightarrow> bridge" where
  "offer q x br = set_queue q (put_or_drop x (br_queues br ! q)) br"

subsection \<open>Sessions\<close>

text \<open>\<open>_send\<close> on the session of a connection: the text of the ConnectionError, or the new state.\<close>

definition session_send :: "frame \<Rightarrow> bridge_session \<Rightarrow> bridge \<Rightarrow> string + bridge" where
  "session_send fr s br =
     (if bs_closed s then Inl ''terminal is closed''
      else case send fr (br_conn (bs_conn s) br) of
        Inl e \<Rightarrow> Inl e | Inr c \<Rightarrow> Inr (set_conn (bs_conn s) c br))"

text \<open>The queue of the session in its connection: a \<open>None\<close> in it wakes the pump.\<close>

definition force_sentinel :: "'a option queue \<Rightarrow> 'a option queue" where
  "force_sentinel q = (case put_nowait None q of
     Some q' \<Rightarrow> q' | None \<Rightarrow> q\<lparr>q_items := [None]\<rparr>)"

definition session_release :: "bridge_session \<Rightarrow> bridge \<Rightarrow> bridge_session \<times> bridge" where
  "session_release s br =
     (if bs_closed s then (s, br)
      else let c = br_conn (bs_conn s) br;
               c1 = c\<lparr>c_terminals := tab_update (bs_queue s) force_sentinel (c_terminals c)\<rparr>
        in (s\<lparr>bs_closed := True\<rparr>, set_conn (bs_conn s) (close_terminal (bs_terminal_id s) c1) br))"

definition terminal_open_spec ::
  "string \<Rightarrow> string \<Rightarrow> string \<Rightarrow> int \<Rightarrow> int \<Rightarrow> string \<Rightarrow> string \<Rightarrow> terminal_spec" where
  "terminal_open_spec tid shell cwd rows cols session_id env_id =
     \<lparr>to_terminal_id = tid, to_shell = shell, to_cwd = cwd, to_session_id = session_id,
      to_env_id = env_id, to_rows = max rows 0, to_cols = max cols 0\<rparr>"

text \<open>\<open>NodeTerminalManager.open\<close>: the receive queue is open before the frame is sent.\<close>

definition manager_open ::
  "string \<Rightarrow> string \<Rightarrow> string \<Rightarrow> string \<Rightarrow> string \<Rightarrow> string \<Rightarrow> int \<Rightarrow> int \<Rightarrow> string \<Rightarrow> string \<Rightarrow> bridge \<Rightarrow>
   (string + bridge_session) \<times> bridge" where
  "manager_open fid stamp node_id tid shell cwd rows cols session_id env_id br =
     (let offline = ''node '' @ node_id @ '' is not connected'' in
      case lookup node_id (br_registry br) of
        None \<Rightarrow> (Inl offline, br)
      | Some i \<Rightarrow>
          if c_closed (br_conn i br) then (Inl offline, br)
          else
            let (q, c) = open_terminal tid (br_conn i br);
                s = \<lparr>bs_terminal_id = tid, bs_conn = i, bs_queue = q, bs_closed = False, bs_last_sequence = 0\<rparr>;
                br1 = set_conn i c br
            in case session_send (new_frame fid stamp (P_terminal_open
                   (terminal_open_spec tid shell cwd rows cols session_id env_id))) s br1 of
                 Inl e \<Rightarrow> (Inl e, snd (session_release s br1))
               | Inr br2 \<Rightarrow> (Inr s, br2))"

text \<open>\<open>NodeTerminalManager.close\<close>: no stamp on this frame.\<close>

definition manager_close :: "string \<Rightarrow> string \<Rightarrow> string \<Rightarrow> bridge \<Rightarrow> string + bridge" where
  "manager_close fid node_id tid br =
     (let offline = ''node '' @ node_id @ '' is not connected'' in
      case lookup node_id (br_registry br) of
        None \<Rightarrow> Inl offline
      | Some i \<Rightarrow>
          if c_closed (br_conn i br) then Inl offline
          else case send (new_frame fid [] (P_terminal_close tid)) (br_conn i br) of
            Inl e \<Rightarrow> Inl e | Inr c \<Rightarrow> Inr (set_conn i c br))"

definition shell_input :: "string \<Rightarrow> string \<Rightarrow> string \<Rightarrow> bridge_session \<Rightarrow> bridge \<Rightarrow> string + bridge" where
  "shell_input fid stamp xs s br =
     (if xs = [] then Inr br
      else session_send (new_frame fid stamp (P_terminal_input (bs_terminal_id s) xs)) s br)"

definition session_resize :: "string \<Rightarrow> string \<Rightarrow> int \<Rightarrow> int \<Rightarrow> bridge_session \<Rightarrow> bridge \<Rightarrow> string + bridge" where
  "session_resize fid stamp rows cols s br =
     (if rows \<le> 0 \<or> cols \<le> 0 then Inr br
      else session_send (new_frame fid stamp (P_terminal_resize (bs_terminal_id s) rows cols)) s br)"

text \<open>
  \<open>attach\<close> to a new connection. A failed send still leaves the session bound to it; \<open>None\<close> as text
  is success.
\<close>

definition session_attach ::
  "string \<Rightarrow> string \<Rightarrow> nat \<Rightarrow> int \<Rightarrow> bridge_session \<Rightarrow> bridge \<Rightarrow> string option \<times> bridge_session \<times> bridge" where
  "session_attach fid stamp new_conn after s br =
     (if bs_closed s then (Some ''terminal is closed'', s, br)
      else
        let br1 = set_conn (bs_conn s) (close_terminal (bs_terminal_id s) (br_conn (bs_conn s) br)) br;
            (q, c) = open_terminal (bs_terminal_id s) (br_conn new_conn br1);
            s1 = s\<lparr>bs_conn := new_conn, bs_queue := q\<rparr>;
            br2 = set_conn new_conn c br1
        in case session_send (new_frame fid stamp (P_terminal_attach (bs_terminal_id s) after)) s1 br2 of
             Inl e \<Rightarrow> (Some e, s1, br2)
           | Inr br3 \<Rightarrow> (None, s1, br3))"

definition session_close :: "string \<Rightarrow> string \<Rightarrow> bridge_session \<Rightarrow> bridge \<Rightarrow> bridge_session \<times> bridge" where
  "session_close fid stamp s br =
     (if bs_closed s then (s, br)
      else session_release s
        (case session_send (new_frame fid stamp (P_terminal_close (bs_terminal_id s))) s br of
           Inl e \<Rightarrow> br | Inr br1 \<Rightarrow> br1))"

subsection \<open>Persistent terminals\<close>

definition new_persistent ::
  "microseconds \<Rightarrow> microseconds \<Rightarrow> string \<Rightarrow> string \<Rightarrow> string \<Rightarrow> bridge_session \<Rightarrow> persistent" where
  "new_persistent wall now workspace node owner s =
     \<lparr>pt_workspace = workspace, pt_node = node, pt_session = s, pt_owner = owner,
      pt_created_at = wall, pt_last_activity = now, pt_detached_since = Some now,
      pt_replay = [], pt_replay_size = 0, pt_subscriber = None, pt_closed = False, pt_pump_done = False\<rparr>"

definition closed_terminal :: "persistent \<Rightarrow> bool" where
  "closed_terminal p = (pt_closed p \<or> bs_closed (pt_session p))"

definition reattachable :: "persistent \<Rightarrow> bool" where
  "reattachable p = (pt_pump_done p \<and> \<not> closed_terminal p)"

definition attached :: "persistent \<Rightarrow> bool" where
  "attached p = (pt_subscriber p \<noteq> None)"

record terminal_info =
  ti_id :: string
  ti_node_id :: string
  ti_owner :: string
  ti_created_at :: microseconds
  ti_attached :: bool

definition describe :: "persistent \<Rightarrow> terminal_info" where
  "describe p = \<lparr>ti_id = pt_id p, ti_node_id = pt_node p, ti_owner = pt_owner p,
     ti_created_at = pt_created_at p, ti_attached = attached p\<rparr>"

text \<open>The loop of \<open>_append_replay\<close>.\<close>

fun trim_replay :: "string list \<Rightarrow> nat \<Rightarrow> string list \<times> nat" where
  "trim_replay [] n = ([], n)"
| "trim_replay (c # cs) n = (if REPLAY_LIMIT < n then trim_replay cs (n - length c) else (c # cs, n))"

definition append_replay :: "string \<Rightarrow> persistent \<Rightarrow> persistent" where
  "append_replay chunk p =
     (let (cs, n) = trim_replay (pt_replay p @ [chunk]) (pt_replay_size p + length chunk)
      in p\<lparr>pt_replay := cs, pt_replay_size := n\<rparr>)"

text \<open>A new subscriber replaces an older one, which gets the sentinel if it has room.\<close>

definition subscribe :: "nat \<Rightarrow> bridge \<Rightarrow> string + (nat \<times> bridge)" where
  "subscribe i br =
     (let p = br_terminal i br in
      if closed_terminal p then Inl ''terminal is closed''
      else
        let br1 = (case pt_subscriber p of None \<Rightarrow> br | Some q \<Rightarrow> offer q None br);
            q = length (br_queues br1);
            fresh = fold (\<lambda>chunk. put_or_drop (Some chunk)) (pt_replay p) (new_queue SUBSCRIBER_QUEUE)
        in Inr (q, set_terminal i (p\<lparr>pt_subscriber := Some q, pt_detached_since := None\<rparr>)
                     (br1\<lparr>br_queues := br_queues br1 @ [fresh]\<rparr>)))"

definition unsubscribe :: "microseconds \<Rightarrow> nat \<Rightarrow> nat \<Rightarrow> bridge \<Rightarrow> bridge" where
  "unsubscribe now i q br =
     (let p = br_terminal i br in
      if pt_subscriber p = Some q
      then set_terminal i (p\<lparr>pt_subscriber := None, pt_detached_since := Some now\<rparr>) br else br)"

definition persistent_input ::
  "string \<Rightarrow> string \<Rightarrow> microseconds \<Rightarrow> string \<Rightarrow> nat \<Rightarrow> bridge \<Rightarrow> string option \<times> bridge" where
  "persistent_input fid stamp now xs i br =
     (if xs = [] then (None, br)
      else
        let p = br_terminal i br; br1 = set_terminal i (p\<lparr>pt_last_activity := now\<rparr>) br
        in case shell_input fid stamp xs (pt_session p) br1 of
             Inl e \<Rightarrow> (Some e, br1) | Inr br2 \<Rightarrow> (None, br2))"

definition persistent_resize ::
  "string \<Rightarrow> string \<Rightarrow> int \<Rightarrow> int \<Rightarrow> nat \<Rightarrow> bridge \<Rightarrow> string + bridge" where
  "persistent_resize fid stamp rows cols i br =
     session_resize fid stamp rows cols (pt_session (br_terminal i br)) br"

definition persistent_close :: "string \<Rightarrow> string \<Rightarrow> nat \<Rightarrow> bridge \<Rightarrow> bridge" where
  "persistent_close fid stamp i br =
     (let p = br_terminal i br in
      if pt_closed p then br
      else
        let br1 = (case pt_subscriber p of None \<Rightarrow> br | Some q \<Rightarrow> offer q None br);
            (s, br2) = session_close fid stamp (pt_session p) br1
        in set_terminal i (p\<lparr>pt_closed := True, pt_subscriber := None, pt_session := s\<rparr>) br2)"

definition persistent_rebind ::
  "string \<Rightarrow> string \<Rightarrow> nat \<Rightarrow> nat \<Rightarrow> bridge \<Rightarrow> bool \<times> bridge" where
  "persistent_rebind fid stamp new_conn i br =
     (let p = br_terminal i br in
      if pt_closed p then (False, br)
      else case session_attach fid stamp new_conn (bs_last_sequence (pt_session p)) (pt_session p) br of
        (Some e, s, br1) \<Rightarrow> (False, set_terminal i (p\<lparr>pt_session := s\<rparr>) br1)
      | (None, s, br1) \<Rightarrow>
          (True, set_terminal i (p\<lparr>pt_session := s, pt_pump_done := False\<rparr>) br1))"

subsection \<open>The pump\<close>

text \<open>
  One item of the session's queue (\<open>None\<close>: nothing there, or the pump has ended). Ending, the pump
  marks a closed terminal; its \<open>on_finished\<close> takes the registry's lock and is a step of its own.
\<close>

definition pump_end :: "nat \<Rightarrow> bridge \<Rightarrow> bridge" where
  "pump_end i br =
     (let p = br_terminal i br in
      if bs_closed (pt_session p)
      then set_terminal i (p\<lparr>pt_closed := True, pt_subscriber := None, pt_pump_done := True\<rparr>)
             (case pt_subscriber p of None \<Rightarrow> br | Some q \<Rightarrow> offer q None br)
      else set_terminal i (p\<lparr>pt_pump_done := True\<rparr>) br)"

text \<open>A full subscriber is emptied, told to go and detached.\<close>

definition push_chunk :: "microseconds \<Rightarrow> string \<Rightarrow> nat \<Rightarrow> bridge \<Rightarrow> bridge" where
  "push_chunk now chunk i br = (case pt_subscriber (br_terminal i br) of
     None \<Rightarrow> br
   | Some q \<Rightarrow> (case put_nowait (Some chunk) (br_queues br ! q) of
       Some x \<Rightarrow> set_queue q x br
     | None \<Rightarrow> unsubscribe now i q (set_queue q ((br_queues br ! q)\<lparr>q_items := [None]\<rparr>) br)))"

definition pump_output :: "microseconds \<Rightarrow> string \<Rightarrow> int \<Rightarrow> nat \<Rightarrow> bridge \<Rightarrow> bridge" where
  "pump_output now chunk seq i br =
     (if chunk = [] then br
      else let p = br_terminal i br in
        push_chunk now chunk i (set_terminal i (append_replay chunk
          (p\<lparr>pt_session := (pt_session p)\<lparr>bs_last_sequence := seq\<rparr>, pt_last_activity := now\<rparr>)) br))"

definition pump_item :: "microseconds \<Rightarrow> terminal_frame option \<Rightarrow> nat \<Rightarrow> bridge \<Rightarrow> bridge" where
  "pump_item now item i br = (case item of
     None \<Rightarrow> pump_end i br
   | Some (Term_exit tid code err) \<Rightarrow>
       (let p = br_terminal i br; (s, br1) = session_release (pt_session p) br
        in pump_end i (set_terminal i (p\<lparr>pt_session := s\<rparr>) br1))
   | Some (Term_output tid chunk seq truncated) \<Rightarrow> pump_output now chunk seq i br)"

definition pump_step :: "microseconds \<Rightarrow> nat \<Rightarrow> bridge \<Rightarrow> bridge option" where
  "pump_step now i br =
     (let p = br_terminal i br; s = pt_session p; c = br_conn (bs_conn s) br in
      if pt_pump_done p then None
      else case get_nowait (objs (c_terminals c) ! bs_queue s) of
        None \<Rightarrow> None
      | Some (item, q) \<Rightarrow> Some (pump_item now item i
          (set_conn (bs_conn s) (c\<lparr>c_terminals := tab_update (bs_queue s) (\<lambda>_. q) (c_terminals c)\<rparr>) br)))"

subsection \<open>The registry of host terminals\<close>

text \<open>The hooks the gateway installs: a terminal with a running agent command, and \<open>retire\<close>.\<close>

definition has_running_work :: "string \<times> string \<Rightarrow> bridge \<Rightarrow> bool" where
  "has_running_work key br = (case get_terminal (fst key) (snd key) (br_agents br) of
     None \<Rightarrow> False | Some a \<Rightarrow> input_locked (ar_objects (br_agents br) ! a))"

definition fire_retired :: "string \<times> string \<Rightarrow> bridge \<Rightarrow> bridge" where
  "fire_retired key br = br\<lparr>br_agents := retire_terminal (fst key) (snd key) (br_agents br)\<rparr>"

definition max_active_per_node :: "int \<Rightarrow> nat" where
  "max_active_per_node n = nat (max 1 n)"

definition detached_ttl :: "microseconds \<Rightarrow> microseconds" where
  "detached_ttl t = max (seconds 1) t"

definition active_count :: "string \<Rightarrow> bridge \<Rightarrow> nat" where
  "active_count node_id br = length (filter (\<lambda>(key, i). pt_node (br_terminal i br) = node_id
     \<and> \<not> closed_terminal (br_terminal i br)) (br_hosts br))"

definition add_terminal :: "persistent \<Rightarrow> bridge \<Rightarrow> nat \<times> bridge" where
  "add_terminal p br = (length (br_terminals br), br\<lparr>br_terminals := br_terminals br @ [p]\<rparr>)"

definition open_host ::
  "string \<Rightarrow> string \<Rightarrow> microseconds \<Rightarrow> microseconds \<Rightarrow> string \<Rightarrow> string \<Rightarrow> string \<Rightarrow> int \<Rightarrow> int \<Rightarrow> string \<Rightarrow>
   bridge \<Rightarrow> (string + nat) \<times> bridge" where
  "open_host fid stamp wall now node_id tid owner rows cols env_id br =
     (case manager_open fid stamp node_id tid [] [] rows cols [] env_id br of
        (Inl e, br1) \<Rightarrow> (Inl e, br1)
      | (Inr s, br1) \<Rightarrow>
          let (i, br2) = add_terminal (new_persistent wall now node_id node_id owner s) br1
          in (Inr i, br2\<lparr>br_hosts := dset (node_id, tid) i (br_hosts br2)\<rparr>))"

definition host_get_or_create ::
  "int \<Rightarrow> string \<Rightarrow> string \<Rightarrow> microseconds \<Rightarrow> microseconds \<Rightarrow> string \<Rightarrow> string \<Rightarrow> string \<Rightarrow> int \<Rightarrow> int \<Rightarrow>
   string \<Rightarrow> bridge \<Rightarrow> (string + nat) \<times> bridge" where
  "host_get_or_create cap fid stamp wall now node_id tid owner rows cols env_id br =
     (let create = (if max_active_per_node cap \<le> active_count node_id br
            then (Inl (''terminal_limit_reached: node terminal limit is ''
                       @ str_of_nat (max_active_per_node cap)), br)
            else open_host fid stamp wall now node_id tid owner rows cols env_id br)
      in case dget (br_hosts br) (node_id, tid) of
           Some i \<Rightarrow> if \<not> closed_terminal (br_terminal i br) then (Inr i, br) else create
         | None \<Rightarrow> create)"

text \<open>\<open>delete\<close> up to its wait for the pump; the caller then fires \<open>on_retired\<close>.\<close>

definition host_delete :: "string \<Rightarrow> string \<Rightarrow> string \<Rightarrow> string \<Rightarrow> bridge \<Rightarrow> bool \<times> bridge" where
  "host_delete fid stamp node_id tid br = (case dget (br_hosts br) (node_id, tid) of
     None \<Rightarrow> (False, br)
   | Some i \<Rightarrow> (True, persistent_close fid stamp i (br\<lparr>br_hosts := dpop (node_id, tid) (br_hosts br)\<rparr>)))"

definition host_list :: "string \<Rightarrow> bridge \<Rightarrow> terminal_info list" where
  "host_list node_id br =
     sort_key (\<lambda>x. - ti_created_at x)
       (map (\<lambda>(key, i). describe (br_terminal i br))
         (filter (\<lambda>(key, i). fst key = node_id \<and> \<not> closed_terminal (br_terminal i br)) (br_hosts br)))"

definition host_get_if_live :: "string \<Rightarrow> string \<Rightarrow> bridge \<Rightarrow> nat option" where
  "host_get_if_live node_id tid br = (case dget (br_hosts br) (node_id, tid) of
     None \<Rightarrow> None | Some i \<Rightarrow> if closed_terminal (br_terminal i br) then None else Some i)"

definition host_rebind :: "string \<Rightarrow> string \<Rightarrow> string \<Rightarrow> string \<Rightarrow> nat \<Rightarrow> bridge \<Rightarrow> bool \<times> bridge" where
  "host_rebind fid stamp node_id tid new_conn br = (case dget (br_hosts br) (node_id, tid) of
     None \<Rightarrow> (False, br)
   | Some i \<Rightarrow> if closed_terminal (br_terminal i br) then (False, br)
       else persistent_rebind fid stamp new_conn i br)"

text \<open>\<open>fids\<close> gives the frame id of each reattach.\<close>

definition host_rebind_all :: "(nat \<Rightarrow> string) \<Rightarrow> string \<Rightarrow> string \<Rightarrow> nat \<Rightarrow> bridge \<Rightarrow> bridge" where
  "host_rebind_all fids stamp node_id new_conn br =
     fold (\<lambda>(key, i) b. if \<not> reattachable (br_terminal i b) then b
         else snd (persistent_rebind (fids i) stamp new_conn i b))
       (filter (\<lambda>(key, i). fst key = node_id) (br_hosts br)) br"

text \<open>\<open>_remove_finished\<close> of terminal \<open>i\<close>.\<close>

definition host_finished :: "nat \<Rightarrow> bridge \<Rightarrow> bridge" where
  "host_finished i br =
     (let key = (pt_node (br_terminal i br), pt_id (br_terminal i br)) in
      if dget (br_hosts br) key = Some i
      then fire_retired key (br\<lparr>br_hosts := dpop key (br_hosts br)\<rparr>) else br)"

text \<open>
  One round of the reaper under the lock: which entries expire, with the idle clock of busy ones
  restarted. Then the expired terminals are closed, and after their pumps ended \<open>on_retired\<close> fires.
\<close>

definition host_expired :: "microseconds \<Rightarrow> microseconds \<Rightarrow> bridge \<Rightarrow> (string \<times> string) \<times> nat \<Rightarrow> bool" where
  "host_expired now ttl br e = (case e of (key, i) \<Rightarrow>
     (let p = br_terminal i br in
      closed_terminal p
      \<or> (case pt_detached_since p of
           None \<Rightarrow> False
         | Some since \<Rightarrow> \<not> (now - detached_ttl ttl < since) \<and> \<not> has_running_work key br)))"

definition host_rested :: "microseconds \<Rightarrow> microseconds \<Rightarrow> bridge \<Rightarrow> (string \<times> string) \<times> nat \<Rightarrow> bool" where
  "host_rested now ttl br e = (case e of (key, i) \<Rightarrow>
     (let p = br_terminal i br in
      \<not> closed_terminal p
      \<and> (case pt_detached_since p of
           None \<Rightarrow> False
         | Some since \<Rightarrow> \<not> (now - detached_ttl ttl < since) \<and> has_running_work key br)))"

definition host_reap ::
  "(nat \<Rightarrow> string) \<Rightarrow> string \<Rightarrow> microseconds \<Rightarrow> microseconds \<Rightarrow> bridge \<Rightarrow>
   (string \<times> string) list \<times> bool \<times> bridge" where
  "host_reap fids stamp now ttl br =
     (let expired = filter (host_expired now ttl br) (br_hosts br);
          rested = filter (host_rested now ttl br) (br_hosts br);
          br1 = fold (\<lambda>(key, i) b. set_terminal i ((br_terminal i b)\<lparr>pt_detached_since := Some now\<rparr>) b) rested br;
          br2 = br1\<lparr>br_hosts := fold (\<lambda>(key, i). dpop key) expired (br_hosts br1)\<rparr>;
          br3 = fold (\<lambda>(key, i). persistent_close (fids i) stamp i) expired br2
      in (map fst expired, br_hosts br2 = [], br3))"

subsection \<open>The registry of editor terminals\<close>

definition editor_get_or_create ::
  "string \<Rightarrow> string \<Rightarrow> microseconds \<Rightarrow> microseconds \<Rightarrow> string \<Rightarrow> string \<Rightarrow> string \<Rightarrow> int \<Rightarrow> int \<Rightarrow> bridge \<Rightarrow>
   (string + nat) \<times> bridge" where
  "editor_get_or_create fid stamp wall now workspace node_id tid rows cols br =
     (let create = (case manager_open fid stamp node_id tid [] [] rows cols workspace [] br of
            (Inl e, br1) \<Rightarrow> (Inl e, br1)
          | (Inr s, br1) \<Rightarrow>
              let (i, br2) = add_terminal (new_persistent wall now workspace node_id [] s) br1
              in (Inr i, br2\<lparr>br_editors := dset (workspace, tid) i (br_editors br2)\<rparr>))
      in case dget (br_editors br) (workspace, tid) of
           Some i \<Rightarrow>
             if \<not> closed_terminal (br_terminal i br)
             then (if pt_node (br_terminal i br) \<noteq> node_id
                   then (Inl ''terminal node binding changed'', br) else (Inr i, br))
             else create
         | None \<Rightarrow> create)"

definition editor_list :: "string \<Rightarrow> bridge \<Rightarrow> terminal_info list" where
  "editor_list workspace br =
     sort_key (\<lambda>x. - ti_created_at x)
       (map (\<lambda>(key, i). describe (br_terminal i br))
         (filter (\<lambda>(key, i). fst key = workspace \<and> \<not> closed_terminal (br_terminal i br)) (br_editors br)))"

definition editor_delete :: "string \<Rightarrow> string \<Rightarrow> string \<Rightarrow> string \<Rightarrow> bridge \<Rightarrow> bool \<times> bridge" where
  "editor_delete fid stamp workspace tid br = (case dget (br_editors br) (workspace, tid) of
     None \<Rightarrow> (False, br)
   | Some i \<Rightarrow> (True, persistent_close fid stamp i (br\<lparr>br_editors := dpop (workspace, tid) (br_editors br)\<rparr>)))"

definition editor_finished :: "nat \<Rightarrow> bridge \<Rightarrow> bridge" where
  "editor_finished i br =
     (let key = (pt_workspace (br_terminal i br), pt_id (br_terminal i br)) in
      if dget (br_editors br) key = Some i then br\<lparr>br_editors := dpop key (br_editors br)\<rparr> else br)"

definition editor_reap ::
  "(nat \<Rightarrow> string) \<Rightarrow> string \<Rightarrow> microseconds \<Rightarrow> microseconds \<Rightarrow> bridge \<Rightarrow> bool \<times> bridge" where
  "editor_reap fids stamp now timeout br =
     (let expired = filter (\<lambda>(key, i). pt_last_activity (br_terminal i br) \<le> now - timeout
            \<or> closed_terminal (br_terminal i br)) (br_editors br);
          br1 = br\<lparr>br_editors := fold (\<lambda>(key, i). dpop key) expired (br_editors br)\<rparr>;
          br2 = fold (\<lambda>(key, i). persistent_close (fids i) stamp i) expired br1
      in (br_editors br1 = [], br2))"

end
