(* ===== verification/Bridge_Safety.thy ===== *)
theory Bridge_Safety
  imports Terminal_Bridge
begin

text \<open>
  What keeping terminals alive between browsers may cost and must not break: a node never has more
  live host terminals than the cap, what is kept of a terminal's output is bounded, a terminal
  nobody watches has its idle clock running, and the reaper closes exactly the terminals that are
  unwatched for long enough and idle.
\<close>

subsection \<open>One terminal\<close>

definition replay_total :: "string list \<Rightarrow> nat" where
  "replay_total cs = sum_list (map length cs)"

definition terminal_ok :: "persistent \<Rightarrow> bool" where
  "terminal_ok p = (pt_replay_size p = replay_total (pt_replay p) \<and> pt_replay_size p \<le> REPLAY_LIMIT
     \<and> (closed_terminal p \<or> (pt_subscriber p = None \<longleftrightarrow> pt_detached_since p \<noteq> None)))"

text \<open>How a terminal may change: it stays on its node, and closed stays closed.\<close>

definition kept :: "persistent \<Rightarrow> persistent \<Rightarrow> bool" where
  "kept p p' = (pt_node p' = pt_node p \<and> pt_id p' = pt_id p
     \<and> (closed_terminal p \<longrightarrow> closed_terminal p') \<and> (terminal_ok p \<longrightarrow> terminal_ok p'))"

lemma kept_refl [simp, intro]: "kept p p"
  by (simp add: kept_def)

lemma kept_trans: "kept p q \<Longrightarrow> kept q r \<Longrightarrow> kept p r"
  by (auto simp: kept_def)

lemma trim_replay_spec:
  "n = replay_total cs \<Longrightarrow> trim_replay cs n = (ds, k) \<Longrightarrow>
   k = replay_total ds \<and> k \<le> REPLAY_LIMIT
   \<and> (\<exists>pre. cs = pre @ ds \<and> (pre \<noteq> [] \<longrightarrow> REPLAY_LIMIT < length (last pre) + replay_total ds))"
proof (induction cs n rule: trim_replay.induct)
  case (1 n)
  then show ?case by (auto simp: replay_total_def)
next
  case (2 c cs n)
  show ?case
  proof (cases "REPLAY_LIMIT < n")
    case False
    with 2 show ?thesis by auto
  next
    case True
    have "n - length c = replay_total cs" using "2.prems"(1) by (simp add: replay_total_def)
    with "2.IH" [OF True this] "2.prems" True obtain pre where
        k: "k = replay_total ds" "k \<le> REPLAY_LIMIT" and pre: "cs = pre @ ds"
        and last: "pre \<noteq> [] \<longrightarrow> REPLAY_LIMIT < length (last pre) + replay_total ds"
      by auto
    have "c # cs = (c # pre) @ ds" using pre by simp
    moreover have "REPLAY_LIMIT < length (last (c # pre)) + replay_total ds"
      using last True "2.prems"(1) pre by (cases "pre = []") (auto simp: replay_total_def)
    ultimately show ?thesis using k by blast
  qed
qed

lemma append_replay_ok:
  assumes "terminal_ok p"
  shows "terminal_ok (append_replay chunk p)"
proof -
  obtain ds k where trim: "trim_replay (pt_replay p @ [chunk]) (pt_replay_size p + length chunk) = (ds, k)"
    by fastforce
  have "pt_replay_size p + length chunk = replay_total (pt_replay p @ [chunk])"
    using assms by (simp add: terminal_ok_def replay_total_def)
  from trim_replay_spec [OF this trim] have k: "k = replay_total ds \<and> k \<le> REPLAY_LIMIT" by blast
  have "append_replay chunk p = p\<lparr>pt_replay := ds, pt_replay_size := k\<rparr>"
    by (simp add: append_replay_def trim)
  with k assms show ?thesis by (simp add: terminal_ok_def closed_terminal_def)
qed

lemma append_replay_other [simp]:
  "pt_node (append_replay c p) = pt_node p" "pt_session (append_replay c p) = pt_session p"
  "pt_closed (append_replay c p) = pt_closed p" "pt_subscriber (append_replay c p) = pt_subscriber p"
  "pt_detached_since (append_replay c p) = pt_detached_since p"
  by (simp_all add: append_replay_def split: prod.split)

subsection \<open>Steps that keep the tables\<close>

text \<open>The terminals evolve one by one, the host table is untouched.\<close>

definition moves :: "bridge \<Rightarrow> bridge \<Rightarrow> bool" where
  "moves br br' = (br_hosts br' = br_hosts br \<and> length (br_terminals br') = length (br_terminals br)
     \<and> (\<forall>i < length (br_terminals br). kept (br_terminal i br) (br_terminal i br')))"

lemma moves_refl [simp, intro]: "moves br br"
  by (simp add: moves_def)

lemma moves_trans: "moves br br1 \<Longrightarrow> moves br1 br2 \<Longrightarrow> moves br br2"
  by (auto simp: moves_def intro: kept_trans)

lemma same_terminals: "br_hosts br' = br_hosts br \<Longrightarrow> br_terminals br' = br_terminals br \<Longrightarrow> moves br br'"
  by (simp add: moves_def br_terminal_def)

lemma bridge_parts [simp]:
  "br_terminals (set_conn i c br) = br_terminals br" "br_hosts (set_conn i c br) = br_hosts br"
  "br_editors (set_conn i c br) = br_editors br" "br_agents (set_conn i c br) = br_agents br"
  "br_queues (set_conn i c br) = br_queues br"
  "br_terminals (set_queue q x br) = br_terminals br" "br_hosts (set_queue q x br) = br_hosts br"
  "br_agents (set_queue q x br) = br_agents br"
  "br_terminals (offer q y br) = br_terminals br" "br_hosts (offer q y br) = br_hosts br"
  "br_agents (offer q y br) = br_agents br"
  "br_hosts (set_terminal i p br) = br_hosts br" "br_agents (set_terminal i p br) = br_agents br"
  "br_queues (set_terminal i p br) = br_queues br"
  by (simp_all add: set_conn_def set_queue_def offer_def set_terminal_def)

lemma br_terminal_cong [simp]:
  "br_terminal i (set_conn j c br) = br_terminal i br"
  "br_terminal i (set_queue q x br) = br_terminal i br"
  "br_terminal i (offer q y br) = br_terminal i br"
  by (simp_all add: br_terminal_def)

lemma moves_set_terminal:
  "br_terminals br1 = br_terminals br \<Longrightarrow> br_hosts br1 = br_hosts br \<Longrightarrow> kept (br_terminal i br) p \<Longrightarrow>
   moves br (set_terminal i p br1)"
  by (cases "i < length (br_terminals br)")
    (simp_all add: moves_def set_terminal_def br_terminal_def nth_list_update)

lemma send_parts:
  "session_send fr s br = Inr br' \<Longrightarrow> br_terminals br' = br_terminals br \<and> br_hosts br' = br_hosts br
     \<and> br_agents br' = br_agents br"
  by (auto simp: session_send_def split: if_splits sum.splits)

lemma release_parts:
  "session_release s br = (s', br') \<Longrightarrow> br_terminals br' = br_terminals br \<and> br_hosts br' = br_hosts br
     \<and> br_agents br' = br_agents br \<and> bs_closed s' \<and> bs_terminal_id s' = bs_terminal_id s"
  by (auto simp: session_release_def Let_def split: if_splits)

lemma close_parts:
  "session_close fid stamp s br = (s', br') \<Longrightarrow> br_terminals br' = br_terminals br
     \<and> br_hosts br' = br_hosts br \<and> br_agents br' = br_agents br \<and> bs_closed s'
     \<and> bs_terminal_id s' = bs_terminal_id s"
proof (cases "bs_closed s")
  case False
  assume close: "session_close fid stamp s br = (s', br')"
  from False close obtain br1 where "session_release s br1 = (s', br')"
    "br_terminals br1 = br_terminals br \<and> br_hosts br1 = br_hosts br \<and> br_agents br1 = br_agents br"
    by (auto simp: session_close_def dest: send_parts split: sum.splits)
  then show ?thesis using release_parts by metis
qed (auto simp: session_close_def)

lemma attach_parts:
  "session_attach fid stamp n after s br = (e, s', br') \<Longrightarrow> br_terminals br' = br_terminals br
     \<and> br_hosts br' = br_hosts br \<and> bs_closed s' = bs_closed s
     \<and> bs_terminal_id s' = bs_terminal_id s"
  by (auto simp: session_attach_def Let_def dest: send_parts split: if_splits prod.splits sum.splits)

lemma open_parts:
  "manager_open fid stamp node tid shell cwd rows cols sid env br = (res, br') \<Longrightarrow>
     br_terminals br' = br_terminals br \<and> br_hosts br' = br_hosts br
     \<and> (\<forall>s. res = Inr s \<longrightarrow> \<not> bs_closed s \<and> bs_terminal_id s = tid)"
  unfolding manager_open_def
  by (auto simp: Let_def dest: send_parts release_parts
      split: option.splits if_splits prod.splits sum.splits)
    (metis release_parts prod.collapse bridge_parts(1,2))+

lemma open_fields: "closed_terminal (p\<lparr>pt_detached_since := d, pt_subscriber := q\<rparr>) = closed_terminal p"
  by (simp add: closed_terminal_def)

lemma moves_subscribe:
  assumes "subscribe i br = Inr (q, br')"
  shows "moves br br'"
proof -
  let ?p = "br_terminal i br"
  let ?p' = "?p\<lparr>pt_subscriber := Some q, pt_detached_since := None\<rparr>"
  have kept: "kept ?p ?p'" by (auto simp: kept_def terminal_ok_def closed_terminal_def pt_id_def)
  define br1 where "br1 = (case pt_subscriber ?p of None \<Rightarrow> br | Some q \<Rightarrow> offer q None br)"
  have same: "br_terminals br1 = br_terminals br" "br_hosts br1 = br_hosts br"
    by (simp_all add: br1_def split: option.split)
  obtain qs where br': "br' = set_terminal i ?p' (br1\<lparr>br_queues := qs\<rparr>)"
    using assms unfolding br1_def by (simp add: subscribe_def Let_def split: if_split_asm) blast
  show ?thesis unfolding br' using same kept by (intro moves_set_terminal) simp_all
qed

lemma moves_unsubscribe: "moves br (unsubscribe now i q br)"
  by (auto simp: unsubscribe_def Let_def kept_def terminal_ok_def closed_terminal_def pt_id_def
      intro!: moves_set_terminal)

lemma moves_input:
  assumes "persistent_input fid stamp now xs i br = (e, br')"
  shows "moves br br'"
proof -
  let ?br1 = "set_terminal i ((br_terminal i br)\<lparr>pt_last_activity := now\<rparr>) br"
  have one: "moves br ?br1"
    by (rule moves_set_terminal) (simp_all add: kept_def terminal_ok_def closed_terminal_def pt_id_def)
  have "moves ?br1 br'" if "shell_input fid stamp xs s ?br1 = Inr br'" for s
    using that send_parts by (auto simp: shell_input_def intro!: same_terminals split: if_splits)
  with one assms show ?thesis
    by (auto simp: persistent_input_def Let_def split: if_splits sum.splits intro: moves_trans)
qed

lemma moves_resize: "persistent_resize fid stamp rows cols i br = Inr br' \<Longrightarrow> moves br br'"
  using send_parts by (auto simp: persistent_resize_def session_resize_def intro!: same_terminals split: if_splits)

text \<open>A closed terminal is fine whatever becomes of its subscriber.\<close>

lemma kept_closing:
  assumes "pt_node p' = pt_node p" "pt_id p' = pt_id p" "closed_terminal p'"
    "pt_replay p' = pt_replay p" "pt_replay_size p' = pt_replay_size p"
  shows "kept p p'"
  using assms by (simp add: kept_def terminal_ok_def)

lemma persistent_close_cases:
  assumes "\<not> pt_closed (br_terminal i br)"
  obtains s br2 where "persistent_close fid stamp i br = set_terminal i ((br_terminal i br)
       \<lparr>pt_closed := True, pt_subscriber := None, pt_session := s\<rparr>) br2"
    "br_terminals br2 = br_terminals br" "br_hosts br2 = br_hosts br" "br_agents br2 = br_agents br"
    "bs_terminal_id s = bs_terminal_id (pt_session (br_terminal i br))"
proof -
  let ?p = "br_terminal i br"
  define br1 where "br1 = (case pt_subscriber ?p of None \<Rightarrow> br | Some q \<Rightarrow> offer q None br)"
  obtain s br2 where close: "session_close fid stamp (pt_session ?p) br1 = (s, br2)" by fastforce
  have "br_terminals br1 = br_terminals br" "br_hosts br1 = br_hosts br" "br_agents br1 = br_agents br"
    by (simp_all add: br1_def split: option.split)
  with close_parts [OF close] assms close show ?thesis
    by (intro that [of s br2]) (simp_all add: persistent_close_def br1_def Let_def)
qed

lemma moves_close: "moves br (persistent_close fid stamp i br)"
proof (cases "pt_closed (br_terminal i br)")
  case False
  from persistent_close_cases [OF False] obtain s br2 where
      close: "persistent_close fid stamp i br = set_terminal i ((br_terminal i br)
        \<lparr>pt_closed := True, pt_subscriber := None, pt_session := s\<rparr>) br2"
      and same: "br_terminals br2 = br_terminals br" "br_hosts br2 = br_hosts br"
      and id: "bs_terminal_id s = bs_terminal_id (pt_session (br_terminal i br))" by metis
  show ?thesis unfolding close
    using same id by (intro moves_set_terminal kept_closing) (simp_all add: closed_terminal_def pt_id_def)
qed (simp add: persistent_close_def)

lemma close_agents [simp]: "br_agents (persistent_close fid stamp i br) = br_agents br"
proof (cases "pt_closed (br_terminal i br)")
  case False
  from persistent_close_cases [OF False] show ?thesis by (metis bridge_parts(13))
qed (simp add: persistent_close_def)

lemma closed_after_close:
  assumes "i < length (br_terminals br)"
  shows "closed_terminal (br_terminal i (persistent_close fid stamp i br))"
proof (cases "pt_closed (br_terminal i br)")
  case False
  from persistent_close_cases [OF False] obtain s br2 where
      close: "persistent_close fid stamp i br = set_terminal i ((br_terminal i br)
        \<lparr>pt_closed := True, pt_subscriber := None, pt_session := s\<rparr>) br2"
      and same: "br_terminals br2 = br_terminals br" by metis
  show ?thesis unfolding close using assms same
    by (simp add: br_terminal_def set_terminal_def closed_terminal_def)
qed (simp add: persistent_close_def closed_terminal_def)

lemma close_other_terminal:
  assumes "j \<noteq> i"
  shows "br_terminal j (persistent_close fid stamp i br) = br_terminal j br"
proof (cases "pt_closed (br_terminal i br)")
  case False
  from persistent_close_cases [OF False] obtain s br2 where
      close: "persistent_close fid stamp i br = set_terminal i ((br_terminal i br)
        \<lparr>pt_closed := True, pt_subscriber := None, pt_session := s\<rparr>) br2"
      and same: "br_terminals br2 = br_terminals br" by metis
  show ?thesis unfolding close using assms same by (simp add: br_terminal_def set_terminal_def)
qed (simp add: persistent_close_def)

lemma moves_rebind: "persistent_rebind fid stamp n i br = (b, br') \<Longrightarrow> moves br br'"
proof (cases "pt_closed (br_terminal i br)")
  case False
  let ?p = "br_terminal i br"
  assume rebind: "persistent_rebind fid stamp n i br = (b, br')"
  obtain e s br1 where attach: "session_attach fid stamp n (bs_last_sequence (pt_session ?p)) (pt_session ?p) br
      = (e, s, br1)" by (metis prod.collapse)
  have k: "kept ?p (?p\<lparr>pt_session := s\<rparr>)" "kept ?p (?p\<lparr>pt_session := s, pt_pump_done := False\<rparr>)"
    using attach_parts [OF attach] by (auto simp: kept_def terminal_ok_def closed_terminal_def pt_id_def)
  from rebind attach False have "br' = set_terminal i (?p\<lparr>pt_session := s\<rparr>) br1
      \<or> br' = set_terminal i (?p\<lparr>pt_session := s, pt_pump_done := False\<rparr>) br1"
    by (cases e) (auto simp: persistent_rebind_def Let_def)
  then show ?thesis
    using attach_parts [OF attach] k moves_set_terminal by auto
qed (auto simp: persistent_rebind_def)

lemma moves_pump_end: "moves br (pump_end i br)"
  by (auto simp: pump_end_def Let_def closed_terminal_def pt_id_def kept_def terminal_ok_def
      intro!: moves_set_terminal split: option.split)

lemma moves_push: "moves br (push_chunk now chunk i br)"
proof (cases "pt_subscriber (br_terminal i br)")
  case (Some q)
  have "moves br (unsubscribe now i q (set_queue q x br))" for x
    by (rule moves_trans [OF same_terminals moves_unsubscribe]) simp_all
  moreover have "moves br (set_queue q x br)" for x
    by (rule same_terminals) simp_all
  ultimately show ?thesis using Some by (simp add: push_chunk_def split: option.split)
qed (simp add: push_chunk_def)

lemma moves_output: "moves br (pump_output now chunk seq i br)"
proof -
  let ?p = "br_terminal i br"
  let ?p1 = "?p\<lparr>pt_session := (pt_session ?p)\<lparr>bs_last_sequence := seq\<rparr>, pt_last_activity := now\<rparr>"
  have "kept ?p ?p1" by (simp add: kept_def terminal_ok_def closed_terminal_def pt_id_def)
  moreover have "kept ?p1 (append_replay chunk ?p1)"
    using append_replay_ok by (auto simp: kept_def closed_terminal_def pt_id_def)
  ultimately have "kept ?p (append_replay chunk ?p1)" by (rule kept_trans)
  then have "moves br (set_terminal i (append_replay chunk ?p1) br)"
    by (rule moves_set_terminal [OF refl refl])
  then have "moves br (push_chunk now chunk i (set_terminal i (append_replay chunk ?p1) br))"
    by (rule moves_trans) (rule moves_push)
  then show ?thesis unfolding pump_output_def Let_def by simp
qed

lemma moves_pump_step: "pump_step now i br = Some br' \<Longrightarrow> moves br br'"
proof -
  have exit: "moves br (case session_release (pt_session (br_terminal i br)) br of (s, br1) \<Rightarrow>
      pump_end i (set_terminal i ((br_terminal i br)\<lparr>pt_session := s\<rparr>) br1))" for br
  proof -
    obtain s br1 where rel: "session_release (pt_session (br_terminal i br)) br = (s, br1)" by fastforce
    have "moves br (set_terminal i ((br_terminal i br)\<lparr>pt_session := s\<rparr>) br1)"
      using release_parts [OF rel]
      by (intro moves_set_terminal kept_closing) (simp_all add: closed_terminal_def pt_id_def)
    then show ?thesis unfolding rel prod.case by (rule moves_trans) (rule moves_pump_end)
  qed
  have item: "moves br (pump_item now item i br)" for item br
    using exit [of br] moves_pump_end moves_output
    by (auto simp: pump_item_def Let_def split: option.split terminal_frame.split)
  assume "pump_step now i br = Some br'"
  then obtain c item where "br' = pump_item now item i (set_conn (bs_conn (pt_session (br_terminal i br))) c br)"
    by (auto simp: pump_step_def Let_def split: if_splits option.splits)
  then show ?thesis using moves_trans [OF same_terminals item] by auto
qed

subsection \<open>The invariant of the bridge\<close>

definition bridge_ok :: "int \<Rightarrow> bridge \<Rightarrow> bool" where
  "bridge_ok cap br = (distinct (dkeys (br_hosts br)) \<and> distinct (map snd (br_hosts br))
     \<and> (\<forall>(key, i) \<in> set (br_hosts br). i < length (br_terminals br)
          \<and> pt_node (br_terminal i br) = fst key \<and> pt_id (br_terminal i br) = snd key)
     \<and> (\<forall>i < length (br_terminals br). terminal_ok (br_terminal i br))
     \<and> (\<forall>node. active_count node br \<le> max_active_per_node cap))"

lemma length_filter_mono: "(\<And>x. x \<in> set xs \<Longrightarrow> P x \<Longrightarrow> Q x) \<Longrightarrow> length (filter P xs) \<le> length (filter Q xs)"
  by (induction xs) auto

lemma bridge_ok_moves:
  assumes ok: "bridge_ok cap br" and moves: "moves br br'"
  shows "bridge_ok cap br'"
proof -
  have hosts: "br_hosts br' = br_hosts br" "length (br_terminals br') = length (br_terminals br)"
    and kept: "\<And>i. i < length (br_terminals br) \<Longrightarrow> kept (br_terminal i br) (br_terminal i br')"
    using moves by (auto simp: moves_def)
  have entry: "i < length (br_terminals br)" if "(key, i) \<in> set (br_hosts br)" for key i
    using ok that by (auto simp: bridge_ok_def)
  have "active_count node br' \<le> active_count node br" for node
    unfolding active_count_def hosts
    using entry kept by (intro length_filter_mono) (auto simp: kept_def split: prod.splits)
  then have "\<forall>node. active_count node br' \<le> max_active_per_node cap"
    using ok by (meson bridge_ok_def le_trans)
  with ok hosts kept entry show ?thesis
    unfolding bridge_ok_def by (auto simp: kept_def split: prod.splits)
qed

text \<open>Dropping entries of the table.\<close>

lemma bridge_ok_drop:
  assumes ok: "bridge_ok cap br" and hosts: "br_hosts br' = filter P (br_hosts br)"
    and same: "br_terminals br' = br_terminals br"
  shows "bridge_ok cap br'"
proof -
  have "active_count node br' \<le> active_count node br" for node
    unfolding active_count_def hosts br_terminal_def same filter_filter
    by (intro length_filter_mono) auto
  then have "\<forall>node. active_count node br' \<le> max_active_per_node cap"
    using ok by (meson bridge_ok_def le_trans)
  moreover have "distinct (dkeys (br_hosts br'))" "distinct (map snd (br_hosts br'))"
    using ok by (simp_all add: hosts bridge_ok_def distinct_map_filter)
  ultimately show ?thesis
    using ok unfolding bridge_ok_def br_terminal_def hosts same by auto
qed

lemma dpop_filter: "dpop k d = filter (\<lambda>p. fst p \<noteq> k) d"
  by (auto simp: AList.delete_eq intro!: filter_cong)

lemma fold_dpop_filter: "fold (\<lambda>(k, i). dpop k) ps d = filter (\<lambda>p. fst p \<notin> fst ` set ps) d"
proof (induction ps arbitrary: d)
  case (Cons p ps)
  then show ?case by (cases p) (auto simp: dpop_filter intro!: filter_cong)
qed simp

lemma bridge_ok_dpop:
  assumes "bridge_ok cap br" "br_terminals br' = br_terminals br" "br_hosts br' = dpop k (br_hosts br)"
  shows "bridge_ok cap br'"
  using bridge_ok_drop [OF assms(1) _ assms(2)] assms(3) by (simp add: dpop_filter)

text \<open>Adding a terminal.\<close>

lemma filter_dset_length:
  "length (filter P (dset k v d)) \<le> Suc (length (filter P d))"
  "\<not> P (k, v) \<Longrightarrow> length (filter P (dset k v d)) \<le> length (filter P d)"
  by (induction d) auto

lemma distinct_values_dset: "distinct (map snd d) \<Longrightarrow> i \<notin> snd ` set d \<Longrightarrow> distinct (map snd (dset k i d))"
  by (induction d) (auto dest: set_dset_subset [THEN subsetD])

lemma active_count_add:
  fixes br i key
  assumes br': "br' = br\<lparr>br_terminals := br_terminals br @ [p], br_hosts := dset key (length (br_terminals br)) (br_hosts br)\<rparr>"
    and "\<forall>(key, i) \<in> set (br_hosts br). i < length (br_terminals br)"
  shows "active_count node br' \<le> active_count node br + (if pt_node p = node then 1 else 0)"
proof -
  let ?P = "\<lambda>b (key, i). pt_node (br_terminal i b) = node \<and> \<not> closed_terminal (br_terminal i b)"
  let ?n = "length (br_terminals br)"
  have same: "length (filter (?P br') (br_hosts br)) = length (filter (?P br) (br_hosts br))"
    using assms by (intro arg_cong [where f = length] filter_cong) (auto simp: br_terminal_def nth_append)
  have new: "br_terminal ?n br' = p" by (simp add: br' br_terminal_def)
  have "length (filter (?P br') (dset key ?n (br_hosts br))) \<le> Suc (length (filter (?P br') (br_hosts br)))"
    by (rule filter_dset_length)
  moreover have "length (filter (?P br') (dset key ?n (br_hosts br))) \<le> length (filter (?P br') (br_hosts br))"
    if "pt_node p \<noteq> node"
    using that new by (intro filter_dset_length) simp
  ultimately show ?thesis
    unfolding active_count_def same [symmetric] by (auto simp: br')
qed

lemma bridge_ok_open:
  assumes ok: "bridge_ok cap br"
    and room: "\<not> max_active_per_node cap \<le> active_count node br"
    and opened: "open_host fid stamp wall now node tid owner rows cols env br = (res, br')"
  shows "bridge_ok cap br'"
proof -
  obtain r br1 where m: "manager_open fid stamp node tid [] [] rows cols [] env br = (r, br1)" by fastforce
  then have parts: "br_terminals br1 = br_terminals br" "br_hosts br1 = br_hosts br"
    using open_parts by auto
  then have ok1: "bridge_ok cap br1" using ok same_terminals bridge_ok_moves by blast
  show ?thesis
  proof (cases r)
    case (Inl e)
    with opened m ok1 show ?thesis by (simp add: open_host_def)
  next
    case (Inr s)
    let ?n = "length (br_terminals br1)" and ?p = "new_persistent wall now node node owner s"
    have br': "br' = br1\<lparr>br_terminals := br_terminals br1 @ [?p], br_hosts := dset (node, tid) ?n (br_hosts br1)\<rparr>"
      using opened m Inr by (auto simp: open_host_def add_terminal_def)
    have s: "\<not> bs_closed s" "bs_terminal_id s = tid" using open_parts [OF m] Inr by simp_all
    have valid: "\<forall>(key, i) \<in> set (br_hosts br1). i < ?n" using ok1 by (auto simp: bridge_ok_def)
    have old: "br_terminal i br' = br_terminal i br1" if "i < ?n" for i
      using that by (simp add: br' br_terminal_def nth_append)
    have new: "br_terminal ?n br' = ?p" by (simp add: br' br_terminal_def)
    have p: "terminal_ok ?p" "pt_node ?p = node" "pt_id ?p = tid"
      using s by (simp_all add: terminal_ok_def new_persistent_def replay_total_def pt_id_def)
    have "active_count n br' \<le> max_active_per_node cap" for n
    proof (cases "n = node")
      case True
      have "active_count node br1 = active_count node br"
        by (simp add: active_count_def br_terminal_def parts)
      with room active_count_add [OF br' valid, of node] True show ?thesis by (simp split: if_splits)
    next
      case False
      with active_count_add [OF br' valid, of n] p(2) ok1 show ?thesis
        by (force simp: bridge_ok_def intro: le_trans)
    qed
    moreover have "distinct (map snd (br_hosts br'))"
      using valid ok1 by (simp add: br' bridge_ok_def) (rule distinct_values_dset, auto)
    moreover have "distinct (dkeys (br_hosts br'))" using ok1 by (simp add: br' bridge_ok_def distinct_dset)
    moreover have "i < length (br_terminals br') \<and> pt_node (br_terminal i br') = fst key
        \<and> pt_id (br_terminal i br') = snd key" if "(key, i) \<in> set (br_hosts br')" for key i
    proof -
      have "(key, i) = ((node, tid), ?n) \<or> (key, i) \<in> set (br_hosts br1)"
        using that set_dset_subset [of "(node, tid)" ?n "br_hosts br1"] by (auto simp: br')
      then show ?thesis
      proof
        assume "(key, i) = ((node, tid), ?n)"
        then show ?thesis using new p by (simp add: br')
      next
        assume "(key, i) \<in> set (br_hosts br1)"
        then have i: "i < ?n" "pt_node (br_terminal i br1) = fst key" "pt_id (br_terminal i br1) = snd key"
          using ok1 by (auto simp: bridge_ok_def)
        with old [OF i(1)] show ?thesis by (simp add: br')
      qed
    qed
    moreover have "terminal_ok (br_terminal i br')" if "i < length (br_terminals br')" for i
      using that old new p(1) ok1 by (cases "i < ?n") (auto simp: bridge_ok_def br' less_Suc_eq)
    ultimately show ?thesis unfolding bridge_ok_def by blast
  qed
qed

subsection \<open>The reaper\<close>

lemma fold_moves: "(\<And>x b. x \<in> set xs \<Longrightarrow> moves b (f x b)) \<Longrightarrow> moves br (fold f xs br)"
proof (induction xs arbitrary: br)
  case (Cons x xs)
  have "moves br (f x br)" using Cons.prems by simp
  moreover have "moves (f x br) (fold f xs (f x br))" using Cons by simp
  ultimately show ?case by (auto intro: moves_trans)
qed simp

text \<open>Closing a list of terminals: those and only those.\<close>

lemma fold_close_terminal:
  assumes "\<forall>(key, i) \<in> set es. i < length (br_terminals br)" "j < length (br_terminals br)"
  shows "closed_terminal (br_terminal j (fold (\<lambda>(key, i). persistent_close (fids i) stamp i) es br))
     \<longleftrightarrow> closed_terminal (br_terminal j br) \<or> (\<exists>key. (key, j) \<in> set es)"
  using assms
proof (induction es arbitrary: br)
  case (Cons e es)
  obtain key i where e: "e = (key, i)" by (cases e)
  let ?br = "persistent_close (fids i) stamp i br"
  have len: "length (br_terminals ?br) = length (br_terminals br)"
    using moves_close [of br "fids i" stamp i] by (simp add: moves_def)
  have "closed_terminal (br_terminal j ?br) \<longleftrightarrow> closed_terminal (br_terminal j br) \<or> j = i"
    using Cons.prems closed_after_close [of i br "fids i" stamp] close_other_terminal [of j i "fids i" stamp br]
    by (cases "j = i") (auto simp: e)
  with Cons.IH [of ?br] Cons.prems len show ?case by (auto simp: e)
qed simp

definition rest :: "microseconds \<Rightarrow> (string \<times> string) \<times> nat \<Rightarrow> bridge \<Rightarrow> bridge" where
  "rest now e b = (case e of (key, i) \<Rightarrow>
     set_terminal i ((br_terminal i b)\<lparr>pt_detached_since := Some now\<rparr>) b)"

lemma fold_rest:
  assumes "\<forall>(key, i) \<in> set es. i < length (br_terminals br)"
  shows "br_hosts (fold (rest now) es br) = br_hosts br \<and> br_agents (fold (rest now) es br) = br_agents br
     \<and> length (br_terminals (fold (rest now) es br)) = length (br_terminals br)
     \<and> (\<forall>j < length (br_terminals br). br_terminal j (fold (rest now) es br)
          = (if \<exists>key. (key, j) \<in> set es then (br_terminal j br)\<lparr>pt_detached_since := Some now\<rparr>
             else br_terminal j br))"
  using assms
proof (induction es arbitrary: br)
  case (Cons e es)
  obtain key i where e: "e = (key, i)" by (cases e)
  have len: "length (br_terminals (rest now e br)) = length (br_terminals br)"
    by (simp add: e rest_def set_terminal_def)
  have "br_terminal j (rest now e br)
      = (if j = i then (br_terminal j br)\<lparr>pt_detached_since := Some now\<rparr> else br_terminal j br)"
    if "j < length (br_terminals br)" for j
    using that by (simp add: e rest_def set_terminal_def br_terminal_def)
  moreover have "br_hosts (rest now e br) = br_hosts br" "br_agents (rest now e br) = br_agents br"
    by (simp_all add: e rest_def)
  moreover have "(\<exists>key. (key, j) \<in> set (e # es)) \<longleftrightarrow> j = i \<or> (\<exists>key. (key, j) \<in> set es)" for j
    by (cases key) (auto simp: e)
  moreover have "\<forall>(key, i) \<in> set es. i < length (br_terminals (rest now e br))"
    using Cons.prems len by simp
  ultimately show ?case using Cons.IH [of "rest now e br"] len by simp
qed simp

lemma host_reap_unfold:
  "host_reap fids stamp now ttl br =
     (let expired = filter (host_expired now ttl br) (br_hosts br);
          br1 = fold (rest now) (filter (host_rested now ttl br) (br_hosts br)) br;
          br2 = br1\<lparr>br_hosts := filter (\<lambda>p. fst p \<notin> fst ` set expired) (br_hosts br1)\<rparr>
      in (map fst expired, br_hosts br2 = [],
          fold (\<lambda>(key, i). persistent_close (fids i) stamp i) expired br2))"
proof -
  have "(\<lambda>(key, i) b. set_terminal i ((br_terminal i b)\<lparr>pt_detached_since := Some now\<rparr>) b) = rest now"
    by (auto simp: rest_def fun_eq_iff)
  then show ?thesis by (simp add: host_reap_def Let_def fold_dpop_filter)
qed

lemma moves_rest: "bridge_ok cap br \<Longrightarrow> moves br (fold (rest now) (filter (host_rested now ttl br) (br_hosts br)) br)"
proof -
  assume ok: "bridge_ok cap br"
  let ?es = "filter (host_rested now ttl br) (br_hosts br)"
  have valid: "\<forall>(key, i) \<in> set ?es. i < length (br_terminals br)"
    using ok by (auto simp: bridge_ok_def)
  have "kept (br_terminal j br) ((br_terminal j br)\<lparr>pt_detached_since := Some now\<rparr>)"
    if "(key, j) \<in> set ?es" for key j
    using that by (auto simp: kept_def terminal_ok_def closed_terminal_def pt_id_def host_rested_def
        Let_def split: option.splits)
  with fold_rest [OF valid, of now] show ?thesis unfolding moves_def by auto
qed

lemma bridge_ok_reap:
  assumes ok: "bridge_ok cap br" and reap: "host_reap fids stamp now ttl br = (expired, none_left, br')"
  shows "bridge_ok cap br'"
proof -
  define es where "es = filter (host_expired now ttl br) (br_hosts br)"
  define br1 where "br1 = fold (rest now) (filter (host_rested now ttl br) (br_hosts br)) br"
  define br2 where "br2 = br1\<lparr>br_hosts := filter (\<lambda>p. fst p \<notin> fst ` set es) (br_hosts br1)\<rparr>"
  have "bridge_ok cap br1" unfolding br1_def using ok moves_rest [OF ok] by (rule bridge_ok_moves)
  then have "bridge_ok cap br2"
    by (rule bridge_ok_drop [where P = "\<lambda>p. fst p \<notin> fst ` set es"]) (simp_all add: br2_def)
  moreover have "moves br2 (fold (\<lambda>(key, i). persistent_close (fids i) stamp i) es br2)"
    by (rule fold_moves) (auto intro: moves_close)
  moreover have "br' = fold (\<lambda>(key, i). persistent_close (fids i) stamp i) es br2"
    using reap unfolding host_reap_unfold by (simp add: es_def br1_def br2_def Let_def)
  ultimately show ?thesis using bridge_ok_moves by simp
qed

subsection \<open>Every history\<close>

text \<open>
  Everything that happens to the bridge: nodes, agents and browsers on their side (\<open>network\<close>,
  \<open>consume\<close>), browsers attaching, typing and leaving, the pumps, both registries and their reapers.
  \<open>cap\<close> is the configured limit.
\<close>

inductive bridge_step :: "int \<Rightarrow> bridge \<Rightarrow> bridge \<Rightarrow> bool" for cap :: int where
  network: "bridge_step cap br (br\<lparr>br_registry := r, br_agents := a\<rparr>)"
| consume: "bridge_step cap br (set_queue q x br)"
| subscribes: "subscribe i br = Inr (q, br') \<Longrightarrow> bridge_step cap br br'"
| unsubscribes: "bridge_step cap br (unsubscribe now i q br)"
| inputs: "persistent_input fid stamp now xs i br = (e, br') \<Longrightarrow> bridge_step cap br br'"
| resizes: "persistent_resize fid stamp rows cols i br = Inr br' \<Longrightarrow> bridge_step cap br br'"
| closes: "bridge_step cap br (persistent_close fid stamp i br)"
| pumps: "pump_step now i br = Some br' \<Longrightarrow> bridge_step cap br br'"
| host_opens: "host_get_or_create cap fid stamp wall now node tid owner rows cols env br = (res, br')
    \<Longrightarrow> bridge_step cap br br'"
| host_deletes: "host_delete fid stamp node tid br = (b, br') \<Longrightarrow> bridge_step cap br br'"
| retires: "bridge_step cap br (fire_retired key br)"
| host_rebinds: "host_rebind fid stamp node tid conn br = (b, br') \<Longrightarrow> bridge_step cap br br'"
| host_rebinds_all: "bridge_step cap br (host_rebind_all fids stamp node conn br)"
| host_finishes: "bridge_step cap br (host_finished i br)"
| host_reaps: "host_reap fids stamp now ttl br = (expired, none_left, br') \<Longrightarrow> bridge_step cap br br'"
| closes_directly: "manager_close fid node tid br = Inr br' \<Longrightarrow> bridge_step cap br br'"
| editor_opens: "editor_get_or_create fid stamp wall now workspace node tid rows cols br = (res, br')
    \<Longrightarrow> bridge_step cap br br'"
| editor_deletes: "editor_delete fid stamp workspace tid br = (b, br') \<Longrightarrow> bridge_step cap br br'"
| editor_finishes: "bridge_step cap br (editor_finished i br)"
| editor_reaps: "editor_reap fids stamp now timeout br = (none_left, br') \<Longrightarrow> bridge_step cap br br'"

definition empty_bridge :: "frame registry \<Rightarrow> bridge" where
  "empty_bridge r = \<lparr>br_registry = r, br_queues = [], br_terminals = [], br_hosts = [],
     br_editors = [], br_agents = no_terminals\<rparr>"

inductive bridge_reachable :: "int \<Rightarrow> bridge \<Rightarrow> bool" for cap :: int where
  start: "bridge_reachable cap (empty_bridge r)"
| step: "bridge_reachable cap br \<Longrightarrow> bridge_step cap br br' \<Longrightarrow> bridge_reachable cap br'"

lemma bridge_ok_same:
  "bridge_ok cap br \<Longrightarrow> br_terminals br' = br_terminals br \<Longrightarrow> br_hosts br' = br_hosts br \<Longrightarrow> bridge_ok cap br'"
  using same_terminals bridge_ok_moves by blast

text \<open>A terminal that is in no host entry.\<close>

lemma bridge_ok_append:
  assumes ok: "bridge_ok cap br" and p: "terminal_ok p"
    and br': "br_terminals br' = br_terminals br @ [p]" "br_hosts br' = br_hosts br"
  shows "bridge_ok cap br'"
proof -
  have old: "br_terminal i br' = br_terminal i br" if "i < length (br_terminals br)" for i
    using that by (simp add: br' br_terminal_def nth_append)
  have valid: "\<forall>(key, i) \<in> set (br_hosts br). i < length (br_terminals br)"
    using ok by (auto simp: bridge_ok_def)
  then have "active_count node br' = active_count node br" for node
    unfolding active_count_def br' using old by (intro arg_cong [where f = length] filter_cong) auto
  moreover have "br_terminal (length (br_terminals br)) br' = p" by (simp add: br_terminal_def br')
  ultimately show ?thesis
    using ok p old valid unfolding bridge_ok_def by (auto simp: br' less_Suc_eq)
qed

lemma fresh_terminal_ok: "\<not> bs_closed s \<Longrightarrow> terminal_ok (new_persistent wall now w n owner s)"
  by (simp add: terminal_ok_def new_persistent_def replay_total_def)

lemma bridge_ok_editor_open:
  assumes ok: "bridge_ok cap br"
    and opened: "editor_get_or_create fid stamp wall now workspace node tid rows cols br = (res, br')"
  shows "bridge_ok cap br'"
proof -
  obtain r br1 where m: "manager_open fid stamp node tid [] [] rows cols workspace [] br = (r, br1)" by fastforce
  then have parts: "br_terminals br1 = br_terminals br" "br_hosts br1 = br_hosts br"
    using open_parts by auto
  with ok have ok1: "bridge_ok cap br1" by (rule bridge_ok_same)
  from opened m have "br' = br \<or> br' = br1 \<or> (\<exists>s. r = Inr s \<and> br_hosts br' = br_hosts br1
      \<and> br_terminals br' = br_terminals br1 @ [new_persistent wall now workspace node [] s])"
    by (auto simp: editor_get_or_create_def add_terminal_def Let_def split: option.splits if_splits sum.splits)
  then show ?thesis
    using ok ok1 open_parts [OF m] bridge_ok_append [OF ok1 fresh_terminal_ok] by metis
qed

lemma bridge_step_ok:
  assumes "bridge_step cap br br'" "bridge_ok cap br"
  shows "bridge_ok cap br'"
  using assms
proof (induction rule: bridge_step.induct)
  case (network br r a)
  then show ?case by (rule bridge_ok_same) simp_all
next
  case (consume br q x)
  then show ?case by (rule bridge_ok_same) simp_all
next
  case (subscribes i br q br')
  then show ?case by (blast intro: bridge_ok_moves moves_subscribe)
next
  case (unsubscribes br now i q)
  then show ?case by (blast intro: bridge_ok_moves moves_unsubscribe)
next
  case (inputs fid stamp now xs i br e br')
  then show ?case by (blast intro: bridge_ok_moves moves_input)
next
  case (resizes fid stamp rows cols i br br')
  then show ?case by (blast intro: bridge_ok_moves moves_resize)
next
  case (closes br fid stamp i)
  then show ?case by (blast intro: bridge_ok_moves moves_close)
next
  case (pumps now i br br')
  then show ?case by (blast intro: bridge_ok_moves moves_pump_step)
next
  case (host_opens fid stamp wall now node tid owner rows cols env br res br')
  then show ?case
    by (auto simp: host_get_or_create_def Let_def split: option.splits if_splits intro: bridge_ok_open)
next
  case (host_deletes fid stamp node tid br b br')
  have "bridge_ok cap (br\<lparr>br_hosts := dpop (node, tid) (br_hosts br)\<rparr>)"
    using host_deletes(2) by (rule bridge_ok_dpop) simp_all
  then have "bridge_ok cap (persistent_close fid stamp i (br\<lparr>br_hosts := dpop (node, tid) (br_hosts br)\<rparr>))" for i
    using moves_close by (rule bridge_ok_moves)
  with host_deletes show ?case by (auto simp: host_delete_def split: option.splits)
next
  case (retires br key)
  then show ?case by (rule bridge_ok_same) (simp_all add: fire_retired_def)
next
  case (host_rebinds fid stamp node tid conn br b br')
  then have "br' = br \<or> (\<exists>i. persistent_rebind fid stamp conn i br = (b, br'))"
    by (auto simp: host_rebind_def split: option.splits if_splits)
  with host_rebinds(2) show ?case using bridge_ok_moves moves_rebind by blast
next
  case (host_rebinds_all br fids stamp node conn)
  have "moves br (host_rebind_all fids stamp node conn br)"
    unfolding host_rebind_all_def
    by (rule fold_moves) (auto intro: moves_rebind [OF prod.collapse [symmetric]])
  with host_rebinds_all show ?case by (rule bridge_ok_moves)
next
  case (host_finishes br i)
  let ?key = "(pt_node (br_terminal i br), pt_id (br_terminal i br))"
  have "bridge_ok cap (br\<lparr>br_hosts := dpop ?key (br_hosts br)\<rparr>)"
    using host_finishes by (rule bridge_ok_dpop) simp_all
  then have "bridge_ok cap (fire_retired ?key (br\<lparr>br_hosts := dpop ?key (br_hosts br)\<rparr>))"
    by (rule bridge_ok_same) (simp_all add: fire_retired_def)
  with host_finishes show ?case by (simp add: host_finished_def Let_def)
next
  case (host_reaps fids stamp now ttl br expired none_left br')
  then show ?case by (blast intro: bridge_ok_reap)
next
  case (closes_directly fid node tid br br')
  from closes_directly(1) have "\<exists>i c. br' = set_conn i c br"
    by (auto simp: manager_close_def Let_def split: option.splits if_splits sum.splits)
  then show ?case using bridge_ok_same [OF closes_directly(2)] by auto
next
  case (editor_opens fid stamp wall now workspace node tid rows cols br res br')
  then show ?case by (blast intro: bridge_ok_editor_open)
next
  case (editor_deletes fid stamp workspace tid br b br')
  have "bridge_ok cap (br\<lparr>br_editors := d\<rparr>)" for d
    using editor_deletes(2) by (rule bridge_ok_same) simp_all
  then have "bridge_ok cap (persistent_close fid stamp i (br\<lparr>br_editors := d\<rparr>))" for i d
    using moves_close by (rule bridge_ok_moves)
  with editor_deletes show ?case by (auto simp: editor_delete_def split: option.splits)
next
  case (editor_finishes br i)
  then show ?case by (rule bridge_ok_same) (simp_all add: editor_finished_def Let_def)
next
  case (editor_reaps fids stamp now timeout br none_left br')
  have "bridge_ok cap (br\<lparr>br_editors := d\<rparr>)" for d
    using editor_reaps(2) by (rule bridge_ok_same) simp_all
  moreover have "moves b (fold (\<lambda>(key, i). persistent_close (fids i) stamp i) es b)" for b and es :: "((string \<times> string) \<times> nat) list"
    by (rule fold_moves) (auto intro: moves_close)
  ultimately have "bridge_ok cap (fold (\<lambda>(key, i). persistent_close (fids i) stamp i) es (br\<lparr>br_editors := d\<rparr>))"
    for d and es :: "((string \<times> string) \<times> nat) list"
    by (rule bridge_ok_moves)
  with editor_reaps(1) show ?case by (auto simp: editor_reap_def Let_def)
qed

lemma reachable_bridge_ok: "bridge_reachable cap br \<Longrightarrow> bridge_ok cap br"
proof (induction rule: bridge_reachable.induct)
  case (start r)
  show ?case by (simp add: bridge_ok_def empty_bridge_def active_count_def)
qed (rule bridge_step_ok)

lemma dget_filter: "dget (filter (\<lambda>p. P (fst p)) d) k = (if P k then dget d k else None)"
  by (induction d) auto

subsection \<open>What a browser gets when it attaches\<close>

lemma fold_append_replay:
  assumes "pt_replay p = []" "pt_replay_size p = 0"
  shows "\<exists>pre. xs = pre @ pt_replay (fold append_replay xs p)
     \<and> pt_replay_size (fold append_replay xs p) = replay_total (pt_replay (fold append_replay xs p))
     \<and> replay_total (pt_replay (fold append_replay xs p)) \<le> REPLAY_LIMIT
     \<and> (pre \<noteq> [] \<longrightarrow> REPLAY_LIMIT < length (last pre) + replay_total (pt_replay (fold append_replay xs p)))"
proof (induction xs rule: rev_induct)
  case Nil
  show ?case using assms by (simp add: replay_total_def)
next
  case (snoc c cs)
  let ?q = "fold append_replay cs p"
  obtain pre where pre: "cs = pre @ pt_replay ?q" "pt_replay_size ?q = replay_total (pt_replay ?q)"
    "pre \<noteq> [] \<longrightarrow> REPLAY_LIMIT < length (last pre) + replay_total (pt_replay ?q)"
    using snoc.IH by blast
  obtain ds k where trim: "trim_replay (pt_replay ?q @ [c]) (pt_replay_size ?q + length c) = (ds, k)"
    by fastforce
  have "pt_replay_size ?q + length c = replay_total (pt_replay ?q @ [c])"
    using pre(2) by (simp add: replay_total_def)
  from trim_replay_spec [OF this trim] obtain pre2 where pre2: "pt_replay ?q @ [c] = pre2 @ ds"
      "k = replay_total ds" "k \<le> REPLAY_LIMIT"
      "pre2 \<noteq> [] \<longrightarrow> REPLAY_LIMIT < length (last pre2) + replay_total ds" by blast
  have "append_replay c ?q = ?q\<lparr>pt_replay := ds, pt_replay_size := k\<rparr>"
    by (simp add: append_replay_def trim)
  then have new: "pt_replay (fold append_replay (cs @ [c]) p) = ds" "pt_replay_size (fold append_replay (cs @ [c]) p) = k"
    by simp_all
  have "cs @ [c] = (pre @ pre2) @ ds" using pre(1) pre2(1) by (metis append_assoc)
  moreover have "REPLAY_LIMIT < length (last (pre @ pre2)) + replay_total ds" if "pre @ pre2 \<noteq> []"
  proof (cases "pre2 = []")
    case True
    with pre2(1) have "replay_total (pt_replay ?q) \<le> replay_total ds" by (auto simp: replay_total_def)
    with that True pre(3) show ?thesis by auto
  next
    case False
    with pre2(4) show ?thesis by simp
  qed
  ultimately show ?case using new pre2(2,3) by blast
qed

lemma fold_put_or_drop:
  "0 < q_max q \<Longrightarrow> length (q_items q) \<le> q_max q \<Longrightarrow>
   q_items (fold (\<lambda>x. put_or_drop (f x)) xs q) = take (q_max q) (q_items q @ map f xs)"
proof (induction xs arbitrary: q)
  case (Cons x xs)
  have "length (q_items (put_or_drop (f x) q)) \<le> q_max (put_or_drop (f x) q)"
    using Cons.prems by (auto simp: put_or_drop_items q_full_def)
  with Cons.IH [of "put_or_drop (f x) q"] Cons.prems
  have "q_items (fold (\<lambda>x. put_or_drop (f x)) (x # xs) q)
      = take (q_max q) (q_items (put_or_drop (f x) q) @ map f xs)" by (simp add: put_or_drop_items)
  also have "\<dots> = take (q_max q) (q_items q @ map f (x # xs))"
  proof (cases "length (q_items q) < q_max q")
    case True
    then obtain k where "q_max q = Suc (length (q_items q) + k)" using less_imp_Suc_add by blast
    with Cons.prems show ?thesis by (simp add: put_or_drop_items q_full_def)
  next
    case False
    with Cons.prems show ?thesis by (simp add: put_or_drop_items q_full_def)
  qed
  finally show ?case .
qed simp

subsection \<open>Properties\<close>

text \<open>C12: Whatever nodes, browsers, agents, administrators and reapers do, in any order, a node never
  has more live host terminals than the configured cap; what a terminal keeps for replay is at most
  256 KiB and counted correctly; and a live terminal nobody watches has its idle clock running.\<close>

theorem terminals_stay_bounded:
  assumes "bridge_reachable cap br"
  shows "active_count node br \<le> max_active_per_node cap
     \<and> (\<forall>i < length (br_terminals br). let p = br_terminal i br in
          pt_replay_size p = replay_total (pt_replay p) \<and> replay_total (pt_replay p) \<le> REPLAY_LIMIT
          \<and> (\<not> closed_terminal p \<longrightarrow> (attached p \<longleftrightarrow> pt_detached_since p = None)))"
proof -
  have ok: "bridge_ok cap br" using assms by (rule reachable_bridge_ok)
  then have "active_count node br \<le> max_active_per_node cap" by (simp add: bridge_ok_def)
  moreover have "let p = br_terminal i br in
      pt_replay_size p = replay_total (pt_replay p) \<and> replay_total (pt_replay p) \<le> REPLAY_LIMIT
      \<and> (\<not> closed_terminal p \<longrightarrow> (attached p \<longleftrightarrow> pt_detached_since p = None))"
    if "i < length (br_terminals br)" for i
  proof -
    have "terminal_ok (br_terminal i br)" using ok that by (simp add: bridge_ok_def)
    then show ?thesis unfolding terminal_ok_def attached_def Let_def by auto
  qed
  ultimately show ?thesis by blast
qed

definition sample_bridge :: bridge where
  "sample_bridge = empty_bridge (snd (register 0 ''n'' None [] (new_registry True)))"

lemma sample_bridge_opens:
  "case host_get_or_create 1 ''f'' ''s'' 0 0 ''n'' ''t'' ''op'' 24 80 [] sample_bridge of
     (res, br) \<Rightarrow> res = Inr 0 \<and> active_count ''n'' br = 1 \<and> br_hosts br = [((''n'', ''t''), 0)]
       \<and> \<not> closed_terminal (br_terminal 0 br) \<and> pt_detached_since (br_terminal 0 br) = Some 0"
  unfolding sample_bridge_def empty_bridge_def by code_simp

lemma terminals_stay_bounded_witness:
  "\<exists>br. bridge_reachable 1 br \<and> active_count ''n'' br = 1 \<and> active_count ''n'' br \<le> max_active_per_node 1"
proof -
  obtain res br where open1: "host_get_or_create 1 ''f'' ''s'' 0 0 ''n'' ''t'' ''op'' 24 80 [] sample_bridge = (res, br)"
    by fastforce
  have "bridge_reachable 1 sample_bridge" unfolding sample_bridge_def by (rule start)
  then have reach: "bridge_reachable 1 br" by (rule step) (rule host_opens [OF open1])
  from terminals_stay_bounded [OF reach, of "''n''"] sample_bridge_opens open1 reach show ?thesis by auto
qed

text \<open>C10: A round of the reaper removes and closes exactly the host terminals that are already closed,
  or that nobody has watched for the whole detached TTL while no agent command runs in them; every
  other one stays in the table, and open. A terminal some browser watches is never reaped.\<close>

theorem reaper_spares_watched_and_busy:
  assumes "bridge_reachable cap br" "(key, i) \<in> set (br_hosts br)"
    and "host_reap fids stamp now ttl br = (expired, none_left, br')"
  shows "(key \<in> set expired \<longleftrightarrow> closed_terminal (br_terminal i br)
        \<or> \<not> attached (br_terminal i br) \<and> \<not> has_running_work key br
          \<and> (\<exists>since. pt_detached_since (br_terminal i br) = Some since \<and> since \<le> now - detached_ttl ttl))
     \<and> dget (br_hosts br') key = (if key \<in> set expired then None else Some i)
     \<and> (closed_terminal (br_terminal i br') \<longleftrightarrow> key \<in> set expired)"
proof -
  have ok: "bridge_ok cap br" using assms(1) by (rule reachable_bridge_ok)
  define es where "es = filter (host_expired now ttl br) (br_hosts br)"
  define br1 where "br1 = fold (rest now) (filter (host_rested now ttl br) (br_hosts br)) br"
  define br2 where "br2 = br1\<lparr>br_hosts := filter (\<lambda>p. fst p \<notin> fst ` set es) (br_hosts br1)\<rparr>"
  have br': "br' = fold (\<lambda>(key, i). persistent_close (fids i) stamp i) es br2" "expired = map fst es"
    using assms(3) unfolding host_reap_unfold by (simp_all add: es_def br1_def br2_def Let_def)
  have distinct: "distinct (dkeys (br_hosts br))" "distinct (map snd (br_hosts br))"
    and i: "i < length (br_terminals br)" and entries: "\<forall>(key, i) \<in> set (br_hosts br). i < length (br_terminals br)"
    and term_ok: "terminal_ok (br_terminal i br)"
    using ok assms(2) by (auto simp: bridge_ok_def)
  have m1: "moves br br1" unfolding br1_def by (rule moves_rest [OF ok])
  have m2: "moves br2 br'" unfolding br'(1) by (rule fold_moves) (auto intro: moves_close)
  have hosts1: "br_hosts br1 = br_hosts br" "length (br_terminals br1) = length (br_terminals br)"
    using m1 by (simp_all add: moves_def)
  have only: "j = i" if "(key, j) \<in> set (br_hosts br)" for j
    using distinct(1) that assms(2) by (metis dget_in_set option.inject)
  have in_es: "key \<in> set expired \<longleftrightarrow> host_expired now ttl br (key, i)"
  proof
    assume "key \<in> set expired"
    then obtain j where "(key, j) \<in> set (br_hosts br)" "host_expired now ttl br (key, j)"
      by (auto simp: br'(2) es_def)
    then show "host_expired now ttl br (key, i)" using only by blast
  next
    assume "host_expired now ttl br (key, i)"
    with assms(2) show "key \<in> set expired" by (force simp: br'(2) es_def)
  qed
  have owner: "k = key" if "(k, i) \<in> set (br_hosts br)" for k
    using distinct(2) that assms(2) by (metis (no_types, opaque_lifting) distinct_map inj_onD prod.inject snd_conv)
  have "host_expired now ttl br (key, i) \<longleftrightarrow> closed_terminal (br_terminal i br)
        \<or> \<not> attached (br_terminal i br) \<and> \<not> has_running_work key br
          \<and> (\<exists>since. pt_detached_since (br_terminal i br) = Some since \<and> since \<le> now - detached_ttl ttl)"
    using term_ok by (auto simp: host_expired_def Let_def terminal_ok_def attached_def split: option.splits)
  moreover have "dget (br_hosts br') key = (if key \<in> set expired then None else Some i)"
  proof -
    have "br_hosts br' = filter (\<lambda>p. fst p \<notin> set expired) (br_hosts br)"
      using m2 hosts1 by (simp add: moves_def br2_def br'(2))
    moreover have "dget (filter (\<lambda>p. fst p \<notin> set expired) (br_hosts br)) key
        = (if key \<in> set expired then None else dget (br_hosts br) key)"
      using dget_filter [of "\<lambda>k. k \<notin> set expired" "br_hosts br" key] by simp
    moreover have "dget (br_hosts br) key = Some i"
      using assms(2) dget_in_set [OF distinct(1)] by blast
    ultimately show ?thesis by simp
  qed
  moreover have "closed_terminal (br_terminal i br') \<longleftrightarrow> key \<in> set expired"
  proof -
    have valid: "\<forall>(key, i) \<in> set es. i < length (br_terminals br2)"
      using entries hosts1(2) by (auto simp: es_def br2_def)
    have same: "closed_terminal (br_terminal i br2) = closed_terminal (br_terminal i br)"
    proof -
      have "\<forall>(key, i) \<in> set (filter (host_rested now ttl br) (br_hosts br)). i < length (br_terminals br)"
        using entries by simp
      from fold_rest [OF this, of now] i show ?thesis
        by (simp add: br2_def br1_def br_terminal_def closed_terminal_def)
    qed
    have "closed_terminal (br_terminal i br') \<longleftrightarrow> closed_terminal (br_terminal i br2) \<or> (\<exists>k. (k, i) \<in> set es)"
      unfolding br'(1) using valid i hosts1(2) by (intro fold_close_terminal) (auto simp: br2_def)
    moreover have "(\<exists>k. (k, i) \<in> set es) \<longleftrightarrow> (key, i) \<in> set es"
    proof
      assume "\<exists>k. (k, i) \<in> set es"
      then obtain k where k: "(k, i) \<in> set es" by blast
      then have "k = key" using owner by (simp add: es_def)
      with k show "(key, i) \<in> set es" by simp
    qed blast
    moreover have "(key, i) \<in> set es \<longleftrightarrow> key \<in> set expired"
      using in_es assms(2) by (simp add: es_def)
    moreover have "closed_terminal (br_terminal i br) \<longrightarrow> key \<in> set expired"
      by (simp add: in_es host_expired_def Let_def)
    ultimately show ?thesis using same by blast
  qed
  ultimately show ?thesis using in_es by simp
qed

text \<open>The host terminal of the samples, opened at 0, is reaped once nobody has watched it long enough.\<close>

lemma reaper_spares_watched_and_busy_witness:
  "\<exists>br br'. bridge_reachable 1 br \<and> host_reap (\<lambda>_. ''f'') ''s'' (seconds 700) (seconds 600) br = ([(''n'', ''t'')], True, br')
     \<and> dget (br_hosts br') (''n'', ''t'') = None \<and> closed_terminal (br_terminal 0 br')"
proof -
  obtain res br where open1: "host_get_or_create 1 ''f'' ''s'' 0 0 ''n'' ''t'' ''op'' 24 80 [] sample_bridge = (res, br)"
    by fastforce
  have "bridge_reachable 1 sample_bridge" unfolding sample_bridge_def by (rule start)
  then have reach: "bridge_reachable 1 br" by (rule step) (rule host_opens [OF open1])
  have listed: "br_hosts br = [((''n'', ''t''), 0)]" using sample_bridge_opens open1 by simp
  obtain expired none_left br' where reap:
    "host_reap (\<lambda>_. ''f'') ''s'' (seconds 700) (seconds 600) br = (expired, none_left, br')"
    by (metis prod_cases3)
  have "case host_get_or_create 1 ''f'' ''s'' 0 0 ''n'' ''t'' ''op'' 24 80 [] sample_bridge of
      (res, br) \<Rightarrow> case host_reap (\<lambda>_. ''f'') ''s'' (seconds 700) (seconds 600) br of
        (expired, none_left, br') \<Rightarrow> expired = [(''n'', ''t'')] \<and> none_left"
    unfolding sample_bridge_def empty_bridge_def by code_simp
  then have "expired = [(''n'', ''t'')]" "none_left" using open1 reap by simp_all
  with reaper_spares_watched_and_busy [OF reach _ reap, of "(''n'', ''t'')" 0] listed reap reach
  show ?thesis by auto
qed

lemma fold_append_replay_same:
  "pt_session (fold append_replay xs p) = pt_session p \<and> pt_closed (fold append_replay xs p) = pt_closed p
   \<and> pt_subscriber (fold append_replay xs p) = pt_subscriber p"
  by (induction xs arbitrary: p) (auto simp: append_replay_def split: prod.splits)

text \<open>A browser that attaches to a terminal finds, in order, the chunks the terminal kept of its
  output: the longest tail of whole chunks within 256 KiB, cut to its first 256 chunks, and nothing
  else; from then on the terminal counts as watched and its idle clock is stopped.\<close>

theorem attach_replays_the_tail:
  assumes "pt_replay p = []" "pt_replay_size p = 0" "br_terminal i br = fold append_replay emitted p"
    and "i < length (br_terminals br)" "subscribe i br = Inr (q, br')"
  shows "\<exists>old kept. emitted = old @ kept \<and> replay_total kept \<le> REPLAY_LIMIT
     \<and> (old \<noteq> [] \<longrightarrow> REPLAY_LIMIT < length (last old) + replay_total kept)
     \<and> q_items (br_queues br' ! q) = map Some (take SUBSCRIBER_QUEUE kept)
     \<and> pt_subscriber (br_terminal i br') = Some q \<and> pt_detached_since (br_terminal i br') = None"
proof -
  let ?p = "br_terminal i br"
  let ?fresh = "fold (\<lambda>chunk. put_or_drop (Some chunk)) (pt_replay ?p) (new_queue SUBSCRIBER_QUEUE)"
  obtain old where old: "emitted = old @ pt_replay ?p" "pt_replay_size ?p = replay_total (pt_replay ?p)"
    "replay_total (pt_replay ?p) \<le> REPLAY_LIMIT"
    "old \<noteq> [] \<longrightarrow> REPLAY_LIMIT < length (last old) + replay_total (pt_replay ?p)"
    using fold_append_replay [OF assms(1,2), of emitted] unfolding assms(3) by blast
  have "q_items ?fresh = map Some (take SUBSCRIBER_QUEUE (pt_replay ?p))"
    using fold_put_or_drop [of "new_queue SUBSCRIBER_QUEUE" Some "pt_replay ?p"]
    by (simp add: new_queue_def SUBSCRIBER_QUEUE_def take_map)
  moreover have "br_queues br' ! q = ?fresh" "br_terminal i br' = ?p\<lparr>pt_subscriber := Some q, pt_detached_since := None\<rparr>"
    using assms(4,5) by (auto simp: subscribe_def Let_def set_terminal_def br_terminal_def offer_def set_queue_def nth_append
        split: if_splits option.splits)
  ultimately show ?thesis using old by auto
qed

text \<open>With 257 chunks the newest one is not replayed.\<close>

lemma attach_replays_the_tail_witness:
  "\<exists>br q br'. br_terminal 0 br = fold append_replay (replicate 256 ''a'' @ [''b''])
        (new_persistent 0 0 ''n'' ''n'' [] \<lparr>bs_terminal_id = ''t'', bs_conn = 0, bs_queue = 0, bs_closed = False, bs_last_sequence = 0\<rparr>)
     \<and> subscribe 0 br = Inr (q, br') \<and> q_items (br_queues br' ! q) = replicate 256 (Some ''a'')"
proof -
  define p where "p = new_persistent 0 0 ''n'' ''n'' [] \<lparr>bs_terminal_id = ''t'', bs_conn = 0, bs_queue = 0, bs_closed = False, bs_last_sequence = 0\<rparr>"
  define xs where "xs = replicate 256 ''a'' @ [''b'']"
  define br where "br = sample_bridge\<lparr>br_terminals := [fold append_replay xs p]\<rparr>"
  have p: "pt_replay p = []" "pt_replay_size p = 0" "\<not> closed_terminal p"
    by (simp_all add: p_def new_persistent_def closed_terminal_def)
  have br: "br_terminal 0 br = fold append_replay xs p" "0 < length (br_terminals br)"
    by (simp_all add: br_def br_terminal_def)
  have "\<not> closed_terminal (br_terminal 0 br)"
    using fold_append_replay_same [of xs p] p(3) unfolding br(1) closed_terminal_def by simp
  then obtain q br' where sub: "subscribe 0 br = Inr (q, br')" by (simp add: subscribe_def Let_def)
  from attach_replays_the_tail [OF p(1,2) br sub] obtain old kept where kept: "xs = old @ kept"
    "old \<noteq> [] \<longrightarrow> REPLAY_LIMIT < length (last old) + replay_total kept"
    "q_items (br_queues br' ! q) = map Some (take SUBSCRIBER_QUEUE kept)" by blast
  have "replay_total xs = 257" by (simp add: xs_def replay_total_def sum_list_replicate)
  have "old = []"
  proof (rule ccontr)
    assume "old \<noteq> []"
    then have "xs = butlast old @ last old # kept" using kept(1) by simp
    then have "length (last old) + replay_total kept \<le> replay_total xs" by (simp add: replay_total_def)
    with \<open>replay_total xs = 257\<close> kept(2) \<open>old \<noteq> []\<close> show False by (simp add: REPLAY_LIMIT_def)
  qed
  with kept(1) have "kept = replicate 256 ''a'' @ [''b'']" by (simp add: xs_def)
  with kept(3) have "q_items (br_queues br' ! q) = replicate 256 (Some ''a'')"
    by (simp add: SUBSCRIBER_QUEUE_def)
  with br(1) sub show ?thesis unfolding xs_def p_def by auto
qed

end
