(* ===== verification/Tunnels.thy ===== *)
theory Tunnels
  imports Service_Types Codecs
begin

text \<open>
  HTTP over a node's stream. tunnel.py relays a request to a service inside a session,
  node_connect_manager.py a request to an absolute URL; both send one frame, wait for a first
  response frame and then hand the body on chunk by chunk. node_proxy_gateway.py puts the second
  behind an internal HTTP route, for the data process.

  A coroutine is cut where it waits for its queue: \<open>tunnel_get\<close> is the wait resumed, with an item or,
  the queue being empty, with TimeoutError. A generator is its phase; one step runs it to its next
  yield, wait or return. Tunnel and frame ids and stamps are arguments.
\<close>

definition TUNNEL_REQUEST_BODY_LIMIT :: nat where "TUNNEL_REQUEST_BODY_LIMIT = 32 * 2 ^ 20"

text \<open>\<open>None\<close> inside is the sentinel of a closed connection, \<open>None\<close> outside the timeout.\<close>

definition tunnel_get ::
  "nat \<Rightarrow> 'f connection \<Rightarrow> tunnel_response option option \<times> 'f connection" where
  "tunnel_get j c = (case get_nowait (objs (c_tunnels c) ! j) of
     None \<Rightarrow> (None, c)
   | Some (item, q) \<Rightarrow> (Some item, c\<lparr>c_tunnels := tab_update j (\<lambda>_. q) (c_tunnels c)\<rparr>))"

text \<open>
  \<open>hmac.compare_digest\<close> on strings: \<open>None\<close> is the TypeError it raises when one is not ASCII, which
  the routes answer with a 500.
\<close>

definition compare_digest :: "string \<Rightarrow> string \<Rightarrow> bool option" where
  "compare_digest a b =
     (if list_all (\<lambda>x. code_of x < 128) (a @ b) then Some (a = b) else None)"

definition bearer_authorized :: "string \<Rightarrow> string option \<Rightarrow> bool option" where
  "bearer_authorized expected header =
     (if expected = [] then Some True
      else let h = (case header of None \<Rightarrow> [] | Some x \<Rightarrow> x) in
        if prefix ''Bearer '' h then compare_digest (strip (drop 7 h)) expected else Some False)"

subsection \<open>Requests to a session's service\<close>

record tunnel_ask =
  ta_session_id :: string
  ta_service :: string
  ta_method :: string
  ta_path :: string
  ta_headers :: "(string, string) dict"
  ta_body :: bytes

record tunnel_wait =
  tw_conn :: nat
  tw_tunnel :: string
  tw_queue :: nat

definition slashed :: "string \<Rightarrow> string" where
  "slashed path = (if prefix ''/'' path then path else CHR ''/'' # path)"

definition tunnel_request_of :: "string \<Rightarrow> string \<Rightarrow> string \<Rightarrow> tunnel_ask \<Rightarrow> tunnel_request" where
  "tunnel_request_of tunnel_id session_id srv ask =
     \<lparr>tq_tunnel_id = tunnel_id, tq_session_id = session_id, tq_service = srv,
      tq_method = ta_method ask, tq_path = slashed (ta_path ask), tq_headers = ta_headers ask,
      tq_body = take TUNNEL_REQUEST_BODY_LIMIT (ta_body ask)\<rparr>"

text \<open>
  \<open>proxy_session_request\<close> up to its wait for the first frame. A response of the server itself is its
  status and text. \<open>db\<close> is the ledger as the read of the binding finds it, \<open>sv\<close> the service after it.
\<close>

definition tunnel_dispatch ::
  "string \<Rightarrow> string \<Rightarrow> string \<Rightarrow> tunnel_ask \<Rightarrow> ledger \<Rightarrow> service \<Rightarrow>
   (int \<times> string + tunnel_wait) \<times> service" where
  "tunnel_dispatch tunnel_id fid stamp ask db sv =
     (let session_id = strip (ta_session_id ask); srv = strip (ta_service ask) in
      if session_id = [] \<or> srv = [] then (Inl (400, ''session id and service are required''), sv)
      else case dget (sessions db) session_id of
        None \<Rightarrow> (Inl (404, ''session '' @ session_id @ '' is not placed on any node''), sv)
      | Some b \<Rightarrow> (case sv_lookup (s_node_id b) sv of
          None \<Rightarrow> (Inl (502, ''node '' @ s_node_id b @ '' for session '' @ session_id @ '' is offline''), sv)
        | Some i \<Rightarrow>
            let (j, c) = open_tunnel tunnel_id (conn_at i sv);
                fr = new_frame fid stamp (P_tunnel_request (tunnel_request_of tunnel_id session_id srv ask))
            in case send fr c of
                 Inl e \<Rightarrow> (Inl (502, ''dispatch tunnel to node '' @ s_node_id b @ '': '' @ e),
                           put_conn i (close_tunnel tunnel_id c) sv)
               | Inr c1 \<Rightarrow> (Inr \<lparr>tw_conn = i, tw_tunnel = tunnel_id, tw_queue = j\<rparr>, put_conn i c1 sv)))"

definition DROPPED_HEADERS :: "string list" where
  "DROPPED_HEADERS = [''content-length'', ''Content-Length'', ''transfer-encoding'', ''Transfer-Encoding'',
     ''connection'', ''Connection'']"

definition response_headers :: "tunnel_response \<Rightarrow> (string, string) dict" where
  "response_headers r = fold dpop DROPPED_HEADERS (tr_headers r)"

definition status_of :: "tunnel_response \<Rightarrow> int" where
  "status_of r = (if tr_status r = 0 then 200 else tr_status r)"

text \<open>The body generators, here and below, are in one of these places.\<close>

datatype stream_phase =
    Stream_start tunnel_response
  | Stream_yielded bool      \<comment> \<open>at a yield; whether that frame was the last\<close>
  | Stream_waiting
  | Stream_over

record tunnel_stream =
  ts_tunnel :: string
  ts_queue :: nat
  ts_phase :: stream_phase

text \<open>The first frame: the status, the headers and the generator of the streaming response.\<close>

definition tunnel_first ::
  "tunnel_wait \<Rightarrow> service \<Rightarrow>
   (int \<times> string + int \<times> (string, string) dict \<times> tunnel_stream) \<times> service" where
  "tunnel_first w sv =
     (let (item, c) = tunnel_get (tw_queue w) (conn_at (tw_conn w) sv);
          closed = put_conn (tw_conn w) (close_tunnel (tw_tunnel w) c) sv
      in case item of
           Some (Some r) \<Rightarrow>
             if strip (tr_error r) \<noteq> [] then (Inl (502, tr_error r), closed)
             else (Inr (status_of r, response_headers r,
                     \<lparr>ts_tunnel = tw_tunnel w, ts_queue = tw_queue w, ts_phase = Stream_start r\<rparr>),
                   put_conn (tw_conn w) c sv)
         | _ \<Rightarrow> (Inl (504, ''node did not respond in time''), closed))"

subsection \<open>The body of a session's response\<close>

definition body_ended :: "tunnel_stream \<Rightarrow> 'f connection \<Rightarrow> bytes option \<times> tunnel_stream \<times> 'f connection" where
  "body_ended s c = (None, s\<lparr>ts_phase := Stream_over\<rparr>, close_tunnel (ts_tunnel s) c)"

text \<open>After a yield, and for a frame without a body.\<close>

definition body_after ::
  "bool \<Rightarrow> tunnel_stream \<Rightarrow> 'f connection \<Rightarrow> bytes option \<times> tunnel_stream \<times> 'f connection" where
  "body_after last_one s c = (if last_one then body_ended s c else (None, s\<lparr>ts_phase := Stream_waiting\<rparr>, c))"

definition body_emit ::
  "tunnel_response \<Rightarrow> tunnel_stream \<Rightarrow> 'f connection \<Rightarrow> bytes option \<times> tunnel_stream \<times> 'f connection" where
  "body_emit r s c =
     (if tr_body r \<noteq> [] then (Some (tr_body r), s\<lparr>ts_phase := Stream_yielded (tr_done r)\<rparr>, c)
      else body_after (tr_done r) s c)"

definition body_iter :: "tunnel_stream \<Rightarrow> 'f connection \<Rightarrow> bytes option \<times> tunnel_stream \<times> 'f connection" where
  "body_iter s c = (case ts_phase s of
     Stream_start r \<Rightarrow> body_emit r s c
   | Stream_yielded last_one \<Rightarrow> body_after last_one s c
   | Stream_waiting \<Rightarrow> (let (item, c1) = tunnel_get (ts_queue s) c in
       case item of Some (Some r) \<Rightarrow> body_emit r s c1 | _ \<Rightarrow> body_ended s c1)
   | Stream_over \<Rightarrow> (None, s, c))"

text \<open>
  The generator closed by its consumer, or its wait cancelled: the \<open>finally\<close> runs, except in a
  generator that was never started.
\<close>

definition body_abandon :: "tunnel_stream \<Rightarrow> 'f connection \<Rightarrow> tunnel_stream \<times> 'f connection" where
  "body_abandon s c = (case ts_phase s of
     Stream_start r \<Rightarrow> (s\<lparr>ts_phase := Stream_over\<rparr>, c)
   | Stream_over \<Rightarrow> (s, c)
   | _ \<Rightarrow> snd (body_ended s c))"

text \<open>The route; the last argument of an accepted request is what it relays.\<close>

record http_request =
  hr_authorization :: "string option"
  hr_method :: string
  hr_query :: string
  hr_headers :: "(string, string) dict"
  hr_body :: bytes

definition serve_session ::
  "string \<Rightarrow> bool \<Rightarrow> string \<Rightarrow> string \<Rightarrow> string \<Rightarrow> http_request \<Rightarrow> int \<times> string + tunnel_ask" where
  "serve_session api_token up session_id srv sub_path req =
     (if \<not> up then Inl (503, ''node tunnel gateway is unavailable'')
      else case bearer_authorized (strip api_token) (hr_authorization req) of
        None \<Rightarrow> Inl (500, ''Internal Server Error'')
      | Some False \<Rightarrow> Inl (403, ''invalid or missing bearer token'')
      | Some True \<Rightarrow>
          let sid = strip session_id; service_name = strip srv in
          if sid = [] \<or> service_name = [] then Inl (400, ''session id and service are required'')
          else Inr \<lparr>ta_session_id = sid, ta_service = service_name, ta_method = hr_method req,
                 ta_path = slashed sub_path @ (if strip (hr_query req) \<noteq> [] then CHR ''?'' # hr_query req else []),
                 ta_headers = hr_headers req, ta_body = hr_body req\<rparr>)"

subsection \<open>Requests to an absolute URL\<close>

record proxy_tunnel =
  px_tunnel :: string
  px_queue :: nat
  px_closed :: bool

definition proxy_close :: "proxy_tunnel \<Rightarrow> 'f connection \<Rightarrow> proxy_tunnel \<times> 'f connection" where
  "proxy_close p c = (if px_closed p then (p, c) else (p\<lparr>px_closed := True\<rparr>, close_tunnel (px_tunnel p) c))"

text \<open>\<open>NodeConnectManager.request\<close> up to the wait, on the state the call finds; errors are the texts of its ConnectionError.\<close>

definition proxy_dispatch ::
  "string \<Rightarrow> string \<Rightarrow> string \<Rightarrow> string \<Rightarrow> string \<Rightarrow> string \<Rightarrow> (string \<times> string) list \<Rightarrow> bytes \<Rightarrow> service \<Rightarrow>
   (string + nat \<times> proxy_tunnel) \<times> service" where
  "proxy_dispatch tunnel_id fid stamp node_id method url headers body sv =
     (let offline = ''node '' @ node_id @ '' is not connected'' in
      case sv_lookup node_id sv of
        None \<Rightarrow> (Inl offline, sv)
      | Some i \<Rightarrow>
          if c_closed (conn_at i sv) then (Inl offline, sv)
          else
            let (j, c) = open_tunnel tunnel_id (conn_at i sv);
                p = \<lparr>px_tunnel = tunnel_id, px_queue = j, px_closed = False\<rparr>;
                fr = new_frame fid stamp (P_proxy_request
                  \<lparr>pq_tunnel_id = tunnel_id, pq_method = method, pq_url = url, pq_headers = headers, pq_body = body\<rparr>)
            in case send fr c of
                 Inl e \<Rightarrow> (Inl e, put_conn i (snd (proxy_close p c)) sv)
               | Inr c1 \<Rightarrow> (Inr (i, p), put_conn i c1 sv))"

definition is_streaming :: "(string, string) dict \<Rightarrow> bool" where
  "is_streaming headers = list_ex (\<lambda>(k, v). lower k = ''content-type''
     \<and> contains_sub ''text/event-stream'' (lower v)) headers"

definition PROXY_RESPONSE_TIMEOUT :: microseconds where "PROXY_RESPONSE_TIMEOUT = seconds 120"
definition STREAM_RESPONSE_TIMEOUT :: microseconds where "STREAM_RESPONSE_TIMEOUT = seconds 3600"

record proxy_response =
  pr_tunnel :: proxy_tunnel
  pr_status :: int
  pr_headers :: "(string, string) dict"
  pr_phase :: stream_phase
  pr_idle :: microseconds

definition new_proxy_response :: "proxy_tunnel \<Rightarrow> tunnel_response \<Rightarrow> proxy_response" where
  "new_proxy_response p r =
     \<lparr>pr_tunnel = p, pr_status = status_of r, pr_headers = tr_headers r, pr_phase = Stream_start r,
      pr_idle = (if is_streaming (tr_headers r) then STREAM_RESPONSE_TIMEOUT else PROXY_RESPONSE_TIMEOUT)\<rparr>"

definition proxy_first :: "nat \<Rightarrow> proxy_tunnel \<Rightarrow> service \<Rightarrow> (string + proxy_response) \<times> service" where
  "proxy_first i p sv =
     (let (item, c) = tunnel_get (px_queue p) (conn_at i sv);
          closed = put_conn i (snd (proxy_close p c)) sv
      in case item of
           Some (Some r) \<Rightarrow>
             if strip (tr_error r) \<noteq> [] then (Inl (''node proxy request failed: '' @ tr_error r), closed)
             else (Inr (new_proxy_response p r), put_conn i c sv)
         | _ \<Rightarrow> (Inl ''node did not respond to proxy request in time'', closed))"

text \<open>\<open>iter_chunks\<close>: like the body above, but an error in a later frame is raised.\<close>

definition chunks_ended ::
  "(string + bytes option) \<Rightarrow> proxy_response \<Rightarrow> 'f connection \<Rightarrow>
   (string + bytes option) \<times> proxy_response \<times> 'f connection" where
  "chunks_ended res s c =
     (let (p, c1) = proxy_close (pr_tunnel s) c in (res, s\<lparr>pr_tunnel := p, pr_phase := Stream_over\<rparr>, c1))"

definition chunks_after ::
  "bool \<Rightarrow> proxy_response \<Rightarrow> 'f connection \<Rightarrow> (string + bytes option) \<times> proxy_response \<times> 'f connection" where
  "chunks_after last_one s c =
     (if last_one then chunks_ended (Inr None) s c else (Inr None, s\<lparr>pr_phase := Stream_waiting\<rparr>, c))"

definition chunks_emit ::
  "tunnel_response \<Rightarrow> proxy_response \<Rightarrow> 'f connection \<Rightarrow>
   (string + bytes option) \<times> proxy_response \<times> 'f connection" where
  "chunks_emit r s c =
     (if tr_body r \<noteq> [] then (Inr (Some (tr_body r)), s\<lparr>pr_phase := Stream_yielded (tr_done r)\<rparr>, c)
      else chunks_after (tr_done r) s c)"

definition iter_chunks ::
  "proxy_response \<Rightarrow> 'f connection \<Rightarrow> (string + bytes option) \<times> proxy_response \<times> 'f connection" where
  "iter_chunks s c = (case pr_phase s of
     Stream_start r \<Rightarrow> chunks_emit r s c
   | Stream_yielded last_one \<Rightarrow> chunks_after last_one s c
   | Stream_waiting \<Rightarrow> (let (item, c1) = tunnel_get (px_queue (pr_tunnel s)) c in
       case item of
         Some (Some r) \<Rightarrow>
           if strip (tr_error r) \<noteq> [] then chunks_ended (Inl (''node proxy stream error: '' @ tr_error r)) s c1
           else chunks_emit r s c1
       | _ \<Rightarrow> chunks_ended (Inr None) s c1)
   | Stream_over \<Rightarrow> (Inr None, s, c))"

definition response_close :: "proxy_response \<Rightarrow> 'f connection \<Rightarrow> proxy_response \<times> 'f connection" where
  "response_close s c = (let (p, c1) = proxy_close (pr_tunnel s) c in (s\<lparr>pr_tunnel := p\<rparr>, c1))"

subsection \<open>The internal route of the data process\<close>

definition STATUS_HEADER :: string where "STATUS_HEADER = ''x-node-proxy-status''"
definition HEADERS_HEADER :: string where "HEADERS_HEADER = ''x-node-proxy-headers''"

text \<open>What protobuf accepts as text and as a map of texts.\<close>

definition json_text :: "json \<Rightarrow> string option" where
  "json_text v = (case v of J_str s \<Rightarrow> Some s | _ \<Rightarrow> None)"

definition json_headers :: "json \<Rightarrow> (string, string) dict option" where
  "json_headers v = (case v of
     J_obj kvs \<Rightarrow> those (map (\<lambda>(k, x). map_option (Pair k) (json_text x)) (fold (\<lambda>(k, x). dset k x) kvs []))
   | _ \<Rightarrow> None)"

definition decoded_body :: "json \<Rightarrow> bytes option" where
  "decoded_body v = (case or_json v (J_str []) of
     J_str s \<Rightarrow> (case standard_b64decode s of Inl _ \<Rightarrow> None | Inr bs \<Rightarrow> Some bs)
   | _ \<Rightarrow> None)"

text \<open>
  The route up to its wait. An exception other than ConnectionError is a plain 500; when it is the
  request frame that cannot be built, the tunnel was opened before and is closed.
\<close>

definition internal_error :: "int \<times> string" where
  "internal_error = (500, ''Internal Server Error'')"

definition node_proxy ::
  "(bytes \<Rightarrow> json option) \<Rightarrow> string \<Rightarrow> bool \<Rightarrow> string \<Rightarrow> string \<Rightarrow> string \<Rightarrow> string \<Rightarrow> string option \<Rightarrow> bytes \<Rightarrow>
   service \<Rightarrow> (int \<times> string + nat \<times> proxy_tunnel) \<times> service" where
  "node_proxy loads token up tunnel_id fid stamp node_id authorization raw sv =
     (case bearer_authorized (strip token) authorization of
        None \<Rightarrow> (Inl internal_error, sv)
      | Some False \<Rightarrow> (Inl (403, ''invalid or missing bearer token''), sv)
      | Some True \<Rightarrow>
          if \<not> up then (Inl (503, ''node service unavailable''), sv)
          else case (if raw = [] then Some (J_obj []) else loads raw) of
            None \<Rightarrow> (Inl (400, ''invalid descriptor''), sv)
          | Some (J_obj d) \<Rightarrow> (case decoded_body (obj_get d ''body'') of
              None \<Rightarrow> (Inl internal_error, sv)
            | Some body \<Rightarrow>
                (case (json_text (or_json (obj_get d ''method'') (J_str ''GET'')),
                       json_text (or_json (obj_get d ''url'') (J_str [])),
                       json_headers (or_json (obj_get d ''headers'') (J_obj []))) of
                   (Some method, Some url, Some headers) \<Rightarrow>
                     (case proxy_dispatch tunnel_id fid stamp node_id method url headers body sv of
                        (Inl e, sv1) \<Rightarrow> (Inl (502, e), sv1)
                      | (Inr w, sv1) \<Rightarrow> (Inr w, sv1))
                 | _ \<Rightarrow> (case sv_lookup node_id sv of
                     None \<Rightarrow> (Inl (502, ''node '' @ node_id @ '' is not connected''), sv)
                   | Some i \<Rightarrow>
                       if c_closed (conn_at i sv) then (Inl (502, ''node '' @ node_id @ '' is not connected''), sv)
                       else (Inl internal_error,
                             put_conn i (close_tunnel tunnel_id (snd (open_tunnel tunnel_id (conn_at i sv)))) sv))))
          | Some _ \<Rightarrow> (Inl internal_error, sv))"

definition json_of_headers :: "(string, string) dict \<Rightarrow> json" where
  "json_of_headers headers = J_obj (map (\<lambda>(k, v). (k, J_str v)) headers)"

text \<open>The answer after the wait: the headers of a 200, whose body is \<open>iter_chunks\<close>.\<close>

definition node_proxy_answer ::
  "(json \<Rightarrow> string) \<Rightarrow> nat \<Rightarrow> proxy_tunnel \<Rightarrow> service \<Rightarrow>
   (int \<times> string + (string, string) dict \<times> proxy_response) \<times> service" where
  "node_proxy_answer dumps i p sv = (case proxy_first i p sv of
     (Inl e, sv1) \<Rightarrow> (Inl (502, e), sv1)
   | (Inr r, sv1) \<Rightarrow> (Inr ([(STATUS_HEADER, str_of_int (pr_status r)),
        (HEADERS_HEADER, dumps (json_of_headers (pr_headers r)))], r), sv1))"

subsection \<open>Its client\<close>

definition remote_descriptor :: "string \<Rightarrow> string \<Rightarrow> (string, string) dict \<Rightarrow> bytes \<Rightarrow> json" where
  "remote_descriptor method url headers body =
     J_obj [(''method'', J_str method), (''url'', J_str url), (''headers'', json_of_headers headers),
       (''body'', J_str (b64encode body))]"

record http_answer =
  ha_status :: int
  ha_headers :: "(string, string) dict"
  ha_text :: string

definition remote_view :: "(string \<Rightarrow> json option) \<Rightarrow> (string, string) dict \<Rightarrow> int \<times> json" where
  "remote_view loads headers =
     (case (case dget headers STATUS_HEADER of None \<Rightarrow> Some 200
              | Some t \<Rightarrow> if t = [] then Some 200 else int_of_str t,
            loads (or_str (case dget headers HEADERS_HEADER of None \<Rightarrow> [] | Some t \<Rightarrow> t) ''{}'')) of
        (Some status, Some v) \<Rightarrow> (status, v)
      | _ \<Rightarrow> (200, J_obj []))"

text \<open>
  \<open>RemoteNodeConnectManager.request\<close>. \<open>post\<close> is the HTTP client (\<open>None\<close>: it raised): endpoint,
  Authorization header and descriptor to the answer; header names come lower-cased.
\<close>

definition remote_request ::
  "(string \<Rightarrow> json option) \<Rightarrow> (string \<Rightarrow> string \<Rightarrow> json \<Rightarrow> http_answer option) \<Rightarrow> string \<Rightarrow> string \<Rightarrow> string \<Rightarrow>
   string \<Rightarrow> string \<Rightarrow> (string, string) dict \<Rightarrow> bytes \<Rightarrow> string + int \<times> json" where
  "remote_request loads post base_url token node_id method url headers body =
     (let base = rstrip_char (CHR ''/'') base_url; tok = strip token in
      if base = [] \<or> tok = [] then Inl ''control plane node proxy is not configured''
      else case post (base @ ''/internal/node-proxy/'' @ node_id) (''Bearer '' @ tok)
                  (remote_descriptor method url headers body) of
        None \<Rightarrow> Inl ''control plane node proxy unreachable''
      | Some a \<Rightarrow>
          if 400 \<le> ha_status a
          then Inl (''node proxy failed: HTTP '' @ str_of_int (ha_status a) @ '' '' @ take 500 (ha_text a))
          else Inr (remote_view loads (ha_headers a)))"

end
