(* ===== verification/Tunnel_Safety.thy ===== *)
theory Tunnel_Safety
  imports Tunnels Service_Calls Connection_Safety "HOL-Library.Sublist"
begin

text \<open>
  What a client gets through a tunnel. A body generator refines \<open>stream_spec\<close>, a reader of the items
  of its queue; under any interleaving with the node's frames, the other users of the connection and
  its teardown, the bytes handed on are a prefix of the body the node sent, all of it once the last
  frame is in, and the tunnel is unregistered when the generator ends.
\<close>

subsection \<open>A reader of frames\<close>

text \<open>The body in a list of frames: up to the last one, or one that reports an error.\<close>

fun response_body :: "(tunnel_response \<Rightarrow> bool) \<Rightarrow> tunnel_response list \<Rightarrow> bytes" where
  "response_body fails [] = []"
| "response_body fails (r # rs) =
     (if fails r then [] else tr_body r @ (if tr_done r then [] else response_body fails rs))"

fun completed_by :: "(tunnel_response \<Rightarrow> bool) \<Rightarrow> tunnel_response list \<Rightarrow> bool" where
  "completed_by fails [] = False"
| "completed_by fails (r # rs) = (\<not> fails r \<and> (tr_done r \<or> completed_by fails rs))"

definition emit_spec :: "tunnel_response \<Rightarrow> bytes option \<times> stream_phase" where
  "emit_spec r = (if tr_body r \<noteq> [] then (Some (tr_body r), Stream_yielded (tr_done r))
     else (None, if tr_done r then Stream_over else Stream_waiting))"

definition stream_spec ::
  "(tunnel_response \<Rightarrow> bool) \<Rightarrow> stream_phase \<Rightarrow> tunnel_response option list \<Rightarrow>
   bytes option \<times> stream_phase \<times> tunnel_response option list" where
  "stream_spec fails ph items = (case ph of
     Stream_start r \<Rightarrow> (fst (emit_spec r), snd (emit_spec r), items)
   | Stream_yielded d \<Rightarrow> (None, if d then Stream_over else Stream_waiting, items)
   | Stream_waiting \<Rightarrow> (case items of
       Some r # xs \<Rightarrow> if fails r then (None, Stream_over, xs) else (fst (emit_spec r), snd (emit_spec r), xs)
     | _ \<Rightarrow> (None, Stream_over, tl items))
   | Stream_over \<Rightarrow> (None, Stream_over, items))"

definition bytes_of :: "bytes option \<Rightarrow> bytes" where
  "bytes_of x = (case x of None \<Rightarrow> [] | Some b \<Rightarrow> b)"

lemma bytes_of_simps [simp]: "bytes_of None = []" "bytes_of (Some b) = b"
  by (simp_all add: bytes_of_def)

text \<open>Items are frames still to come, and after them at most sentinels.\<close>

definition marked :: "tunnel_response option list \<Rightarrow> tunnel_response list \<Rightarrow> bool" where
  "marked items rs \<longleftrightarrow> (\<exists>m. items = map Some rs @ m \<and> set m \<subseteq> {None})"

definition taken :: "(tunnel_response \<Rightarrow> bool) \<Rightarrow> tunnel_response list \<Rightarrow> bool" where
  "taken fails rs \<longleftrightarrow> (\<forall>r \<in> set rs. \<not> fails r) \<and> (\<forall>r \<in> set (butlast rs). \<not> tr_done r)"

definition stream_sound ::
  "(tunnel_response \<Rightarrow> bool) \<Rightarrow> stream_phase \<Rightarrow> tunnel_response option list \<Rightarrow> tunnel_response list \<Rightarrow>
   bytes \<Rightarrow> bool" where
  "stream_sound fails ph items accepted out \<longleftrightarrow> (\<exists>seen rest. accepted = seen @ rest \<and> taken fails seen
     \<and> out = concat (map tr_body seen)
     \<and> (case ph of
          Stream_start r \<Rightarrow> seen = [] \<and> \<not> fails r \<and> (\<exists>rs. rest = r # rs \<and> marked items rs)
        | Stream_yielded d \<Rightarrow> seen \<noteq> [] \<and> tr_done (last seen) = d \<and> marked items rest
        | Stream_waiting \<Rightarrow> seen \<noteq> [] \<and> \<not> tr_done (last seen) \<and> marked items rest
        | Stream_over \<Rightarrow> True))"

lemma marked_cases:
  assumes "marked items rs"
  shows "(\<exists>r rs' xs. items = Some r # xs \<and> rs = r # rs' \<and> marked xs rs') \<or> rs = [] \<and> (items = [] \<or> (\<exists>xs. items = None # xs))"
proof -
  obtain m where m: "items = map Some rs @ m" "set m \<subseteq> {None}" using assms by (auto simp: marked_def)
  show ?thesis
  proof (cases rs)
    case Nil
    with m show ?thesis by (cases m) auto
  next
    case (Cons r rs')
    with m show ?thesis by (auto simp: marked_def)
  qed
qed

lemma taken_snoc: "taken fails seen \<Longrightarrow> seen \<noteq> [] \<longrightarrow> \<not> tr_done (last seen) \<Longrightarrow> \<not> fails r \<Longrightarrow> taken fails (seen @ [r])"
  by (cases seen rule: rev_cases) (auto simp: taken_def butlast_append)

lemma emit_sound:
  assumes "taken fails seen" "seen \<noteq> [] \<longrightarrow> \<not> tr_done (last seen)" "\<not> fails r" "marked items rs"
    and "out = concat (map tr_body seen)"
  shows "stream_sound fails (snd (emit_spec r)) items (seen @ r # rs) (out @ bytes_of (fst (emit_spec r)))"
  unfolding stream_sound_def using assms taken_snoc [OF assms(1-3)]
  by (intro exI [of _ "seen @ [r]"] exI [of _ rs]) (auto simp: emit_spec_def)

lemma spec_sound:
  assumes "stream_sound fails ph items accepted out" "stream_spec fails ph items = (x, ph', items')"
  shows "stream_sound fails ph' items' accepted (out @ bytes_of x)"
proof -
  obtain seen rest where s: "accepted = seen @ rest" "taken fails seen" "out = concat (map tr_body seen)"
    and ph: "case ph of
          Stream_start r \<Rightarrow> seen = [] \<and> \<not> fails r \<and> (\<exists>rs. rest = r # rs \<and> marked items rs)
        | Stream_yielded d \<Rightarrow> seen \<noteq> [] \<and> tr_done (last seen) = d \<and> marked items rest
        | Stream_waiting \<Rightarrow> seen \<noteq> [] \<and> \<not> tr_done (last seen) \<and> marked items rest
        | Stream_over \<Rightarrow> True"
    using assms(1) unfolding stream_sound_def by blast
  have over: "stream_sound fails Stream_over xs accepted out" for xs
    unfolding stream_sound_def using s by auto
  show ?thesis
  proof (cases ph)
    case (Stream_start r)
    with ph obtain rs where "rest = r # rs" "marked items rs" "\<not> fails r" "seen = []" by auto
    with emit_sound [OF s(2) _ _ _ s(3), of r items rs] assms(2) s(1) Stream_start show ?thesis
      by (auto simp: stream_spec_def)
  next
    case (Stream_yielded d)
    show ?thesis
    proof (cases d)
      case True
      with over assms(2) Stream_yielded show ?thesis by (auto simp: stream_spec_def)
    next
      case False
      with ph s assms(2) Stream_yielded show ?thesis by (auto simp: stream_spec_def stream_sound_def)
    qed
  next
    case Stream_waiting
    with ph have w: "seen \<noteq> []" "\<not> tr_done (last seen)" "marked items rest" by auto
    from marked_cases [OF w(3)] show ?thesis
    proof
      assume "\<exists>r rs' xs. items = Some r # xs \<and> rest = r # rs' \<and> marked xs rs'"
      then obtain r rs' xs where r: "items = Some r # xs" "rest = r # rs'" "marked xs rs'" by blast
      show ?thesis
      proof (cases "fails r")
        case True
        with over assms(2) Stream_waiting r show ?thesis by (auto simp: stream_spec_def)
      next
        case False
        with emit_sound [OF s(2) _ False r(3) s(3)] w(2) assms(2) Stream_waiting r s(1) show ?thesis
          by (auto simp: stream_spec_def)
      qed
    next
      assume "rest = [] \<and> (items = [] \<or> (\<exists>xs. items = None # xs))"
      with over assms(2) Stream_waiting show ?thesis by (auto simp: stream_spec_def)
    qed
  next
    case Stream_over
    with over assms(2) show ?thesis by (auto simp: stream_spec_def)
  qed
qed

lemma response_body_taken:
  "taken fails seen \<Longrightarrow> response_body fails (seen @ rest) = concat (map tr_body seen)
     @ (if seen \<noteq> [] \<and> tr_done (last seen) then [] else response_body fails rest)"
proof (induction seen)
  case (Cons r seen)
  then have "taken fails seen" by (cases seen) (auto simp: taken_def)
  with Cons show ?case by (cases seen) (auto simp: taken_def)
qed simp

lemma completed_by_taken:
  "taken fails seen \<Longrightarrow> completed_by fails (seen @ rest) \<longleftrightarrow>
     (seen \<noteq> [] \<and> tr_done (last seen)) \<or> completed_by fails rest"
proof (induction seen)
  case (Cons r seen)
  then have "taken fails seen" by (cases seen) (auto simp: taken_def)
  with Cons show ?case by (cases seen) (auto simp: taken_def)
qed simp

lemma sound_prefix: "stream_sound fails ph items accepted out \<Longrightarrow> prefix out (response_body fails accepted)"
  unfolding stream_sound_def using response_body_taken by (metis prefixI)

text \<open>With the last frame in the queue, pulling ends with the whole body: each pull makes progress.\<close>

definition pulls_left :: "stream_phase \<Rightarrow> tunnel_response option list \<Rightarrow> nat" where
  "pulls_left ph items = 2 * length items
     + (case ph of Stream_start r \<Rightarrow> 2 | Stream_yielded d \<Rightarrow> 1 | _ \<Rightarrow> 0)"

lemma sound_completed:
  assumes "stream_sound fails ph items accepted out" "completed_by fails accepted" "ph \<noteq> Stream_over"
    and "stream_spec fails ph items = (x, ph', items')"
  shows "if ph' = Stream_over then out @ bytes_of x = response_body fails accepted
         else pulls_left ph' items' < pulls_left ph items"
proof -
  obtain seen rest where s: "accepted = seen @ rest" "taken fails seen" "out = concat (map tr_body seen)"
    and ph: "case ph of
          Stream_start r \<Rightarrow> seen = [] \<and> \<not> fails r \<and> (\<exists>rs. rest = r # rs \<and> marked items rs)
        | Stream_yielded d \<Rightarrow> seen \<noteq> [] \<and> tr_done (last seen) = d \<and> marked items rest
        | Stream_waiting \<Rightarrow> seen \<noteq> [] \<and> \<not> tr_done (last seen) \<and> marked items rest
        | Stream_over \<Rightarrow> True"
    using assms(1) unfolding stream_sound_def by blast
  show ?thesis
  proof (cases ph)
    case (Stream_start r)
    with ph s assms(4) show ?thesis by (auto simp: stream_spec_def emit_spec_def pulls_left_def)
  next
    case (Stream_yielded d)
    with ph s assms(4) response_body_taken [OF s(2), of rest] show ?thesis
      by (auto simp: stream_spec_def pulls_left_def)
  next
    case Stream_waiting
    with ph have w: "seen \<noteq> []" "\<not> tr_done (last seen)" "marked items rest" by auto
    with assms(2) s have rest: "completed_by fails rest" by (simp add: completed_by_taken)
    then obtain r rs where "rest = r # rs" by (cases rest) auto
    with marked_cases [OF w(3)] obtain xs where r: "items = Some r # xs" by auto
    have "\<not> fails r" using rest \<open>rest = r # rs\<close> by simp
    then have "response_body fails accepted = out @ tr_body r @ (if tr_done r then [] else response_body fails rs)"
      using response_body_taken [OF s(2), of rest] s w \<open>rest = r # rs\<close> by simp
    with assms(4) Stream_waiting r \<open>\<not> fails r\<close> show ?thesis
      by (auto simp: stream_spec_def emit_spec_def pulls_left_def)
  qed (use assms(3) in simp)
qed

text \<open>A frame that arrives in a queue without sentinel, and a sentinel.\<close>

lemma marked_plain: "marked items rs \<Longrightarrow> None \<notin> set items \<Longrightarrow> items = map Some rs"
proof -
  assume "marked items rs" "None \<notin> set items"
  then obtain m where "items = map Some rs @ m" "set m \<subseteq> {None}" "m = []"
    unfolding marked_def by (metis Un_iff list.set_intros(1) neq_Nil_conv set_append singletonD subsetD)
  then show ?thesis by simp
qed

lemma marked_arrives: "marked items rs \<Longrightarrow> None \<notin> set items \<Longrightarrow> marked (items @ [Some r]) (rs @ [r])"
  using marked_plain [of items rs] by (simp add: marked_def)

lemma marked_closes: "marked items rs \<Longrightarrow> marked (items @ [None]) rs"
  by (auto simp: marked_def)

lemma stream_sound_arrives:
  assumes "stream_sound fails ph items accepted out" "None \<notin> set items"
  shows "stream_sound fails ph (items @ [Some r]) (accepted @ [r]) out"
proof -
  obtain seen rest where s: "accepted @ [r] = seen @ (rest @ [r])" "taken fails seen" "out = concat (map tr_body seen)"
    and ph: "case ph of
          Stream_start r \<Rightarrow> seen = [] \<and> \<not> fails r \<and> (\<exists>rs. rest = r # rs \<and> marked items rs)
        | Stream_yielded d \<Rightarrow> seen \<noteq> [] \<and> tr_done (last seen) = d \<and> marked items rest
        | Stream_waiting \<Rightarrow> seen \<noteq> [] \<and> \<not> tr_done (last seen) \<and> marked items rest
        | Stream_over \<Rightarrow> True"
    using assms(1) unfolding stream_sound_def by auto
  show ?thesis
    unfolding stream_sound_def using s ph marked_arrives [OF _ assms(2)]
    by (intro exI [of _ seen] exI [of _ "rest @ [r]"]) (auto split: stream_phase.splits)
qed

lemma stream_sound_length:
  assumes "stream_sound fails ph items accepted out" "None \<notin> set items" "ph \<noteq> Stream_over"
  shows "length items \<le> length accepted"
proof -
  have "length items = length rs" if "marked items rs" for rs
    using marked_plain [OF that assms(2)] by simp
  then show ?thesis using assms(1,3) unfolding stream_sound_def by (fastforce split: stream_phase.splits)
qed

lemma stream_sound_closes:
  assumes "stream_sound fails ph items accepted out" shows "stream_sound fails ph (items @ [None]) accepted out"
proof -
  obtain seen rest where s: "accepted = seen @ rest" "taken fails seen" "out = concat (map tr_body seen)"
    and ph: "case ph of
          Stream_start r \<Rightarrow> seen = [] \<and> \<not> fails r \<and> (\<exists>rs. rest = r # rs \<and> marked items rs)
        | Stream_yielded d \<Rightarrow> seen \<noteq> [] \<and> tr_done (last seen) = d \<and> marked items rest
        | Stream_waiting \<Rightarrow> seen \<noteq> [] \<and> \<not> tr_done (last seen) \<and> marked items rest
        | Stream_over \<Rightarrow> True"
    using assms unfolding stream_sound_def by auto
  show ?thesis
    unfolding stream_sound_def using s ph marked_closes
    by (intro exI [of _ seen] exI [of _ rest]) (auto split: stream_phase.splits)
qed

subsection \<open>The contract of a generator\<close>

text \<open>
  \<open>fit\<close> is what the generator's own state must have to do with the connection. \<open>slot\<close> is where a
  tunnel id leads to.
\<close>

definition slot :: "string \<Rightarrow> 'f connection \<Rightarrow> nat option" where
  "slot tid c = dget (slots (c_tunnels c)) tid"

definition queued :: "nat \<Rightarrow> 'f connection \<Rightarrow> tunnel_response option list" where
  "queued j c = q_items (objs (c_tunnels c) ! j)"

definition tunnels_sound :: "string \<Rightarrow> nat \<Rightarrow> 'f connection \<Rightarrow> bool" where
  "tunnels_sound tid j c \<longleftrightarrow> table_ok (c_tunnels c) \<and> j < length (objs (c_tunnels c))
     \<and> (slot tid c = None \<or> slot tid c = Some j)
     \<and> (slot tid c = None \<longrightarrow> j \<notin> snd ` set (slots (c_tunnels c)))
     \<and> (slot tid c = Some j \<longrightarrow> None \<notin> set (queued j c))
     \<and> q_max (objs (c_tunnels c) ! j) = TUNNEL_RESPONSE_BUFFER"

text \<open>Everything else that happens on the connection: other tunnels, and what is no tunnel.\<close>

inductive foreign_step :: "string \<Rightarrow> 'f connection \<Rightarrow> 'f connection \<Rightarrow> bool" for tid :: string where
  foreign_open: "k \<noteq> tid \<Longrightarrow> foreign_step tid c (snd (open_tunnel k c))"
| foreign_close: "k \<noteq> tid \<Longrightarrow> foreign_step tid c (close_tunnel k c)"
| foreign_frame: "tr_tunnel_id r \<noteq> tid \<Longrightarrow> foreign_step tid c (deliver_tunnel_response (Some r) c)"
| foreign_call: "conn_step c c' \<Longrightarrow> c_tunnels c' = c_tunnels c \<Longrightarrow> foreign_step tid c c'"

text \<open>
  A run of a generator: pulls, frames of the node for its tunnel (one that finds the queue full is
  dropped), foreign steps and the teardown. The ghosts are the frames sent while the tunnel was
  registered, those that found room, and the bytes handed on.
\<close>

inductive stream_run ::
  "('s \<Rightarrow> 'f connection \<Rightarrow> bytes option \<times> 's \<times> 'f connection) \<Rightarrow> string \<Rightarrow> nat \<Rightarrow> 's \<Rightarrow> 'f connection \<Rightarrow>
   tunnel_response list \<Rightarrow> 's \<Rightarrow> 'f connection \<Rightarrow> tunnel_response list \<Rightarrow> tunnel_response list \<Rightarrow> bytes \<Rightarrow> bool"
  for iter tid j s0 c0 begun where
  run_start: "stream_run iter tid j s0 c0 begun s0 c0 begun begun []"
| run_pull: "stream_run iter tid j s0 c0 begun s c sent accepted out \<Longrightarrow> iter s c = (x, s', c') \<Longrightarrow>
    stream_run iter tid j s0 c0 begun s' c' sent accepted (out @ bytes_of x)"
| run_frame: "stream_run iter tid j s0 c0 begun s c sent accepted out \<Longrightarrow> tr_tunnel_id r = tid \<Longrightarrow>
    stream_run iter tid j s0 c0 begun s (deliver_tunnel_response (Some r) c)
      (if slot tid c = None then sent else sent @ [r])
      (if slot tid c = None \<or> q_full (objs (c_tunnels c) ! j) then accepted else accepted @ [r]) out"
| run_foreign: "stream_run iter tid j s0 c0 begun s c sent accepted out \<Longrightarrow> foreign_step tid c c' \<Longrightarrow>
    stream_run iter tid j s0 c0 begun s c' sent accepted out"
| run_close: "stream_run iter tid j s0 c0 begun s c sent accepted out \<Longrightarrow>
    stream_run iter tid j s0 c0 begun s (close c) sent accepted out"

definition pull :: "('s \<Rightarrow> 'f connection \<Rightarrow> bytes option \<times> 's \<times> 'f connection) \<Rightarrow>
    's \<times> 'f connection \<times> bytes \<Rightarrow> 's \<times> 'f connection \<times> bytes" where
  "pull iter st = (case st of (s, c, out) \<Rightarrow> case iter s c of (x, s', c') \<Rightarrow> (s', c', out @ bytes_of x))"

lemma tunnels_of [simp]:
  "c_tunnels (snd (open_tunnel k c)) = snd (open_channel TUNNEL_RESPONSE_BUFFER k (c_tunnels c))"
  "c_tunnels (close_tunnel k c) = close_channel k (c_tunnels c)"
  "c_tunnels (deliver_tunnel_response (Some r) c) = deliver_channel (tr_tunnel_id r) r (c_tunnels c)"
  by (simp_all add: open_tunnel_def close_tunnel_def deliver_tunnel_response_def split: prod.split)

lemma other_slot: "tunnels_sound tid j c \<Longrightarrow> k \<noteq> tid \<Longrightarrow> slot k c = Some i \<Longrightarrow> i \<noteq> j"
  unfolding tunnels_sound_def slot_def
  by (metis image_eqI map_of_SomeD not_None_eq snd_conv table_ok_inj)

lemma foreign_tunnels:
  assumes "foreign_step tid c c'" "tunnels_sound tid j c"
  shows "tunnels_sound tid j c' \<and> slot tid c' = slot tid c \<and> queued j c' = queued j c"
  using assms
proof (induction rule: foreign_step.induct)
  case (foreign_open k c)
  then have "table_ok (c_tunnels (snd (open_tunnel k c)))" by (auto simp: tunnels_sound_def)
  with foreign_open show ?case
    unfolding tunnels_sound_def slot_def queued_def
    by (auto simp: open_channel_def tab_open_def nth_append dest: set_dset_subset [THEN subsetD])
next
  case (foreign_close k c)
  then have "table_ok (c_tunnels (close_tunnel k c))" by (auto simp: tunnels_sound_def)
  with foreign_close show ?case
    unfolding tunnels_sound_def slot_def queued_def by (auto simp: close_channel_def tab_pop_def set_dpop)
next
  case (foreign_frame r c)
  show ?case
  proof (cases "slot (tr_tunnel_id r) c")
    case None
    with foreign_frame show ?thesis by (simp add: tunnels_sound_def slot_def queued_def deliver_channel_def)
  next
    case (Some i)
    with foreign_frame have "i \<noteq> j" using other_slot by blast
    with foreign_frame Some show ?thesis
      by (auto simp: tunnels_sound_def slot_def queued_def deliver_channel_def tab_update_def table_ok_def)
  qed
next
  case (foreign_call c c')
  then show ?case by (simp add: tunnels_sound_def slot_def queued_def)
qed

text \<open>A frame for the tunnel itself, and the teardown.\<close>

lemma frame_tunnels:
  assumes "tunnels_sound tid j c" "tr_tunnel_id r = tid"
  shows "tunnels_sound tid j (deliver_tunnel_response (Some r) c)
     \<and> slot tid (deliver_tunnel_response (Some r) c) = slot tid c
     \<and> queued j (deliver_tunnel_response (Some r) c)
       = (if slot tid c = None \<or> q_full (objs (c_tunnels c) ! j) then queued j c else queued j c @ [Some r])"
  using assms
  by (cases "slot tid c")
    (auto simp: tunnels_sound_def slot_def queued_def deliver_channel_def tab_update_def table_ok_def
       put_or_drop_items)

lemma close_tunnels:
  assumes "tunnels_sound tid j c"
  shows "tunnels_sound tid j (close c) \<and> (slot tid (close c) = slot tid c \<or> slot tid (close c) = None)
     \<and> (queued j (close c) = queued j c \<or> queued j (close c) = queued j c @ [None])"
proof (cases "c_closed c")
  case True
  then have "close c = c" by (simp add: close_def)
  with assms show ?thesis by simp
next
  case False
  then have "c_tunnels (close c) = wake_channels (c_tunnels c)" by (rule tunnel.shut_table [unfolded live_def])
  moreover have "table_ok (c_tunnels c)" "j < length (objs (c_tunnels c))"
    "q_max (objs (c_tunnels c) ! j) = TUNNEL_RESPONSE_BUFFER"
    using assms by (simp_all add: tunnels_sound_def)
  ultimately show ?thesis
    by (auto simp: tunnels_sound_def slot_def queued_def wake_channels_def tab_drain_objs put_or_drop_items)
qed

subsection \<open>Runs of any generator with this contract\<close>

locale chunk_stream =
  fixes iter :: "'s \<Rightarrow> 'f connection \<Rightarrow> bytes option \<times> 's \<times> 'f connection"
    and phase :: "'s \<Rightarrow> stream_phase"
    and fit :: "string \<Rightarrow> nat \<Rightarrow> 's \<Rightarrow> 'f connection \<Rightarrow> bool"
    and fails :: "tunnel_response \<Rightarrow> bool"
  assumes reads: "fit tid j s c \<Longrightarrow> tunnels_sound tid j c \<Longrightarrow> iter s c = (x, s', c') \<Longrightarrow>
        (x, phase s', queued j c') = stream_spec fails (phase s) (queued j c)"
    and releases: "fit tid j s c \<Longrightarrow> tunnels_sound tid j c \<Longrightarrow> iter s c = (x, s', c') \<Longrightarrow>
        fit tid j s' c' \<and> tunnels_sound tid j c'
        \<and> slot tid c' = (if phase s' = Stream_over \<and> phase s \<noteq> Stream_over then None else slot tid c)"
    and stays_fit: "fit tid j s c \<Longrightarrow> slot tid c' = slot tid c \<or> slot tid c' = None \<Longrightarrow> fit tid j s c'"
begin

lemma run_sound:
  assumes "stream_run iter tid j s0 c0 begun s c sent accepted out"
    and "fit tid j s0 c0" "tunnels_sound tid j c0" "stream_sound fails (phase s0) (queued j c0) begun []"
    and "phase s0 \<noteq> Stream_over"
  shows "fit tid j s c \<and> tunnels_sound tid j c \<and> stream_sound fails (phase s) (queued j c) accepted out
     \<and> (phase s = Stream_over \<longrightarrow> slot tid c = None) \<and> subseq accepted sent
     \<and> (length sent \<le> TUNNEL_RESPONSE_BUFFER \<longrightarrow> accepted = sent)"
  using assms
proof (induction rule: stream_run.induct)
  case run_start
  then show ?case by simp
next
  case (run_pull s c sent accepted out x s' c')
  note IH = run_pull.IH [OF run_pull.prems]
  have spec: "stream_spec fails (phase s) (queued j c) = (x, phase s', queued j c')"
    using reads IH run_pull.hyps(2) by metis
  then have "stream_sound fails (phase s') (queued j c') accepted (out @ bytes_of x)"
    using spec_sound IH by blast
  then show ?case using releases [of tid j s c x s' c'] IH run_pull.hyps(2) by auto
next
  case (run_frame s c sent accepted out r)
  note IH = run_frame.IH [OF run_frame.prems]
  note fr = frame_tunnels [of tid j c r]
  have over: "slot tid c \<noteq> None \<Longrightarrow> phase s \<noteq> Stream_over" using IH by auto
  have none: "slot tid c \<noteq> None \<Longrightarrow> None \<notin> set (queued j c)" using IH by (auto simp: tunnels_sound_def)
  have "stream_sound fails (phase s) (queued j (deliver_tunnel_response (Some r) c))
      (if slot tid c = None \<or> q_full (objs (c_tunnels c) ! j) then accepted else accepted @ [r]) out"
    using IH fr run_frame.hyps(2) over none stream_sound_arrives by auto
  moreover have "\<not> q_full (objs (c_tunnels c) ! j)"
    if "slot tid c \<noteq> None" "length (sent @ [r]) \<le> TUNNEL_RESPONSE_BUFFER"
  proof -
    have "length (queued j c) \<le> length accepted" "accepted = sent"
      using that IH over none stream_sound_length by auto
    with that IH show ?thesis by (simp add: q_full_def tunnels_sound_def queued_def)
  qed
  ultimately show ?case using IH fr run_frame.hyps(2) stays_fit by auto
next
  case (run_foreign s c sent accepted out c')
  then show ?case using foreign_tunnels [OF run_foreign.hyps(2)] stays_fit by metis
next
  case (run_close s c sent accepted out)
  note IH = run_close.IH [OF run_close.prems]
  have "stream_sound fails (phase s) (queued j (close c)) accepted out"
    using IH close_tunnels [of tid j c] stream_sound_closes by metis
  then show ?case using IH close_tunnels [of tid j c] stays_fit by metis
qed

lemma over_stays:
  assumes "fit tid j s c" "tunnels_sound tid j c" "phase s = Stream_over" "slot tid c = None"
  shows "\<exists>s' c'. (pull iter ^^ n) (s, c, out) = (s', c', out) \<and> phase s' = Stream_over \<and> slot tid c' = None"
  using assms
proof (induction n arbitrary: s c)
  case (Suc n)
  obtain x s1 c1 where step: "iter s c = (x, s1, c1)" by (metis prod_cases3)
  have "x = None" "phase s1 = Stream_over"
    using reads [OF Suc.prems(1,2) step] Suc.prems(3) by (simp_all add: stream_spec_def)
  moreover have "fit tid j s1 c1" "tunnels_sound tid j c1" "slot tid c1 = None"
    using releases [OF Suc.prems(1,2) step] Suc.prems(3,4) by simp_all
  ultimately show ?case using Suc.IH [of s1 c1] step by (simp add: funpow_swap1 pull_def)
qed simp

lemma pulls_finish:
  assumes "fit tid j s c" "tunnels_sound tid j c" "stream_sound fails (phase s) (queued j c) accepted out"
    and "completed_by fails accepted" "phase s \<noteq> Stream_over" "pulls_left (phase s) (queued j c) < n"
  shows "\<exists>s' c'. (pull iter ^^ n) (s, c, out) = (s', c', response_body fails accepted)
     \<and> phase s' = Stream_over \<and> slot tid c' = None"
  using assms
proof (induction n arbitrary: s c out)
  case (Suc n)
  obtain x s1 c1 where step: "iter s c = (x, s1, c1)" by (metis prod_cases3)
  have spec: "stream_spec fails (phase s) (queued j c) = (x, phase s1, queued j c1)"
    using reads [OF Suc.prems(1,2) step] by simp
  have next_ok: "fit tid j s1 c1" "tunnels_sound tid j c1"
    "stream_sound fails (phase s1) (queued j c1) accepted (out @ bytes_of x)"
    using releases [OF Suc.prems(1,2) step] spec_sound [OF Suc.prems(3) spec] by auto
  have pulled: "(pull iter ^^ Suc n) (s, c, out) = (pull iter ^^ n) (s1, c1, out @ bytes_of x)"
    by (simp add: funpow_swap1 pull_def step)
  note progress = sound_completed [OF Suc.prems(3-5) spec]
  show ?case
  proof (cases "phase s1 = Stream_over")
    case True
    then have "slot tid c1 = None" using releases [OF Suc.prems(1,2) step] Suc.prems(5) by simp
    with over_stays [OF next_ok(1,2) True] progress True show ?thesis unfolding pulled by simp
  next
    case False
    with progress Suc.prems(6) have "pulls_left (phase s1) (queued j c1) < n" by simp
    from Suc.IH [OF next_ok Suc.prems(4) False this] show ?thesis unfolding pulled .
  qed
qed simp

lemma run_delivers:
  assumes "stream_run iter tid j s0 c0 begun s c sent accepted out"
    and "fit tid j s0 c0" "tunnels_sound tid j c0" "stream_sound fails (phase s0) (queued j c0) begun []"
    and "phase s0 \<noteq> Stream_over"
  shows "prefix out (response_body fails accepted) \<and> subseq accepted sent
     \<and> (length sent \<le> TUNNEL_RESPONSE_BUFFER \<longrightarrow> accepted = sent)
     \<and> (phase s = Stream_over \<longrightarrow> slot tid c = None)
     \<and> (completed_by fails accepted \<and> phase s \<noteq> Stream_over \<longrightarrow>
          (\<exists>s' c'. (pull iter ^^ (2 * length (queued j c) + 3)) (s, c, out) = (s', c', response_body fails accepted)
             \<and> phase s' = Stream_over \<and> slot tid c' = None))"
proof -
  note sound = run_sound [OF assms]
  have "pulls_left (phase s) (queued j c) < 2 * length (queued j c) + 3"
    by (simp add: pulls_left_def split: stream_phase.split)
  with sound pulls_finish show ?thesis using sound_prefix by blast
qed

end

subsection \<open>The two generators\<close>

lemma get_tunnels:
  assumes "tunnel_get j c = (item, c1)" "tunnels_sound tid j c"
  shows "tunnels_sound tid j c1 \<and> slot tid c1 = slot tid c
     \<and> (case queued j c of [] \<Rightarrow> item = None \<and> queued j c1 = [] | x # xs \<Rightarrow> item = Some x \<and> queued j c1 = xs)"
proof -
  have "table_ok (c_tunnels c)" using assms(2) by (simp add: tunnels_sound_def)
  then have "table_ok ((c_tunnels c)\<lparr>objs := (objs (c_tunnels c))[j := q]\<rparr>)" for q
    using table_ok_update [of "c_tunnels c" j "\<lambda>_. q"] by (simp add: tab_update_def)
  with assms show ?thesis
    by (cases "queued j c") (auto simp: tunnel_get_def get_nowait_def tunnels_sound_def slot_def queued_def tab_update_def)
qed

lemma released_tunnels:
  assumes "tunnels_sound tid j c"
  shows "tunnels_sound tid j (close_tunnel tid c) \<and> slot tid (close_tunnel tid c) = None
     \<and> queued j (close_tunnel tid c) = queued j c"
proof -
  have ok: "table_ok (c_tunnels (close_tunnel tid c))" using assms by (auto simp: tunnels_sound_def)
  have "j \<notin> snd ` set (slots (c_tunnels (close_tunnel tid c)))"
  proof
    assume "j \<in> snd ` set (slots (c_tunnels (close_tunnel tid c)))"
    then obtain k where k: "(k, j) \<in> set (slots (c_tunnels (close_tunnel tid c)))" by auto
    with ok have "slot k (close_tunnel tid c) = Some j" by (simp add: slot_def table_ok_def)
    then have "k \<noteq> tid" "slot k c = Some j" by (auto simp: slot_def close_channel_def split: if_splits)
    with other_slot [OF assms] show False by blast
  qed
  with assms ok show ?thesis
    by (auto simp: tunnels_sound_def slot_def queued_def close_channel_def)
qed

interpretation body: chunk_stream body_iter ts_phase
  "\<lambda>tid j s c. ts_tunnel s = tid \<and> ts_queue s = j" "\<lambda>r. False"
proof (unfold_locales)
  fix tid j s c x s' c'
  assume fit: "ts_tunnel s = tid \<and> ts_queue s = j" and ok: "tunnels_sound tid j c" and step: "body_iter s c = (x, s', c')"
  note released = released_tunnels [OF ok]
  obtain item c1 where get: "tunnel_get j c = (item, c1)" by fastforce
  note got = get_tunnels [OF get ok]
  note released1 = released_tunnels [OF conjunct1 [OF got]]
  show "(x, ts_phase s', queued j c') = stream_spec (\<lambda>r. False) (ts_phase s) (queued j c)"
    using step fit got get released released1
    by (auto simp: body_iter_def body_emit_def body_after_def body_ended_def stream_spec_def emit_spec_def
        split: stream_phase.splits if_splits option.splits list.splits)
  show "(ts_tunnel s' = tid \<and> ts_queue s' = j) \<and> tunnels_sound tid j c'
      \<and> slot tid c' = (if ts_phase s' = Stream_over \<and> ts_phase s \<noteq> Stream_over then None else slot tid c)"
    using step fit ok got get released released1
    by (auto simp: body_iter_def body_emit_def body_after_def body_ended_def
        split: stream_phase.splits if_splits option.splits list.splits)
qed simp

text \<open>A pull of \<open>iter_chunks\<close>, a raised error being the end of the stream.\<close>

definition pull_chunks ::
  "proxy_response \<Rightarrow> 'f connection \<Rightarrow> bytes option \<times> proxy_response \<times> 'f connection" where
  "pull_chunks s c = (case iter_chunks s c of (res, s', c') \<Rightarrow>
     (case res of Inl e \<Rightarrow> None | Inr x \<Rightarrow> x, s', c'))"

definition error_frame :: "tunnel_response \<Rightarrow> bool" where
  "error_frame r \<longleftrightarrow> strip (tr_error r) \<noteq> []"

interpretation chunk_reader: chunk_stream pull_chunks pr_phase
  "\<lambda>tid j s c. px_tunnel (pr_tunnel s) = tid \<and> px_queue (pr_tunnel s) = j
     \<and> (px_closed (pr_tunnel s) \<longrightarrow> slot tid c = None)" error_frame
proof (unfold_locales)
  fix tid j s c x s' c'
  assume fit: "px_tunnel (pr_tunnel s) = tid \<and> px_queue (pr_tunnel s) = j \<and> (px_closed (pr_tunnel s) \<longrightarrow> slot tid c = None)"
    and ok: "tunnels_sound tid j c" and step: "pull_chunks s c = (x, s', c')"
  note released = released_tunnels [OF ok]
  obtain item c1 where get: "tunnel_get j c = (item, c1)" by fastforce
  note got = get_tunnels [OF get ok]
  note released1 = released_tunnels [OF conjunct1 [OF got]]
  show "(x, pr_phase s', queued j c') = stream_spec error_frame (pr_phase s) (queued j c)"
    using step fit got get released released1
    by (auto simp: pull_chunks_def iter_chunks_def chunks_emit_def chunks_after_def chunks_ended_def proxy_close_def
        stream_spec_def emit_spec_def error_frame_def
        split: stream_phase.splits if_splits option.splits list.splits)
  show "(px_tunnel (pr_tunnel s') = tid \<and> px_queue (pr_tunnel s') = j \<and> (px_closed (pr_tunnel s') \<longrightarrow> slot tid c' = None))
      \<and> tunnels_sound tid j c'
      \<and> slot tid c' = (if pr_phase s' = Stream_over \<and> pr_phase s \<noteq> Stream_over then None else slot tid c)"
    using step fit ok got get released released1
    by (auto simp: pull_chunks_def iter_chunks_def chunks_emit_def chunks_after_def chunks_ended_def proxy_close_def
        split: stream_phase.splits if_splits option.splits list.splits)
qed auto

lemma started_tunnel:
  assumes "table_ok (c_tunnels c)" "slot tid c = Some j" "queued j c = map Some rs"
    and "q_max (objs (c_tunnels c) ! j) = TUNNEL_RESPONSE_BUFFER" "\<not> fails r"
  shows "tunnels_sound tid j c \<and> stream_sound fails (Stream_start r) (queued j c) (r # rs) []"
  using assms table_ok_lt [of "c_tunnels c" tid j]
  by (auto simp: tunnels_sound_def slot_def stream_sound_def taken_def marked_def)

subsection \<open>Properties\<close>


definition sample_tunnel :: "frame connection" where
  "sample_tunnel = snd (open_tunnel ''t'' (new_connection 0 ''n'' None []))"

definition sample_frame :: "8 word \<Rightarrow> bool \<Rightarrow> tunnel_response" where
  "sample_frame b last_one = \<lparr>tr_tunnel_id = ''t'', tr_status = 200, tr_headers = [], tr_body = [b],
     tr_done = last_one, tr_error = []\<rparr>"

lemma sample_tunnel_facts:
  "table_ok (c_tunnels sample_tunnel) \<and> slot ''t'' sample_tunnel = Some 0 \<and> queued 0 sample_tunnel = []
   \<and> q_max (objs (c_tunnels sample_tunnel) ! 0) = TUNNEL_RESPONSE_BUFFER"
  unfolding sample_tunnel_def
  by (simp add: new_connection_def slot_def queued_def open_channel_def tab_open_def empty_table_def table_ok_def)


text \<open>The same for a request a node performs on an absolute URL, where a frame that reports an
  error ends the body as well: what is handed on is a prefix of the body before it, all of it once
  the last frame is in, and the tunnel is unregistered at the end, however the stream ends.\<close>

theorem proxy_streams_the_response:
  assumes "table_ok (c_tunnels c0)" "slot tid c0 = Some j" "queued j c0 = map Some rs"
    and "q_max (objs (c_tunnels c0) ! j) = TUNNEL_RESPONSE_BUFFER" "\<not> error_frame r"
    and "stream_run pull_chunks tid j
           (new_proxy_response \<lparr>px_tunnel = tid, px_queue = j, px_closed = False\<rparr> r) c0 (r # rs)
           s c sent accepted out"
  shows "prefix out (response_body error_frame accepted) \<and> subseq accepted sent
     \<and> (length sent \<le> TUNNEL_RESPONSE_BUFFER \<longrightarrow> accepted = sent)
     \<and> (pr_phase s = Stream_over \<longrightarrow> slot tid c = None)
     \<and> (completed_by error_frame accepted \<and> pr_phase s \<noteq> Stream_over \<longrightarrow>
          (\<exists>s' c'. (pull pull_chunks ^^ (2 * length (queued j c) + 3)) (s, c, out)
               = (s', c', response_body error_frame accepted)
             \<and> pr_phase s' = Stream_over \<and> slot tid c' = None))"
proof -
  note started = started_tunnel [of c0 tid j rs error_frame r, OF assms(1-5)]
  show ?thesis
    by (rule chunk_reader.run_delivers [OF assms(6)]) (use started in \<open>auto simp: new_proxy_response_def\<close>)
qed

lemma proxy_streams_the_response_witness:
  "\<exists>s c. (pull pull_chunks ^^ 5)
       (new_proxy_response \<lparr>px_tunnel = ''t'', px_queue = 0, px_closed = False\<rparr> (sample_frame 1 False),
        deliver_tunnel_response (Some (sample_frame 2 True)) sample_tunnel, []) = (s, c, [1, 2])
     \<and> slot ''t'' c = None"
proof -
  let ?s = "new_proxy_response \<lparr>px_tunnel = ''t'', px_queue = 0, px_closed = False\<rparr> (sample_frame 1 False)"
  let ?c = "deliver_tunnel_response (Some (sample_frame 2 True)) sample_tunnel"
  have room: "\<not> q_full (objs (c_tunnels sample_tunnel) ! 0)"
    using sample_tunnel_facts by (simp add: q_full_def queued_def TUNNEL_RESPONSE_BUFFER_def)
  have queued: "queued 0 ?c = [Some (sample_frame 2 True)]"
    using sample_tunnel_facts frame_tunnels [of "''t''" 0 sample_tunnel "sample_frame 2 True"] room
      started_tunnel [of sample_tunnel "''t''" 0 "[]" "\<lambda>_. False"] by (simp add: sample_frame_def)
  have fine: "\<not> error_frame (sample_frame 1 False)" "\<not> error_frame (sample_frame 2 True)"
    by (simp_all add: error_frame_def sample_frame_def)
  have "stream_run pull_chunks ''t'' 0 ?s sample_tunnel [sample_frame 1 False] ?s ?c
      [sample_frame 1 False, sample_frame 2 True] [sample_frame 1 False, sample_frame 2 True] []"
    using run_frame [OF run_start, of "sample_frame 2 True" "''t''" pull_chunks 0 ?s sample_tunnel "[sample_frame 1 False]"]
      sample_tunnel_facts room by (simp add: sample_frame_def)
  from proxy_streams_the_response [OF _ _ _ _ fine(1) this] sample_tunnel_facts queued fine
  show ?thesis by (auto simp: sample_frame_def new_proxy_response_def)
qed

text \<open>A request through a session's tunnel goes to the node the session is bound to and to no
  other, under the stripped names and a slashed path, with a body of at most 32 MiB; a refused one,
  and one the node answers with an error or not at all, leaves no tunnel registered.\<close>

theorem tunnel_requests_are_relayed_or_cleaned:
  assumes "tunnel_dispatch tid fid stamp ask db sv = (res, sv')"
    and "\<forall>c \<in> set (r_heap (sv_registry sv)). slot tid c = None"
    and "\<forall>(k, i) \<in> set (r_conns (sv_registry sv)). i < length (r_heap (sv_registry sv))"
  shows "case res of
      Inl (status, message) \<Rightarrow> status \<in> {400, 404, 502}
        \<and> (\<forall>c \<in> set (r_heap (sv_registry sv')). slot tid c = None)
    | Inr w \<Rightarrow> (\<exists>b. dget (sessions db) (strip (ta_session_id ask)) = Some b
        \<and> sv_lookup (s_node_id b) sv = Some (tw_conn w) \<and> strip (ta_service ask) \<noteq> []
        \<and> (\<forall>i. i \<noteq> tw_conn w \<longrightarrow> conn_at i sv' = conn_at i sv)
        \<and> q_items (c_downstream (conn_at (tw_conn w) sv')) = q_items (c_downstream (conn_at (tw_conn w) sv))
            @ [Some (new_frame fid stamp (P_tunnel_request
                 (tunnel_request_of tid (strip (ta_session_id ask)) (strip (ta_service ask)) ask)))]
        \<and> slot tid (conn_at (tw_conn w) sv') = Some (tw_queue w)
        \<and> queued (tw_queue w) (conn_at (tw_conn w) sv') = []
        \<and> (\<forall>later status message after. tw_conn w < length (r_heap (sv_registry later))
             \<and> tunnel_first w later = (Inl (status, message), after)
             \<longrightarrow> status \<in> {502, 504} \<and> slot tid (conn_at (tw_conn w) after) = None))"
proof -
  let ?sid = "strip (ta_session_id ask)" and ?srv = "strip (ta_service ask)"
  note clean = assms(2)
  show ?thesis
  proof (cases "?sid = [] \<or> ?srv = [] \<or> dget (sessions db) ?sid = None
      \<or> (\<exists>b. dget (sessions db) ?sid = Some b \<and> sv_lookup (s_node_id b) sv = None)")
    case True
    with assms(1) clean show ?thesis
      by (auto simp: tunnel_dispatch_def Let_def split: if_splits option.splits)
  next
    case False
    then obtain b i where b: "dget (sessions db) ?sid = Some b" "sv_lookup (s_node_id b) sv = Some i"
      and named: "?sid \<noteq> []" "?srv \<noteq> []" by auto
    have i: "i < length (r_heap (sv_registry sv))"
      using assms(3) b(2) by (auto simp: sv_lookup_def lookup_def dest!: map_of_SomeD)
    obtain j c where opened: "open_tunnel tid (conn_at i sv) = (j, c)" by fastforce
    have c: "slot tid c = Some j" "queued j c = []" "c_downstream c = c_downstream (conn_at i sv)"
      using tunnel.opened [of tid "conn_at i sv"] opened
      by (auto simp: slot_def queued_def open_tunnel_def split: prod.splits)
    let ?fr = "new_frame fid stamp (P_tunnel_request (tunnel_request_of tid ?sid ?srv ask))"
    show ?thesis
    proof (cases "send ?fr c")
      case (Inl e)
      have "slot tid (close_tunnel tid c) = None" by (simp add: slot_def close_channel_def)
      with Inl assms(1) b named opened clean show ?thesis
        by (auto simp: tunnel_dispatch_def Let_def put_conn_def dest!: set_update_subset_insert [THEN subsetD])
    next
      case (Inr c1)
      then have res: "res = Inr \<lparr>tw_conn = i, tw_tunnel = tid, tw_queue = j\<rparr>" "sv' = put_conn i c1 sv"
        using assms(1) b named opened by (simp_all add: tunnel_dispatch_def Let_def)
      obtain q where q: "put_nowait (Some ?fr) (c_downstream c) = Some q" "c1 = c\<lparr>c_downstream := q\<rparr>"
        using Inr by (auto simp: send_Inr)
      have "\<forall>later status message after. i < length (r_heap (sv_registry later))
             \<and> tunnel_first \<lparr>tw_conn = i, tw_tunnel = tid, tw_queue = j\<rparr> later = (Inl (status, message), after)
             \<longrightarrow> status \<in> {502, 504} \<and> slot tid (conn_at i after) = None"
        by (auto simp: tunnel_first_def Let_def put_conn_def conn_at_def slot_def close_channel_def
            split: prod.splits option.splits if_splits)
      with b named res q c i show ?thesis
        by (auto simp: put_conn_def conn_at_def slot_def queued_def put_nowait_def split: if_splits)
    qed
  qed
qed

definition sample_bindings :: ledger where
  "sample_bindings = \<lparr>nodes = [], sessions = [(''s1'', \<lparr>s_session_id = ''s1'', s_node_id = ''n1'', s_project_id = [],
     s_task_id = [], s_editor_id = [], s_editor_session_id = [], s_provider = [], s_model = [], s_mode = [],
     s_status = ''running'', s_applied_revision = 0, s_effective_revision = 0, s_created_at = 0, s_updated_at = 0\<rparr>)],
     lookup_config = None\<rparr>"

definition sample_ask :: tunnel_ask where
  "sample_ask = \<lparr>ta_session_id = '' s1 '', ta_service = ''jupyter'', ta_method = ''GET'', ta_path = ''lab'',
     ta_headers = [], ta_body = []\<rparr>"

lemma tunnel_requests_are_relayed_or_cleaned_witness:
  "\<exists>w sv'. tunnel_dispatch ''t'' ''f'' ''now'' sample_ask sample_bindings sample_service = (Inr w, sv')
    \<and> slot ''t'' (conn_at 0 sv') = Some 0
    \<and> q_items (c_downstream (conn_at 0 sv')) = [Some (new_frame ''f'' ''now'' (P_tunnel_request
         \<lparr>tq_tunnel_id = ''t'', tq_session_id = ''s1'', tq_service = ''jupyter'', tq_method = ''GET'', tq_path = ''/lab'',
          tq_headers = [], tq_body = []\<rparr>))]"
proof -
  have names: "strip '' s1 '' = ''s1''" "strip ''jupyter'' = ''jupyter''" by code_simp+
  obtain res sv' where run: "tunnel_dispatch ''t'' ''f'' ''now'' sample_ask sample_bindings sample_service = (res, sv')"
    by fastforce
  then have "res = Inr \<lparr>tw_conn = 0, tw_tunnel = ''t'', tw_queue = 0\<rparr>"
    using names
    by (auto simp: tunnel_dispatch_def sample_ask_def sample_bindings_def sv_lookup_def lookup_def sample_service_def
        conn_at_def open_tunnel_def open_channel_def tab_open_def new_connection_def send_def put_nowait_def q_full_def
        DOWNSTREAM_BUFFER_def empty_table_def Let_def split: if_splits)
  then have w: "tunnel_dispatch ''t'' ''f'' ''now'' sample_ask sample_bindings sample_service
      = (Inr \<lparr>tw_conn = 0, tw_tunnel = ''t'', tw_queue = 0\<rparr>, sv')" using run by simp
  have "\<forall>c \<in> set (r_heap (sv_registry sample_service)). slot ''t'' c = None"
    by (simp add: sample_service_def slot_def new_connection_def empty_table_def)
  moreover have "\<forall>(k, i) \<in> set (r_conns (sv_registry sample_service)). i < length (r_heap (sv_registry sample_service))"
    by (simp add: sample_service_def)
  ultimately have "slot ''t'' (conn_at 0 sv') = Some 0"
    "q_items (c_downstream (conn_at 0 sv')) = q_items (c_downstream (conn_at 0 sample_service))
      @ [Some (new_frame ''f'' ''now'' (P_tunnel_request (tunnel_request_of ''t'' (strip (ta_session_id sample_ask))
           (strip (ta_service sample_ask)) sample_ask)))]"
    using tunnel_requests_are_relayed_or_cleaned [OF w] by auto
  moreover have "q_items (c_downstream (conn_at 0 sample_service)) = []"
    by (simp add: sample_service_def conn_at_def new_connection_def)
  ultimately show ?thesis
    using w names by (auto simp: sample_ask_def tunnel_request_of_def slashed_def)
qed

subsection \<open>The data process\<close>

lemma digits_value_str: "digits_value b 0 (str_of_nat n @ t) = digits_value True n t"
proof (induction n arbitrary: b t rule: str_of_nat.induct)
  case (1 n)
  have digit: "is_digit (digit_char (n mod 10))" "code_of (digit_char (n mod 10)) - 48 = n mod 10"
    by (simp_all add: is_digit_def code_of_digit)
  show ?case
  proof (cases "n < 10")
    case True
    then show ?thesis using digit by (subst str_of_nat.simps) simp
  next
    case False
    have "digits_value b 0 (str_of_nat n @ t) = digits_value b 0 (str_of_nat (n div 10) @ digit_char (n mod 10) # t)"
      using False by (subst str_of_nat.simps) simp
    also have "\<dots> = digits_value True (n div 10) (digit_char (n mod 10) # t)" by (rule 1 [OF False])
    finally show ?thesis using digit by simp
  qed
qed

lemma strip_int_no_space: "(\<And>c. c \<in> set s \<Longrightarrow> \<not> is_int_space c) \<Longrightarrow> strip_int s = s"
  unfolding strip_int_def
  by (metis dropWhile_eq_self_iff hd_in_set rev_rev_ident set_rev)

lemma int_of_str_of_int: "int_of_str (str_of_int i) = Some i"
proof -
  have plain: "\<not> is_int_space c" if "c \<in> set (str_of_int i)" for c
    using that by (auto simp: str_of_int_def is_int_space_def Let_def code_of_def is_digit_def dest!: str_of_nat_digits split: if_splits)
  have sign: "c \<noteq> CHR ''-''" "c \<noteq> CHR ''+''" if "is_digit c" for c
    using that by (auto simp: is_digit_def code_of_def)
  obtain c cs where cs: "str_of_nat (nat i) = c # cs" "is_digit c"
    using str_of_nat_digits [of _ "nat i"] str_of_nat_nonempty [of "nat i"] by (cases "str_of_nat (nat i)") auto
  show ?thesis
    using strip_int_no_space [of "str_of_int i"] plain sign cs
      digits_value_str [of False "nat i" "[]"] digits_value_str [of False "nat (- i)" "[]"]
    by (auto simp: int_of_str_def str_of_int_def)
qed

lemma fold_dset_self:
  "distinct (dkeys (d @ e)) \<Longrightarrow> fold (\<lambda>(k, x). dset k x) e d = d @ e"
proof (induction e arbitrary: d)
  case (Cons p e)
  obtain k x where p: "p = (k, x)" by fastforce
  have "dset k x d = d @ [(k, x)]"
    using Cons.prems p by (intro dkeys_dset_fresh) (auto simp: dget_none_iff)
  with Cons p show ?case by simp
qed simp

lemma those_map_id: "(\<And>x. x \<in> set xs \<Longrightarrow> f x = Some x) \<Longrightarrow> those (map f xs) = Some xs"
  by (induction xs) auto

lemma json_headers_own:
  assumes "distinct (dkeys headers)" shows "json_headers (json_of_headers headers) = Some headers"
proof -
  let ?kvs = "map (\<lambda>(k, v). (k, J_str v)) headers"
  have "dkeys ?kvs = dkeys headers" by (induction headers) auto
  with assms have "distinct (dkeys ([] @ ?kvs))" by (simp only: append.left_neutral)
  from fold_dset_self [OF this] have "fold (\<lambda>(k, x). dset k x) ?kvs [] = ?kvs" by (simp only: append.left_neutral)
  moreover have "those (map ((\<lambda>(k, x). map_option (Pair k) (json_text x)) \<circ> (\<lambda>(k, v). (k, J_str v))) headers)
      = Some headers" by (rule those_map_id) (auto simp: json_text_def)
  ultimately show ?thesis by (simp add: json_headers_def json_of_headers_def)
qed

text \<open>C21: For the data process the detour over the control process changes nothing: what its client
  sends is authorized and becomes the same request to the same node, a failure comes back as a 502
  with its text, and the client reads back the node's own status and headers.\<close>

theorem remote_proxy_is_transparent:
  assumes "loads (dump d) = Some d" "dump d \<noteq> []" "d = remote_descriptor method url headers body"
    and "loads_text (dump_text h) = Some h" "dump_text h \<noteq> []" "h = json_of_headers (pr_headers r)"
    and "strip token \<noteq> []" "list_all (\<lambda>x. code_of x < 128) token" "method \<noteq> []" "distinct (dkeys headers)"
  shows "node_proxy loads token True tid fid stamp node_id (Some (''Bearer '' @ strip token)) (dump d) sv
       = apfst (map_sum (Pair 502) id) (proxy_dispatch tid fid stamp node_id method url headers body sv)
     \<and> (node_proxy_answer dump_text i p sv = (Inr (hs, r), sv1)
        \<longrightarrow> proxy_first i p sv = (Inr r, sv1) \<and> remote_view loads_text hs = (pr_status r, json_of_headers (pr_headers r)))
     \<and> (node_proxy_answer dump_text i p sv = (Inl e, sv1) \<longrightarrow> proxy_first i p sv = (Inl (snd e), sv1) \<and> fst e = 502)"
proof -
  have "\<forall>c \<in> set (strip token). code_of c < 128"
    using assms(8) unfolding strip_def lstrip_def rstrip_def list_all_iff by (auto dest!: set_dropWhileD)
  then have auth: "bearer_authorized (strip token) (Some (''Bearer '' @ strip token)) = Some True"
    using assms(7) by (simp add: bearer_authorized_def compare_digest_def strip_idem list_all_iff)
  have gets: "obj_get [(''method'', J_str method), (''url'', J_str url), (''headers'', json_of_headers headers),
       (''body'', J_str (b64encode body))] k =
     (if k = ''body'' then J_str (b64encode body) else if k = ''headers'' then json_of_headers headers
      else if k = ''url'' then J_str url else if k = ''method'' then J_str method else J_null)" for k
    by (simp add: obj_get_def)
  have body: "decoded_body (J_str (b64encode body)) = Some body"
    using b64_roundtrip [of body] by (auto simp: decoded_body_def or_json_def truthy_def split: sum.splits)
  have parts: "json_text (or_json (J_str method) (J_str ''GET'')) = Some method"
    "json_text (or_json (J_str url) (J_str [])) = Some url"
    "json_headers (or_json (json_of_headers headers) (J_obj [])) = Some headers"
    using assms(9) json_headers_own [OF assms(10)]
    by (auto simp: json_text_def or_json_def truthy_def json_of_headers_def)
  have "node_proxy loads token True tid fid stamp node_id (Some (''Bearer '' @ strip token)) (dump d) sv
      = apfst (map_sum (Pair 502) id) (proxy_dispatch tid fid stamp node_id method url headers body sv)"
    using assms(1-3) auth
    by (simp add: node_proxy_def remote_descriptor_def gets body parts split: prod.split sum.split)
  moreover have "proxy_first i p sv = (Inr r, sv1) \<and> remote_view loads_text hs = (pr_status r, json_of_headers (pr_headers r))"
    if "node_proxy_answer dump_text i p sv = (Inr (hs, r), sv1)"
    using that assms(4-6) int_of_str_of_int [of "pr_status r"]
    by (auto simp: node_proxy_answer_def remote_view_def STATUS_HEADER_def HEADERS_HEADER_def or_str_def str_of_int_def
        split: prod.splits sum.splits if_splits)
  moreover have "proxy_first i p sv = (Inl (snd e), sv1) \<and> fst e = 502"
    if "node_proxy_answer dump_text i p sv = (Inl e, sv1)"
    using that by (auto simp: node_proxy_answer_def split: prod.splits sum.splits)
  ultimately show ?thesis by blast
qed

text \<open>An instance with the injective encoders a reader may take for json.\<close>

lemma remote_proxy_is_transparent_witness:
  "let d = remote_descriptor ''GET'' ''http://x'' [(''a'', ''b'')] [1, 2] in
   node_proxy (\<lambda>_. Some d) '' k '' True ''t'' ''f'' ''now'' ''n1'' (Some ''Bearer k'') [1] sample_service
     = apfst (map_sum (Pair 502) id)
         (proxy_dispatch ''t'' ''f'' ''now'' ''n1'' ''GET'' ''http://x'' [(''a'', ''b'')] [1, 2] sample_service)"
proof -
  let ?d = "remote_descriptor ''GET'' ''http://x'' [(''a'', ''b'')] [1, 2]"
  let ?r = "new_proxy_response \<lparr>px_tunnel = ''t'', px_queue = 0, px_closed = False\<rparr>
         \<lparr>tr_tunnel_id = ''t'', tr_status = 200, tr_headers = [], tr_body = [], tr_done = True, tr_error = []\<rparr>"
  have key: "strip '' k '' = ''k''" by code_simp
  have "strip '' k '' \<noteq> []" "list_all (\<lambda>x. code_of x < 128) '' k ''" by code_simp+
  then have "node_proxy (\<lambda>_. Some ?d) '' k '' True ''t'' ''f'' ''now'' ''n1'' (Some (''Bearer '' @ strip '' k '')) [1] sample_service
     = apfst (map_sum (Pair 502) id)
         (proxy_dispatch ''t'' ''f'' ''now'' ''n1'' ''GET'' ''http://x'' [(''a'', ''b'')] [1, 2] sample_service)"
    by (intro conjunct1 [OF remote_proxy_is_transparent
          [where dump = "\<lambda>_. [1]" and d = ?d and loads_text = "\<lambda>_. Some (json_of_headers (pr_headers ?r))"
             and dump_text = "\<lambda>_. ''{}''" and h = "json_of_headers (pr_headers ?r)" and r = ?r]]) simp_all
  then show ?thesis unfolding key Let_def by simp
qed

end
