(* ===== verification/Terminal_Gateway.thy ===== *)
theory Terminal_Gateway
  imports Tunnels Service_Commands Terminal_Bridge
    "HOL-Library.Char_ord" "HOL-Library.List_Lexorder"
begin

text \<open>
  terminal_gateway.py: the WebSocket and HTTP routes of terminals over the two terminal registries,
  the registry of agent-addressable terminals and the service. \<open>gateway\<close> is their common state: the
  bridge works on the service's own node registry.

  A route is cut where it waits: the guards give what the socket is accepted for, then the terminal is
  opened, then the browser is attached, its frames and the terminal's output are handled one at a
  time, and it is detached. Frame ids, stamps, fresh terminal ids and clocks are arguments, \<open>loads\<close> is
  \<open>json.loads\<close>. Output of a terminal is bytes as characters, what the browser gets of it base64.
\<close>

subsection \<open>State\<close>

record gateway =
  gw_service :: service
  gw_bridge :: bridge

definition bridge_of :: "gateway \<Rightarrow> bridge" where
  "bridge_of gw = (gw_bridge gw)\<lparr>br_registry := sv_registry (gw_service gw)\<rparr>"

definition with_bridge :: "bridge \<Rightarrow> gateway \<Rightarrow> gateway" where
  "with_bridge br gw = gw\<lparr>gw_bridge := br, gw_service := (gw_service gw)\<lparr>sv_registry := br_registry br\<rparr>\<rparr>"

definition agents_of :: "gateway \<Rightarrow> active_terminals" where
  "agents_of gw = br_agents (gw_bridge gw)"

definition with_agents :: "active_terminals \<Rightarrow> gateway \<Rightarrow> gateway" where
  "with_agents ar gw = gw\<lparr>gw_bridge := (gw_bridge gw)\<lparr>br_agents := ar\<rparr>\<rparr>"

definition agent_at :: "nat \<Rightarrow> gateway \<Rightarrow> terminal" where
  "agent_at a gw = ar_objects (agents_of gw) ! a"

definition on_agent :: "nat \<Rightarrow> (terminal \<Rightarrow> terminal) \<Rightarrow> gateway \<Rightarrow> gateway" where
  "on_agent a f gw = with_agents (on_terminal a f (agents_of gw)) gw"

text \<open>\<open>_authorized_header\<close>; \<open>None\<close> is the TypeError of \<open>compare_digest\<close>.\<close>

definition authorized_header :: "string \<Rightarrow> string \<Rightarrow> bool option" where
  "authorized_header header token =
     (if token \<noteq> [] \<and> prefix ''Bearer '' header then compare_digest (strip (drop 7 header)) token
      else Some False)"

definition windows_flavor :: "(string, string) dict \<Rightarrow> string" where
  "windows_flavor caps = (if dget caps ''os'' = Some ''windows'' then ''powershell'' else ''posix'')"

text \<open>\<open>_shell_flavor\<close>; \<open>None\<close> is the ValueError of a blank id.\<close>

definition shell_flavor :: "string \<Rightarrow> ledger \<Rightarrow> string option" where
  "shell_flavor node_id db = (case get_node_if_exists node_id db of
     Inl e \<Rightarrow> None
   | Inr None \<Rightarrow> Some ''posix''
   | Inr (Some r) \<Rightarrow> Some (windows_flavor (n_capabilities r)))"

subsection \<open>Opening a host terminal\<close>

text \<open>A close reason; the one in Chinese (the node has all the terminals it may have) is a constructor.\<close>

datatype close_reason = Because string | Because_limit

datatype 'a ws =
    Ws_closed int close_reason
  | Ws_raised
  | Ws_accepted 'a

record terminal_ask =
  ws_terminal_id :: string
  ws_rows :: int
  ws_cols :: int
  ws_owner :: string
  ws_env :: string
  ws_flavor :: string

record ws_query =
  q_rows :: "string option"
  q_cols :: "string option"
  q_terminal :: "string option"
  q_owner :: "string option"
  q_env :: "string option"

definition given :: "string option \<Rightarrow> string" where
  "given x = (case x of None \<Rightarrow> [] | Some s \<Rightarrow> s)"

text \<open>\<open>int(query.get(name) or fallback)\<close>.\<close>

definition int_query :: "string option \<Rightarrow> int \<Rightarrow> int option" where
  "int_query x fallback = (if given x = [] then Some fallback else int_of_str (given x))"

definition NODE_TERMINAL_LIMIT :: nat where "NODE_TERMINAL_LIMIT = 128"
definition CLOSE_UNAVAILABLE :: int where "CLOSE_UNAVAILABLE = 4503"

definition node_terminal ::
  "string \<Rightarrow> string \<Rightarrow> string \<Rightarrow> string \<Rightarrow> ws_query \<Rightarrow> ledger \<Rightarrow> terminal_ask ws" where
  "node_terminal token uuid header node_id q db =
     (case authorized_header header token of
        None \<Rightarrow> Ws_raised
      | Some False \<Rightarrow> Ws_closed 4403 (Because ''invalid or missing bearer token'')
      | Some True \<Rightarrow> (case get_node_if_exists node_id db of
          Inl e \<Rightarrow> Ws_raised
        | Inr None \<Rightarrow> Ws_closed 4404 (Because ''node not found'')
        | Inr (Some r) \<Rightarrow>
            if n_role r = NODE_ROLE_PASSIVE_MANAGEMENT
            then Ws_closed 4403 (Because ''grouping container has no terminal'')
            else if n_status r \<noteq> NODE_STATUS_APPROVED then Ws_closed 4403 (Because ''node not approved'')
            else if dget (n_capabilities r) ''terminal'' \<noteq> Some ''true''
            then Ws_closed CLOSE_UNAVAILABLE (Because ''terminal unsupported'')
            else (case (int_query (q_rows q) 24, int_query (q_cols q) 80) of
                (Some rows, Some cols) \<Rightarrow>
                  let tid = strip (given (q_terminal q)) in
                  if NODE_TERMINAL_LIMIT < length tid then Ws_closed 4400 (Because ''invalid terminal id'')
                  else Ws_accepted \<lparr>ws_terminal_id = or_str tid uuid, ws_rows = rows, ws_cols = cols,
                         ws_owner = take NODE_TERMINAL_LIMIT (strip (given (q_owner q))),
                         ws_env = take NODE_TERMINAL_LIMIT (strip (given (q_env q))),
                         ws_flavor = windows_flavor (n_capabilities r)\<rparr>
              | _ \<Rightarrow> Ws_raised)))"

text \<open>After the accept: the terminal, or the error frame's text and the close.\<close>

definition node_terminal_open ::
  "int \<Rightarrow> string \<Rightarrow> string \<Rightarrow> microseconds \<Rightarrow> microseconds \<Rightarrow> string \<Rightarrow> terminal_ask \<Rightarrow> gateway \<Rightarrow>
   (string \<times> close_reason + nat) \<times> gateway" where
  "node_terminal_open cap fid stamp wall now node_id ask gw =
     (let (res, br) = host_get_or_create cap fid stamp wall now node_id (ws_terminal_id ask) (ws_owner ask)
            (ws_rows ask) (ws_cols ask) (ws_env ask) (bridge_of gw)
      in (case res of
            Inl e \<Rightarrow> Inl (e, if contains_sub ''terminal_limit_reached'' e then Because_limit else Because ''node offline'')
          | Inr i \<Rightarrow> Inr i,
          with_bridge br gw))"

subsection \<open>Editor terminals\<close>

text \<open>\<open>session_binding\<close>: the node, or status and detail; \<open>None\<close> is a ValueError.\<close>

definition session_node :: "string \<Rightarrow> ledger \<Rightarrow> (int \<times> string + string) option" where
  "session_node session_id db = (case get_session_node session_id db of
     Inl e \<Rightarrow> None
   | Inr None \<Rightarrow> Some (Inl (404, ''session not found''))
   | Inr (Some b) \<Rightarrow> (case get_node_if_exists (s_node_id b) db of
       Inl e \<Rightarrow> None
     | Inr (Some r) \<Rightarrow> Some (if dget (n_capabilities r) ''terminal'' = Some ''true'' then Inr (s_node_id b)
         else Inl (503, ''terminal unsupported''))
     | Inr None \<Rightarrow> Some (Inl (503, ''terminal unsupported''))))"

definition session_terminal ::
  "string \<Rightarrow> string \<Rightarrow> string \<Rightarrow> ws_query \<Rightarrow> ledger \<Rightarrow> (string \<times> terminal_ask) ws" where
  "session_terminal token header session_id q db =
     (case authorized_header header token of
        None \<Rightarrow> Ws_raised
      | Some False \<Rightarrow> Ws_closed 4403 (Because ''invalid or missing bearer token'')
      | Some True \<Rightarrow> (case session_node session_id db of
          None \<Rightarrow> Ws_raised
        | Some (Inl (status, detail)) \<Rightarrow>
            Ws_closed (if status = 404 then 4404 else CLOSE_UNAVAILABLE) (Because detail)
        | Some (Inr node_id) \<Rightarrow>
            let tid = strip (given (q_terminal q)) in
            if tid = [] \<or> NODE_TERMINAL_LIMIT < length tid then Ws_closed 4400 (Because ''invalid terminal id'')
            else (case (int_query (q_rows q) 24, int_query (q_cols q) 80) of
                (Some rows, Some cols) \<Rightarrow> Ws_accepted (node_id,
                  \<lparr>ws_terminal_id = tid, ws_rows = rows, ws_cols = cols, ws_owner = [], ws_env = [], ws_flavor = ''posix''\<rparr>)
              | _ \<Rightarrow> Ws_raised)))"

definition session_terminal_open ::
  "string \<Rightarrow> string \<Rightarrow> microseconds \<Rightarrow> microseconds \<Rightarrow> string \<Rightarrow> string \<Rightarrow> terminal_ask \<Rightarrow> gateway \<Rightarrow>
   (string \<times> close_reason + nat) \<times> gateway" where
  "session_terminal_open fid stamp wall now session_id node_id ask gw =
     (let (res, br) = editor_get_or_create fid stamp wall now session_id node_id (ws_terminal_id ask)
            (ws_rows ask) (ws_cols ask) (bridge_of gw)
      in (case res of Inl e \<Rightarrow> Inl (e, Because ''node offline'') | Inr i \<Rightarrow> Inr i, with_bridge br gw))"

text \<open>HTTP routes: status and detail, or the answer; \<open>None\<close> is an exception (a 500).\<close>

type_synonym 'a http = "(int \<times> string + 'a) option"

definition require_token :: "string \<Rightarrow> string \<Rightarrow> 'a http \<Rightarrow> 'a http" where
  "require_token token header res = (case authorized_header header token of
     None \<Rightarrow> None
   | Some False \<Rightarrow> Some (Inl (403, ''invalid or missing bearer token''))
   | Some True \<Rightarrow> res)"

definition list_session_terminals ::
  "string \<Rightarrow> string \<Rightarrow> string \<Rightarrow> ledger \<Rightarrow> gateway \<Rightarrow> terminal_info list http" where
  "list_session_terminals token header session_id db gw =
     require_token token header (case session_node session_id db of
       None \<Rightarrow> None
     | Some (Inl e) \<Rightarrow> Some (Inl e)
     | Some (Inr n) \<Rightarrow> Some (Inr (editor_list session_id (bridge_of gw))))"

definition delete_session_terminal ::
  "string \<Rightarrow> string \<Rightarrow> string \<Rightarrow> string \<Rightarrow> string \<Rightarrow> string \<Rightarrow> ledger \<Rightarrow> gateway \<Rightarrow> unit http \<times> gateway" where
  "delete_session_terminal token header fid stamp session_id tid db gw =
     (case authorized_header header token of
        None \<Rightarrow> (None, gw)
      | Some False \<Rightarrow> (Some (Inl (403, ''invalid or missing bearer token'')), gw)
      | Some True \<Rightarrow> (case session_node session_id db of
          None \<Rightarrow> (None, gw)
        | Some (Inl e) \<Rightarrow> (Some (Inl e), gw)
        | Some (Inr n) \<Rightarrow>
            let (found, br) = editor_delete fid stamp session_id tid (bridge_of gw)
            in (Some (if found then Inr () else Inl (404, ''terminal not found'')), with_bridge br gw)))"

subsection \<open>The console's routes\<close>

text \<open>A detail is a text of the route or that of the service's error.\<close>

datatype http_detail = Detail string | Error_text rpc_error

type_synonym 'a console = "(int \<times> http_detail + 'a) option"

definition console_refusal :: "int \<Rightarrow> string \<Rightarrow> 'a console" where
  "console_refusal status text = Some (Inl (status, Detail text))"

definition UNAUTHORIZED :: "'a console" where
  "UNAUTHORIZED = console_refusal 403 ''invalid or missing bearer token''"

definition node_failure :: "bool \<Rightarrow> rpc_error \<Rightarrow> 'a console" where
  "node_failure asked e = (case e of
     Rpc_error code m \<Rightarrow>
       if code = NOT_FOUND then console_refusal 404 ''node not found''
       else if code = UNAVAILABLE then console_refusal 503 ''node offline''
       else if code = PERMISSION_DENIED then console_refusal 403 ''node not approved''
       else if asked \<and> code = DEADLINE_EXCEEDED then console_refusal 504 ''node did not answer in time''
       else Some (Inl (503, Error_text e))
   | Escaped x \<Rightarrow> Some (Inl (503, Error_text e)))"

record listed_terminal =
  lt_id :: string
  lt_node_id :: string
  lt_source :: string
  lt_owner :: string
  lt_current_command :: string
  lt_running :: bool
  lt_started_at :: "(microseconds + string) option"
  lt_created_at :: "string option"
  lt_node_attached :: bool
  lt_browser_attached :: bool
  lt_managed :: bool

definition nonempty :: "string \<Rightarrow> string option" where
  "nonempty s = (if s = [] then None else Some s)"

text \<open>What the node reports, with the owner and the agent's command laid over it.\<close>

definition listed :: "string \<Rightarrow> gateway \<Rightarrow> terminal_status \<Rightarrow> listed_terminal" where
  "listed node_id gw st =
     (let bridge = map_of (rev (map (\<lambda>x. (ti_id x, x)) (host_list node_id (bridge_of gw)))) (ts_terminal_id st);
          agent = map_option (\<lambda>a. agent_state (agent_at a gw)) (get_terminal node_id (ts_terminal_id st) (agents_of gw));
          (src, command, running, started) = (case agent of
             Some (True, command, started) \<Rightarrow> (''agent'', command, True, map_option Inl started)
           | _ \<Rightarrow> (''personal'', ts_current_command st, ts_running st, map_option Inr (nonempty (ts_started_at st))))
      in \<lparr>lt_id = ts_terminal_id st, lt_node_id = node_id, lt_source = src,
          lt_owner = (case bridge of None \<Rightarrow> [] | Some x \<Rightarrow> ti_owner x), lt_current_command = command,
          lt_running = running, lt_started_at = started, lt_created_at = nonempty (ts_created_at st),
          lt_node_attached = ts_attached st,
          lt_browser_attached = (case bridge of None \<Rightarrow> False | Some x \<Rightarrow> ti_attached x),
          lt_managed = (bridge \<noteq> None)\<rparr>)"

text \<open>\<open>list_node_terminals\<close> up to its wait for the node, and after it; newest first, a stable sort.\<close>

definition list_node_terminals_start ::
  "string \<Rightarrow> string \<Rightarrow> string \<Rightarrow> string \<Rightarrow> string \<Rightarrow> string \<Rightarrow> gateway \<Rightarrow> call console \<times> gateway" where
  "list_node_terminals_start token header stamp fid request_id node_id gw =
     (case authorized_header header token of
        None \<Rightarrow> (None, gw)
      | Some False \<Rightarrow> (UNAUTHORIZED, gw)
      | Some True \<Rightarrow> (case query_terminals_start stamp fid request_id node_id (gw_service gw) of
          (Inl e, sv) \<Rightarrow> (node_failure True e, gw\<lparr>gw_service := sv\<rparr>)
        | (Inr cl, sv) \<Rightarrow> (Some (Inr cl), gw\<lparr>gw_service := sv\<rparr>)))"

definition list_node_terminals_resume ::
  "call \<Rightarrow> string \<Rightarrow> gateway \<Rightarrow> listed_terminal list console \<times> gateway" where
  "list_node_terminals_resume cl node_id gw =
     (case query_terminals_resume cl (strip node_id) (gw_service gw) of
        (Inl e, sv) \<Rightarrow> (node_failure True e, gw\<lparr>gw_service := sv\<rparr>)
      | (Inr res, sv) \<Rightarrow>
          let gw1 = gw\<lparr>gw_service := sv\<rparr>;
              items = map (listed node_id gw1) (tl_terminals res);
              created = (\<lambda>t. case lt_created_at t of None \<Rightarrow> [] | Some s \<Rightarrow> s)
          in (Some (Inr (rev (sort_key created (rev items)))), gw1))"

text \<open>The two reasons given to an interrupted command are in Chinese; these are their translations.\<close>

definition ADMIN_INTERRUPTED :: string where "ADMIN_INTERRUPTED = ''command interrupted by an administrator''"
definition ADMIN_CLOSED :: string where "ADMIN_CLOSED = ''terminal closed by an administrator, command interrupted''"

text \<open>Cancel the command of agent terminal \<open>a\<close>, if one runs.\<close>

definition cancel_running :: "string \<Rightarrow> nat option \<Rightarrow> gateway \<Rightarrow> bool \<times> gateway" where
  "cancel_running reason agent gw = (case agent of
     None \<Rightarrow> (False, gw)
   | Some a \<Rightarrow> if input_locked (agent_at a gw)
       then (True, on_agent a (\<lambda>t. snd (cancel_command reason t)) gw) else (False, gw))"

definition interrupt_node_terminal ::
  "string \<Rightarrow> string \<Rightarrow> string \<Rightarrow> string \<Rightarrow> string \<Rightarrow> string \<Rightarrow> gateway \<Rightarrow> bool console \<times> gateway" where
  "interrupt_node_terminal token header stamp fid node_id tid gw =
     (case authorized_header header token of
        None \<Rightarrow> (None, gw)
      | Some False \<Rightarrow> (UNAUTHORIZED, gw)
      | Some True \<Rightarrow>
          let agent = get_terminal node_id tid (agents_of gw) in
          (case interrupt_terminal stamp fid node_id tid (gw_service gw) of
             (Inl e, sv) \<Rightarrow> (node_failure False e, gw\<lparr>gw_service := sv\<rparr>)
           | (Inr u, sv) \<Rightarrow>
               let (was_running, gw1) = cancel_running ADMIN_INTERRUPTED agent (gw\<lparr>gw_service := sv\<rparr>)
               in (Some (Inr was_running), gw1)))"

text \<open>
  \<open>close_node_terminal\<close>; the answer says whether there was a bridge. When there was, the route waits
  for the terminal's pump and then \<open>close_node_terminal_retire\<close> runs.
\<close>

definition close_node_terminal ::
  "string \<Rightarrow> string \<Rightarrow> string \<Rightarrow> string \<Rightarrow> string \<Rightarrow> string \<Rightarrow> gateway \<Rightarrow> bool console \<times> gateway" where
  "close_node_terminal token header fid stamp node_id tid gw =
     (case authorized_header header token of
        None \<Rightarrow> (None, gw)
      | Some False \<Rightarrow> (UNAUTHORIZED, gw)
      | Some True \<Rightarrow>
          let (c, gw1) = cancel_running ADMIN_CLOSED (get_terminal node_id tid (agents_of gw)) gw;
              (found, br) = host_delete fid stamp node_id tid (bridge_of gw1);
              gw2 = with_bridge br gw1
          in if found then (Some (Inr True), gw2)
             else case manager_close fid node_id tid (bridge_of gw2) of
               Inl e \<Rightarrow> (console_refusal 503 ''node offline'', gw2)
             | Inr br1 \<Rightarrow> (Some (Inr False), with_bridge br1 gw2))"

definition close_node_terminal_retire :: "string \<Rightarrow> string \<Rightarrow> gateway \<Rightarrow> gateway" where
  "close_node_terminal_retire node_id tid gw = with_bridge (fire_retired (node_id, tid) (bridge_of gw)) gw"

text \<open>
  \<open>run_terminal_command\<close> up to the start of the command. \<open>render\<close> is the text of a container, \<open>db\<close>
  the ledger the shell flavor is read from.
\<close>

datatype command_answer =
    Terminal_unavailable
  | Command_refused terminal_error
  | Command_started nat command_run "term_effect list"

definition text_arg :: "(json \<Rightarrow> string) \<Rightarrow> (string \<times> json) list \<Rightarrow> string \<Rightarrow> string" where
  "text_arg render body name = py_str render (or_json (obj_get body name) (J_str []))"

definition int_arg :: "(string \<times> json) list \<Rightarrow> string \<Rightarrow> int option" where
  "int_arg body name = py_int (or_json (obj_get body name) (J_int 0))"

definition start_on_agent ::
  "(json \<Rightarrow> string) \<Rightarrow> string \<Rightarrow> microseconds \<Rightarrow> microseconds \<Rightarrow> (string \<times> json) list \<Rightarrow> nat \<Rightarrow> gateway \<Rightarrow>
   command_answer console \<times> gateway" where
  "start_on_agent render hex wall tick body a gw =
     (case (int_arg body ''timeout_ms'', int_arg body ''max_output_bytes'') of
        (Some timeout, Some cap) \<Rightarrow>
          (case command_begin hex wall tick (text_arg render body ''command'') (text_arg render body ''cwd'')
                  timeout cap (agent_at a gw) of
             Inl e \<Rightarrow> (Some (Inr (Command_refused e)), gw)
           | Inr (run, effects, t) \<Rightarrow> (Some (Inr (Command_started a run effects)), on_agent a (\<lambda>_. t) gw))
      | _ \<Rightarrow> (None, gw))"

definition run_terminal_command ::
  "(json \<Rightarrow> string) \<Rightarrow> string \<Rightarrow> string \<Rightarrow> string \<Rightarrow> microseconds \<Rightarrow> microseconds \<Rightarrow> string \<Rightarrow> string \<Rightarrow>
   (string \<times> json) list \<Rightarrow> ledger \<Rightarrow> gateway \<Rightarrow> command_answer console \<times> gateway" where
  "run_terminal_command render token header hex wall tick node_id tid body db gw =
     (case authorized_header header token of
        None \<Rightarrow> (None, gw)
      | Some False \<Rightarrow> (UNAUTHORIZED, gw)
      | Some True \<Rightarrow> (case get_terminal node_id tid (agents_of gw) of
          Some a \<Rightarrow> start_on_agent render hex wall tick body a gw
        | None \<Rightarrow> (case host_get_if_live node_id tid (bridge_of gw) of
            None \<Rightarrow> (Some (Inr Terminal_unavailable), gw)
          | Some i \<Rightarrow> (case shell_flavor node_id db of
              None \<Rightarrow> (None, gw)
            | Some flavor \<Rightarrow>
                let (a, ar) = get_or_create_terminal node_id tid i flavor (agents_of gw)
                in start_on_agent render hex wall tick body a (with_agents ar gw)))))"

subsection \<open>A browser at a terminal\<close>

text \<open>\<open>_bridge_persistent\<close>: \<open>bw_key\<close> is given for host terminals, whose commands agents may run.\<close>

record browser =
  bw_terminal :: nat
  bw_queue :: nat
  bw_sink :: nat
  bw_key :: "(string \<times> string) option"
  bw_agent :: "nat option"

text \<open>\<open>subscribe\<close>; its ConnectionError ends the route.\<close>

definition attach_browser :: "nat \<Rightarrow> gateway \<Rightarrow> string + nat \<times> gateway" where
  "attach_browser i gw = (case subscribe i (bridge_of gw) of
     Inl e \<Rightarrow> Inl e | Inr (q, br) \<Rightarrow> Inr (q, with_bridge br gw))"

text \<open>After the frame \<open>connected\<close> is sent.\<close>

definition bind_browser ::
  "(string \<times> string) option \<Rightarrow> string \<Rightarrow> nat \<Rightarrow> nat \<Rightarrow> nat \<Rightarrow> gateway \<Rightarrow> browser \<times> gateway" where
  "bind_browser key flavor sink i q gw = (case key of
     Some (node_id, tid) \<Rightarrow>
       if node_id \<noteq> [] \<and> tid \<noteq> []
       then let (a, ar) = get_or_create_terminal node_id tid i flavor (agents_of gw)
            in (\<lparr>bw_terminal = i, bw_queue = q, bw_sink = sink, bw_key = key, bw_agent = Some a\<rparr>,
                with_agents (on_terminal a (bind_notify sink) ar) gw)
       else (\<lparr>bw_terminal = i, bw_queue = q, bw_sink = sink, bw_key = key, bw_agent = None\<rparr>, gw)
   | None \<Rightarrow> (\<lparr>bw_terminal = i, bw_queue = q, bw_sink = sink, bw_key = None, bw_agent = None\<rparr>, gw))"

definition byte_of :: "char \<Rightarrow> 8 word" where
  "byte_of c = of_nat (code_of c)"

definition char_of_byte :: "8 word \<Rightarrow> char" where
  "char_of_byte b = char_of (unat b)"

datatype out_step = Out_waits | Out_over | Out_nothing | Out_sends string

text \<open>One turn of the output loop; \<open>Out_sends\<close> is the base64 text of the data frame.\<close>

definition browser_output :: "browser \<Rightarrow> gateway \<Rightarrow> out_step \<times> gateway" where
  "browser_output b gw =
     (let br = bridge_of gw in
      case get_nowait (br_queues br ! bw_queue b) of
        None \<Rightarrow> (Out_waits, gw)
      | Some (item, q) \<Rightarrow>
          let gw1 = with_bridge (set_queue (bw_queue b) q br) gw
          in case item of
               None \<Rightarrow> (Out_over, gw1)
             | Some chunk \<Rightarrow>
                 let (visible, gw2) = (case bw_agent b of
                        None \<Rightarrow> (chunk, gw1)
                      | Some a \<Rightarrow> (let (v, t) = observe_output chunk (agent_at a gw1) in (v, on_agent a (\<lambda>_. t) gw1)))
                 in (if visible = [] then Out_nothing else Out_sends (b64encode (map byte_of visible)), gw2))"

text \<open>
  One frame of the browser: go on, end, end with a ConnectionError that is suppressed, or an
  exception that reaches the route.
\<close>

datatype in_step = In_more | In_over | In_suppressed string | In_raised

definition browser_data ::
  "string \<Rightarrow> string \<Rightarrow> microseconds \<Rightarrow> json \<Rightarrow> browser \<Rightarrow> gateway \<Rightarrow> in_step \<times> gateway" where
  "browser_data fid stamp now v b gw =
     (if (case bw_agent b of None \<Rightarrow> False | Some a \<Rightarrow> input_locked (agent_at a gw)) then (In_more, gw)
      else case decoded_body v of
        None \<Rightarrow> (In_raised, gw)
      | Some bs \<Rightarrow> (case persistent_input fid stamp now (map char_of_byte bs) (bw_terminal b) (bridge_of gw) of
          (Some e, br) \<Rightarrow> (In_suppressed e, with_bridge br gw)
        | (None, br) \<Rightarrow> (In_more, with_bridge br gw)))"

definition browser_resize ::
  "(string \<Rightarrow> json option) \<Rightarrow> string \<Rightarrow> string \<Rightarrow> json \<Rightarrow> browser \<Rightarrow> gateway \<Rightarrow> in_step \<times> gateway" where
  "browser_resize loads fid stamp v b gw =
     (case or_json v (J_str ''{}'') of
        J_str s \<Rightarrow> (case loads s of
            None \<Rightarrow> (In_more, gw)
          | Some (J_obj d) \<Rightarrow> (case (int_arg d ''row'', int_arg d ''col'') of
              (Some rows, Some cols) \<Rightarrow>
                (case persistent_resize fid stamp rows cols (bw_terminal b) (bridge_of gw) of
                   Inl e \<Rightarrow> (In_suppressed e, gw)
                 | Inr br \<Rightarrow> (In_more, with_bridge br gw))
            | _ \<Rightarrow> (In_more, gw))
          | Some _ \<Rightarrow> (In_raised, gw))
      | _ \<Rightarrow> (In_more, gw))"

definition browser_frame ::
  "(string \<Rightarrow> json option) \<Rightarrow> string \<Rightarrow> string \<Rightarrow> microseconds \<Rightarrow> string \<Rightarrow> browser \<Rightarrow> gateway \<Rightarrow>
   in_step \<times> gateway" where
  "browser_frame loads fid stamp now raw b gw =
     (case loads raw of
        None \<Rightarrow> (In_more, gw)
      | Some (J_obj d) \<Rightarrow>
          let kind = obj_get d ''type'' in
          if kind = J_str ''data'' then browser_data fid stamp now (obj_get d ''data'') b gw
          else if kind = J_str ''resize'' then browser_resize loads fid stamp (obj_get d ''data'') b gw
          else if kind = J_str ''close''
          then (In_over, with_bridge (persistent_close fid stamp (bw_terminal b) (bridge_of gw)) gw)
          else (In_more, gw)
      | Some _ \<Rightarrow> (In_raised, gw))"

text \<open>The \<open>finally\<close> block.\<close>

definition detach_browser :: "microseconds \<Rightarrow> browser \<Rightarrow> gateway \<Rightarrow> gateway" where
  "detach_browser now b gw =
     (let gw1 = (case bw_agent b of
            None \<Rightarrow> gw
          | Some a \<Rightarrow>
              let gw2 = on_agent a (unbind_notify (bw_sink b)) gw
              in if closed_terminal (br_terminal (bw_terminal b) (bridge_of gw2))
                 then (case bw_key b of
                         Some (node_id, tid) \<Rightarrow> with_agents (retire_terminal node_id tid (agents_of gw2)) gw2
                       | None \<Rightarrow> gw2)
                 else gw2)
      in with_bridge (unsubscribe now (bw_terminal b) (bw_queue b) (bridge_of gw1)) gw1)"

end
