(* ===== verification/Gateway_Safety.thy ===== *)
theory Gateway_Safety
  imports Terminal_Gateway Bridge_Safety Service_Calls
begin

text \<open>
  The terminal routes: who gets in, what reaches a node while an agent's command owns its terminal,
  and what is left running when a browser goes away.
\<close>

subsection \<open>Frames queued for nodes\<close>

text \<open>What a step puts behind the frames already queued, on every connection.\<close>

definition sends_only :: "(frame \<Rightarrow> bool) \<Rightarrow> bridge \<Rightarrow> bridge \<Rightarrow> bool" where
  "sends_only P br br' \<longleftrightarrow> (\<forall>i. \<exists>fs. q_items (c_downstream (br_conn i br'))
     = q_items (c_downstream (br_conn i br)) @ map Some fs \<and> (\<forall>f \<in> set fs. P f))"

lemma sends_only_same: "(\<And>i. c_downstream (br_conn i br') = c_downstream (br_conn i br)) \<Longrightarrow> sends_only P br br'"
  unfolding sends_only_def by (intro allI exI [of _ "[]"]) simp

lemma sends_only_trans: "sends_only P br br1 \<Longrightarrow> sends_only P br1 br2 \<Longrightarrow> sends_only P br br2"
  unfolding sends_only_def
proof (intro allI)
  fix i
  assume "\<forall>i. \<exists>fs. q_items (c_downstream (br_conn i br1)) = q_items (c_downstream (br_conn i br)) @ map Some fs \<and> (\<forall>f \<in> set fs. P f)"
    and "\<forall>i. \<exists>fs. q_items (c_downstream (br_conn i br2)) = q_items (c_downstream (br_conn i br1)) @ map Some fs \<and> (\<forall>f \<in> set fs. P f)"
  then obtain fs gs where
    "q_items (c_downstream (br_conn i br1)) = q_items (c_downstream (br_conn i br)) @ map Some fs" "\<forall>f \<in> set fs. P f"
    "q_items (c_downstream (br_conn i br2)) = q_items (c_downstream (br_conn i br1)) @ map Some gs" "\<forall>f \<in> set gs. P f"
    by metis
  then show "\<exists>fs. q_items (c_downstream (br_conn i br2)) = q_items (c_downstream (br_conn i br)) @ map Some fs \<and> (\<forall>f \<in> set fs. P f)"
    by (intro exI [of _ "fs @ gs"]) auto
qed

lemma br_conn_set: "br_conn j (set_conn i c br) = (if j = i \<and> i < length (r_heap (br_registry br)) then c else br_conn j br)"
  by (cases "i < length (r_heap (br_registry br))") (auto simp: br_conn_def set_conn_def list_update_beyond)

lemma br_conn_other [simp]:
  "br_conn j (set_terminal i p br) = br_conn j br" "br_conn j (offer q x br) = br_conn j br"
  "br_conn j (set_queue q y br) = br_conn j br"
  by (simp_all add: br_conn_def set_terminal_def offer_def set_queue_def)

lemma sends_only_send:
  assumes "session_send fr s br = Inr br'" "P fr" shows "sends_only P br br'"
proof -
  obtain q where "put_nowait (Some fr) (c_downstream (br_conn (bs_conn s) br)) = Some q"
    "br' = set_conn (bs_conn s) ((br_conn (bs_conn s) br)\<lparr>c_downstream := q\<rparr>) br"
    using assms(1) by (auto simp: session_send_def send_def split: if_splits sum.splits option.splits)
  then have "\<exists>fs. q_items (c_downstream (br_conn i br')) = q_items (c_downstream (br_conn i br)) @ map Some fs
      \<and> (\<forall>f \<in> set fs. P f)" for i
    using assms(2)
    by (cases "i = bs_conn s \<and> bs_conn s < length (r_heap (br_registry br))")
       (auto simp: br_conn_set put_nowait_def intro: exI [of _ "[fr]"] exI [of _ "[]"] split: if_splits)
  then show ?thesis unfolding sends_only_def by blast
qed

lemma sends_only_release: "sends_only P br (snd (session_release s br))"
  by (rule sends_only_same)
    (auto simp: session_release_def br_conn_set close_terminal_def Let_def)

lemma sends_only_close:
  assumes "\<And>tid. P (new_frame fid stamp (P_terminal_close tid))"
  shows "sends_only P br (persistent_close fid stamp i br)"
proof (cases "pt_closed (br_terminal i br)")
  case True
  then show ?thesis by (simp add: persistent_close_def sends_only_same)
next
  case False
  define p where "p = br_terminal i br"
  define br1 where "br1 = (case pt_subscriber p of None \<Rightarrow> br | Some q \<Rightarrow> offer q None br)"
  obtain s br2 where closed: "session_close fid stamp (pt_session p) br1 = (s, br2)" by fastforce
  have "sends_only P br br1"
    unfolding br1_def by (rule sends_only_same) (simp split: option.split)
  moreover have "sends_only P br1 br2"
  proof (cases "bs_closed (pt_session p)")
    case True
    with closed show ?thesis by (simp add: session_close_def sends_only_same)
  next
    case open_session: False
    let ?fr = "new_frame fid stamp (P_terminal_close (bs_terminal_id (pt_session p)))"
    define br3 where "br3 = (case session_send ?fr (pt_session p) br1 of Inl e \<Rightarrow> br1 | Inr b \<Rightarrow> b)"
    have "sends_only P br1 br3"
      using sends_only_send [of ?fr "pt_session p" br1] assms
      by (auto simp: br3_def sends_only_same split: sum.splits)
    moreover have "br2 = snd (session_release (pt_session p) br3)"
      using closed open_session by (simp add: session_close_def br3_def)
    ultimately show ?thesis using sends_only_release sends_only_trans by metis
  qed
  moreover have "persistent_close fid stamp i br
      = set_terminal i (p\<lparr>pt_closed := True, pt_subscriber := None, pt_session := s\<rparr>) br2"
    using False closed by (simp add: persistent_close_def p_def br1_def Let_def)
  ultimately show ?thesis
    using sends_only_trans sends_only_same [of "set_terminal i _ br2" br2] by (metis br_conn_other(1))
qed

lemma bridge_of_with [simp]: "bridge_of (with_bridge br gw) = br" "agents_of (with_bridge br gw) = br_agents br"
  by (simp_all add: bridge_of_def with_bridge_def agents_of_def)

lemma bridge_of_agents [simp]:
  "br_conn i (bridge_of (with_agents ar gw)) = br_conn i (bridge_of gw)"
  "br_terminal i (bridge_of (with_agents ar gw)) = br_terminal i (bridge_of gw)"
  "agents_of (with_agents ar gw) = ar" "br_agents (bridge_of gw) = agents_of gw"
  by (simp_all add: bridge_of_def with_agents_def br_conn_def br_terminal_def agents_of_def)

subsection \<open>Properties\<close>

text \<open>A keystroke for a node.\<close>

definition keystroke :: "frame \<Rightarrow> bool" where
  "keystroke f \<longleftrightarrow> (\<exists>tid xs. f_payload f = P_terminal_input tid xs)"

text \<open>C13: While an agent's command owns a terminal, no frame a browser may send puts a keystroke on
  the stream of any node, nor changes the command; otherwise a data frame that goes through puts
  exactly its decoded bytes behind what is queued for the terminal's node.\<close>

theorem running_command_owns_the_input:
  assumes "browser_frame loads fid stamp now raw b gw = (res, gw')" "bw_agent b = Some a"
  shows "(input_locked (agent_at a gw) \<longrightarrow>
        sends_only (\<lambda>f. \<not> keystroke f) (bridge_of gw) (bridge_of gw') \<and> agent_at a gw' = agent_at a gw)
     \<and> (\<not> input_locked (agent_at a gw) \<and> loads raw = Some (J_obj d) \<and> obj_get d ''type'' = J_str ''data''
        \<and> decoded_body (obj_get d ''data'') = Some bs \<and> bs \<noteq> [] \<and> res = In_more
        \<and> bs_conn s < length (r_heap (br_registry (bridge_of gw)))
        \<and> s = pt_session (br_terminal (bw_terminal b) (bridge_of gw)) \<longrightarrow>
        q_items (c_downstream (br_conn (bs_conn s) (bridge_of gw')))
          = q_items (c_downstream (br_conn (bs_conn s) (bridge_of gw)))
            @ [Some (new_frame fid stamp (P_terminal_input (bs_terminal_id s) (map char_of_byte bs)))])"
proof -
  have agents: "agent_at a (with_bridge br gw) = agent_at a gw" if "br_agents br = agents_of gw" for br
    using that by (simp add: agent_at_def)
  have same: "sends_only P (bridge_of gw) (bridge_of gw)" for P by (rule sends_only_same) simp
  have resized: "sends_only (\<lambda>f. \<not> keystroke f) (bridge_of gw) br \<and> br_agents br = agents_of gw"
    if "persistent_resize fid stamp rows cols i (bridge_of gw) = Inr br" for rows cols i br
    using that sends_only_send [where P = "\<lambda>f. \<not> keystroke f"] send_parts same
    by (auto simp: persistent_resize_def session_resize_def keystroke_def new_frame_def split: if_splits)
  have resize: "sends_only (\<lambda>f. \<not> keystroke f) (bridge_of gw) (bridge_of gw1) \<and> agent_at a gw1 = agent_at a gw"
    if "browser_resize loads fid stamp v b gw = (r, gw1)" for v r gw1
    using that resized agents same
    by (auto simp: browser_resize_def split: json.splits option.splits sum.splits)
  have close: "sends_only (\<lambda>f. \<not> keystroke f) (bridge_of gw) (persistent_close fid stamp i (bridge_of gw))" for i
    by (rule sends_only_close) (simp add: keystroke_def new_frame_def)
  have locked: "sends_only (\<lambda>f. \<not> keystroke f) (bridge_of gw) (bridge_of gw') \<and> agent_at a gw' = agent_at a gw"
    if "input_locked (agent_at a gw)"
  proof (cases "loads raw")
    case None
    with assms(1) same show ?thesis by (simp add: browser_frame_def)
  next
    case (Some v)
    show ?thesis
    proof (cases "\<exists>d. v = J_obj d")
      case True
      then obtain d where v: "loads raw = Some (J_obj d)" using Some by blast
      let ?kind = "obj_get d ''type''"
      consider "?kind = J_str ''data''" | "?kind = J_str ''resize''" | "?kind = J_str ''close''"
        | "?kind \<noteq> J_str ''data''" "?kind \<noteq> J_str ''resize''" "?kind \<noteq> J_str ''close''" by blast
      then show ?thesis
      proof cases
        case 1
        with v assms that have "gw' = gw" by (simp add: browser_frame_def browser_data_def)
        with same show ?thesis by simp
      next
        case 2
        with v assms(1) have "browser_resize loads fid stamp (obj_get d ''data'') b gw = (res, gw')"
          by (simp add: browser_frame_def)
        then show ?thesis by (rule resize)
      next
        case 3
        with v assms(1) have "gw' = with_bridge (persistent_close fid stamp (bw_terminal b) (bridge_of gw)) gw"
          by (simp add: browser_frame_def)
        with close agents show ?thesis by simp
      next
        case 4
        with v assms(1) have "gw' = gw" by (simp add: browser_frame_def)
        with same show ?thesis by simp
      qed
    next
      case False
      with Some assms(1) have "gw' = gw" by (cases v) (simp_all add: browser_frame_def)
      with same show ?thesis by simp
    qed
  qed
  have typed: "q_items (c_downstream (br_conn (bs_conn s) (bridge_of gw')))
      = q_items (c_downstream (br_conn (bs_conn s) (bridge_of gw)))
        @ [Some (new_frame fid stamp (P_terminal_input (bs_terminal_id s) (map char_of_byte bs)))]"
    if "\<not> input_locked (agent_at a gw)" "loads raw = Some (J_obj d)" "obj_get d ''type'' = J_str ''data''"
      "decoded_body (obj_get d ''data'') = Some bs" "bs \<noteq> []" "res = In_more"
      "bs_conn s < length (r_heap (br_registry (bridge_of gw)))"
      "s = pt_session (br_terminal (bw_terminal b) (bridge_of gw))"
  proof -
    have data: "browser_data fid stamp now (obj_get d ''data'') b gw = (res, gw')"
      using assms(1) that(2,3) by (simp add: browser_frame_def)
    obtain e br where input: "persistent_input fid stamp now (map char_of_byte bs) (bw_terminal b) (bridge_of gw) = (e, br)"
      by fastforce
    have e: "e = None" and gw': "gw' = with_bridge br gw"
      using data input that(1,4,6) assms(2) by (auto simp: browser_data_def split: option.splits)
    let ?br1 = "set_terminal (bw_terminal b) ((br_terminal (bw_terminal b) (bridge_of gw))\<lparr>pt_last_activity := now\<rparr>) (bridge_of gw)"
    have "session_send (new_frame fid stamp (P_terminal_input (bs_terminal_id s) (map char_of_byte bs))) s ?br1 = Inr br"
      using input e that(5,8) by (auto simp: persistent_input_def shell_input_def Let_def split: sum.splits)
    moreover have "length (r_heap (br_registry ?br1)) = length (r_heap (br_registry (bridge_of gw)))"
      by (simp add: set_terminal_def)
    ultimately show ?thesis
      using that(7) gw'
      by (auto simp: session_send_def send_def put_nowait_def br_conn_set split: if_splits sum.splits option.splits)
  qed
  from locked typed show ?thesis by blast
qed


text \<open>A watched terminal \<open>t\<close> of node \<open>n\<close> in which an agent's command runs, and its browser.\<close>

definition sample_session :: bridge_session where
  "sample_session = \<lparr>bs_terminal_id = ''t'', bs_conn = 0, bs_queue = 0, bs_closed = False, bs_last_sequence = 0\<rparr>"

definition sample_gateway :: gateway where
  "sample_gateway = \<lparr>gw_service = sample_service, gw_bridge = sample_bridge\<lparr>br_queues := [new_queue 256],
     br_terminals := [(new_persistent 0 0 ''n1'' ''n1'' ''op'' sample_session)\<lparr>pt_subscriber := Some 0, pt_detached_since := None\<rparr>],
     br_hosts := [((''n1'', ''t''), 0)],
     br_agents := \<lparr>ar_objects = [(new_terminal ''n1'' ''t'' 0 ''posix'')\<lparr>at_locked := True,
         at_collector := Some (new_collector ''M'' 1024), at_sink := Some 5\<rparr>],
       ar_entries = [((''n1'', ''t''), 0)]\<rparr>\<rparr>\<rparr>"

definition sample_browser :: browser where
  "sample_browser = \<lparr>bw_terminal = 0, bw_queue = 0, bw_sink = 5, bw_key = Some (''n1'', ''t''), bw_agent = Some 0\<rparr>"

lemma sample_gateway_facts [simp]:
  "agents_of sample_gateway = \<lparr>ar_objects = [(new_terminal ''n1'' ''t'' 0 ''posix'')\<lparr>at_locked := True,
         at_collector := Some (new_collector ''M'' 1024), at_sink := Some 5\<rparr>],
       ar_entries = [((''n1'', ''t''), 0)]\<rparr>"
  "agent_at 0 sample_gateway = (new_terminal ''n1'' ''t'' 0 ''posix'')\<lparr>at_locked := True,
         at_collector := Some (new_collector ''M'' 1024), at_sink := Some 5\<rparr>"
  "br_terminals (bridge_of sample_gateway) = [(new_persistent 0 0 ''n1'' ''n1'' ''op'' sample_session)
     \<lparr>pt_subscriber := Some 0, pt_detached_since := None\<rparr>]"
  "br_terminal 0 (bridge_of sample_gateway) = (new_persistent 0 0 ''n1'' ''n1'' ''op'' sample_session)
     \<lparr>pt_subscriber := Some 0, pt_detached_since := None\<rparr>"
  by (simp_all add: sample_gateway_def agents_of_def agent_at_def bridge_of_def br_terminal_def)

lemma running_command_owns_the_input_witness:
  "\<exists>gw'. browser_frame (\<lambda>_. Some (J_obj [(''type'', J_str ''close'')])) ''f'' ''s'' 0 ''x'' sample_browser sample_gateway = (In_over, gw')
     \<and> sends_only (\<lambda>f. \<not> keystroke f) (bridge_of sample_gateway) (bridge_of gw')
     \<and> agent_at 0 gw' = agent_at 0 sample_gateway"
proof -
  obtain gw' where frame: "browser_frame (\<lambda>_. Some (J_obj [(''type'', J_str ''close'')])) ''f'' ''s'' 0 ''x'' sample_browser sample_gateway
      = (In_over, gw')" by (simp add: browser_frame_def obj_get_def)
  have "bw_agent sample_browser = Some 0" "input_locked (agent_at 0 sample_gateway)"
    by (simp_all add: sample_browser_def input_locked_def)
  with running_command_owns_the_input [OF frame, of 0] frame show ?thesis by blast
qed


subsection \<open>Output while nobody watches\<close>

text \<open>
  The pump of a terminal never feeds the collector of an agent's command: only the output loop of an
  attached browser does. While a terminal is detached the marker of its command is never seen.
\<close>

lemma pump_end_agents: "br_agents (pump_end i br) = br_agents br"
  by (simp add: pump_end_def Let_def split: option.split)

lemma push_chunk_agents: "br_agents (push_chunk now chunk i br) = br_agents br"
  by (simp add: push_chunk_def unsubscribe_def Let_def split: option.split)

lemma pump_never_feeds:
  assumes "pump_step now i br = Some br'" shows "br_agents br' = br_agents br"
proof -
  have item: "br_agents (pump_item now it i br0) = br_agents br0" for it br0
  proof (cases it)
    case None
    then show ?thesis by (simp add: pump_item_def pump_end_agents)
  next
    case (Some f)
    show ?thesis
    proof (cases f)
      case (Term_output tid chunk seq truncated)
      with Some show ?thesis by (simp add: pump_item_def pump_output_def push_chunk_agents Let_def)
    next
      case (Term_exit tid code err)
      obtain s br1 where rel: "session_release (pt_session (br_terminal i br0)) br0 = (s, br1)" by fastforce
      with Some Term_exit release_parts [OF rel] show ?thesis by (simp add: pump_item_def pump_end_agents Let_def)
    qed
  qed
  obtain it c where "br' = pump_item now it i (set_conn (bs_conn (pt_session (br_terminal i br))) c br)"
    using assms unfolding pump_step_def Let_def by (fastforce split: if_splits option.splits)
  then show ?thesis using item by simp
qed


definition sample_terminal_ledger :: ledger where
  "sample_terminal_ledger = \<lparr>nodes = [(''n1'', sample_node_row\<lparr>n_status := NODE_STATUS_APPROVED, n_role := NODE_ROLE_EXECUTION,
     n_capabilities := [(''terminal'', ''true'')]\<rparr>)], sessions = [], lookup_config = None\<rparr>"

definition plain_query :: ws_query where
  "plain_query = \<lparr>q_rows = None, q_cols = None, q_terminal = None, q_owner = None, q_env = None\<rparr>"


end
