(* ===== verification/Follow_Streams.thy ===== *)
theory Follow_Streams
  imports Upstream_Reader Service_Commands Tunnels
begin

text \<open>
  The server streams a client follows a session or a tool run with: stream_follow.py and
  stream_follow_toolrun.py in Connect framing, stream_follow_json.py the same two as NDJSON, and the
  tool-run inventory of toolrun_inventory.py.

  A handler is its start, up to the loop, and the turns of the loop: one turn per wait on the event
  queue and the watcher of the client. The ASGI messages handed to \<open>send\<close> are the result. \<open>parse\<close>
  is the generated parser of a request, \<open>emit\<close> the bytes of one event (\<open>None\<close> is the exception its
  encoding raises), \<open>line\<close> one NDJSON line (\<open>None\<close>: a lone surrogate cannot be encoded), \<open>say\<close> the
  text of an exception.
\<close>

subsection \<open>ASGI messages and errors\<close>

datatype asgi_send =
    Send_start nat "(string \<times> string) list"
  | Send_body bytes bool                       \<comment> \<open>body, more_body\<close>

definition CONTENT_TYPE :: string where "CONTENT_TYPE = ''application/connect+proto''"
definition FOLLOW_BUFFER :: nat where "FOLLOW_BUFFER = 256"

definition ASGI_OK_HEADERS :: "(string \<times> string) list" where
  "ASGI_OK_HEADERS = [(''content-type'', CONTENT_TYPE), (''connect-content-encoding'', ''identity'')]"

definition NDJSON_HEADERS :: "(string \<times> string) list" where
  "NDJSON_HEADERS = [(''content-type'', ''application/x-ndjson'')]"

definition code_name :: "rpc_code \<Rightarrow> string" where
  "code_name c = (case c of
     CANCELED \<Rightarrow> ''canceled'' | UNKNOWN \<Rightarrow> ''unknown'' | INVALID_ARGUMENT \<Rightarrow> ''invalid_argument''
   | DEADLINE_EXCEEDED \<Rightarrow> ''deadline_exceeded'' | NOT_FOUND \<Rightarrow> ''not_found''
   | PERMISSION_DENIED \<Rightarrow> ''permission_denied'' | FAILED_PRECONDITION \<Rightarrow> ''failed_precondition''
   | UNAVAILABLE \<Rightarrow> ''unavailable'' | INTERNAL \<Rightarrow> ''internal'')"

text \<open>An RPCError as it is, any other exception as \<open>RPCError(INTERNAL, str(exc))\<close>.\<close>

definition stream_failure :: "(rpc_error \<Rightarrow> string) \<Rightarrow> rpc_error \<Rightarrow> stream_error" where
  "stream_failure say e = (case e of
     Rpc_error c (Text m) \<Rightarrow> \<lparr>err_code = code_name c, err_message = m\<rparr>
   | Rpc_error c m \<Rightarrow> \<lparr>err_code = code_name c, err_message = say e\<rparr>
   | Escaped x \<Rightarrow> \<lparr>err_code = code_name INTERNAL, err_message = say e\<rparr>)"

definition bad_request :: "string \<Rightarrow> stream_error" where
  "bad_request m = \<lparr>err_code = code_name INVALID_ARGUMENT, err_message = m\<rparr>"

text \<open>The two \<open>_end\<close>s. What raises in them is dropped.\<close>

definition proto_end :: "stream_error option \<Rightarrow> asgi_send list" where
  "proto_end err = (case encode_end_stream err of None \<Rightarrow> [] | Some b \<Rightarrow> [Send_body b False])"

definition error_object :: "stream_error \<Rightarrow> json" where
  "error_object e = J_obj [(''error'', J_obj [(''code'', J_str (err_code e)), (''message'', J_str (err_message e))])]"

definition send_line :: "(json \<Rightarrow> bytes option) \<Rightarrow> json \<Rightarrow> asgi_send list" where
  "send_line line v = (case line v of None \<Rightarrow> [] | Some b \<Rightarrow> [Send_body b True])"

definition json_end :: "(json \<Rightarrow> bytes option) \<Rightarrow> stream_error option \<Rightarrow> asgi_send list" where
  "json_end line err =
     (case err of None \<Rightarrow> [] | Some e \<Rightarrow> send_line line (error_object e)) @ [Send_body [] False]"

datatype 'a started =
    Start_waits "asgi_send list"
  | Start_raises
  | Start_refused "asgi_send list"
  | Start_follows "asgi_send list" 'a

subsection \<open>Following a session\<close>

record session_follower =
  sf_conn :: nat
  sf_session :: string
  sf_sink :: nat

definition new_sink :: output_sink where
  "new_sink = \<lparr>on_output = True, on_result = True, on_structured = True, sink_inbox = new_queue FOLLOW_BUFFER\<rparr>"

definition bind_follower :: "nat \<Rightarrow> string \<Rightarrow> service \<Rightarrow> session_follower \<times> service" where
  "bind_follower i session_id sv =
     (let (k, c) = bind_sink session_id new_sink (conn_at i sv)
      in (\<lparr>sf_conn = i, sf_session = session_id, sf_sink = k\<rparr>, put_conn i c sv))"

definition follow_resolved ::
  "(rpc_error \<Rightarrow> string) \<Rightarrow> asgi_send \<Rightarrow> (stream_error option \<Rightarrow> asgi_send list) \<Rightarrow> string \<Rightarrow> service \<Rightarrow>
   session_follower started \<times> service" where
  "follow_resolved say hello finish session_id sv = (case resolve_follow session_id sv of
     Inl e \<Rightarrow> (Start_refused (hello # finish (Some (stream_failure say e))), sv)
   | Inr (i, sid) \<Rightarrow> (let (f, sv1) = bind_follower i sid sv in (Start_follows [hello] f, sv1)))"

definition follow_node_session ::
  "(bytes \<Rightarrow> string option) \<Rightarrow> string \<Rightarrow> (rpc_error \<Rightarrow> string) \<Rightarrow> asgi_event list \<Rightarrow> service \<Rightarrow>
   session_follower started \<times> service" where
  "follow_node_session parse undecodable say events sv =
     (let hello = Send_start 200 ASGI_OK_HEADERS in
      case read_first_request parse events of
        Read_blocked \<Rightarrow> (Start_waits [hello], sv)
      | Read_eof \<Rightarrow> (Start_refused (hello # proto_end (Some
            (bad_request ''follow node session: stream closed before request''))), sv)
      | Read_error \<Rightarrow> (Start_refused (hello # proto_end (Some
            \<lparr>err_code = code_name INTERNAL, err_message = undecodable\<rparr>)), sv)
      | Read_msg session_id \<Rightarrow> follow_resolved say hello proto_end session_id sv)"

datatype turn =
    Turn_waits
  | Turn_goes_on "asgi_send list"
  | Turn_ends "asgi_send list"

fun is_result :: "session_event \<Rightarrow> bool" where
  "is_result (Ev_result r) = True"
| "is_result _ = False"

text \<open>The watcher of the client's half of the stream, over what has arrived on it.\<close>

fun watch_disconnect :: "asgi_event list \<Rightarrow> bool" where
  "watch_disconnect [] = False"
| "watch_disconnect (Http_disconnect # es) = True"
| "watch_disconnect (_ # es) = watch_disconnect es"

text \<open>
  A queued event comes before the client's leaving. \<open>accepted\<close>: the \<open>send\<close> of the event returned.
  Whatever ends the loop, the \<open>finally\<close> block unbinds and ends the response.
\<close>

definition leave_session :: "session_follower \<Rightarrow> service \<Rightarrow> service" where
  "leave_session f sv = put_conn (sf_conn f) (unbind_sink (sf_session f) (conn_at (sf_conn f) sv)) sv"

definition session_inbox :: "session_follower \<Rightarrow> service \<Rightarrow> session_event queue" where
  "session_inbox f sv = sink_inbox (objs (c_sinks (conn_at (sf_conn f) sv)) ! sf_sink f)"

definition set_inbox :: "session_event queue \<Rightarrow> session_follower \<Rightarrow> service \<Rightarrow> service" where
  "set_inbox q f sv = (let c = conn_at (sf_conn f) sv in
     put_conn (sf_conn f) (c\<lparr>c_sinks := tab_update (sf_sink f) (\<lambda>s. s\<lparr>sink_inbox := q\<rparr>) (c_sinks c)\<rparr>) sv)"

definition session_turn ::
  "(session_event \<Rightarrow> bytes option) \<Rightarrow> asgi_send list \<Rightarrow> bool \<Rightarrow> bool \<Rightarrow> session_follower \<Rightarrow> service \<Rightarrow>
   turn \<times> service" where
  "session_turn emit finish accepted gone f sv = (case get_nowait (session_inbox f sv) of
     None \<Rightarrow> if gone then (Turn_ends finish, leave_session f sv) else (Turn_waits, sv)
   | Some (e, q) \<Rightarrow>
       let sv1 = set_inbox q f sv in
       (case emit e of
          None \<Rightarrow> (Turn_ends finish, leave_session f sv1)
        | Some b \<Rightarrow>
            if \<not> accepted then (Turn_ends finish, leave_session f sv1)
            else if is_result e then (Turn_ends (Send_body b True # finish), leave_session f sv1)
            else (Turn_goes_on [Send_body b True], sv1)))"

definition proto_session_turn ::
  "(session_event \<Rightarrow> bytes) \<Rightarrow> bool \<Rightarrow> asgi_event list \<Rightarrow> session_follower \<Rightarrow> service \<Rightarrow> turn \<times> service" where
  "proto_session_turn serialize accepted events =
     session_turn (encode_message serialize) (proto_end None) accepted (watch_disconnect events)"

subsection \<open>Following a tool run\<close>

record tool_follower =
  tf_conn :: nat
  tf_queue :: nat
  tf_node :: string
  tf_run :: string

definition TOOL_RUN_STDOUT :: int where "TOOL_RUN_STDOUT = 1"
definition TOOL_RUN_STDERR :: int where "TOOL_RUN_STDERR = 2"
definition TOOL_RUN_EXITED :: int where "TOOL_RUN_EXITED = 3"
definition TOOL_RUN_STARTED :: int where "TOOL_RUN_STARTED = 4"

definition tool_run_opened ::
  "(rpc_error \<Rightarrow> string) \<Rightarrow> asgi_send \<Rightarrow> (stream_error option \<Rightarrow> asgi_send list) \<Rightarrow> string \<Rightarrow> string \<Rightarrow> string \<Rightarrow>
   service \<Rightarrow> tool_follower started \<times> service" where
  "tool_run_opened say hello finish blank node_id run_id sv =
     (if node_id = [] \<or> run_id = []
      then (Start_refused (hello # finish (Some (bad_request blank))), sv)
      else (case open_tool_run_rpc node_id run_id sv of
        (Inl e, sv1) \<Rightarrow> (Start_refused (hello # finish (Some (stream_failure say e))), sv1)
      | (Inr (i, q), sv1) \<Rightarrow>
          (Start_follows [hello] \<lparr>tf_conn = i, tf_queue = q, tf_node = node_id, tf_run = run_id\<rparr>, sv1)))"

text \<open>The request is its node and run ids.\<close>

definition follow_tool_run ::
  "(bytes \<Rightarrow> (string \<times> string) option) \<Rightarrow> string \<Rightarrow> (rpc_error \<Rightarrow> string) \<Rightarrow> asgi_event list \<Rightarrow> service \<Rightarrow>
   tool_follower started \<times> service" where
  "follow_tool_run parse undecodable say events sv =
     (let hello = Send_start 200 ASGI_OK_HEADERS in
      case read_first_request parse events of
        Read_blocked \<Rightarrow> (Start_waits [hello], sv)
      | Read_eof \<Rightarrow> (Start_refused (hello # proto_end (Some
            (bad_request ''follow tool run: stream closed before request''))), sv)
      | Read_error \<Rightarrow> (Start_refused (hello # proto_end (Some
            \<lparr>err_code = code_name INTERNAL, err_message = undecodable\<rparr>)), sv)
      | Read_msg (node_id, run_id) \<Rightarrow>
          tool_run_opened say hello proto_end ''node_id and run_id are required''
            (strip node_id) (strip run_id) sv)"

definition leave_tool_run :: "tool_follower \<Rightarrow> service \<Rightarrow> service" where
  "leave_tool_run f sv = close_tool_run_rpc (tf_node f) (tf_run f) sv"

definition tool_queue :: "tool_follower \<Rightarrow> service \<Rightarrow> tool_run_event option queue" where
  "tool_queue f sv = objs (c_tool_runs (conn_at (tf_conn f) sv)) ! tf_queue f"

definition set_tool_queue :: "tool_run_event option queue \<Rightarrow> tool_follower \<Rightarrow> service \<Rightarrow> service" where
  "set_tool_queue q f sv = (let c = conn_at (tf_conn f) sv in
     put_conn (tf_conn f) (c\<lparr>c_tool_runs := tab_update (tf_queue f) (\<lambda>_. q) (c_tool_runs c)\<rparr>) sv)"

text \<open>A queued \<open>None\<close> is the sentinel of a connection that was closed.\<close>

definition tool_turn ::
  "(tool_run_event \<Rightarrow> bytes option) \<Rightarrow> asgi_send list \<Rightarrow> bool \<Rightarrow> bool \<Rightarrow> tool_follower \<Rightarrow> service \<Rightarrow>
   turn \<times> service" where
  "tool_turn emit finish accepted gone f sv = (case get_nowait (tool_queue f sv) of
     None \<Rightarrow> if gone then (Turn_ends finish, leave_tool_run f sv) else (Turn_waits, sv)
   | Some (None, q) \<Rightarrow> (Turn_ends finish, leave_tool_run f (set_tool_queue q f sv))
   | Some (Some e, q) \<Rightarrow>
       let sv1 = set_tool_queue q f sv in
       (case emit e of
          None \<Rightarrow> (Turn_ends finish, leave_tool_run f sv1)
        | Some b \<Rightarrow>
            if \<not> accepted then (Turn_ends finish, leave_tool_run f sv1)
            else if te_kind e = TOOL_RUN_EXITED
            then (Turn_ends (Send_body b True # finish), leave_tool_run f sv1)
            else (Turn_goes_on [Send_body b True], sv1)))"

definition proto_tool_turn ::
  "(tool_run_event \<Rightarrow> bytes) \<Rightarrow> bool \<Rightarrow> asgi_event list \<Rightarrow> tool_follower \<Rightarrow> service \<Rightarrow> turn \<times> service" where
  "proto_tool_turn serialize accepted events =
     tool_turn (encode_message serialize) (proto_end None) accepted (watch_disconnect events)"

definition node_tool_runs :: "string \<Rightarrow> service \<Rightarrow> active_tool_run list" where
  "node_tool_runs node_id sv = (case sv_lookup (strip node_id) sv of
     None \<Rightarrow> []
   | Some i \<Rightarrow> if c_closed (conn_at i sv) then [] else active_tool_runs (conn_at i sv))"

subsection \<open>Passing a stream through\<close>

text \<open>
  The two \<open>proxy_follow\<close> handlers. \<open>post\<close> is the HTTP client, of URL, headers and body: \<open>None\<close> when
  it raises before an answer, else the answer and whether its body broke off; a ClientError and a
  cancellation are logged and swallowed.
\<close>

record http_scope =
  scope_method :: string
  scope_headers :: "(string \<times> string) list"

record relayed =
  rl_status :: nat
  rl_headers :: "(string \<times> string) list"
  rl_chunks :: "bytes list"
  rl_broken :: bool

datatype body_read = Body_waits | Body_gone | Body_read bytes

fun collect_body :: "bytes \<Rightarrow> asgi_event list \<Rightarrow> body_read" where
  "collect_body acc [] = Body_waits"
| "collect_body acc (Http_disconnect # es) = Body_gone"
| "collect_body acc (Other_event # es) = collect_body acc es"
| "collect_body acc (Http_request b more_body # es) =
     (if more_body then collect_body (acc @ b) es else Body_read (acc @ b))"

definition relay_answer :: "relayed \<Rightarrow> asgi_send list" where
  "relay_answer r = Send_start (rl_status r)
       (filter (\<lambda>(k, v). k \<notin> {''content-length'', ''transfer-encoding'', ''connection''})
         (map (\<lambda>(k, v). (lower k, v)) (rl_headers r)))
     # map (\<lambda>c. Send_body c True) (rl_chunks r)
     @ (if rl_broken r then [] else [Send_body [] False])"

definition proxy_relay ::
  "(string \<Rightarrow> (string \<times> string) list \<Rightarrow> bytes \<Rightarrow> relayed option) \<Rightarrow> string \<Rightarrow> string \<Rightarrow> string \<Rightarrow> bytes \<Rightarrow>
   asgi_send list" where
  "proxy_relay post base_url token method body =
     (case post (rstrip_char (CHR ''/'') base_url @ ''/agentcompose.v2.NodeService/'' @ method)
             [(''Content-Type'', ''application/connect+proto''), (''Connect-Protocol-Version'', ''1''),
              (''Authorization'', ''Bearer '' @ token)] body of
        None \<Rightarrow> []
      | Some r \<Rightarrow> relay_answer r)"

text \<open>The messages so far; both handlers of an http scope, told apart by the method they call.\<close>

definition proxy_follow ::
  "(string \<Rightarrow> (string \<times> string) list \<Rightarrow> bytes \<Rightarrow> relayed option) \<Rightarrow> string \<Rightarrow> string \<Rightarrow>
   string \<Rightarrow> http_scope \<Rightarrow> asgi_event list \<Rightarrow> asgi_send list" where
  "proxy_follow post method base_url token scope events =
     (if strip base_url = [] \<or> strip token = []
      then [Send_start 503 [], Send_body (utf8_encode ''control plane unavailable'') False]
      else if scope_method scope \<noteq> ''POST'' then [Send_start 405 [], Send_body [] False]
      else case collect_body [] events of
        Body_read body \<Rightarrow> proxy_relay post base_url token method body
      | _ \<Rightarrow> [])"

definition proxy_follow_session ::
  "(string \<Rightarrow> (string \<times> string) list \<Rightarrow> bytes \<Rightarrow> relayed option) \<Rightarrow> string \<Rightarrow> string \<Rightarrow> http_scope \<Rightarrow>
   asgi_event list \<Rightarrow> asgi_send list" where
  "proxy_follow_session post = proxy_follow post ''FollowNodeSession''"

definition proxy_follow_toolrun ::
  "(string \<Rightarrow> (string \<times> string) list \<Rightarrow> bytes \<Rightarrow> relayed option) \<Rightarrow> string \<Rightarrow> string \<Rightarrow> http_scope \<Rightarrow>
   asgi_event list \<Rightarrow> asgi_send list" where
  "proxy_follow_toolrun post = proxy_follow post ''FollowToolRun''"

subsection \<open>NDJSON\<close>

text \<open>
  \<open>decode\<close> is UTF-8 with replacement, \<open>loads\<close> the JSON parser. An event of a sink always has one of
  its three fields set, so the projection of a session event always exists.
\<close>

definition structured_payload :: "(string \<Rightarrow> json option) \<Rightarrow> string \<Rightarrow> json" where
  "structured_payload loads payload_json =
     (if payload_json = [] then J_null
      else case loads payload_json of
        None \<Rightarrow> J_obj [(''raw'', J_str payload_json)]
      | Some v \<Rightarrow> v)"

fun session_event_to_dict :: "(bytes \<Rightarrow> string) \<Rightarrow> (string \<Rightarrow> json option) \<Rightarrow> session_event \<Rightarrow> json" where
  "session_event_to_dict decode loads (Ev_output out) = J_obj
     [(''kind'', J_str ''output''),
      (''session_id'', J_str (so_session_id out)),
      (''stream'', J_str (if so_stream out = STDIO_STREAM_STDERR then ''stderr'' else ''stdout'')),
      (''offset'', J_int (so_offset out)),
      (''text'', J_str (decode (so_data out))),
      (''created_at'', J_str (so_created_at out))]"
| "session_event_to_dict decode loads (Ev_structured item) = J_obj
     [(''kind'', J_str ''structured''),
      (''session_id'', J_str (ss_session_id item)),
      (''seq'', J_int (ss_seq item)),
      (''event_type'', J_str (ss_event_type item)),
      (''item_type'', J_str (ss_item_type item)),
      (''agent_id'', J_str (ss_agent_id item)),
      (''logical_event_id'', J_str (ss_logical_event_id item)),
      (''event_name'', J_str (ss_event_name item)),
      (''event_kind'', J_str (ss_event_kind item)),
      (''tool_name'', J_str (ss_tool_name item)),
      (''subagent_id'', J_str (ss_subagent_id item)),
      (''phase'', J_str (ss_phase item)),
      (''status'', J_str (ss_status item)),
      (''payload'', structured_payload loads (ss_payload_json item)),
      (''created_at'', J_str (ss_created_at item))]"
| "session_event_to_dict decode loads (Ev_result res) = J_obj
     [(''kind'', J_str ''result''),
      (''session_id'', J_str (sr_session_id res)),
      (''exit_code'', J_int (sr_exit_code res)),
      (''success'', J_bool (sr_success res)),
      (''error'', J_str (sr_error res))]"

definition kind_tool_run :: "int \<Rightarrow> string" where
  "kind_tool_run k =
     (if k = TOOL_RUN_STDOUT then ''stdout'' else if k = TOOL_RUN_STDERR then ''stderr''
      else if k = TOOL_RUN_EXITED then ''exited'' else if k = TOOL_RUN_STARTED then ''started''
      else ''unknown'')"

definition tool_run_event_to_dict :: "tool_run_event \<Rightarrow> json" where
  "tool_run_event_to_dict evt = J_obj
     [(''kind'', J_str (kind_tool_run (te_kind evt))),
      (''data'', J_str (b64encode (te_data evt))),
      (''exit_code'', J_int (te_exit_code evt)),
      (''error'', J_str (te_error evt)),
      (''revision'', J_int (te_revision evt)),
      (''pid'', J_int (te_pid evt))]"

text \<open>\<open>_bearer_ok\<close>; \<open>None\<close> is the TypeError of \<open>compare_digest\<close>. A header without the scheme is passed over.\<close>

fun bearer_headers :: "string \<Rightarrow> (string \<times> string) list \<Rightarrow> bool option" where
  "bearer_headers expected [] = Some False"
| "bearer_headers expected ((key, header) # hs) =
     (if lower key \<noteq> ''authorization'' then bearer_headers expected hs
      else if prefix ''Bearer '' header then compare_digest (strip (drop 7 header)) expected
      else bearer_headers expected hs)"

definition bearer_ok :: "(string \<times> string) list \<Rightarrow> string \<Rightarrow> bool option" where
  "bearer_ok headers api_token = (let expected = strip api_token in
     if expected = [] then Some True else bearer_headers expected headers)"

text \<open>\<open>_read_json_body\<close>; \<open>parse\<close> is decoding and \<open>json.loads\<close> of the whole body.\<close>

datatype json_body = Json_waits | Json_bad | Json_object "(string \<times> json) list"

definition read_json_body :: "(bytes \<Rightarrow> json option) \<Rightarrow> asgi_event list \<Rightarrow> json_body" where
  "read_json_body parse events = (case collect_body [] events of
     Body_waits \<Rightarrow> Json_waits
   | Body_gone \<Rightarrow> Json_bad
   | Body_read body \<Rightarrow>
       if body = [] then Json_object []
       else (case parse body of Some (J_obj kvs) \<Rightarrow> Json_object kvs | _ \<Rightarrow> Json_bad))"

text \<open>Method and token; \<open>inner\<close> is the handler past them.\<close>

definition json_guard ::
  "string \<Rightarrow> http_scope \<Rightarrow> 'a started \<times> service \<Rightarrow> service \<Rightarrow> 'a started \<times> service" where
  "json_guard api_token scope inner sv =
     (if scope_method scope \<noteq> ''POST'' then (Start_refused [Send_start 405 [], Send_body [] False], sv)
      else case bearer_ok (scope_headers scope) api_token of
        None \<Rightarrow> (Start_raises, sv)
      | Some False \<Rightarrow> (Start_refused [Send_start 403 [], Send_body [] False], sv)
      | Some True \<Rightarrow> inner)"

definition body_text :: "(json \<Rightarrow> string) \<Rightarrow> (string \<times> json) list \<Rightarrow> string \<Rightarrow> string" where
  "body_text render payload k = strip (py_str render (or_json (obj_get payload k) (J_str [])))"

definition follow_node_session_json ::
  "(bytes \<Rightarrow> json option) \<Rightarrow> (json \<Rightarrow> string) \<Rightarrow> (json \<Rightarrow> bytes option) \<Rightarrow> (rpc_error \<Rightarrow> string) \<Rightarrow> string \<Rightarrow>
   http_scope \<Rightarrow> asgi_event list \<Rightarrow> service \<Rightarrow> session_follower started \<times> service" where
  "follow_node_session_json parse render line say api_token scope events sv =
     json_guard api_token scope
       (let hello = Send_start 200 NDJSON_HEADERS;
            refused = (\<lambda>m. (Start_refused (hello # json_end line (Some (bad_request m))), sv))
        in case read_json_body parse events of
             Json_waits \<Rightarrow> (Start_waits [hello], sv)
           | Json_bad \<Rightarrow> refused ''follow session: invalid JSON body''
           | Json_object payload \<Rightarrow>
               let session_id = body_text render payload ''sessionId'' in
               if session_id = [] then refused ''follow session: sessionId is required''
               else follow_resolved say hello (json_end line) session_id sv) sv"

definition follow_tool_run_json ::
  "(bytes \<Rightarrow> json option) \<Rightarrow> (json \<Rightarrow> string) \<Rightarrow> (json \<Rightarrow> bytes option) \<Rightarrow> (rpc_error \<Rightarrow> string) \<Rightarrow> string \<Rightarrow>
   http_scope \<Rightarrow> asgi_event list \<Rightarrow> service \<Rightarrow> tool_follower started \<times> service" where
  "follow_tool_run_json parse render line say api_token scope events sv =
     json_guard api_token scope
       (let hello = Send_start 200 NDJSON_HEADERS
        in case read_json_body parse events of
             Json_waits \<Rightarrow> (Start_waits [hello], sv)
           | Json_bad \<Rightarrow> (Start_refused (hello # json_end line (Some
                 (bad_request ''follow tool run: invalid JSON body''))), sv)
           | Json_object payload \<Rightarrow>
               tool_run_opened say hello (json_end line) ''nodeId and runId are required''
                 (body_text render payload ''nodeId'') (body_text render payload ''runId'') sv) sv"

definition json_session_turn ::
  "(bytes \<Rightarrow> string) \<Rightarrow> (string \<Rightarrow> json option) \<Rightarrow> (json \<Rightarrow> bytes option) \<Rightarrow> bool \<Rightarrow> asgi_event list \<Rightarrow>
   session_follower \<Rightarrow> service \<Rightarrow> turn \<times> service" where
  "json_session_turn decode loads line accepted events =
     session_turn (\<lambda>e. line (session_event_to_dict decode loads e)) (json_end line None) accepted
       (watch_disconnect events)"

definition json_tool_turn ::
  "(json \<Rightarrow> bytes option) \<Rightarrow> bool \<Rightarrow> asgi_event list \<Rightarrow> tool_follower \<Rightarrow> service \<Rightarrow> turn \<times> service" where
  "json_tool_turn line accepted events =
     tool_turn (\<lambda>e. line (tool_run_event_to_dict e)) (json_end line None) accepted (watch_disconnect events)"

end
