(* ===== verification/Follow_Safety.thy ===== *)
theory Follow_Safety
  imports Follow_Streams Service_Calls
begin

text \<open>
  What a follower of a session or of a tool run is shown, whatever arrives, leaves and closes while
  it follows, and what a lost node does to the two kinds of follower.
\<close>

subsection \<open>Events on their way to a follower\<close>

fun event_session :: "session_event \<Rightarrow> string" where
  "event_session (Ev_output out) = so_session_id out"
| "event_session (Ev_result res) = sr_session_id res"
| "event_session (Ev_structured item) = ss_session_id item"

fun deliver_event :: "session_event \<Rightarrow> 'f connection \<Rightarrow> 'f connection" where
  "deliver_event (Ev_output out) c = deliver_output (Some out) c"
| "deliver_event (Ev_result res) c = deliver_result (Some res) c"
| "deliver_event (Ev_structured item) c = deliver_structured (Some item) c"

fun wants :: "session_event \<Rightarrow> output_sink \<Rightarrow> bool" where
  "wants (Ev_output out) s = on_output s"
| "wants (Ev_result res) s = on_result s"
| "wants (Ev_structured item) s = on_structured s"

lemma note_stderr_sinks [simp]: "c_sinks (note_stderr k d c) = c_sinks c"
  by (simp add: note_stderr_def Let_def)

lemma deliver_event_sinks:
  "c_sinks (deliver_event e c) = (case dget (slots (c_sinks c)) (event_session e) of
     None \<Rightarrow> c_sinks c
   | Some i \<Rightarrow> tab_update i
       (\<lambda>s. if wants e s then s\<lparr>sink_inbox := put_or_drop e (sink_inbox s)\<rparr> else s) (c_sinks c))"
  by (cases e) (auto simp: deliver_output_def deliver_result_def deliver_structured_def sink_event_def
      Let_def split: option.split)

text \<open>
  One run of a follower: \<open>fl_arrived\<close> holds the session's events since it was bound, each with
  whether the queue had room for it. Anything else may happen to the service as long as it leaves
  the follower's own binding and sink alone.
\<close>

record follow_run =
  fl_service :: service
  fl_arrived :: "(session_event \<times> bool) list"
  fl_sent :: "asgi_send list"
  fl_over :: bool

definition conn_there :: "nat \<Rightarrow> service \<Rightarrow> bool" where
  "conn_there i sv = (i < length (r_heap (sv_registry sv)))"

definition sinks_of :: "session_follower \<Rightarrow> service \<Rightarrow> output_sink table" where
  "sinks_of f sv = c_sinks (conn_at (sf_conn f) sv)"

definition leaves_alone :: "session_follower \<Rightarrow> service \<Rightarrow> service \<Rightarrow> bool" where
  "leaves_alone f sv sv' \<longleftrightarrow> conn_there (sf_conn f) sv' \<and> table_ok (sinks_of f sv')
     \<and> dget (slots (sinks_of f sv')) (sf_session f) = dget (slots (sinks_of f sv)) (sf_session f)
     \<and> length (objs (sinks_of f sv)) \<le> length (objs (sinks_of f sv'))
     \<and> objs (sinks_of f sv') ! sf_sink f = objs (sinks_of f sv) ! sf_sink f"

fun turn_sends :: "turn \<Rightarrow> asgi_send list" where
  "turn_sends Turn_waits = []"
| "turn_sends (Turn_goes_on ms) = ms"
| "turn_sends (Turn_ends ms) = ms"

fun turn_over :: "turn \<Rightarrow> bool" where
  "turn_over (Turn_ends ms) = True"
| "turn_over _ = False"

inductive follow_step ::
  "(session_event \<Rightarrow> bytes option) \<Rightarrow> asgi_send list \<Rightarrow> session_follower \<Rightarrow> follow_run \<Rightarrow> follow_run \<Rightarrow> bool"
  for emit finish f where
  fl_event: "\<not> fl_over s \<Longrightarrow> follow_step emit finish f s
     (s\<lparr>fl_service := put_conn (sf_conn f) (deliver_event e (conn_at (sf_conn f) (fl_service s))) (fl_service s),
        fl_arrived := fl_arrived s @ (if event_session e = sf_session f
          then [(e, \<not> q_full (session_inbox f (fl_service s)))] else [])\<rparr>)"
| fl_turn: "\<not> fl_over s \<Longrightarrow> session_turn emit finish accepted gone f (fl_service s) = (t, sv) \<Longrightarrow>
     follow_step emit finish f s
       (s\<lparr>fl_service := sv, fl_sent := fl_sent s @ turn_sends t, fl_over := turn_over t\<rparr>)"
| fl_other: "\<not> fl_over s \<Longrightarrow> leaves_alone f (fl_service s) sv \<Longrightarrow>
     follow_step emit finish f s (s\<lparr>fl_service := sv\<rparr>)"

definition queued_events :: "(session_event \<times> bool) list \<Rightarrow> session_event list" where
  "queued_events arrived = map fst (filter snd arrived)"

definition shown :: "('e \<Rightarrow> bytes option) \<Rightarrow> 'e list \<Rightarrow> asgi_send list" where
  "shown emit evs = map (\<lambda>e. Send_body (the (emit e)) True) evs"

lemma shown_simps [simp]:
  "shown emit [] = []" "shown emit (e # es) = Send_body (the (emit e)) True # shown emit es"
  "shown emit (es @ es') = shown emit es @ shown emit es'"
  by (simp_all add: shown_def)

lemma queued_events_simps [simp]:
  "queued_events [] = []" "queued_events (a @ b) = queued_events a @ queued_events b"
  "queued_events [(e, room)] = (if room then [e] else [])"
  by (simp_all add: queued_events_def)

subsection \<open>The invariant of a session follower\<close>

definition bound_here :: "session_follower \<Rightarrow> service \<Rightarrow> bool" where
  "bound_here f sv \<longleftrightarrow> conn_there (sf_conn f) sv \<and> table_ok (sinks_of f sv)
     \<and> dget (slots (sinks_of f sv)) (sf_session f) = Some (sf_sink f)
     \<and> on_output (objs (sinks_of f sv) ! sf_sink f) \<and> on_result (objs (sinks_of f sv) ! sf_sink f)
     \<and> on_structured (objs (sinks_of f sv) ! sf_sink f)"

lemma bound_here_wants: "bound_here f sv \<Longrightarrow> wants e (objs (sinks_of f sv) ! sf_sink f)"
  by (cases e) (auto simp: bound_here_def)

lemma bound_here_lt: "bound_here f sv \<Longrightarrow> sf_sink f < length (objs (sinks_of f sv))"
  by (auto simp: bound_here_def intro: table_ok_lt)

lemma conn_there_put [simp]: "conn_there i (put_conn j c sv) = conn_there i sv"
  by (simp add: conn_there_def)

lemma sinks_put [simp]: "conn_there (sf_conn f) sv \<Longrightarrow> sinks_of f (put_conn (sf_conn f) c sv) = c_sinks c"
  by (simp add: sinks_of_def conn_there_def)

lemma inbox_of: "session_inbox f sv = sink_inbox (objs (sinks_of f sv) ! sf_sink f)"
  by (simp add: session_inbox_def sinks_of_def)

lemma event_keeps_bound:
  fixes e :: session_event
  assumes b: "bound_here f sv"
  defines "sv' \<equiv> put_conn (sf_conn f) (deliver_event e (conn_at (sf_conn f) sv)) sv"
  shows "bound_here f sv'"
    and "q_items (session_inbox f sv') = q_items (session_inbox f sv)
      @ (if event_session e = sf_session f \<and> \<not> q_full (session_inbox f sv) then [e] else [])"
proof -
  have there: "conn_there (sf_conn f) sv" using b by (simp add: bound_here_def)
  have lt: "sf_sink f < length (objs (sinks_of f sv))" by (rule bound_here_lt [OF b])
  have t: "sinks_of f sv' = (case dget (slots (sinks_of f sv)) (event_session e) of
     None \<Rightarrow> sinks_of f sv
   | Some i \<Rightarrow> tab_update i
       (\<lambda>s. if wants e s then s\<lparr>sink_inbox := put_or_drop e (sink_inbox s)\<rparr> else s) (sinks_of f sv))"
    by (simp only: sv'_def sinks_put [OF there] deliver_event_sinks) (simp add: sinks_of_def cong: option.case_cong)
  have other: "i \<noteq> sf_sink f"
    if "dget (slots (sinks_of f sv)) (event_session e) = Some i" "event_session e \<noteq> sf_session f" for i
    using that b by (auto simp: bound_here_def dest: table_ok_inj)
  have sink: "objs (sinks_of f sv') ! sf_sink f =
     (let s = objs (sinks_of f sv) ! sf_sink f in
      if event_session e = sf_session f then s\<lparr>sink_inbox := put_or_drop e (sink_inbox s)\<rparr> else s)"
    using b lt other bound_here_wants [OF b, of e]
    by (auto simp: t bound_here_def tab_update_def nth_list_update Let_def split: option.split)
  have "slots (sinks_of f sv') = slots (sinks_of f sv)" "table_ok (sinks_of f sv')"
    using b by (auto simp: t bound_here_def split: option.split)
  moreover have "conn_there (sf_conn f) sv'" using there by (simp add: sv'_def)
  ultimately show "bound_here f sv'"
    using b by (simp add: bound_here_def sink Let_def)
  show "q_items (session_inbox f sv') = q_items (session_inbox f sv)
      @ (if event_session e = sf_session f \<and> \<not> q_full (session_inbox f sv) then [e] else [])"
    by (simp add: inbox_of sink Let_def put_or_drop_items)
qed

lemma set_inbox_keeps_bound:
  assumes b: "bound_here f sv"
  shows "bound_here f (set_inbox q f sv)" "session_inbox f (set_inbox q f sv) = q"
proof -
  have "sinks_of f (set_inbox q f sv) = tab_update (sf_sink f) (\<lambda>s. s\<lparr>sink_inbox := q\<rparr>) (sinks_of f sv)"
    using b by (simp add: set_inbox_def Let_def bound_here_def sinks_of_def conn_there_def)
  with b bound_here_lt [OF b] show "bound_here f (set_inbox q f sv)" "session_inbox f (set_inbox q f sv) = q"
    by (auto simp: bound_here_def inbox_of set_inbox_def Let_def tab_update_def table_ok_def)
qed

lemma leave_unbinds:
  "conn_there (sf_conn f) sv \<Longrightarrow> dget (slots (sinks_of f (leave_session f sv))) (sf_session f) = None"
  by (simp add: leave_session_def unbind_sink_def)

definition follow_inv ::
  "(session_event \<Rightarrow> bytes option) \<Rightarrow> asgi_send list \<Rightarrow> session_follower \<Rightarrow> follow_run \<Rightarrow> bool" where
  "follow_inv emit finish f s \<longleftrightarrow> (\<exists>evs rest. queued_events (fl_arrived s) = evs @ rest
     \<and> (if fl_over s
        then fl_sent s = shown emit evs @ finish \<and> list_all (\<lambda>e. \<not> is_result e) (butlast evs)
          \<and> dget (slots (sinks_of f (fl_service s))) (sf_session f) = None
        else fl_sent s = shown emit evs \<and> list_all (\<lambda>e. \<not> is_result e) evs
          \<and> rest = q_items (session_inbox f (fl_service s)) \<and> bound_here f (fl_service s)))"

lemma follow_inv_start:
  assumes "bind_follower i k sv = (f, sv')" "conn_there i sv" "table_ok (c_sinks (conn_at i sv))"
  shows "follow_inv emit finish f \<lparr>fl_service = sv', fl_arrived = [], fl_sent = [], fl_over = False\<rparr>"
proof -
  have f: "f = \<lparr>sf_conn = i, sf_session = k, sf_sink = length (objs (c_sinks (conn_at i sv)))\<rparr>"
    and sv': "sv' = put_conn i (snd (bind_sink k new_sink (conn_at i sv))) sv"
    using assms(1) by (auto simp: bind_follower_def bind_sink_def tab_open_def Let_def)
  have t: "sinks_of f sv' = snd (tab_open new_sink k (c_sinks (conn_at i sv)))"
    using assms(2) by (simp add: sinks_of_def f sv' conn_there_def bind_sink_def tab_open_def)
  have "bound_here f sv'"
    using assms(2) table_ok_open [OF assms(3), of new_sink k]
    by (simp add: bound_here_def t) (simp add: f sv' tab_open_def nth_append new_sink_def)
  moreover have "q_items (session_inbox f sv') = []"
    by (simp add: inbox_of t) (simp add: f tab_open_def nth_append new_sink_def)
  ultimately show ?thesis
    by (simp add: follow_inv_def)
qed

text \<open>What a turn does to a bound follower.\<close>

lemma session_turn_cases:
  assumes "session_turn emit finish accepted gone f sv = (t, sv')" "bound_here f sv"
  obtains "t = Turn_waits" "sv' = sv" "q_items (session_inbox f sv) = []" "\<not> gone"
  | e es b where "t = Turn_goes_on [Send_body b True]" "emit e = Some b" "\<not> is_result e"
      "q_items (session_inbox f sv) = e # es" "q_items (session_inbox f sv') = es" "bound_here f sv'"
  | e es b where "t = Turn_ends (Send_body b True # finish)" "emit e = Some b" "is_result e"
      "q_items (session_inbox f sv) = e # es"
      "dget (slots (sinks_of f sv')) (sf_session f) = None"
  | "t = Turn_ends finish" "dget (slots (sinks_of f sv')) (sf_session f) = None"
proof (cases "q_items (session_inbox f sv)")
  case Nil
  then show thesis
    using assms that(1,4) leave_unbinds [of f sv]
    by (auto simp: session_turn_def get_nowait_def bound_here_def split: if_splits)
next
  case (Cons e es)
  define q where "q = (session_inbox f sv)\<lparr>q_items := es\<rparr>"
  have get: "get_nowait (session_inbox f sv) = Some (e, q)"
    by (simp add: get_nowait_def Cons q_def)
  note b = set_inbox_keeps_bound [OF assms(2), of q]
  have gone: "dget (slots (sinks_of f (leave_session f (set_inbox q f sv)))) (sf_session f) = None"
    by (rule leave_unbinds) (use b in \<open>simp add: bound_here_def\<close>)
  have q: "q_items q = es" by (simp add: q_def)
  show thesis
  proof (cases "emit e = None \<or> \<not> accepted")
    case True
    then have "t = Turn_ends finish" "sv' = leave_session f (set_inbox q f sv)"
      using assms(1) by (auto simp: session_turn_def get Let_def split: option.splits)
    with gone that(4) show thesis by simp
  next
    case False
    then obtain body where body: "emit e = Some body" by auto
    show thesis
    proof (cases "is_result e")
      case True
      then have "t = Turn_ends (Send_body body True # finish)" "sv' = leave_session f (set_inbox q f sv)"
        using assms(1) body False by (auto simp: session_turn_def get Let_def)
      with gone that(3) [OF _ body True Cons] show thesis by simp
    next
      case no: False
      then have "t = Turn_goes_on [Send_body body True]" "sv' = set_inbox q f sv"
        using assms(1) body False by (auto simp: session_turn_def get Let_def)
      with that(2) [OF _ body no Cons] b q show thesis by simp
    qed
  qed
qed

lemma follow_inv_turn:
  assumes inv: "follow_inv emit finish f s" and going: "\<not> fl_over s"
    and turn: "session_turn emit finish accepted gone f (fl_service s) = (t, sv)"
  shows "follow_inv emit finish f
    (s\<lparr>fl_service := sv, fl_sent := fl_sent s @ turn_sends t, fl_over := turn_over t\<rparr>)"
proof -
  obtain evs where evs: "queued_events (fl_arrived s) = evs @ q_items (session_inbox f (fl_service s))"
    "fl_sent s = shown emit evs" "list_all (\<lambda>e. \<not> is_result e) evs" "bound_here f (fl_service s)"
    using inv going by (auto simp: follow_inv_def)
  note inv_def = follow_inv_def [of emit finish f]
  show ?thesis
    using turn evs(4)
  proof (cases rule: session_turn_cases)
    case 1
    with evs going show ?thesis by (auto simp: inv_def)
  next
    case (2 e es b)
    then show ?thesis
      using evs unfolding inv_def by (intro exI [of _ "evs @ [e]"] exI [of _ es]) simp
  next
    case (3 e es b)
    then show ?thesis
      using evs unfolding inv_def by (intro exI [of _ "evs @ [e]"] exI [of _ es]) simp
  next
    case 4
    have "list_all (\<lambda>e. \<not> is_result e) (butlast evs)"
      using evs(3) by (auto simp: list_all_iff dest: in_set_butlastD)
    with 4 evs show ?thesis
      unfolding inv_def
      by (intro exI [of _ evs] exI [of _ "q_items (session_inbox f (fl_service s))"]) simp
  qed
qed

lemma follow_inv_step: "follow_step emit finish f s s' \<Longrightarrow> follow_inv emit finish f s \<Longrightarrow> follow_inv emit finish f s'"
proof (induction rule: follow_step.induct)
  case (fl_event s e)
  then obtain evs where evs: "queued_events (fl_arrived s) = evs @ q_items (session_inbox f (fl_service s))"
    "fl_sent s = shown emit evs" "list_all (\<lambda>e. \<not> is_result e) evs" "bound_here f (fl_service s)"
    by (auto simp: follow_inv_def)
  with fl_event(1) event_keeps_bound [OF evs(4), of e] show ?case
    by (auto simp: follow_inv_def)
next
  case (fl_turn s accepted gone t sv)
  then show ?case by (intro follow_inv_turn)
next
  case (fl_other s sv)
  then have "bound_here f (fl_service s)" by (auto simp: follow_inv_def)
  with fl_other(2) have "bound_here f sv" "session_inbox f sv = session_inbox f (fl_service s)"
    by (auto simp: leaves_alone_def bound_here_def inbox_of)
  with fl_other(1,3) show ?case by (auto simp: follow_inv_def)
qed

lemma follow_inv_steps:
  "(follow_step emit finish f)\<^sup>*\<^sup>* s s' \<Longrightarrow> follow_inv emit finish f s \<Longrightarrow> follow_inv emit finish f s'"
  by (induction rule: rtranclp_induct) (auto intro: follow_inv_step)


definition first_follower :: "session_follower \<times> service" where
  "first_follower = bind_follower 0 ''s1'' sample_service"

definition last_word :: session_event where
  "last_word = Ev_result \<lparr>sr_session_id = ''s1'', sr_exit_code = 0, sr_success = True, sr_error = [], sr_result_json = []\<rparr>"

lemma sample_follower: "conn_there 0 sample_service" "table_ok (c_sinks (conn_at 0 sample_service))"
  by (simp_all add: conn_there_def sample_service_def conn_at_def new_connection_def)

lemma first_follower_value:
  "fst first_follower = \<lparr>sf_conn = 0, sf_session = ''s1'', sf_sink = 0\<rparr>"
  "conn_at 0 (snd first_follower) = snd (bind_sink ''s1'' new_sink (conn_at 0 sample_service))"
  "conn_there 0 (snd first_follower)"
  by (simp_all add: first_follower_def bind_follower_def Let_def split_beta bind_sink_def tab_open_def
      sample_service_def conn_at_def put_conn_def new_connection_def empty_table_def conn_there_def)


subsection \<open>A lost node\<close>

fun until_exit :: "tool_run_event list \<Rightarrow> tool_run_event list" where
  "until_exit [] = []"
| "until_exit (e # es) = (if te_kind e = TOOL_RUN_EXITED then [e] else e # until_exit es)"

text \<open>Turns of a tool-run follower whose client stays: the messages, and whether the loop ended.\<close>

fun tool_turns ::
  "(tool_run_event \<Rightarrow> bytes option) \<Rightarrow> asgi_send list \<Rightarrow> nat \<Rightarrow> tool_follower \<Rightarrow> service \<Rightarrow> asgi_send list \<times> bool" where
  "tool_turns emit finish 0 f sv = ([], False)"
| "tool_turns emit finish (Suc n) f sv = (case tool_turn emit finish True False f sv of
     (Turn_waits, _) \<Rightarrow> ([], False)
   | (Turn_ends ms, _) \<Rightarrow> (ms, True)
   | (Turn_goes_on ms, sv') \<Rightarrow> apfst ((@) ms) (tool_turns emit finish n f sv'))"

lemma set_tool_queue_facts:
  assumes "conn_there (tf_conn f) sv" "tf_queue f < length (objs (c_tool_runs (conn_at (tf_conn f) sv)))"
  shows "conn_there (tf_conn f) (set_tool_queue q f sv)" "tool_queue f (set_tool_queue q f sv) = q"
    "length (objs (c_tool_runs (conn_at (tf_conn f) (set_tool_queue q f sv))))
       = length (objs (c_tool_runs (conn_at (tf_conn f) sv)))"
  using assms by (simp_all add: set_tool_queue_def Let_def tool_queue_def conn_there_def tab_update_def)

lemma tool_turns_drain:
  assumes "conn_there (tf_conn f) sv" "tf_queue f < length (objs (c_tool_runs (conn_at (tf_conn f) sv)))"
    and "q_items (tool_queue f sv) = map Some evs @ [None]" "list_all (\<lambda>e. emit e \<noteq> None) evs"
  shows "tool_turns emit finish (Suc (length evs)) f sv = (shown emit (until_exit evs) @ finish, True)"
  using assms
proof (induction evs arbitrary: sv)
  case Nil
  then show ?case by (simp add: tool_turn_def get_nowait_def)
next
  case (Cons e es)
  define q where "q = (tool_queue f sv)\<lparr>q_items := map Some es @ [None]\<rparr>"
  have get: "get_nowait (tool_queue f sv) = Some (Some e, q)"
    using Cons.prems(3) by (simp add: get_nowait_def q_def)
  obtain b where b: "emit e = Some b" using Cons.prems(4) by auto
  note facts = set_tool_queue_facts [OF Cons.prems(1,2), of q]
  have IH: "tool_turns emit finish (Suc (length es)) f (set_tool_queue q f sv)
      = (shown emit (until_exit es) @ finish, True)"
    by (rule Cons.IH) (use facts Cons.prems in \<open>simp_all add: q_def\<close>)
  have turn: "tool_turn emit finish True False f sv =
      (if te_kind e = TOOL_RUN_EXITED then (Turn_ends (Send_body b True # finish), leave_tool_run f (set_tool_queue q f sv))
       else (Turn_goes_on [Send_body b True], set_tool_queue q f sv))"
    by (simp add: tool_turn_def get b Let_def)
  note unfold_once = tool_turns.simps(2) [of emit finish "Suc (length es)" f sv]
  show ?case
    by (simp add: unfold_once turn IH b del: tool_turns.simps)
qed


definition word_of_run :: tool_run_event where
  "word_of_run = \<lparr>te_run_id = ''r'', te_kind = TOOL_RUN_STDOUT, te_data = [104, 105], te_exit_code = 0,
     te_error = [], te_revision = 1, te_pid = 7\<rparr>"

definition tool_conn :: "frame connection" where
  "tool_conn = deliver_tool_run_event (Some word_of_run) (snd (open_tool_run ''r'' (conn_at 0 sample_service)))"

lemma tool_conn_runs:
  "c_tool_runs tool_conn = \<lparr>slots = [(''r'', 0)], objs = [\<lparr>q_max = TERMINAL_OUTPUT_BUFFER, q_items = [Some word_of_run]\<rparr>]\<rparr>"
  "\<not> c_closed tool_conn"
  by (simp_all add: tool_conn_def word_of_run_def deliver_tool_run_event_def open_tool_run_def open_channel_def
      tab_open_def deliver_channel_def tab_update_def put_or_drop_def put_nowait_def q_full_def
      TERMINAL_OUTPUT_BUFFER_def new_queue_def new_connection_def empty_table_def)


text \<open>
  A session follower is not told: closing the connection leaves its sink and binding as they were,
  and with nothing queued its turns wait for as long as its client stays.
\<close>

lemma lost_node_strands_session_followers:
  assumes "conn_there (sf_conn f) sv" "q_items (session_inbox f sv) = []"
  defines "sv' \<equiv> put_conn (sf_conn f) (close (conn_at (sf_conn f) sv)) sv"
  shows "sinks_of f sv' = sinks_of f sv" "session_turn emit finish accepted False f sv' = (Turn_waits, sv')"
proof -
  show s: "sinks_of f sv' = sinks_of f sv"
    using assms(1) by (simp add: sv'_def) (simp add: sinks_of_def close_def Let_def)
  have "q_items (session_inbox f sv') = []"
    using assms(2) by (simp add: inbox_of s)
  then show "session_turn emit finish accepted False f sv' = (Turn_waits, sv')"
    by (simp add: session_turn_def get_nowait_def)
qed

text \<open>
  Leaving goes by node and run id. A follower that is late to leave a replaced connection therefore
  drops the queue another follower has since opened on the new one, which no sentinel reaches after.
\<close>

lemma late_leave_drops_the_new_queue:
  assumes "sv_lookup (tf_node f) sv = Some j" "conn_there j sv"
    and "dget (slots (c_tool_runs (conn_at j sv))) (tf_run f) = Some q" "table_ok (c_tool_runs (conn_at j sv))"
  shows "dget (slots (c_tool_runs (conn_at j (leave_tool_run f sv)))) (tf_run f) = None"
    and "objs (c_tool_runs (close (conn_at j (leave_tool_run f sv)))) ! q = objs (c_tool_runs (conn_at j sv)) ! q"
proof -
  have at: "c_tool_runs (conn_at j (leave_tool_run f sv)) = tab_pop (tf_run f) (c_tool_runs (conn_at j sv))"
    using assms(1,2) by (simp add: leave_tool_run_def close_tool_run_rpc_def conn_there_def close_tool_run_def
        close_channel_def)
  show "dget (slots (c_tool_runs (conn_at j (leave_tool_run f sv)))) (tf_run f) = None"
    by (simp add: at)
  have gone: "q \<notin> set (map snd (dpop (tf_run f) (slots (c_tool_runs (conn_at j sv)))))"
  proof
    assume "q \<in> set (map snd (dpop (tf_run f) (slots (c_tool_runs (conn_at j sv)))))"
    then obtain k where k: "(k, q) \<in> set (slots (c_tool_runs (conn_at j sv)))" "k \<noteq> tf_run f"
      by (auto simp: set_dpop)
    then have "dget (slots (c_tool_runs (conn_at j sv))) k = Some q"
      using assms(4) by (simp add: table_ok_def)
    with table_ok_inj [OF assms(4) this assms(3)] k show False by simp
  qed
  have ok: "table_ok (tab_pop (tf_run f) (c_tool_runs (conn_at j sv)))" using assms(4) by blast
  have "objs (wake_channels (tab_pop (tf_run f) (c_tool_runs (conn_at j sv)))) ! q
      = objs (c_tool_runs (conn_at j sv)) ! q"
    unfolding wake_channels_def tab_drain_objs [OF ok] using gone by simp
  then show "objs (c_tool_runs (close (conn_at j (leave_tool_run f sv)))) ! q = objs (c_tool_runs (conn_at j sv)) ! q"
    by (simp add: close_def at Let_def)
qed

subsection \<open>Who may follow\<close>

definition carries_token :: "string \<Rightarrow> http_scope \<Rightarrow> bool" where
  "carries_token token scope \<longleftrightarrow> (\<exists>(k, h) \<in> set (scope_headers scope).
     lower k = ''authorization'' \<and> prefix ''Bearer '' h \<and> strip (drop 7 h) = token)"

lemma bearer_headers_sound:
  "bearer_headers token hs = Some True \<Longrightarrow>
   \<exists>(k, h) \<in> set hs. lower k = ''authorization'' \<and> prefix ''Bearer '' h \<and> strip (drop 7 h) = token"
  by (induction token hs rule: bearer_headers.induct) (auto simp: compare_digest_def split: if_splits)

definition not_started :: "service \<Rightarrow> ('a started \<times> service) set" where
  "not_started sv = {(Start_refused [Send_start 405 [], Send_body [] False], sv),
     (Start_refused [Send_start 403 [], Send_body [] False], sv), (Start_raises, sv)}"

text \<open>C31: without the token, or by another method than POST, the NDJSON streams start nothing: the
  request is refused or fails, and no queue is opened and no sink bound for it.\<close>

theorem json_streams_need_the_token:
  assumes "strip api_token \<noteq> []" "\<not> (carries_token (strip api_token) scope \<and> scope_method scope = ''POST'')"
  shows "follow_node_session_json parse render line say api_token scope events sv \<in> not_started sv
     \<and> follow_tool_run_json parse render line say api_token scope events sv \<in> not_started sv"
proof -
  have "scope_method scope \<noteq> ''POST'' \<or> bearer_ok (scope_headers scope) api_token \<noteq> Some True"
    using assms bearer_headers_sound by (auto simp: bearer_ok_def carries_token_def Let_def)
  then show ?thesis
    by (auto simp: follow_node_session_json_def follow_tool_run_json_def json_guard_def not_started_def
        split: option.split bool.split)
qed

lemma json_streams_need_the_token_witness:
  "follow_node_session_json Map.empty (\<lambda>_. []) Map.empty (\<lambda>_. []) ''secret''
     \<lparr>scope_method = ''POST'', scope_headers = [(''Authorization'', ''Bearer guess'')]\<rparr> [] sample_service
     \<in> not_started sample_service"
proof -
  have "strip ''secret'' = ''secret''" "strip (drop 7 ''Bearer guess'') = ''guess''"
    by (simp_all, code_simp+)
  then have "strip ''secret'' \<noteq> []" "\<not> (carries_token (strip ''secret'')
      \<lparr>scope_method = ''POST'', scope_headers = [(''Authorization'', ''Bearer guess'')]\<rparr>
      \<and> scope_method \<lparr>scope_method = ''POST'', scope_headers = [(''Authorization'', ''Bearer guess'')]\<rparr> = ''POST'')"
    by (auto simp: carries_token_def)
  from json_streams_need_the_token [OF this] show ?thesis by blast
qed

text \<open>However a body is chunked, the handlers read all of it.\<close>

lemma collect_body_chunks:
  "collect_body acc (map (\<lambda>b. Http_request b True) bs @ [Http_request b False]) = Body_read (acc @ concat bs @ b)"
  by (induction bs arbitrary: acc) simp_all

end
