(* ===== verification/Unary_Api.thy ===== *)
theory Unary_Api
  imports Follow_Streams Service_Hosts Node_Store
begin

text \<open>
  unary_api.py: the JSON-over-HTTP surface of the service. A call is cut where it awaits the service:
  \<open>unary_start\<close> gives the answer or what the service is called with, \<open>unary_finish\<close> turns the
  outcome into the answer.

  Command methods pass values of the decoded body on as they are, so an argument is a JSON value unless
  the route converts it. \<open>decode\<close> is UTF-8 (\<open>None\<close>: UnicodeDecodeError), \<open>loads\<close> the JSON parser,
  \<open>parse\<close> protobuf's ParseDict for the request of a method (\<open>None\<close>: ParseError or TypeError),
  \<open>failure\<close> the text of an exception that is not an RPCError.
\<close>

subsection \<open>Null and textual lists\<close>

definition REPEATED_FIELDS :: "string list" where
  "REPEATED_FIELDS = [''mcps'', ''skills'', ''plugins'', ''env'', ''additional_mounts'',
     ''additionalMounts'', ''models'']"

text \<open>
  \<open>_normalize_repeated_nulls\<close> with the recursion depth left; \<open>None\<close> is a RecursionError. Keys of a
  decoded object that repeat keep their places: the last one counts before and after.
\<close>

fun normalize_repeated :: "(string \<Rightarrow> json option) \<Rightarrow> nat \<Rightarrow> json \<Rightarrow> json option" where
  "normalize_repeated loads 0 v = None"
| "normalize_repeated loads (Suc n) v = (case v of
     J_list xs \<Rightarrow> map_option J_list (those (map (normalize_repeated loads n) xs))
   | J_obj kvs \<Rightarrow> map_option J_obj (those (map (\<lambda>(k, item). map_option (Pair k)
       (if k \<notin> set REPEATED_FIELDS then normalize_repeated loads n item
        else case item of
          J_null \<Rightarrow> Some (J_list [])
        | J_str s \<Rightarrow> (case loads s of
            Some (J_list entries) \<Rightarrow> map_option J_list (those (map (normalize_repeated loads n) entries))
          | _ \<Rightarrow> Some (J_list []))
        | _ \<Rightarrow> normalize_repeated loads n item)) kvs))
   | _ \<Rightarrow> Some v)"

subsection \<open>Answers\<close>

definition CODE_HTTP :: "rpc_code \<Rightarrow> nat" where
  "CODE_HTTP c = (case c of
     CANCELED \<Rightarrow> 499 | UNKNOWN \<Rightarrow> 500 | INVALID_ARGUMENT \<Rightarrow> 400 | DEADLINE_EXCEEDED \<Rightarrow> 504
   | NOT_FOUND \<Rightarrow> 404 | PERMISSION_DENIED \<Rightarrow> 403 | FAILED_PRECONDITION \<Rightarrow> 412 | UNAVAILABLE \<Rightarrow> 503
   | INTERNAL \<Rightarrow> 500)"

record unary_answer =
  ua_status :: nat
  ua_body :: json

definition connect_error :: "rpc_code \<Rightarrow> string \<Rightarrow> unary_answer" where
  "connect_error c m = \<lparr>ua_status = CODE_HTTP c,
     ua_body = J_obj [(''code'', J_str (code_name c)), (''message'', J_str m)]\<rparr>"

definition unary_authorized :: "string \<Rightarrow> string option \<Rightarrow> bool option" where
  "unary_authorized token authorization =
     (if token = [] then Some True
      else let header = (case authorization of None \<Rightarrow> [] | Some h \<Rightarrow> h) in
        if \<not> prefix ''Bearer '' header then Some False
        else compare_digest (strip (drop 7 header)) token)"

subsection \<open>Arguments of the command methods\<close>

datatype arg =
    A_json json
  | A_absent
  | A_int int
  | A_bool bool
  | A_items "json list"
  | A_pairs "(json \<times> json) list"
  | A_texts "string list"

text \<open>\<open>payload.get(k, default)\<close>.\<close>

definition get_or :: "(string \<times> json) list \<Rightarrow> string \<Rightarrow> json \<Rightarrow> json" where
  "get_or p k d = (case map_of (rev p) k of None \<Rightarrow> d | Some v \<Rightarrow> v)"

text \<open>Iterating a value; \<open>None\<close> is a TypeError.\<close>

definition obj_keys :: "(string \<times> json) list \<Rightarrow> string list" where
  "obj_keys kvs = rev (remdups (rev (map fst kvs)))"

definition py_iter :: "json \<Rightarrow> json list option" where
  "py_iter v = (case v of
     J_list xs \<Rightarrow> Some xs
   | J_str s \<Rightarrow> Some (map (\<lambda>c. J_str [c]) s)
   | J_obj kvs \<Rightarrow> Some (map J_str (obj_keys kvs))
   | _ \<Rightarrow> None)"

text \<open>\<open>dict(v)\<close> as the pairs it is built from, later ones replacing earlier ones of the same key.\<close>

definition py_pair :: "json \<Rightarrow> (json \<times> json) option" where
  "py_pair v = (case py_iter v of
     Some [k, x] \<Rightarrow> if hashable k then Some (k, x) else None
   | _ \<Rightarrow> None)"

definition py_dict :: "json \<Rightarrow> (json \<times> json) list option" where
  "py_dict v = (case v of
     J_obj kvs \<Rightarrow> Some (map (\<lambda>(k, x). (J_str k, x)) kvs)
   | _ \<Rightarrow> (case py_iter v of None \<Rightarrow> None | Some xs \<Rightarrow> those (map py_pair xs)))"

definition a_text :: "(string \<times> json) list \<Rightarrow> string \<Rightarrow> arg option" where
  "a_text p k = Some (A_json (get_or p k (J_str [])))"

definition a_raw :: "(string \<times> json) list \<Rightarrow> string \<Rightarrow> arg option" where
  "a_raw p k = Some (A_json (obj_get p k))"

definition a_given :: "(string \<times> json) list \<Rightarrow> string \<Rightarrow> arg option" where
  "a_given p k = Some (if truthy (obj_get p k) then A_json (obj_get p k) else A_absent)"

definition a_flag :: "(string \<times> json) list \<Rightarrow> string \<Rightarrow> arg option" where
  "a_flag p k = Some (A_bool (truthy (obj_get p k)))"

definition a_count :: "(string \<times> json) list \<Rightarrow> string \<Rightarrow> arg option" where
  "a_count p k = map_option (\<lambda>i. A_int (max i 0)) (py_int (or_json (obj_get p k) (J_int 0)))"

definition a_items :: "(string \<times> json) list \<Rightarrow> string \<Rightarrow> arg option" where
  "a_items p k = map_option A_items (py_iter (or_json (obj_get p k) (J_list [])))"

text \<open>A field of a protobuf message: a text, or unset for null; a uint32.\<close>

definition proto_text :: "(string \<times> json) list \<Rightarrow> string \<Rightarrow> arg option" where
  "proto_text p k = (case get_or p k (J_str []) of
     J_str s \<Rightarrow> Some (A_json (J_str s)) | J_null \<Rightarrow> Some (A_json (J_str [])) | _ \<Rightarrow> None)"

definition proto_uint32 :: "(string \<times> json) list \<Rightarrow> string \<Rightarrow> arg option" where
  "proto_uint32 p k = (case a_count p k of
     Some (A_int i) \<Rightarrow> if i < 2 ^ 32 then Some (A_int i) else None
   | _ \<Rightarrow> None)"

definition named :: "(string \<times> arg option) list \<Rightarrow> (string \<times> arg) list option" where
  "named as = those (map (\<lambda>(k, a). map_option (Pair k) a) as)"

definition COMMAND_METHODS :: "string list" where
  "COMMAND_METHODS = [''MoveNode'', ''ManageEditor'', ''SelfUpgradeNode'', ''RuntimeUpgradeNode'',
     ''InstallHostTool'', ''UpgradeNode'', ''GetNodeUpgradeStatus'', ''HostExec'', ''StartToolRun'',
     ''StopToolRun'', ''ListActiveToolRuns'', ''ManageNodeEnvironment'', ''SyncNodeEnvironment'',
     ''InspectNodeEnvironment'', ''InspectNodeSystemEnv'', ''SyncNodeSystemEnv'',
     ''ArchiveNodeSystemEnvResource'', ''IosDiscover'', ''IosClaimDevice'', ''IosReleaseDevice'',
     ''IosConfigureDevice'', ''GetIosDevices'', ''IosStartWdaJob'', ''IosCancelWdaJob'',
     ''GetIosWdaJobStatus'', ''IosRunnerControl'', ''StartNodeBuild'', ''GetNodeBuildStatus'',
     ''CancelNodeBuild'', ''StartHostToolJob'', ''GetHostToolJobStatus'', ''CancelHostToolJob'',
     ''RefreshNodeLabels'']"

definition texts :: "(string \<times> json) list \<Rightarrow> (string \<times> string) list \<Rightarrow> (string \<times> arg option) list" where
  "texts p ks = map (\<lambda>(name, k). (name, a_text p k)) ks"

text \<open>The node, environment and upgrade commands; the names are the parameters of the service's methods.\<close>

definition node_args :: "string \<Rightarrow> (string \<times> json) list \<Rightarrow> (string \<times> arg option) list" where
  "node_args method p = texts p [(''node_id'', ''nodeId'')] @
    (if method = ''MoveNode'' then texts p [(''manager_node_id'', ''managerNodeId'')]
     else if method = ''ManageEditor'' then texts p [(''editor'', ''editor''), (''action'', ''action'')]
     else if method = ''SelfUpgradeNode'' \<or> method = ''RuntimeUpgradeNode'' then [(''target'', a_given p ''target'')]
     else if method = ''InstallHostTool'' then texts p [(''tool'', ''tool'')] @ [(''target'', a_given p ''target'')]
     else if method = ''UpgradeNode''
     then [(''runtime_target'', a_given p ''runtimeTarget''), (''node_target'', a_given p ''nodeTarget'')]
     else if method = ''StartToolRun''
     then texts p [(''run_id'', ''runId''), (''binary_path'', ''binaryPath'')]
       @ [(''args'', a_items p ''args''),
          (''env'', map_option A_pairs (py_dict (or_json (obj_get p ''env'') (J_obj []))))]
       @ texts p [(''cwd'', ''cwd'')] @ [(''revision'', a_count p ''revision'')]
     else if method = ''StopToolRun'' then texts p [(''run_id'', ''runId'')] @ [(''grace_ms'', a_count p ''graceMs'')]
     else if method = ''ManageNodeEnvironment''
     then texts p [(''env_id'', ''envId''), (''action'', ''action'')]
       @ [(''git'', a_raw p ''git''),
          (''target_path'', Some (A_json (or_json (obj_get p ''target_path'') (J_str []))))]
     else if method = ''SyncNodeEnvironment''
     then texts p [(''env_id'', ''envId'')] @ [(''skills'', a_items p ''skills''), (''plugins'', a_items p ''plugins'')]
     else if method = ''InspectNodeEnvironment'' then texts p [(''env_id'', ''envId'')]
     else if method = ''InspectNodeSystemEnv'' then texts p [(''provider'', ''provider'')]
     else if method = ''SyncNodeSystemEnv''
     then [(''skills'', a_items p ''skills''), (''plugins'', a_items p ''plugins''),
           (''overwrite'', a_flag p ''overwrite''), (''remove'', a_items p ''remove'')]
     else if method = ''ArchiveNodeSystemEnvResource''
     then texts p [(''kind'', ''kind''), (''name'', ''name''), (''upload_url'', ''uploadUrl''),
       (''upload_token'', ''uploadToken'')]
     else [])"

definition ios_args :: "string \<Rightarrow> (string \<times> json) list \<Rightarrow> (string \<times> arg option) list" where
  "ios_args method p = texts p [(''node_id'', ''nodeId'')] @
    (if method = ''IosClaimDevice''
     then texts p [(''udid'', ''udid''), (''device_label'', ''deviceLabel''), (''pairing_code'', ''pairingCode'')]
     else if method = ''IosReleaseDevice''
     then texts p [(''device_id'', ''deviceId''), (''udid'', ''udid'')]
       @ [(''delete_credential'', a_flag p ''deleteCredential'')]
     else if method = ''IosConfigureDevice''
     then texts p [(''device_id'', ''deviceId''), (''udid'', ''udid'')]
       @ [(''config_revision'', a_count p ''configRevision'')]
       @ texts p [(''transport'', ''transport''), (''wda_bundle_id'', ''wdaBundleId''),
           (''xctest_config_name'', ''xctestConfigName'')]
       @ [(''auto_prepare'', a_flag p ''autoPrepare''),
          (''renew_before_days'', map_option (\<lambda>i. A_int (if i = 0 then 14 else i))
             (py_int (or_json (obj_get p ''renewBeforeDays'') (J_int 0))))]
     else if method = ''IosStartWdaJob''
     then texts p [(''job_id'', ''jobId''), (''udid'', ''udid''), (''device_id'', ''deviceId''), (''action'', ''action'')]
       @ [(''artifact'', a_raw p ''artifact''), (''signing_profile'', a_raw p ''signingProfile'')]
       @ texts p [(''wda_bundle_id'', ''wdaBundleId''), (''xctest_config_name'', ''xctestConfigName'')]
     else if method = ''IosCancelWdaJob'' \<or> method = ''GetIosWdaJobStatus'' then texts p [(''job_id'', ''jobId'')]
     else if method = ''IosRunnerControl''
     then texts p [(''device_id'', ''deviceId''), (''udid'', ''udid''), (''action'', ''action'')]
     else [])"

definition job_args :: "(json \<Rightarrow> string) \<Rightarrow> string \<Rightarrow> (string \<times> json) list \<Rightarrow> (string \<times> arg option) list" where
  "job_args render method p = texts p [(''node_id'', ''nodeId'')] @
    (if method = ''StartNodeBuild''
     then texts p [(''build_id'', ''buildId''), (''recipe_kind'', ''recipeKind''), (''source_url'', ''sourceUrl''),
         (''source_ref'', ''sourceRef'')]
       @ [(''steps'', map_option (\<lambda>xs. A_texts (map (py_str render) xs))
            (py_iter (or_json (obj_get p ''steps'') (J_list []))))]
       @ texts p [(''artifact_glob'', ''artifactGlob''), (''upload_url'', ''uploadUrl''), (''upload_token'', ''uploadToken'')]
       @ [(''timeout_seconds'', a_count p ''timeoutSeconds'')]
       @ texts p [(''artifact_name'', ''artifactName''), (''artifact_version'', ''artifactVersion''),
           (''source_kind'', ''sourceKind''), (''source_subdir'', ''sourceSubdir'')]
       @ [(''source_no_proxy'', a_flag p ''sourceNoProxy'')]
     else if method = ''GetNodeBuildStatus'' \<or> method = ''CancelNodeBuild'' then texts p [(''build_id'', ''buildId'')]
     else if method = ''StartHostToolJob''
     then texts p [(''job_id'', ''jobId'')] @ [(''tool'', Some (A_json (get_or p ''tool'' (J_str ''xcode''))))]
       @ texts p [(''target_version'', ''targetVersion''), (''download_url'', ''downloadUrl'')]
       @ [(''download_size_bytes'', a_count p ''downloadSizeBytes'')]
       @ texts p [(''sha256'', ''sha256''), (''proxy_mode'', ''proxyMode''), (''proxy_url'', ''proxyUrl''),
           (''proxy_url_prefix'', ''proxyUrlPrefix'')]
       @ [(''timeout_seconds'', a_count p ''timeoutSeconds'')]
     else if method = ''GetHostToolJobStatus'' \<or> method = ''CancelHostToolJob'' then texts p [(''job_id'', ''jobId'')]
     else [])"

definition IOS_METHODS :: "string list" where
  "IOS_METHODS = [''IosDiscover'', ''IosClaimDevice'', ''IosReleaseDevice'', ''IosConfigureDevice'',
     ''GetIosDevices'', ''IosStartWdaJob'', ''IosCancelWdaJob'', ''GetIosWdaJobStatus'', ''IosRunnerControl'']"

definition JOB_METHODS :: "string list" where
  "JOB_METHODS = [''StartNodeBuild'', ''GetNodeBuildStatus'', ''CancelNodeBuild'', ''StartHostToolJob'',
     ''GetHostToolJobStatus'', ''CancelHostToolJob'']"

definition command_args ::
  "(json \<Rightarrow> string) \<Rightarrow> string \<Rightarrow> (string \<times> json) list \<Rightarrow> (string \<times> arg) list option" where
  "command_args render method p = named
     (if method = ''HostExec''
      then map (\<lambda>(name, k). (name, proto_text p k)) [(''node_id'', ''nodeId''), (''command'', ''command''), (''cwd'', ''cwd'')]
        @ [(''timeout_ms'', proto_uint32 p ''timeoutMs''), (''max_output_bytes'', proto_uint32 p ''maxOutputBytes'')]
      else if method \<in> set IOS_METHODS then ios_args method p
      else if method \<in> set JOB_METHODS then job_args render method p
      else node_args method p)"

subsection \<open>The dispatcher\<close>

text \<open>The methods with a request message of their own, and the service's method for each.\<close>

definition HANDLERS :: "(string \<times> string) list" where
  "HANDLERS = [(''ListNodes'', ''list_nodes''), (''GetPublicIPLookupConfig'', ''get_public_ip_lookup_config''),
     (''UpdatePublicIPLookupConfig'', ''update_public_ip_lookup_config''),
     (''GetNodeProxyConfig'', ''get_node_proxy_config''), (''UpdateNodeProxyConfig'', ''update_node_proxy_config''),
     (''SetNodeLastProxy'', ''set_node_last_proxy''), (''ApproveNode'', ''approve_node''),
     (''RevokeNode'', ''revoke_node''), (''DeleteNode'', ''delete_node''), (''OnboardNode'', ''onboard_node''),
     (''RevokeOnboardNode'', ''revoke_onboard_node''), (''DispatchSession'', ''dispatch_session''),
     (''DeleteNodeSession'', ''delete_node_session''), (''SendSessionInput'', ''send_session_input''),
     (''ConfigureNodeSessionLLM'', ''configure_session_llm''), (''ApplyNodeSessionMCPs'', ''apply_session_mcps''),
     (''ApplyNodeSessionSkills'', ''apply_session_skills''), (''ApplyNodeSessionPlugins'', ''apply_session_plugins''),
     (''ConfigureNodeSessionMode'', ''configure_session_mode''),
     (''StartNodeSessionRuntime'', ''start_session_runtime''),
     (''RestartNodeSessionRuntime'', ''restart_session_runtime''),
     (''CollectNodeSessionArtifacts'', ''collect_session_artifacts'')]"

datatype 'm unary_step =
    Unary_raises
  | Unary_answers unary_answer
  | Unary_command string "(string \<times> arg) list"
  | Unary_capacity json json
  | Unary_upload 'm
  | Unary_request string 'm

text \<open>\<open>json.loads((body or b"{}").decode("utf-8") or "{}")\<close>, an object or the answer.\<close>

definition command_payload ::
  "(bytes \<Rightarrow> string option) \<Rightarrow> (string \<Rightarrow> json option) \<Rightarrow> string \<Rightarrow> bytes \<Rightarrow> unary_answer + (string \<times> json) list" where
  "command_payload decode loads failure body =
     (case (if body = [] then Some ''{}'' else decode body) of
        None \<Rightarrow> Inl (connect_error INTERNAL failure)
      | Some text \<Rightarrow> (case loads (or_str text ''{}'') of
          None \<Rightarrow> Inl (connect_error INTERNAL failure)
        | Some (J_obj p) \<Rightarrow> Inr p
        | Some _ \<Rightarrow> Inl (connect_error INVALID_ARGUMENT ''request body must be an object'')))"

text \<open>\<open>_parse_request\<close>; \<open>depth\<close> is the interpreter's recursion limit.\<close>

definition parse_request ::
  "(bytes \<Rightarrow> string option) \<Rightarrow> (string \<Rightarrow> json option) \<Rightarrow> (json \<Rightarrow> 'm option) \<Rightarrow> 'm \<Rightarrow> nat \<Rightarrow> string \<Rightarrow> bytes \<Rightarrow>
   unary_answer + 'm" where
  "parse_request decode loads parse blank depth failure body =
     (case decode body of
        None \<Rightarrow> Inl (connect_error INTERNAL failure)
      | Some raw \<Rightarrow>
          if strip raw = [] then Inr blank
          else let bad = Inl (connect_error INVALID_ARGUMENT (''invalid request body: '' @ failure)) in
            (case loads (strip raw) of
               None \<Rightarrow> bad
             | Some payload \<Rightarrow> (case normalize_repeated loads depth payload of
                 None \<Rightarrow> Inl (connect_error INTERNAL failure)
               | Some v \<Rightarrow> (case parse v of None \<Rightarrow> bad | Some m \<Rightarrow> Inr m))))"

definition unary_start ::
  "(bytes \<Rightarrow> string option) \<Rightarrow> (string \<Rightarrow> json option) \<Rightarrow> (string \<Rightarrow> json \<Rightarrow> 'm option) \<Rightarrow> 'm \<Rightarrow> (json \<Rightarrow> string) \<Rightarrow>
   nat \<Rightarrow> string \<Rightarrow> string \<Rightarrow> string option \<Rightarrow> string \<Rightarrow> bytes \<Rightarrow> 'm unary_step" where
  "unary_start decode loads parse blank render depth failure api_token authorization method body =
     (case unary_authorized (strip api_token) authorization of
        None \<Rightarrow> Unary_raises
      | Some False \<Rightarrow> Unary_answers (connect_error PERMISSION_DENIED ''invalid or missing bearer token'')
      | Some True \<Rightarrow>
          if method \<in> set COMMAND_METHODS
          then (case command_payload decode loads failure body of
                  Inl a \<Rightarrow> Unary_answers a
                | Inr p \<Rightarrow> (case command_args render method p of
                    None \<Rightarrow> Unary_answers (connect_error INTERNAL failure)
                  | Some args \<Rightarrow> Unary_command method args))
          else if method = ''SetNodeCapacity''
          then (case command_payload decode loads failure body of
                  Inl a \<Rightarrow> Unary_answers a
                | Inr p \<Rightarrow> Unary_capacity (get_or p ''nodeId'' (J_str []))
                    (or_json (obj_get p ''capacity'') (J_obj [])))
          else if method = ''HostFileUpload''
          then (case command_payload decode loads failure body of
                  Inl a \<Rightarrow> Unary_answers a
                | Inr p \<Rightarrow> (case parse method (J_obj p) of
                    None \<Rightarrow> Unary_answers (connect_error INTERNAL failure)
                  | Some m \<Rightarrow> Unary_upload m))
          else case map_of HANDLERS method of
            None \<Rightarrow> Unary_answers (connect_error NOT_FOUND (''unknown method '' @ method))
          | Some handler \<Rightarrow> (case parse_request decode loads (parse method) blank depth failure body of
              Inl a \<Rightarrow> Unary_answers a
            | Inr m \<Rightarrow> Unary_request handler m))"

text \<open>After the await: the service's answer as JSON, or its error.\<close>

definition unary_finish :: "(rpc_error \<Rightarrow> string) \<Rightarrow> rpc_error + json \<Rightarrow> unary_answer" where
  "unary_finish say outcome = (case outcome of
     Inr data \<Rightarrow> \<lparr>ua_status = 200, ua_body = data\<rparr>
   | Inl (Rpc_error c (Text m)) \<Rightarrow> connect_error c m
   | Inl (Rpc_error c m) \<Rightarrow> connect_error c (say (Rpc_error c m))
   | Inl (Escaped x) \<Rightarrow> connect_error INTERNAL (say (Escaped x)))"

text \<open>The answers built from the request: a run started and a run stopped.\<close>

definition run_started :: "(string \<times> json) list \<Rightarrow> json" where
  "run_started p = J_obj [(''runId'', get_or p ''runId'' (J_str []))]"

definition run_stopped :: "(string \<times> json) list \<Rightarrow> json" where
  "run_stopped p = J_obj [(''runId'', get_or p ''runId'' (J_str [])), (''stopped'', J_bool True)]"

text \<open>\<open>SetNodeCapacity\<close> straight on the store. \<open>strip_arg\<close> is \<open>(x or "").strip()\<close>.\<close>

definition strip_arg :: "json \<Rightarrow> string option" where
  "strip_arg v = (if \<not> truthy v then Some [] else case v of J_str s \<Rightarrow> Some (strip s) | _ \<Rightarrow> None)"

definition capacity_json :: "capacity \<Rightarrow> json" where
  "capacity_json c = J_obj
     ((case cap_max_sessions c of None \<Rightarrow> [] | Some n \<Rightarrow> [(''max_sessions'', J_int n)])
      @ (case cap_cpu_total c of None \<Rightarrow> [] | Some q \<Rightarrow> [(''cpu_total'', J_float q)])
      @ (case cap_memory_total c of None \<Rightarrow> [] | Some n \<Rightarrow> [(''memory_total'', J_int n)]))"

definition unary_set_capacity ::
  "(string \<Rightarrow> rat option) \<Rightarrow> microseconds \<Rightarrow> string \<Rightarrow> json \<Rightarrow> json \<Rightarrow> service \<Rightarrow> unary_answer \<times> service" where
  "unary_set_capacity parse_float now failure node_id cap sv = (case strip_arg node_id of
     None \<Rightarrow> (connect_error INTERNAL failure, sv)
   | Some nid \<Rightarrow> (case set_node_capacity parse_float now nid cap (sv_ledger sv) of
       Inl e \<Rightarrow> (connect_error INTERNAL failure, sv)
     | Inr (r, db) \<Rightarrow>
         (\<lparr>ua_status = 200, ua_body = J_obj [(''nodeId'', J_str (n_id r)),
             (''capacity'', capacity_json (n_capacity r))]\<rparr>,
          sv\<lparr>sv_ledger := db\<rparr>)))"

text \<open>\<open>ListNodes\<close>: each listed node gets the capacity configured for it. An entry is its fields.\<close>

definition with_capacity :: "(string, capacity) dict \<Rightarrow> (string \<times> json) list \<Rightarrow> (string \<times> json) list" where
  "with_capacity capacities node = dset ''capacity''
     (case get_or node ''nodeId'' (J_str []) of
        J_str nid \<Rightarrow> (case dget capacities nid of
          None \<Rightarrow> J_obj [] | Some c \<Rightarrow> capacity_json c)
      | _ \<Rightarrow> J_obj []) node"

definition listed_ids :: "(string \<times> json) list list \<Rightarrow> string list" where
  "listed_ids ns = concat (map (\<lambda>node. case get_or node ''nodeId'' (J_str []) of
     J_str nid \<Rightarrow> (if nid = [] then [] else [nid]) | _ \<Rightarrow> []) ns)"

definition list_nodes_answer :: "(string \<times> json) list list \<Rightarrow> service \<Rightarrow> (string \<times> json) list list" where
  "list_nodes_answer ns sv =
     map (with_capacity (get_node_capacities (Some (listed_ids ns)) (sv_ledger sv))) ns"

end
