(* ===== verification/Unary_Safety.thy ===== *)
theory Unary_Safety
  imports Unary_Api Service_Calls
begin

text \<open>
  What the unary surface lets through to the service, and what its tolerance for null and textual
  lists does to a body.
\<close>

subsection \<open>Null and textual lists\<close>

fun json_size :: "json \<Rightarrow> nat" where
  "json_size (J_str s) = Suc (length s)"
| "json_size (J_list xs) = Suc (sum_list (map json_size xs))"
| "json_size (J_obj kvs) = Suc (sum_list (map (\<lambda>p. json_size (snd p)) kvs))"
| "json_size _ = 1"

text \<open>No repeated field is null or a text, at any depth.\<close>

fun lists_proper :: "json \<Rightarrow> bool" where
  "lists_proper (J_list xs) = (\<forall>x \<in> set xs. lists_proper x)"
| "lists_proper (J_obj kvs) = (\<forall>p \<in> set kvs. lists_proper (snd p)
     \<and> (fst p \<in> set REPEATED_FIELDS \<longrightarrow> snd p \<noteq> J_null \<and> (\<forall>s. snd p \<noteq> J_str s)))"
| "lists_proper _ = True"

lemma those_ex: "(\<And>x. x \<in> set xs \<Longrightarrow> \<exists>y. f x = Some y) \<Longrightarrow> \<exists>ys. those (map f xs) = Some ys"
proof (induction xs)
  case (Cons x xs)
  obtain y where "f x = Some y" using Cons.prems [of x] by auto
  moreover have "\<exists>ys. those (map f xs) = Some ys" by (rule Cons.IH) (rule Cons.prems, simp)
  then obtain ys where "those (map f xs) = Some ys" ..
  ultimately show ?case by simp
qed simp

lemma those_map_Some_set:
  "those (map f xs) = Some ys \<Longrightarrow> y \<in> set ys \<Longrightarrow> \<exists>x \<in> set xs. f x = Some y"
  by (induction xs arbitrary: ys) (auto split: option.splits)

lemma those_map_same: "those (map f xs) = Some ys \<Longrightarrow> (\<And>x y. x \<in> set xs \<Longrightarrow> f x = Some y \<Longrightarrow> y = x) \<Longrightarrow> ys = xs"
  by (induction xs arbitrary: ys) (auto split: option.splits)

definition normal_item :: "(string \<Rightarrow> json option) \<Rightarrow> nat \<Rightarrow> string \<Rightarrow> json \<Rightarrow> json option" where
  "normal_item loads n k item =
     (if k \<notin> set REPEATED_FIELDS then normalize_repeated loads n item
      else case item of
        J_null \<Rightarrow> Some (J_list [])
      | J_str s \<Rightarrow> (case loads s of
          Some (J_list entries) \<Rightarrow> map_option J_list (those (map (normalize_repeated loads n) entries))
        | _ \<Rightarrow> Some (J_list []))
      | _ \<Rightarrow> normalize_repeated loads n item)"

lemma normalize_obj:
  "normalize_repeated loads (Suc n) (J_obj kvs) =
     map_option J_obj (those (map (\<lambda>(k, item). map_option (Pair k) (normal_item loads n k item)) kvs))"
  by (simp add: normal_item_def)

lemma normalize_list:
  "normalize_repeated loads (Suc n) (J_list xs) = map_option J_list (those (map (normalize_repeated loads n) xs))"
  by simp

lemma normalize_leaf:
  "\<forall>xs. v \<noteq> J_list xs \<Longrightarrow> \<forall>kvs. v \<noteq> J_obj kvs \<Longrightarrow> normalize_repeated loads (Suc n) v = Some v"
  by (cases v) auto

declare normalize_repeated.simps(2) [simp del]

lemma normalize_shape:
  assumes "normalize_repeated loads n v = Some w"
  shows "w = J_null \<longleftrightarrow> v = J_null" "w = J_str s \<longleftrightarrow> v = J_str s"
  using assms by (cases n; cases v; auto simp: normalize_obj normalize_list normalize_leaf)+

lemma normal_item_proper:
  assumes IH: "\<And>v w. normalize_repeated loads n v = Some w \<Longrightarrow> lists_proper w"
    and item: "normal_item loads n k v = Some w"
  shows "lists_proper w \<and> (k \<in> set REPEATED_FIELDS \<longrightarrow> w \<noteq> J_null \<and> (\<forall>s. w \<noteq> J_str s))"
proof (cases "k \<in> set REPEATED_FIELDS \<and> (v = J_null \<or> (\<exists>s. v = J_str s))")
  case True
  then obtain ws where w: "w = J_list ws" "ws = [] \<or> (\<exists>es. those (map (normalize_repeated loads n) es) = Some ws)"
    using item by (auto simp: normal_item_def split: option.splits json.splits)
  have "lists_proper x" if x: "x \<in> set ws" for x
    using w(2)
  proof
    assume "\<exists>es. those (map (normalize_repeated loads n) es) = Some ws"
    then obtain es where "those (map (normalize_repeated loads n) es) = Some ws" by blast
    from those_map_Some_set [OF this x] IH show ?thesis by blast
  qed (use x in simp)
  with w(1) show ?thesis by simp
next
  case False
  then have "normalize_repeated loads n v = Some w"
    using item by (auto simp: normal_item_def split: json.splits if_splits)
  with IH False normalize_shape [OF this] show ?thesis by auto
qed

lemma normalize_proper: "normalize_repeated loads n v = Some w \<Longrightarrow> lists_proper w"
proof (induction n arbitrary: v w)
  case (Suc n)
  show ?case
  proof (cases v)
    case (J_list xs)
    then obtain ys where ys: "w = J_list ys" "those (map (normalize_repeated loads n) xs) = Some ys"
      using Suc.prems by (auto simp: normalize_list)
    from those_map_Some_set [OF this(2)] Suc.IH show ?thesis by (auto simp: ys(1))
  next
    case (J_obj kvs)
    then obtain ps where ps: "w = J_obj ps"
      "those (map (\<lambda>(k, item). map_option (Pair k) (normal_item loads n k item)) kvs) = Some ps"
      using Suc.prems by (auto simp: normalize_obj)
    have "lists_proper (snd p) \<and> (fst p \<in> set REPEATED_FIELDS \<longrightarrow> snd p \<noteq> J_null \<and> (\<forall>s. snd p \<noteq> J_str s))"
      if "p \<in> set ps" for p
      using those_map_Some_set [OF ps(2) that] normal_item_proper [OF Suc.IH] by force
    with ps(1) show ?thesis by simp
  qed (use Suc.prems in \<open>auto simp: normalize_leaf\<close>)
qed simp

lemma normalize_id: "normalize_repeated loads n v = Some w \<Longrightarrow> lists_proper v \<Longrightarrow> w = v"
proof (induction n arbitrary: v w)
  case (Suc n)
  show ?case
  proof (cases v)
    case (J_list xs)
    with Suc obtain ys where ys: "w = J_list ys" "those (map (normalize_repeated loads n) xs) = Some ys"
      by (auto simp: normalize_list)
    from those_map_same [OF this(2)] Suc J_list ys(1) show ?thesis by auto
  next
    case (J_obj kvs)
    then obtain ps where ps: "w = J_obj ps"
      "those (map (\<lambda>(k, item). map_option (Pair k) (normal_item loads n k item)) kvs) = Some ps"
      using Suc.prems by (auto simp: normalize_obj)
    have same: "y = p" if p: "p \<in> set kvs" and y: "(case p of (k, item) \<Rightarrow> map_option (Pair k) (normal_item loads n k item)) = Some y" for p y
    proof -
      obtain k item where ki: "p = (k, item)" by (cases p)
      with Suc.prems(2) J_obj p have proper: "lists_proper item"
        "k \<in> set REPEATED_FIELDS \<longrightarrow> item \<noteq> J_null \<and> (\<forall>s. item \<noteq> J_str s)" by auto
      then have "normal_item loads n k item = normalize_repeated loads n item"
        by (cases item) (auto simp: normal_item_def)
      with y ki Suc.IH proper(1) show ?thesis by auto
    qed
    from those_map_same [OF ps(2) same] ps(1) J_obj show ?thesis by simp
  qed (use Suc.prems in \<open>auto simp: normalize_leaf\<close>)
qed simp

lemma sum_list_member: "x \<in> set xs \<Longrightarrow> f x \<le> sum_list (map f xs)" for f :: "'a \<Rightarrow> nat"
  by (induction xs) auto

lemma normalize_total:
  assumes loads: "\<And>s w. loads s = Some w \<Longrightarrow> json_size w \<le> length s"
  shows "json_size v \<le> n \<Longrightarrow> \<exists>w. normalize_repeated loads n v = Some w"
proof (induction n arbitrary: v)
  case 0
  then show ?case by (cases v) auto
next
  case (Suc n)
  have entries: "\<exists>ys. those (map (normalize_repeated loads n) xs) = Some ys" if "json_size (J_list xs) \<le> Suc n" for xs
    using that by (intro those_ex Suc.IH) (auto dest: sum_list_member [of _ xs json_size])
  show ?case
  proof (cases v)
    case (J_list xs)
    with entries [of xs] Suc.prems show ?thesis by (auto simp: normalize_list)
  next
    case (J_obj kvs)
    have "\<exists>y. (case p of (k, item) \<Rightarrow> map_option (Pair k) (normal_item loads n k item)) = Some y" if "p \<in> set kvs" for p
    proof -
      obtain k item where ki: "p = (k, item)" by (cases p)
      have small: "json_size item \<le> n"
        using sum_list_member [OF that, of "\<lambda>p. json_size (snd p)"] Suc.prems J_obj ki by simp
      have "\<exists>w. normal_item loads n k item = Some w"
      proof (cases "k \<in> set REPEATED_FIELDS \<and> (\<exists>s xs. item = J_str s \<and> loads s = Some (J_list xs))")
        case True
        then obtain s xs where s: "item = J_str s" "loads s = Some (J_list xs)" by auto
        with loads [OF s(2)] small have "json_size (J_list xs) \<le> Suc n" by simp
        with entries s True show ?thesis by (auto simp: normal_item_def)
      next
        case False
        with Suc.IH [OF small] show ?thesis
          by (auto simp: normal_item_def split: json.splits option.splits)
      qed
      with ki show ?thesis by auto
    qed
    from those_ex [OF this] show ?thesis by (auto simp: J_obj normalize_obj)
  qed (auto simp: normalize_leaf)
qed

text \<open>C30: the boundary's tolerance for lists is exact. Whatever a body holds, after normalisation no
  repeated field is null or a text at any depth; a body that was proper is passed on as it was; and,
  the JSON parser giving no more than its text holds, normalisation always comes to an end within the
  size of the body.\<close>

theorem repeated_fields_end_up_lists:
  assumes "\<And>s w. loads s = Some w \<Longrightarrow> json_size w \<le> length s"
  shows "(\<forall>n w. normalize_repeated loads n v = Some w \<longrightarrow> lists_proper w \<and> (lists_proper v \<longrightarrow> w = v))
     \<and> (\<forall>n \<ge> json_size v. \<exists>w. normalize_repeated loads n v = Some w)"
  using normalize_proper normalize_id normalize_total [OF assms] by blast

definition bracket_loads :: "string \<Rightarrow> json option" where
  "bracket_loads s = (if s = ''[]'' then Some (J_list []) else if s = ''[7]'' then Some (J_list [J_int 7]) else None)"

definition sloppy_body :: json where
  "sloppy_body = J_obj [(''skills'', J_null), (''env'', J_str ''[7]''), (''spec'', J_obj [(''models'', J_str ''x'')])]"

lemma repeated_fields_end_up_lists_witness:
  "\<exists>w. normalize_repeated bracket_loads (json_size sloppy_body) sloppy_body = Some w \<and> lists_proper w \<and> \<not> lists_proper sloppy_body"
proof -
  have "json_size w \<le> length s" if "bracket_loads s = Some w" for s w
    using that by (auto simp: bracket_loads_def split: if_splits)
  note end_up = repeated_fields_end_up_lists [OF this, where v = sloppy_body]
  have "\<not> lists_proper sloppy_body" by (simp add: sloppy_body_def REPEATED_FIELDS_def)
  with end_up show ?thesis by blast
qed

text \<open>What the sloppy body turns into.\<close>

lemma sloppy_body_value:
  "normalize_repeated bracket_loads 9 sloppy_body = Some (J_obj [(''skills'', J_list []), (''env'', J_list [J_int 7]),
     (''spec'', J_obj [(''models'', J_list [])])])"
  by (simp add: sloppy_body_def bracket_loads_def normalize_repeated.simps(2) REPEATED_FIELDS_def eval_nat_numeral)

subsection \<open>What reaches the service\<close>

fun calls_service :: "'m unary_step \<Rightarrow> bool" where
  "calls_service Unary_raises = False"
| "calls_service (Unary_answers a) = False"
| "calls_service _ = True"

text \<open>A number among the arguments is a count, but for the one with a fallback.\<close>

definition count_ok :: "string \<times> arg \<Rightarrow> bool" where
  "count_ok x = (\<forall>i. snd x = A_int i \<longrightarrow> 0 \<le> i \<or> fst x = ''renew_before_days'')"

definition maybe_count_ok :: "string \<times> arg option \<Rightarrow> bool" where
  "maybe_count_ok x = (\<forall>a. snd x = Some a \<longrightarrow> count_ok (fst x, a))"

lemma maybe_count_ok_args [simp]:
  "maybe_count_ok (k, a_text p f)" "maybe_count_ok (k, a_raw p f)" "maybe_count_ok (k, a_given p f)"
  "maybe_count_ok (k, a_flag p f)" "maybe_count_ok (k, a_count p f)" "maybe_count_ok (k, a_items p f)"
  "maybe_count_ok (k, proto_text p f)" "maybe_count_ok (k, proto_uint32 p f)"
  "maybe_count_ok (k, Some (A_json v))" "maybe_count_ok (k, map_option A_pairs x)"
  "maybe_count_ok (k, map_option (\<lambda>xs. A_texts (g xs)) y)" "maybe_count_ok (''renew_before_days'', z)"
  by (auto simp: maybe_count_ok_def count_ok_def a_text_def a_raw_def a_given_def a_flag_def a_count_def a_items_def
      proto_text_def proto_uint32_def split: json.splits option.splits arg.splits if_splits)

lemma maybe_count_ok_texts [simp]: "list_all maybe_count_ok (texts p ks)"
  by (auto simp: texts_def list_all_iff)

lemma named_Some:
  assumes "named as = Some args" "list_all maybe_count_ok as"
  shows "list_all count_ok args"
proof -
  have "count_ok y" if y: "y \<in> set args" for y
  proof -
    obtain k a where "(k, a) \<in> set as" "map_option (Pair k) a = Some y"
      using those_map_Some_set [OF assms(1) [unfolded named_def] y] by auto
    with assms(2) show ?thesis by (auto simp: list_all_iff maybe_count_ok_def)
  qed
  then show ?thesis by (simp add: list_all_iff)
qed

lemma named_first: "named ((k, Some a) # as) = Some args \<Longrightarrow> \<exists>rest. args = (k, a) # rest"
  by (auto simp: named_def split: option.splits)

lemma node_args_counts: "list_all maybe_count_ok (node_args method p)"
  by (simp add: node_args_def)

lemma ios_args_counts: "list_all maybe_count_ok (ios_args method p)"
  by (simp add: ios_args_def)

lemma job_args_counts: "list_all maybe_count_ok (job_args render method p)"
  by (simp add: job_args_def)

lemma args_first:
  "\<exists>rest. node_args method p = (''node_id'', a_text p ''nodeId'') # rest"
  "\<exists>rest. ios_args method p = (''node_id'', a_text p ''nodeId'') # rest"
  "\<exists>rest. job_args render method p = (''node_id'', a_text p ''nodeId'') # rest"
  by (simp_all add: node_args_def ios_args_def job_args_def texts_def)

lemma command_args_sound:
  assumes "command_args render method p = Some args"
  shows "list_all count_ok args" and "\<exists>v rest. args = (''node_id'', A_json v) # rest"
proof -
  define as where "as = (if method = ''HostExec''
      then map (\<lambda>(name, k). (name, proto_text p k)) [(''node_id'', ''nodeId''), (''command'', ''command''), (''cwd'', ''cwd'')]
        @ [(''timeout_ms'', proto_uint32 p ''timeoutMs''), (''max_output_bytes'', proto_uint32 p ''maxOutputBytes'')]
      else if method \<in> set IOS_METHODS then ios_args method p
      else if method \<in> set JOB_METHODS then job_args render method p
      else node_args method p)"
  have named: "named as = Some args" using assms by (simp only: command_args_def as_def)
  have "list_all maybe_count_ok as"
    by (simp add: as_def node_args_counts ios_args_counts job_args_counts)
  with named show "list_all count_ok args" by (rule named_Some)
  obtain a rest where first: "as = (''node_id'', a) # rest" "a = a_text p ''nodeId'' \<or> a = proto_text p ''nodeId''"
    using args_first(1,2) [of "method" p] args_first(3) [of render "method" p]
    by (cases "method = ''HostExec''"; cases "method \<in> set IOS_METHODS"; cases "method \<in> set JOB_METHODS")
      (auto simp: as_def)
  have "a \<noteq> None" using named by (auto simp: named_def first split: option.splits)
  then obtain v where "a = Some (A_json v)"
    using first(2) by (auto simp: a_text_def proto_text_def split: json.splits)
  with named_first [of "''node_id''" "A_json v" rest args] named first(1)
  show "\<exists>v rest. args = (''node_id'', A_json v) # rest" by auto
qed

definition bearer_given :: "string \<Rightarrow> string option \<Rightarrow> bool" where
  "bearer_given token authorization \<longleftrightarrow>
     (\<exists>h. authorization = Some h \<and> prefix ''Bearer '' h \<and> strip (drop 7 h) = token)"

lemma unary_authorized_sound:
  "token \<noteq> [] \<Longrightarrow> unary_authorized token authorization = Some True \<Longrightarrow> bearer_given token authorization"
  by (auto simp: unary_authorized_def bearer_given_def compare_digest_def Let_def split: option.splits if_splits)

definition known_call :: "string \<Rightarrow> 'm unary_step \<Rightarrow> bool" where
  "known_call method step = (case step of
     Unary_command m args \<Rightarrow> m = method \<and> method \<in> set COMMAND_METHODS
       \<and> (\<exists>v rest. args = (''node_id'', A_json v) # rest) \<and> list_all count_ok args
   | Unary_request handler m \<Rightarrow> (method, handler) \<in> set HANDLERS
   | Unary_capacity node_id cap \<Rightarrow> method = ''SetNodeCapacity''
   | Unary_upload m \<Rightarrow> method = ''HostFileUpload''
   | _ \<Rightarrow> False)"



text \<open>An error of the service is never answered with a success, and a success always is.\<close>

lemma unary_status: "ua_status (unary_finish say outcome) = 200 \<longleftrightarrow> (\<exists>data. outcome = Inr data)"
  by (auto simp: unary_finish_def connect_error_def CODE_HTTP_def split: sum.split rpc_error.split rpc_message.split rpc_code.split)

end
