(* ===== verification/Proxy_Pool.thy ===== *)
theory Proxy_Pool
  imports Service_Nodes
begin

text \<open>
  shared_store.py: the proxy pool in the main configuration row, resolved to the three fields of a
  proxy frame, and the notification outbox. The database itself is a parameter: \<open>main_row\<close> is what
  the query for the row gave. This is the \<open>resolve\<close> of Service_Nodes.
\<close>

subsection \<open>The main configuration\<close>

datatype main_row =
    Main_unreachable                          \<comment> \<open>no pool, or the query failed\<close>
  | Main_missing
  | Main_text string
  | Main_object "(string \<times> json) list"

definition read_main_config :: "(string \<Rightarrow> json option) \<Rightarrow> main_row \<Rightarrow> json" where
  "read_main_config loads row = (case row of
     Main_unreachable \<Rightarrow> J_obj []
   | Main_missing \<Rightarrow> J_obj []
   | Main_text s \<Rightarrow> (case loads s of None \<Rightarrow> J_obj [] | Some v \<Rightarrow> v)
   | Main_object kvs \<Rightarrow> J_obj kvs)"

subsection \<open>Entries\<close>

text \<open>The messages are written in Chinese; they are constructors here, as are other exceptions.\<close>

datatype pool_error =
    Unknown_entry string
  | Node_proxy
  | Browser_proxy
  | No_prefix_address
  | No_network_address
  | Pool_raised escaped

definition MODE_NETWORK :: string where "MODE_NETWORK = ''network''"
definition MODE_URL_PREFIX :: string where "MODE_URL_PREFIX = ''url_prefix''"
definition MODE_DIRECT :: string where "MODE_DIRECT = ''direct''"

definition VALID_MODES :: "string list" where
  "VALID_MODES = [MODE_NETWORK, MODE_URL_PREFIX, MODE_DIRECT]"

text \<open>Iterating a text or an object gives texts, none of which is an entry.\<close>

definition pool_entries :: "json \<Rightarrow> json list option" where
  "pool_entries proxies = (case or_json proxies (J_list []) of
     J_list xs \<Rightarrow> Some xs | J_str s \<Rightarrow> Some [] | J_obj kvs \<Rightarrow> Some [] | _ \<Rightarrow> None)"

definition entry_keys :: "(string \<times> json) list \<Rightarrow> json list" where
  "entry_keys entry = map (obj_get entry) [''id'', ''name'', ''url'']"

fun search_entries :: "string \<Rightarrow> json list \<Rightarrow> escaped + (string \<times> json) list option" where
  "search_entries ref [] = Inr None"
| "search_entries ref (J_obj entry # ps) =
     (if \<not> list_all hashable (entry_keys entry) then Inl Type_error
      else if J_str ref \<in> set (entry_keys entry) then Inr (Some entry)
      else search_entries ref ps)"
| "search_entries ref (_ # ps) = search_entries ref ps"

definition find_entry :: "json \<Rightarrow> string \<Rightarrow> escaped + (string \<times> json) list option" where
  "find_entry proxies ref0 = (let ref = strip ref0 in
     if ref = [] then Inr None
     else case pool_entries proxies of None \<Rightarrow> Inl Type_error | Some ps \<Rightarrow> search_entries ref ps)"

text \<open>\<open>str(entry.get(k) or "").strip()\<close>.\<close>

definition entry_text :: "(json \<Rightarrow> string) \<Rightarrow> (string \<times> json) list \<Rightarrow> string \<Rightarrow> string" where
  "entry_text render entry k = strip (py_str render (or_json (obj_get entry k) (J_str [])))"

definition raw_mode :: "(json \<Rightarrow> string) \<Rightarrow> (string \<times> json) list \<Rightarrow> string" where
  "raw_mode render entry = lower (entry_text render entry ''mode'')"

definition entry_mode :: "(json \<Rightarrow> string) \<Rightarrow> (string \<times> json) list \<Rightarrow> string" where
  "entry_mode render entry = (let mode = raw_mode render entry in
     if mode \<in> set VALID_MODES then mode else MODE_NETWORK)"

definition prefix_base :: "(string \<times> json) list \<Rightarrow> string" where
  "prefix_base entry = (case obj_get entry ''url'' of
     J_str s \<Rightarrow> rstrip_char (CHR ''/'') (strip s) | _ \<Rightarrow> [])"

subsection \<open>The parts of a URL\<close>

text \<open>
  What \<open>urlsplit\<close> finds past the network location, and the host and port in that; the port is
  \<open>None\<close> when it is no number up to 65535 (a ValueError), \<open>Some None\<close> when there is none.
\<close>

definition cleaned_url :: "string \<Rightarrow> string" where
  "cleaned_url raw = filter (\<lambda>c. code_of c \<notin> {9, 10, 13}) (dropWhile (\<lambda>c. code_of c \<le> 32) raw)"

definition url_tail :: "string \<Rightarrow> string" where
  "url_tail raw = (case url_parts raw of (scheme, netloc) \<Rightarrow>
     drop (length scheme + 3 + length netloc) (cleaned_url raw))"

definition tail_fragment :: "string \<Rightarrow> string" where
  "tail_fragment t = drop 1 (dropWhile (\<lambda>c. c \<noteq> CHR ''#'') t)"

definition tail_query :: "string \<Rightarrow> string" where
  "tail_query t = drop 1 (dropWhile (\<lambda>c. c \<noteq> CHR ''?'') (takeWhile (\<lambda>c. c \<noteq> CHR ''#'') t))"

definition tail_path :: "string \<Rightarrow> string" where
  "tail_path t = takeWhile (\<lambda>c. c \<noteq> CHR ''?'') (takeWhile (\<lambda>c. c \<noteq> CHR ''#'') t)"

definition host_info :: "string \<Rightarrow> string" where
  "host_info netloc = rev (takeWhile (\<lambda>c. c \<noteq> CHR ''@'') (rev netloc))"

definition host_port :: "string \<Rightarrow> string \<times> string" where
  "host_port netloc = (let info = host_info netloc in
     if CHR ''['' \<in> set info
     then let inner = drop 1 (dropWhile (\<lambda>c. c \<noteq> CHR ''['') info);
              rest = drop 1 (dropWhile (\<lambda>c. c \<noteq> CHR '']'') inner)
          in (takeWhile (\<lambda>c. c \<noteq> CHR '']'') inner, drop 1 (dropWhile (\<lambda>c. c \<noteq> CHR '':'') rest))
     else (takeWhile (\<lambda>c. c \<noteq> CHR '':'') info, drop 1 (dropWhile (\<lambda>c. c \<noteq> CHR '':'') info)))"

text \<open>The zone of an IPv6 address keeps its case.\<close>

definition lower_host :: "string \<Rightarrow> string" where
  "lower_host h = lower (takeWhile (\<lambda>c. c \<noteq> CHR ''%'') h) @ dropWhile (\<lambda>c. c \<noteq> CHR ''%'') h"

definition url_hostname :: "string \<Rightarrow> string" where
  "url_hostname raw = lower_host (fst (host_port (snd (url_parts raw))))"

definition url_port :: "string \<Rightarrow> nat option option" where
  "url_port raw = (let port = snd (host_port (snd (url_parts raw))) in
     if port = [] then Some None
     else if list_all is_digit port \<and> nat_of_digits port \<le> 65535 then Some (Some (nat_of_digits port))
     else None)"

definition unbalanced :: "string \<Rightarrow> bool" where
  "unbalanced netloc = ((CHR ''['' \<in> set netloc) \<noteq> (CHR '']'' \<in> set netloc))"

definition url_unsplit :: "string \<Rightarrow> string \<Rightarrow> string \<Rightarrow> string" where
  "url_unsplit scheme netloc t =
     scheme @ ''://'' @ netloc @ tail_path t
       @ (if tail_query t = [] then [] else CHR ''?'' # tail_query t)
       @ (if tail_fragment t = [] then [] else CHR ''#'' # tail_fragment t)"

subsection \<open>Resolution\<close>

definition proxy_auth :: "string \<Rightarrow> string option \<Rightarrow> string" where
  "proxy_auth username password = quote [] username
     @ (case password of None \<Rightarrow> [] | Some p \<Rightarrow> CHR '':'' # quote [] p)"

definition with_port :: "string \<Rightarrow> nat option \<Rightarrow> string" where
  "with_port hostname port =
     (let host = (if CHR '':'' \<in> set hostname \<and> \<not> prefix ''['' hostname then CHR ''['' # hostname @ '']'' else hostname)
      in case port of Some p \<Rightarrow> (if p = 0 then host else host @ CHR '':'' # str_of_nat p) | None \<Rightarrow> host)"

definition network_url :: "(json \<Rightarrow> string) \<Rightarrow> (string \<times> json) list \<Rightarrow> escaped + string" where
  "network_url render entry =
     (let url = entry_text render entry ''url''; username = entry_text render entry ''username'';
          pw = or_json (obj_get entry ''password'') (J_str []);
          password = (if truthy pw then Some (py_str render pw) else None);
          (scheme, netloc) = url_parts url
      in if url = [] \<or> username = [] then Inr url
         else if unbalanced netloc then Inl Bad_value
         else if scheme = [] \<or> netloc = [] \<or> url_hostname url = [] then Inr url
         else case url_port url of
           None \<Rightarrow> Inl Bad_value
         | Some port \<Rightarrow> Inr (url_unsplit scheme
             (proxy_auth username password @ CHR ''@'' # with_port (url_hostname url) port) (url_tail url)))"

definition resolve_entry :: "(json \<Rightarrow> string) \<Rightarrow> (string \<times> json) list \<Rightarrow> pool_error + proxy_fields" where
  "resolve_entry render entry =
     (let raw = raw_mode render entry; mode = entry_mode render entry in
      if raw = ''node'' then Inl Node_proxy
      else if raw = ''browser'' then Inl Browser_proxy
      else if mode = MODE_DIRECT then Inr ([], [], [])
      else if mode = MODE_URL_PREFIX
      then (let pre = prefix_base entry in if pre = [] then Inl No_prefix_address else Inr (''url_prefix'', [], pre))
      else case network_url render entry of
        Inl x \<Rightarrow> Inl (Pool_raised x)
      | Inr url \<Rightarrow> if url = [] then Inl No_network_address else Inr (''network'', url, []))"

definition resolve_proxy_fields :: "(json \<Rightarrow> string) \<Rightarrow> json \<Rightarrow> string \<Rightarrow> pool_error + proxy_fields" where
  "resolve_proxy_fields render main proxy_config_id =
     (let wanted = strip proxy_config_id in
      if wanted = [] then Inr ([], [], [])
      else case find_entry (case main of J_obj kvs \<Rightarrow> obj_get kvs ''proxies'' | _ \<Rightarrow> J_null) wanted of
        Inl x \<Rightarrow> Inl (Pool_raised x)
      | Inr None \<Rightarrow> Inl (Unknown_entry wanted)
      | Inr (Some entry) \<Rightarrow> resolve_entry render entry)"

text \<open>The resolver as the service uses it; \<open>say\<close> is the text of a ProxyResolveError.\<close>

definition pool_resolver ::
  "(json \<Rightarrow> string) \<Rightarrow> (pool_error \<Rightarrow> string) \<Rightarrow> json \<Rightarrow> string \<Rightarrow> proxy_failure + proxy_fields" where
  "pool_resolver render say main pid = (case resolve_proxy_fields render main pid of
     Inl (Pool_raised x) \<Rightarrow> Inl (Proxy_raised x)
   | Inl e \<Rightarrow> Inl (Proxy_refused (say e))
   | Inr f \<Rightarrow> Inr f)"

subsection \<open>The outbox\<close>

text \<open>\<open>ob_owner\<close> is the owner's id, a UUID or a text; \<open>uuid\<close> parses the former.\<close>

datatype 'u owner_id = Owner_uuid 'u | Owner_text string

record 'u pending_notification =
  ob_id :: string
  ob_event_type :: string
  ob_params :: string
  ob_envelope :: string
  ob_owner_type :: string
  ob_owner :: "'u owner_id option"
  ob_status :: string

definition notification_row ::
  "(json \<Rightarrow> string) \<Rightarrow> (string \<Rightarrow> 'u option) \<Rightarrow> string \<Rightarrow> string \<Rightarrow> json \<Rightarrow> json \<Rightarrow> string \<Rightarrow> string option \<Rightarrow>
   'u pending_notification" where
  "notification_row dumps uuid oid event_type params env owner_type owner =
     \<lparr>ob_id = oid, ob_event_type = take 64 event_type, ob_params = dumps params, ob_envelope = dumps env,
      ob_owner_type = take 16 (or_str owner_type ''platform''),
      ob_owner = map_option (\<lambda>t. case uuid t of Some u \<Rightarrow> Owner_uuid u | None \<Rightarrow> Owner_text t) owner,
      ob_status = ''pending''\<rparr>"

text \<open>\<open>up\<close>: there is a pool; \<open>accepted\<close>: the insert went through. Nothing is raised either way.\<close>

definition enqueue_notification ::
  "bool \<Rightarrow> bool \<Rightarrow> 'u pending_notification \<Rightarrow> 'u pending_notification list \<Rightarrow> string option \<times> 'u pending_notification list" where
  "enqueue_notification up accepted row rows =
     (if up \<and> accepted then (Some (ob_id row), rows @ [row]) else (None, rows))"

end
