(* ===== verification/Spec2Isabelle.thy ===== *)
theory Spec2Isabelle
  imports Registry Crypto Upstream_Reader Upgrade Store_Safety Admission_Safety Service_Safety
    Stream_Safety Binary_Safety Git_Safety Terminal_Safety Bridge_Safety
    Tunnel_Safety Gateway_Safety Follow_Safety Unary_Safety
    Proxy_Safety
begin

text \<open>
  The control plane of the node server: a verification development beside the Python code.

  \<^bold>\<open>The program.\<close> Agents on execution hosts ("nodes") each keep one bidirectional stream open to the
  server (src/connect_stream.py over the framing of src/envelope.py). A node proves itself with a
  one-time code of a secret the server keeps sealed (src/crypto.py). Live streams are connections of
  a registry (src/registry.py): a downstream queue, tables of replies the server waits for, channels,
  job snapshots. What must outlive the process is in a ledger of nodes and session placements
  (src/store.py). The service (src/service.py) is the handlers over these: admission,
  administration, selection and dispatch of sessions, commands, hosts, jobs, upgrades
  (src/upgrade_progress.py), and the routing of every frame a node sends. Frames about sessions end
  in the task tables the server shares with other processes (src/task_*.py,
  src/node_hosted_reconcile.py).

  Around the service stand its HTTP surfaces. Public routes serve release binaries (src/binaries.py)
  and install scripts (src/scripts.py). The git proxy (src/git_proxy.py) lets a task's node clone and
  push with the credentials of its project. The data process calls the service through the unary API
  (src/unary_api.py), follows sessions and tool runs (src/stream_follow*.py), and relays HTTP through
  a node (src/tunnel.py, src/node_connect_manager.py, src/node_proxy_gateway.py). Terminals of hosts
  and sessions live in registries of their own (src/terminal_bridge.py); agents run commands in them
  (src/terminal_commands.py), browsers reach them through src/terminal_gateway.py. The proxy pool the
  nodes' egress is bound to is read from the shared database (src/shared_store.py).

  \<^bold>\<open>Reading the model.\<close> An object with mutable state is a record, a method a function from its
  arguments and the state to its result and the new state; a raise, an early return and a timeout
  are values (\<open>'a rpc\<close>, \<open>option\<close>, sums). Python ints are \<open>int\<close>, times are microseconds as \<open>int\<close>,
  bytes are \<open>8 word\<close> lists, text is a \<open>char list\<close> (code points below 256), dicts are association lists
  in insertion order. An asyncio handler runs alone between two awaits. A handler that awaits a node
  or the database is therefore split there, and what other coroutines do in the gap is a function
  parameter (\<open>gap1\<close>, \<open>between\<close>) or an arbitrary later state (\<open>x_start\<close> and \<open>x_resume\<close>). Clock
  readings, uuids, nonces and the like are arguments. Code outside the sources is a parameter:
  the AEAD cipher, json, protobuf parsing, ClickHouse's acceptance of a row, HTTP clients, template
  texts, the file digest. The service takes the resolver of the proxy pool as an argument; the one the
  code passes is \<open>pool_resolver\<close>.

  \<^bold>\<open>Theories, in the order the program uses them.\<close>
    \<^item> Prelude: ordered dictionaries, the str methods used, the shared lemma collections.
    \<^item> Async, Reply_Tables: futures, bounded queues and tables of waiters; the locale of a reply table.
    \<^item> Frames, Job_Snapshots, Connection, Connection_Safety: the messages, the polling snapshots and
      every method of NodeConnection, with its invariant and the guarantees for waiters.
    \<^item> Registry: NodeRegistry over a heap of connections; reconnects, reaping, disconnect hook.
    \<^item> Codecs, Digest, Crypto: base32/64, hex, SHA-1 and HMAC, one-time codes, replay cache,
      master key, secret store.
    \<^item> Envelope, Upstream_Reader: Connect framing, the incremental decoder, the reader of a stream.
    \<^item> Upgrade: UpgradeTracker.
    \<^item> Json_Values, Node_Store, Store_Safety: the ledger, every NodeStore method, its invariant.
    \<^item> Service_Types: status codes, RPC errors, the NodeService state, the two halves of a call.
    \<^item> Service_Nodes, Service_Admin: NodeInfo, configuration pushes, authenticate_registration;
      onboard, approve, revoke, move, delete.
    \<^item> Service_Dispatch, Service_Commands, Service_Hosts, Service_Jobs, Service_Upgrades: node
      selection and dispatch_session; session and host commands, uploads, terminals; editors, tools,
      environments; iOS devices and WDA jobs; builds, host-tool jobs, upgrades.
    \<^item> Task_Status, Task_Trail: delivery status, history, final status, stages, conversation items,
      hosted services of a lost node.
    \<^item> Ip_Address, Service_Upstream: ipaddress.ip_address as used; the NodeConnect stream: handshake,
      handle_upstream, the loop, the end.
    \<^item> Binaries: whitelisted downloads, release directory, checksums, install scripts.
    \<^item> Service_Calls, Admission_Safety, Service_Safety, Task_Safety, Stream_Safety, Binary_Safety: the
      properties of the service, which span the components above.
    \<^item> Sha256, Git_Proxy, Git_Safety: SHA-256 for the proxy's tokens; tokens, repository paths, the
      target of a request in the control-plane database, routing, forwarding, the answer.
    \<^item> Terminal_Commands, Terminal_Safety: the registry of agent-addressable terminals: wrapping a
      command with a marker, collecting its output, the lock on input, \<open>run_command\<close> cut at its awaits.
    \<^item> Terminal_Bridge, Bridge_Safety: TerminalBridgeManager, sessions, persistent terminals with their
      replay and subscribers, the pump, the host and editor registries, expiry and the caps.
    \<^item> Tunnels, Tunnel_Safety: requests through a node to a session's service or a URL, both body
      generators, the node proxy route and its client.
    \<^item> Terminal_Gateway, Gateway_Safety: the WebSocket and HTTP routes of terminals over the three
      registries and the service; \<open>gateway\<close> shares the service's node registry with the bridge.
    \<^item> Follow_Streams, Follow_Safety: the followers of sessions and tool runs in both framings, their
      start and turns; the pass-through handlers; the tool-run inventory.
    \<^item> Unary_Api, Unary_Safety: token, body, dispatch and arguments of every unary method, error mapping.
    \<^item> Proxy_Pool, Proxy_Safety: main configuration, resolution of a pool entry, credentials in a URL,
      the outbox row.

  \<^bold>\<open>What the lemmas show.\<close>
    \<^item> Admission: only a node that is known, not revoked and holds its secret goes live, also when it
      is revoked during its handshake; what onboarding hands out works; a code works once; refusals
      change nothing; revoking cuts a node off everywhere; re-registration changes no admin field.
    \<^item> Waiting: the interface of a reply table (open, settle, cancel, drain) is a locale; the calls
      of the service extend it and are interpreted for the acks, host commands, uploads and terminal
      lists. No call leaves a waiter behind, replies are final, closing releases everyone.
    \<^item> Registry and ledger: invariants over all reachable states, by induction on step relations.
    \<^item> Sessions: selection equals first fit over the runnable nodes; a placement is recorded exactly
      when the node has the session; binding survives lost insert races.
    \<^item> Streams: the decoder and the reader equal an abstract reading of the whole byte stream; the loop
      ends with its client; whatever a node sends touches nothing but its own connection, the
      non-administrative columns of its row, its upgrade entry, and the task tables.
    \<^item> Tasks: delivery follows its state machine under any interleaving of the writers, the first
      result decides, a conversation item is stored once, in one of two databases.
    \<^item> Downloads and scripts: nothing outside the release directory is served; every script name
      handed out is answered.
    \<^item> Git: a request is forwarded only with a valid token, for a running task, to the repository bound
      to it, and the clone URL handed out works.
    \<^item> Terminals: one command at a time, its collected output is what the terminal showed between the
      markers; the numbers of terminals stay within the caps; terminals that are watched or busy are
      never reaped; a browser cannot type into a running command and its leaving does not end it.
    \<^item> Relays: both body generators are interpretations of the locale of a chunk stream, so each hands on
      exactly the chunks the node sent and closes its tunnel; a remote request sees what a local one
      would.
    \<^item> Followers: a stream is exactly the events the queue had room for, in order, up to the result; a lost
      node ends a tool run's stream (and not a session's, see the lemmas next to it).
    \<^item> Unary calls: nothing reaches the service without the token and a known method; the tolerance for
      null lists is exact and terminates.
    \<^item> Proxies: a node is only given a usable proxy, whose credentials do not move its address.

  \<^bold>\<open>Bounds and termination.\<close> No definition uses fuel but \<open>normalize_repeated\<close>, whose depth is the
  interpreter's recursion limit and is proved enough at the size of the body. Loops over lists are structural; the decoder and the
  reader recurse on the number of buffered bytes, \<open>str_replace\<close> on the length of the text. A wait for
  an event that never comes is a value (\<open>Read_blocked\<close>, \<open>Stream_waiting\<close>), so that not returning is
  something the statements exclude.

  \<^bold>\<open>Not modelled.\<close> Process start-up and configuration (app, __main__, wiring, config, database,
  bootstrap_ini, dotenv_loader, the hypercorn patch): assembly and I/O. Of terminal_gateway the function
  that copies frames between two sockets, of shared_store the opening of the connection pool, of
  unary_api the conversion between protobuf messages and JSON, which is the library's. That the
  routes' tasks are started and cancelled is taken from asyncio: the model has their steps and lets
  them interleave. Threads: locks make each operation atomic. The downstream pump is the other end of
  the queue (\<open>downstream_get\<close>). Logging, and the display texts of task failures, stages and proxy
  errors, which are constructors. Symbolic links under the release directory. Other clients of the two
  databases appear only where a handler's correctness depends on them (the insert race of a session
  bind); SQL statements are single steps.
\<close>

end
